(* ===== verification/Prelude.thy ===== *)
theory Prelude
  imports Main "HOL-Library.Word" "HOL-Library.Finite_Map"
begin

text \<open>
  Shared vocabulary of the development: the Go values that every component of the operator
  uses.

  \<^item> \<open>int32\<close> is Go's 32-bit signed integer, a word read with \<open>sint\<close>; \<open>len32\<close> is the
    conversion \<open>int32(len(xs))\<close>.
  \<^item> \<open>smap\<close> is a Go \<open>map[string]string\<close>. A missing key reads as the zero value
    (\<open>mget\<close>), and a nil map reads like an empty one.
  \<^item> \<open>goerr\<close> is a Go error value: the two context errors, an API status error with its
    reason, the sentinel \<open>errPodTerminating\<close>, a plain \<open>fmt.Errorf\<close> error, and an error
    wrapped with \<open>%w\<close>. A run-time panic is the extra value \<open>Panic\<close>: it is not an error value
    of Go, so every caller that would otherwise handle the error passes it on untouched
    (\<open>isPanic\<close>) up to the controller, which recovers it. The classification predicates walk the wrapping chain, as
    \<open>errors.Is\<close> and the \<open>apierrors\<close> predicates are documented to do.
  \<^item> \<open>'a res\<close> is the usual pair of a Go result and error, \<open>Inl\<close> carrying the error.
  \<^item> \<open>itoa\<close> is the decimal printing behind the \<open>%d\<close> verb.

  An operation that talks to a cluster takes the state last and returns a pair of its result
  and the new state.
\<close>

section \<open>Lemma collections\<close>

named_theorems go_simps \<open>rewrite rules for Go's basic operations\<close>
named_theorems port_laws \<open>laws promised by the providers of the ports\<close>

section \<open>Integers and strings\<close>

type_synonym int32 = "32 word"

definition len32 :: "'a list \<Rightarrow> int32" where
  "len32 xs = word_of_nat (length xs)"

definition digit :: "nat \<Rightarrow> char" where
  "digit d = ''0123456789'' ! d"

fun itoa :: "nat \<Rightarrow> string" where
  "itoa n = (if n < 10 then [digit n] else itoa (n div 10) @ [digit (n mod 10)])"

declare itoa.simps [simp del]

definition itoa_int :: "int \<Rightarrow> string" where
  "itoa_int i = (if i < 0 then ''-'' @ itoa (nat (- i)) else itoa (nat i))"

definition digit_value :: "char \<Rightarrow> nat" where
  "digit_value c = of_char c - 48"

definition atoi :: "string \<Rightarrow> nat" where
  "atoi s = foldl (\<lambda>a c. 10 * a + digit_value c) 0 s"

section \<open>Maps from strings to strings\<close>

type_synonym smap = "(string, string) fmap"

definition mget :: "smap \<Rightarrow> string \<Rightarrow> string" where
  "mget m k = (case fmlookup m k of None \<Rightarrow> [] | Some v \<Rightarrow> v)"

definition mlen :: "('k, 'v) fmap \<Rightarrow> nat" where
  "mlen m = fcard (fmdom m)"

type_synonym bytes = "8 word list"

section \<open>Error values\<close>

datatype reason = NotFound | AlreadyExists | Conflict | OtherReason

datatype goerr =
    Canceled
  | DeadlineExceeded
  | StatusError reason string
  | PodTerminating
  | Errorf string
  | Panic string
  | Wrap string goerr

type_synonym 'a res = "goerr + 'a"

text \<open>A loop that appends converted elements and stops at the first failure.\<close>

fun mapRes :: "('a \<Rightarrow> 'b res) \<Rightarrow> 'a list \<Rightarrow> 'b list res" where
  "mapRes f [] = Inr []"
| "mapRes f (x # xs) =
     (case f x of
        Inl e \<Rightarrow> Inl e
      | Inr y \<Rightarrow> (case mapRes f xs of Inl e \<Rightarrow> Inl e | Inr ys \<Rightarrow> Inr (y # ys)))"

fun error_string :: "goerr \<Rightarrow> string" where
  "error_string Canceled = ''context canceled''"
| "error_string DeadlineExceeded = ''context deadline exceeded''"
| "error_string (StatusError r m) = m"
| "error_string PodTerminating = ''host pod is terminating, waiting for deletion to complete''"
| "error_string (Errorf m) = m"
| "error_string (Panic m) = ''panic: '' @ m"
| "error_string (Wrap p e) = p @ '': '' @ error_string e"

fun errors_Is :: "goerr \<Rightarrow> goerr \<Rightarrow> bool" where
  "errors_Is (Wrap p e) t = (Wrap p e = t \<or> errors_Is e t)"
| "errors_Is e t = (e = t)"

fun status_reason :: "goerr \<Rightarrow> reason option" where
  "status_reason (StatusError r m) = Some r"
| "status_reason (Wrap p e) = status_reason e"
| "status_reason e = None"

fun isPanic :: "goerr \<Rightarrow> bool" where
  "isPanic (Panic m) = True"
| "isPanic (Wrap p e) = isPanic e"
| "isPanic e = False"

definition IsNotFound :: "goerr \<Rightarrow> bool" where
  "IsNotFound e \<longleftrightarrow> status_reason e = Some NotFound"

definition IsAlreadyExists :: "goerr \<Rightarrow> bool" where
  "IsAlreadyExists e \<longleftrightarrow> status_reason e = Some AlreadyExists"

definition IsConflict :: "goerr \<Rightarrow> bool" where
  "IsConflict e \<longleftrightarrow> status_reason e = Some Conflict"

definition isContextError :: "goerr \<Rightarrow> bool" where
  "isContextError e \<longleftrightarrow> errors_Is e Canceled \<or> errors_Is e DeadlineExceeded"

section \<open>Object keys\<close>

text \<open>
  The key of a namespaced object (\<open>client.ObjectKey\<close>, \<open>types.NamespacedName\<close>).
\<close>

datatype objkey = ObjKey (key_ns: string) (key_name: string)

section \<open>Lemmas on integers and strings\<close>

lemma digit_value_digit [simp]: "d < 10 \<Longrightarrow> digit_value (digit d) = d"
  by (auto simp: digit_value_def digit_def less_Suc_eq numeral_eq_Suc)

lemma atoi_snoc: "atoi (s @ [c]) = 10 * atoi s + digit_value c"
  by (simp add: atoi_def)

lemma atoi_itoa [simp]: "atoi (itoa n) = n"
proof (induction n rule: itoa.induct)
  case (1 n)
  show ?case
  proof (cases "n < 10")
    case True
    then show ?thesis by (simp add: itoa.simps [of n] atoi_def)
  next
    case False
    with "1.IH" show ?thesis by (simp add: itoa.simps [of n] atoi_snoc)
  qed
qed

lemma itoa_inject [simp]: "itoa m = itoa n \<longleftrightarrow> m = n"
  by (metis atoi_itoa)

lemma append_sep_inject:
  assumes "c \<notin> set xs" and "c \<notin> set us"
  shows "xs @ c # ys = us @ c # vs \<longleftrightarrow> xs = us \<and> ys = vs"
  using assms
proof (induction xs arbitrary: us)
  case Nil
  then show ?case by (cases us) auto
next
  case (Cons x xs)
  then show ?case by (cases us) auto
qed

section \<open>Lemmas on maps\<close>

lemma mget_empty [simp]: "mget fmempty k = []"
  by (simp add: mget_def)

lemma mget_upd [simp]: "mget (fmupd k v m) j = (if j = k then v else mget m j)"
  by (simp add: mget_def)

lemma mlen_empty [simp]: "mlen fmempty = 0"
  by (simp add: mlen_def)

lemma mlen_0_iff [simp]: "mlen m = 0 \<longleftrightarrow> m = fmempty"
  by (metis fcard_0_eq fmdom_empty fmrestrict_fset_dom fmrestrict_fset_null mlen_def)

section \<open>Lemmas on errors\<close>

lemma errors_Is_refl [simp]: "errors_Is e e"
  by (cases e) auto

lemma isContextError_simps [simp]:
  "isContextError Canceled"
  "isContextError DeadlineExceeded"
  "\<not> isContextError (StatusError r m)"
  "\<not> isContextError PodTerminating"
  "\<not> isContextError (Errorf m)"
  "\<not> isContextError (Panic m)"
  "isContextError (Wrap p e) \<longleftrightarrow> isContextError e"
  by (auto simp: isContextError_def)

lemma status_predicates_wrap [simp]:
  "IsNotFound (Wrap p e) \<longleftrightarrow> IsNotFound e"
  "IsAlreadyExists (Wrap p e) \<longleftrightarrow> IsAlreadyExists e"
  "IsConflict (Wrap p e) \<longleftrightarrow> IsConflict e"
  by (auto simp: IsNotFound_def IsAlreadyExists_def IsConflict_def)

lemma status_predicates_status [simp]:
  "IsNotFound (StatusError r m) \<longleftrightarrow> r = NotFound"
  "IsAlreadyExists (StatusError r m) \<longleftrightarrow> r = AlreadyExists"
  "IsConflict (StatusError r m) \<longleftrightarrow> r = Conflict"
  by (auto simp: IsNotFound_def IsAlreadyExists_def IsConflict_def)

lemma status_predicates_other [simp]:
  "\<not> IsNotFound Canceled" "\<not> IsNotFound DeadlineExceeded" "\<not> IsNotFound PodTerminating"
  "\<not> IsNotFound (Errorf m)" "\<not> IsNotFound (Panic m)" "\<not> IsConflict (Panic m)"
  "\<not> IsConflict Canceled" "\<not> IsConflict DeadlineExceeded" "\<not> IsConflict PodTerminating"
  "\<not> IsConflict (Errorf m)"
  by (auto simp: IsNotFound_def IsConflict_def)

lemma status_error_not_context: "status_reason e = Some r \<Longrightarrow> \<not> isContextError e"
  by (induction e) auto

lemma panic_not_status: "isPanic e \<Longrightarrow> status_reason e = None \<and> \<not> isContextError e"
  by (induction e) auto

lemma NotFound_not_context: "IsNotFound e \<Longrightarrow> \<not> isContextError e"
  by (simp add: IsNotFound_def status_error_not_context)

lemma Conflict_not_NotFound: "IsConflict e \<Longrightarrow> \<not> IsNotFound e"
  by (auto simp: IsConflict_def IsNotFound_def)

end
