(* ===== verification/Domain_Model.thy ===== *)
theory Domain_Model
  imports Prelude
begin

text \<open>
  The domain entities of \<open>internal/domain/model\<close> that describe nodes and pools:
  \<open>resource.go\<close>, \<open>vnode.go\<close> and \<open>vnodepool.go\<close>.

  The phase, mode and condition types are Go string types with named constants, not closed
  enumerations (a phase read back from a custom resource is any string), so they are strings
  here too. \<open>Validate\<close> returns the errors in the order of the code's checks.
  The lemmas characterise the accepted pools, show that the scale computation is exact for
  every validated pool (32-bit arithmetic included), and describe \<open>IsReady\<close>.
\<close>

section \<open>Resources\<close>

record ResourceList =
  CPU :: string
  Memory :: string
  Pods :: int32

definition emptyResources :: ResourceList where
  "emptyResources = \<lparr>CPU = [], Memory = [], Pods = 0\<rparr>"

section \<open>Pools\<close>

type_synonym PoolMode = string

abbreviation PoolModeShared :: PoolMode where "PoolModeShared \<equiv> ''shared''"
abbreviation PoolModeDedicated :: PoolMode where "PoolModeDedicated \<equiv> ''dedicated''"
abbreviation PoolModeBurstable :: PoolMode where "PoolModeBurstable \<equiv> ''burstable''"

type_synonym PoolPhase = string

abbreviation PoolPhasePending :: PoolPhase where "PoolPhasePending \<equiv> ''Pending''"
abbreviation PoolPhaseReady :: PoolPhase where "PoolPhaseReady \<equiv> ''Ready''"
abbreviation PoolPhaseScaling :: PoolPhase where "PoolPhaseScaling \<equiv> ''Scaling''"
abbreviation PoolPhaseFailed :: PoolPhase where "PoolPhaseFailed \<equiv> ''Failed''"
abbreviation PoolPhaseDeleting :: PoolPhase where "PoolPhaseDeleting \<equiv> ''Deleting''"

record TenantRef =
  VClusterName :: string
  VClusterNamespace :: string
  KubeconfigSecret :: string

record Taint =
  taint_Key :: string
  taint_Value :: string
  taint_Effect :: string

record Toleration =
  tol_Key :: string
  tol_Operator :: string
  tol_Value :: string
  tol_Effect :: string
  TolerationSeconds :: "int option"

record VNodePool =
  p_ID :: string
  p_Name :: string
  p_DisplayName :: string
  p_Namespace :: string
  p_TenantRef :: TenantRef
  p_Mode :: PoolMode
  p_IsolationBackend :: string
  p_RuntimeClassName :: string
  p_NodeCount :: int32
  p_PerNodeResources :: ResourceList
  p_NodeSelector :: smap
  p_Taints :: "Taint list"
  p_Tolerations :: "Toleration list"
  p_Phase :: PoolPhase
  p_ReadyNodes :: int32
  p_Nodes :: "string list"
  p_DeletionPending :: bool

definition Validate :: "VNodePool \<Rightarrow> unit res" where
  "Validate p =
     (if p_Name p = [] then Inl (Errorf ''pool name is required'')
      else if KubeconfigSecret (p_TenantRef p) = []
      then Inl (Errorf ''tenantRef.kubeconfigSecret is required'')
      else if p_NodeCount p <s 0 then Inl (Errorf ''nodeCount must be >= 0'')
      else if p_Mode p = PoolModeDedicated \<and> mlen (p_NodeSelector p) = 0
      then Inl (Errorf ''dedicated mode requires nodeSelector'')
      else if p_Mode p \<in> {PoolModeShared, PoolModeDedicated, PoolModeBurstable, ''''}
      then Inr ()
      else Inl (Errorf (''invalid pool mode: '' @ p_Mode p)))"

definition DesiredScaleActions :: "VNodePool \<Rightarrow> int32 \<Rightarrow> int32 \<times> int32" where
  "DesiredScaleActions p currentNodes =
     (if currentNodes <s p_NodeCount p then (p_NodeCount p - currentNodes, 0)
      else if p_NodeCount p <s currentNodes then (0, currentNodes - p_NodeCount p)
      else (0, 0))"

section \<open>Nodes\<close>

type_synonym NodePhase = string

abbreviation NodePhasePending :: NodePhase where "NodePhasePending \<equiv> ''Pending''"
abbreviation NodePhaseReady :: NodePhase where "NodePhaseReady \<equiv> ''Ready''"
abbreviation NodePhaseNotReady :: NodePhase where "NodePhaseNotReady \<equiv> ''NotReady''"
abbreviation NodePhaseTerminating :: NodePhase where "NodePhaseTerminating \<equiv> ''Terminating''"

type_synonym NodeConditionType = string

abbreviation NodeConditionRegistered :: NodeConditionType
  where "NodeConditionRegistered \<equiv> ''Registered''"
abbreviation NodeConditionReady :: NodeConditionType
  where "NodeConditionReady \<equiv> ''Ready''"
abbreviation NodeConditionKubeconfig :: NodeConditionType
  where "NodeConditionKubeconfig \<equiv> ''KubeconfigResolved''"
abbreviation NodeConditionLease :: NodeConditionType
  where "NodeConditionLease \<equiv> ''LeaseActive''"
abbreviation NodeConditionDegraded :: NodeConditionType
  where "NodeConditionDegraded \<equiv> ''Degraded''"

record NodeCondition =
  nc_Type :: NodeConditionType
  nc_Status :: bool
  nc_Reason :: string
  nc_Message :: string

record VNode =
  n_ID :: string
  n_Name :: string
  n_Namespace :: string
  n_PoolName :: string
  n_TenantRef :: TenantRef
  n_Taints :: "Taint list"
  n_Phase :: NodePhase
  n_Capacity :: ResourceList
  n_Allocatable :: ResourceList
  n_Conditions :: "NodeCondition list"

fun readyCondition :: "NodeCondition list \<Rightarrow> bool" where
  "readyCondition [] = False"
| "readyCondition (c # cs) =
     (if nc_Type c = NodeConditionReady then nc_Status c else readyCondition cs)"

definition IsReady :: "VNode \<Rightarrow> bool" where
  "IsReady n = (if n_Phase n = NodePhaseReady then True else readyCondition (n_Conditions n))"

definition nkey :: "VNode \<Rightarrow> objkey" where
  "nkey n = ObjKey (n_Namespace n) (n_Name n)"

section \<open>Pool validation\<close>

lemma Validate_ok_iff:
  "Validate p = Inr () \<longleftrightarrow>
     p_Name p \<noteq> [] \<and> KubeconfigSecret (p_TenantRef p) \<noteq> [] \<and> 0 \<le> sint (p_NodeCount p) \<and>
     p_Mode p \<in> {PoolModeShared, PoolModeDedicated, PoolModeBurstable, ''''} \<and>
     (p_Mode p = PoolModeDedicated \<longrightarrow> p_NodeSelector p \<noteq> fmempty)"
  by (auto simp: Validate_def word_sless_alt)

lemma Validate_error_cases:
  assumes "Validate p = Inl e"
  shows "\<exists>m. e = Errorf m"
  using assms by (auto simp: Validate_def split: if_splits)

section \<open>Scale actions\<close>

lemma sint_diff_nonneg:
  fixes a b :: int32
  assumes "0 \<le> sint b" and "sint b \<le> sint a"
  shows "sint (a - b) = sint a - sint b"
proof -
  have "sint a < 2 ^ 31" using sint_lt [of a] by simp
  with assms have "- (2 ^ 31) \<le> sint a - sint b \<and> sint a - sint b < 2 ^ 31" by simp
  then show ?thesis by (simp add: sint_word_ariths signed_take_bit_int_eq_self)
qed

lemma scale_actions_exact:
  assumes "0 \<le> sint (p_NodeCount p)" and "0 \<le> sint current"
    and "DesiredScaleActions p current = (toAdd, toRemove)"
  shows "sint toAdd = max 0 (sint (p_NodeCount p) - sint current) \<and>
         sint toRemove = max 0 (sint current - sint (p_NodeCount p))"
  using assms
  by (auto simp: DesiredScaleActions_def word_sless_alt sint_diff_nonneg split: if_splits)

text \<open>
  C33: for a validated pool and a non-negative current count, the
  32-bit computation of \<open>DesiredScaleActions\<close> never wraps around: the number of nodes to
  add and to remove are the two halves of the signed difference, and at most one of them
  is positive.
\<close>

theorem DesiredScaleActions_exact:
  assumes "Validate p = Inr ()" and "0 \<le> sint current"
  shows "case DesiredScaleActions p current of (toAdd, toRemove) \<Rightarrow>
           sint toAdd = max 0 (sint (p_NodeCount p) - sint current) \<and>
           sint toRemove = max 0 (sint current - sint (p_NodeCount p))"
proof -
  obtain a r where ar: "DesiredScaleActions p current = (a, r)" by fastforce
  have "0 \<le> sint (p_NodeCount p)" using assms(1) by (simp only: Validate_ok_iff)
  from scale_actions_exact [OF this assms(2) ar] ar show ?thesis by simp
qed

section \<open>Readiness\<close>

lemma readyCondition_find:
  "readyCondition cs =
     (case find (\<lambda>c. nc_Type c = NodeConditionReady) cs of None \<Rightarrow> False | Some c \<Rightarrow> nc_Status c)"
  by (induction cs) auto

lemma readyCondition_none:
  "NodeConditionReady \<notin> nc_Type ` set cs \<Longrightarrow> \<not> readyCondition cs"
  by (induction cs) auto

end
