(* ===== verification/API_Types.thy ===== *)
theory API_Types
  imports Domain_Model
begin

text \<open>
  The custom resources of \<open>api/v1alpha1\<close>: \<open>vnode_types.go\<close> and \<open>vnodepool_types.go\<close>.

  Of the Kubernetes object metadata the records hold the fields the operator reads or writes.
  Times are integers in nanoseconds, so that their differences are durations; a deletion timestamp is \<open>None\<close> while it is zero.
  The status of a condition is one of the strings True, False and Unknown.
\<close>

record ObjectMeta =
  om_Name :: string
  om_Namespace :: string
  om_UID :: string
  om_Labels :: smap
  om_Annotations :: smap
  om_Finalizers :: "string list"
  om_Generation :: int
  om_CreationTimestamp :: int
  om_DeletionTimestamp :: "int option"

definition emptyMeta :: ObjectMeta where
  "emptyMeta =
     \<lparr>om_Name = [], om_Namespace = [], om_UID = [], om_Labels = fmempty, om_Annotations = fmempty,
      om_Finalizers = [], om_Generation = 0, om_CreationTimestamp = 0, om_DeletionTimestamp = None\<rparr>"

definition om_key :: "ObjectMeta \<Rightarrow> objkey" where
  "om_key m = ObjKey (om_Namespace m) (om_Name m)"

abbreviation ConditionTrue :: string where "ConditionTrue \<equiv> ''True''"
abbreviation ConditionFalse :: string where "ConditionFalse \<equiv> ''False''"

record Condition =
  mc_Type :: string
  mc_Status :: string
  mc_Reason :: string
  mc_Message :: string
  mc_LastTransitionTime :: int

record NodeResources =
  nr_CPU :: string
  nr_Memory :: string
  nr_Pods :: int32

record CRTenantRef =
  tr_VClusterName :: string
  tr_VClusterNamespace :: string
  tr_KubeconfigSecret :: string

record CoreTaint =
  ct_Key :: string
  ct_Value :: string
  ct_Effect :: string

record CoreToleration =
  ctol_Key :: string
  ctol_Operator :: string
  ctol_Value :: string
  ctol_Effect :: string
  ctol_TolerationSeconds :: "int option"

record VNodeSpec =
  PoolRef :: string
  Capacity :: NodeResources

record VNodeStatus =
  vs_Phase :: string
  vs_Conditions :: "Condition list"

record VNodeCR =
  vn_Meta :: ObjectMeta
  vn_Spec :: VNodeSpec
  vn_Status :: VNodeStatus

record VNodePoolSpec =
  sp_TenantRef :: CRTenantRef
  sp_NodeCount :: int32
  sp_PerNodeResources :: NodeResources
  sp_Mode :: string
  sp_IsolationBackend :: string
  sp_RuntimeClassName :: string
  sp_NodeSelector :: smap
  sp_Taints :: "CoreTaint list"
  sp_Tolerations :: "CoreToleration list"
  sp_DisplayName :: string

record VNodePoolStatus =
  st_Phase :: string
  st_ReadyNodes :: int32
  st_TotalNodes :: int32
  st_Conditions :: "Condition list"

record VNodePoolCR =
  vp_Meta :: ObjectMeta
  vp_Spec :: VNodePoolSpec
  vp_Status :: VNodePoolStatus

abbreviation vn_key :: "VNodeCR \<Rightarrow> objkey" where "vn_key cr \<equiv> om_key (vn_Meta cr)"
abbreviation vn_labels :: "VNodeCR \<Rightarrow> smap" where "vn_labels cr \<equiv> om_Labels (vn_Meta cr)"
abbreviation vp_key :: "VNodePoolCR \<Rightarrow> objkey" where "vp_key cr \<equiv> om_key (vp_Meta cr)"

lemma om_key_simps [simp]:
  "om_key (m\<lparr>om_UID := u\<rparr>) = om_key m" "om_key (m\<lparr>om_Labels := l\<rparr>) = om_key m"
  "om_key (m\<lparr>om_Annotations := a\<rparr>) = om_key m" "om_key (m\<lparr>om_Finalizers := f\<rparr>) = om_key m"
  "om_key (m\<lparr>om_CreationTimestamp := c\<rparr>) = om_key m" "om_key (m\<lparr>om_DeletionTimestamp := d\<rparr>) = om_key m"
  by (simp_all add: om_key_def)

end
