(* ===== verification/Kube_API.thy ===== *)
theory Kube_API
  imports API_Types
begin

text \<open>
  The Kubernetes API as the operator sees it. The API server, \<open>client-go\<close> and
  \<open>controller-runtime\<close> are not part of the repository: a client for one kind of object is a
  parameter of the model, a record \<open>objclient\<close> of its operations over a state \<open>'w\<close> of the
  outside world. As a parameter, an operation may fail with any error, errors of a cancelled
  context included.

  The locale \<open>object_api\<close> names the documented behaviour that correctness proofs rely on:
  \<^item> reads return the stored objects and change nothing; a NotFound error is only reported
    for an object that does not exist; a list returns exactly the objects that match the
    namespace and the labels, in some order;
  \<^item> a write that succeeds has its effect, a write that fails has none; an update of the
    status subresource changes the status only, and an update or a creation ignores it;
  \<^item> an operation may fail with any error except that of a cancelled context: the context of the
    reconciliation stays alive, so the branches of the code that take a cancelled context for
    success are not taken in the results that assume this locale. Results that do not assume
    it, such as \<open>ReconcilePool_no_context\<close> and \<open>UpdateStatus_no_context_error\<close>, cover them.
  It also says that nobody else writes these objects in between, and that reads are not stale.
  The functions \<open>created\<close>, \<open>upd\<close>, \<open>upds\<close> and \<open>gone\<close> describe per kind what the server
  stores (an update that takes the last finalizer off an object under deletion removes it, and
  a deletion may leave the object marked).

  \<open>retry_on_conflict\<close> is the documented behaviour of \<open>retry.RetryOnConflict\<close>: the closure
  runs one or more times, again only after a conflict, and its last result is returned.
\<close>

section \<open>Clients\<close>

record ('o, 'w) objclient =
  oc_Get :: "objkey \<Rightarrow> 'w \<Rightarrow> 'o res \<times> 'w"
  oc_List :: "string option \<Rightarrow> smap \<Rightarrow> 'w \<Rightarrow> 'o list res \<times> 'w"
  oc_Create :: "'o \<Rightarrow> 'w \<Rightarrow> 'o res \<times> 'w"
  oc_Update :: "'o \<Rightarrow> 'w \<Rightarrow> unit res \<times> 'w"
  oc_UpdateStatus :: "'o \<Rightarrow> 'w \<Rightarrow> unit res \<times> 'w"
  oc_Delete :: "objkey \<Rightarrow> 'w \<Rightarrow> unit res \<times> 'w"

type_synonym 'w retrier = "('w \<Rightarrow> unit res \<times> 'w) \<Rightarrow> 'w \<Rightarrow> unit res \<times> 'w"

text \<open>The objects selected by a namespace (all namespaces for \<open>None\<close>) and labels.\<close>

definition selected :: "string option \<Rightarrow> smap \<Rightarrow> objkey \<Rightarrow> smap \<Rightarrow> bool" where
  "selected ns sel k labels \<longleftrightarrow>
     (case ns of None \<Rightarrow> True | Some n \<Rightarrow> key_ns k = n) \<and>
     fBall (fmdom sel) (\<lambda>l. fmlookup labels l = fmlookup sel l)"

section \<open>Documented behaviour\<close>

locale object_api =
  fixes cl :: "('o, 'w) objclient"
    and objs :: "'w \<Rightarrow> objkey \<Rightarrow> 'o option"
    and key :: "'o \<Rightarrow> objkey"
    and labels :: "'o \<Rightarrow> smap"
    and created :: "'o \<Rightarrow> 'o \<Rightarrow> bool"
    and upd :: "'o \<Rightarrow> 'o \<Rightarrow> 'o option"
    and upds :: "'o \<Rightarrow> 'o \<Rightarrow> 'o"
    and gone :: "'o \<Rightarrow> 'o option"
  assumes objs_key: "objs w k = Some x \<Longrightarrow> key x = k"
    and Get_ok: "oc_Get cl k w = (Inr x, w') \<Longrightarrow> objs w' = objs w \<and> objs w k = Some x"
    and Get_err: "oc_Get cl k w = (Inl e, w') \<Longrightarrow>
      objs w' = objs w \<and> (IsNotFound e \<longrightarrow> objs w k = None) \<and> \<not> isContextError e"
    and List_ok: "oc_List cl ns sel w = (Inr xs, w') \<Longrightarrow>
      objs w' = objs w \<and> distinct (map key xs) \<and>
      set xs = {x. objs w (key x) = Some x \<and> selected ns sel (key x) (labels x)}"
    and List_err: "oc_List cl ns sel w = (Inl e, w') \<Longrightarrow> objs w' = objs w \<and> \<not> isContextError e"
    and Create_ok: "oc_Create cl x w = (Inr y, w') \<Longrightarrow>
      objs w (key x) = None \<and> objs w' = (objs w)(key x \<mapsto> y) \<and> created x y"
    and Create_err: "oc_Create cl x w = (Inl e, w') \<Longrightarrow> objs w' = objs w \<and> \<not> isContextError e"
    and Update_ok: "oc_Update cl x w = (Inr u, w') \<Longrightarrow>
      \<exists>old. objs w (key x) = Some old \<and> objs w' = (objs w)(key x := upd old x)"
    and Update_err: "oc_Update cl x w = (Inl e, w') \<Longrightarrow> objs w' = objs w \<and> \<not> isContextError e"
    and UpdateStatus_ok: "oc_UpdateStatus cl x w = (Inr u, w') \<Longrightarrow>
      \<exists>old. objs w (key x) = Some old \<and> objs w' = (objs w)(key x \<mapsto> upds old x)"
    and UpdateStatus_err: "oc_UpdateStatus cl x w = (Inl e, w') \<Longrightarrow>
      objs w' = objs w \<and> \<not> isContextError e"
    and Delete_ok: "oc_Delete cl k w = (Inr u, w') \<Longrightarrow>
      \<exists>old. objs w k = Some old \<and> objs w' = (objs w)(k := gone old)"
    and Delete_err: "oc_Delete cl k w = (Inl e, w') \<Longrightarrow>
      objs w' = objs w \<and> (IsNotFound e \<longrightarrow> objs w k = None) \<and> \<not> isContextError e"

locale retry_on_conflict =
  fixes retry :: "'w retrier"
  assumes retry_runs: "\<exists>n. retry f w = f (((\<lambda>v. snd (f v)) ^^ n) w) \<and>
      (\<forall>m < n. \<exists>e. fst (f (((\<lambda>v. snd (f v)) ^^ m) w)) = Inl e \<and> IsConflict e)"
begin

text \<open>
  A closure whose failed attempts keep a view of the world: the retried run is one run of the
  closure from a world with the same view.
\<close>

lemma retry_view:
  assumes "\<And>v e v'. f v = (Inl e, v') \<Longrightarrow> view v' = view v"
  obtains v where "view v = view w" and "retry f w = f v"
proof -
  obtain n where n: "retry f w = f (((\<lambda>v. snd (f v)) ^^ n) w)"
    and conf: "\<And>m. m < n \<Longrightarrow> \<exists>e. fst (f (((\<lambda>v. snd (f v)) ^^ m) w)) = Inl e"
    using retry_runs [of f w] by blast
  have "view (((\<lambda>v. snd (f v)) ^^ m) w) = view w" if "m \<le> n" for m
    using that
  proof (induction m)
    case 0
    then show ?case by simp
  next
    case (Suc m)
    let ?v = "((\<lambda>v. snd (f v)) ^^ m) w"
    obtain e where "f ?v = (Inl e, snd (f ?v))" using conf [of m] Suc.prems by (metis Suc_le_eq prod.collapse)
    then have "view (snd (f ?v)) = view ?v" by (rule assms)
    with Suc show ?case by simp
  qed
  with n that show ?thesis by blast
qed

text \<open>A closure that keeps a view of the world keeps it when retried.\<close>

lemma retry_frame:
  assumes "\<And>v r v'. f v = (r, v') \<Longrightarrow> view v' = view v" and "retry f w = (r, w')"
  shows "view w' = view w"
proof -
  obtain v where "view v = view w" "retry f w = f v"
    using retry_view [of f view w] assms(1) by metis
  with assms show ?thesis by metis
qed

lemma retry_once:
  assumes "f w = (r, w')" and "\<And>e. r = Inl e \<Longrightarrow> \<not> IsConflict e"
  shows "retry f w = (r, w')"
proof -
  obtain n where n: "retry f w = f (((\<lambda>v. snd (f v)) ^^ n) w)"
    and conf: "\<And>m. m < n \<Longrightarrow> \<exists>e. fst (f (((\<lambda>v. snd (f v)) ^^ m) w)) = Inl e \<and> IsConflict e"
    using retry_runs [of f w] by blast
  have "n = 0" using conf [of 0] assms by (cases n) auto
  with n assms show ?thesis by simp
qed

end

text \<open>Operations of one client do not change what a view of the world shows.\<close>

locale client_frame =
  fixes cl :: "('o, 'w) objclient"
    and view :: "'w \<Rightarrow> 'v"
  assumes Get_frame: "oc_Get cl k w = (r, w') \<Longrightarrow> view w' = view w"
    and List_frame: "oc_List cl ns sel w = (rs, w') \<Longrightarrow> view w' = view w"
    and Create_frame: "oc_Create cl x w = (r, w') \<Longrightarrow> view w' = view w"
    and Update_frame: "oc_Update cl x w = (u, w') \<Longrightarrow> view w' = view w"
    and UpdateStatus_frame: "oc_UpdateStatus cl x w = (u, w') \<Longrightarrow> view w' = view w"
    and Delete_frame: "oc_Delete cl k w = (u, w') \<Longrightarrow> view w' = view w"

text \<open>No operation of a client reports a cancelled context.\<close>

locale client_alive =
  fixes cl :: "('o, 'w) objclient"
  assumes Get_alive: "oc_Get cl k w = (Inl e, w') \<Longrightarrow> \<not> isContextError e"
    and List_alive: "oc_List cl ns sel w = (Inl e, w') \<Longrightarrow> \<not> isContextError e"
    and Create_alive: "oc_Create cl x w = (Inl e, w') \<Longrightarrow> \<not> isContextError e"
    and Update_alive: "oc_Update cl x w = (Inl e, w') \<Longrightarrow> \<not> isContextError e"
    and UpdateStatus_alive: "oc_UpdateStatus cl x w = (Inl e, w') \<Longrightarrow> \<not> isContextError e"
    and Delete_alive: "oc_Delete cl k w = (Inl e, w') \<Longrightarrow> \<not> isContextError e"

sublocale object_api \<subseteq> alive: client_alive cl
  by unfold_locales (auto dest: Get_err List_err Create_err Update_err UpdateStatus_err Delete_err)

context object_api
begin

lemmas alive_lemmas = alive.client_alive_axioms

end

end
