(* ===== verification/Reference_Cluster.thy ===== *)
theory Reference_Cluster
  imports Kube_API
begin

text \<open>
  A reference client: an in-memory implementation of the client operations of \<open>Kube_API\<close> for
  one kind of object, kept as a list of objects, with an explicit schedule of injected
  faults (each operation first consumes an entry of the schedule and fails if the entry says
  so). It is not part of the operator. It shows that the documented behaviour named in
  \<open>object_api\<close> can be met, faults included, and the witnesses of the development run on it.
\<close>

datatype injected = Pass | InjectConflict | InjectFailure string

fun injected_error :: "injected \<Rightarrow> goerr option" where
  "injected_error Pass = None"
| "injected_error InjectConflict = Some (StatusError Conflict ''the object has been modified'')"
| "injected_error (InjectFailure m) = Some (StatusError OtherReason m)"

definition lookupObj :: "('o \<Rightarrow> objkey) \<Rightarrow> 'o list \<Rightarrow> objkey \<Rightarrow> 'o option" where
  "lookupObj key xs k = find (\<lambda>x. key x = k) xs"

fun putObj :: "('o \<Rightarrow> objkey) \<Rightarrow> 'o \<Rightarrow> 'o list \<Rightarrow> 'o list" where
  "putObj key x [] = [x]"
| "putObj key x (y # ys) = (if key y = key x then x # ys else y # putObj key x ys)"

definition dropObj :: "('o \<Rightarrow> objkey) \<Rightarrow> objkey \<Rightarrow> 'o list \<Rightarrow> 'o list" where
  "dropObj key k xs = filter (\<lambda>x. key x \<noteq> k) xs"

text \<open>
  A store is accessed with \<open>get\<close> and \<open>put\<close>; \<open>tick\<close> consumes an entry of the fault schedule;
  \<open>mk\<close> completes a created object.
\<close>

record ('o, 'w) store =
  st_get :: "'w \<Rightarrow> 'o list"
  st_put :: "'o list \<Rightarrow> 'w \<Rightarrow> 'w"
  st_tick :: "'w \<Rightarrow> injected \<times> 'w"
  st_key :: "'o \<Rightarrow> objkey"
  st_labels :: "'o \<Rightarrow> smap"
  st_mk :: "'w \<Rightarrow> 'o \<Rightarrow> 'o"
  st_upd :: "'o \<Rightarrow> 'o \<Rightarrow> 'o option"
  st_upds :: "'o \<Rightarrow> 'o \<Rightarrow> 'o"
  st_gone :: "'o \<Rightarrow> 'o option"

definition guarded ::
  "('o, 'w) store \<Rightarrow> ('w \<Rightarrow> 'a res \<times> 'w) \<Rightarrow> 'w \<Rightarrow> 'a res \<times> 'w"
where
  "guarded st f w =
     (case st_tick st w of
        (i, w) \<Rightarrow> (case injected_error i of Some e \<Rightarrow> (Inl e, w) | None \<Rightarrow> f w))"

definition notFound :: goerr where
  "notFound = StatusError NotFound ''not found''"

definition replaceObj ::
  "('o, 'w) store \<Rightarrow> ('o \<Rightarrow> 'o option) \<Rightarrow> objkey \<Rightarrow> 'w \<Rightarrow> unit res \<times> 'w"
where
  "replaceObj st f k w =
     (case lookupObj (st_key st) (st_get st w) k of
        None \<Rightarrow> (Inl notFound, w)
      | Some old \<Rightarrow>
          (Inr (), st_put st
             (case f old of
                None \<Rightarrow> dropObj (st_key st) k (st_get st w)
              | Some y \<Rightarrow> putObj (st_key st) y (st_get st w)) w))"

definition mem_client :: "('o, 'w) store \<Rightarrow> ('o, 'w) objclient" where
  "mem_client st =
     \<lparr>oc_Get = (\<lambda>k. guarded st (\<lambda>w.
        case lookupObj (st_key st) (st_get st w) k of
          None \<Rightarrow> (Inl notFound, w) | Some x \<Rightarrow> (Inr x, w))),
      oc_List = (\<lambda>ns sel. guarded st (\<lambda>w.
        (Inr (remdups (filter (\<lambda>x. lookupObj (st_key st) (st_get st w) (st_key st x) = Some x \<and>
           selected ns sel (st_key st x) (st_labels st x)) (st_get st w))), w))),
      oc_Create = (\<lambda>x. guarded st (\<lambda>w.
        case lookupObj (st_key st) (st_get st w) (st_key st x) of
          None \<Rightarrow> (let y = st_mk st w x in (Inr y, st_put st (putObj (st_key st) y (st_get st w)) w))
        | Some _ \<Rightarrow> (Inl (StatusError AlreadyExists ''already exists''), w))),
      oc_Update = (\<lambda>x. guarded st (replaceObj st (\<lambda>old. st_upd st old x) (st_key st x))),
      oc_UpdateStatus = (\<lambda>x. guarded st (replaceObj st (\<lambda>old. Some (st_upds st old x)) (st_key st x))),
      oc_Delete = (\<lambda>k. guarded st (replaceObj st (st_gone st) k))\<rparr>"

definition well_formed_store :: "('o, 'w) store \<Rightarrow> bool" where
  "well_formed_store st \<longleftrightarrow>
     (\<forall>xs w. st_get st (st_put st xs w) = xs) \<and>
     (\<forall>w. st_get st (snd (st_tick st w)) = st_get st w) \<and>
     (\<forall>w x. st_key st (st_mk st w x) = st_key st x) \<and>
     (\<forall>old x. st_key st old = st_key st x \<longrightarrow>
        (\<forall>y. st_upd st old x = Some y \<longrightarrow> st_key st y = st_key st x) \<and>
        st_key st (st_upds st old x) = st_key st x) \<and>
     (\<forall>x y. st_gone st x = Some y \<longrightarrow> st_key st y = st_key st x)"

definition stored_objs :: "('o, 'w) store \<Rightarrow> 'w \<Rightarrow> objkey \<Rightarrow> 'o option" where
  "stored_objs st w = lookupObj (st_key st) (st_get st w)"

text \<open>The retry helper with the five attempts of \<open>retry.DefaultRetry\<close>.\<close>

fun retry_times :: "nat \<Rightarrow> 'w retrier" where
  "retry_times 0 f w = f w"
| "retry_times (Suc n) f w =
     (case f w of
        (Inl e, w') \<Rightarrow> if IsConflict e then retry_times n f w' else (Inl e, w')
      | (Inr u, w') \<Rightarrow> (Inr u, w'))"

section \<open>The reference client meets the documented behaviour\<close>

lemma lookup_put [simp]:
  "lookupObj key (putObj key x xs) = (lookupObj key xs)(key x \<mapsto> x)"
  by (induction xs) (auto simp: lookupObj_def fun_eq_iff)

lemma lookup_drop [simp]:
  "lookupObj key (dropObj key k xs) = (lookupObj key xs)(k := None)"
  by (induction xs) (auto simp: lookupObj_def dropObj_def fun_eq_iff)

lemma lookup_key: "lookupObj key xs k = Some x \<Longrightarrow> key x = k \<and> x \<in> set xs"
  by (induction xs) (auto simp: lookupObj_def split: if_splits)

lemma distinct_lookup:
  "distinct (map key (remdups (filter (\<lambda>x. lookupObj key xs (key x) = Some x \<and> P x) ys)))"
proof (induction ys)
  case Nil
  then show ?case by simp
next
  case (Cons y ys)
  then show ?case by (auto; metis option.inject)
qed

lemma injected_not_context:
  "injected_error i = Some e \<Longrightarrow> \<not> isContextError e \<and> \<not> IsNotFound e"
  by (cases i) auto

lemma guarded_cases:
  assumes "guarded st f w = (r, w')"
  obtains (fault) e where "st_tick st w = (fst (st_tick st w), w')" "r = Inl e"
      "\<not> isContextError e" "\<not> IsNotFound e"
  | (pass) w1 where "st_tick st w = (fst (st_tick st w), w1)" "f w1 = (r, w')"
  using assms injected_not_context
  by (auto simp: guarded_def split: prod.splits option.splits)

lemma store_laws:
  assumes "well_formed_store st"
  shows "st_get st (st_put st xs w) = xs"
    and "st_key st (st_mk st w x) = st_key st x"
    and "st_key st old = st_key st x \<Longrightarrow> st_upd st old x = Some y \<Longrightarrow> st_key st y = st_key st x"
    and "st_key st old = st_key st x \<Longrightarrow> st_key st (st_upds st old x) = st_key st x"
    and "st_gone st x = Some y \<Longrightarrow> st_key st y = st_key st x"
  using assms unfolding well_formed_store_def by blast+

lemma tick_get:
  "well_formed_store st \<Longrightarrow> st_tick st w = (i, w1) \<Longrightarrow> st_get st w1 = st_get st w"
  by (metis snd_conv well_formed_store_def)

text \<open>
  A replacement behind the fault schedule: it replaces the stored object, or it fails and
  leaves everything.
\<close>

lemma replace_effect:
  assumes wf: "well_formed_store st"
    and key: "\<And>old y. st_key st old = k \<Longrightarrow> f old = Some y \<Longrightarrow> st_key st y = k"
    and run: "guarded st (replaceObj st f k) w = (r, w')"
  shows "case r of
           Inr u \<Rightarrow> \<exists>old. stored_objs st w k = Some old \<and> stored_objs st w' = (stored_objs st w)(k := f old)
         | Inl e \<Rightarrow> stored_objs st w' = stored_objs st w \<and>
             (IsNotFound e \<longrightarrow> stored_objs st w k = None) \<and> \<not> isContextError e"
  using run
proof (cases rule: guarded_cases)
  case (fault e)
  from tick_get [OF wf this(1)] have "st_get st w' = st_get st w" .
  with fault show ?thesis by (simp add: stored_objs_def)
next
  case (pass w1)
  note g = tick_get [OF wf pass(1)]
  note put = store_laws(1) [OF wf]
  show ?thesis
  proof (cases "lookupObj (st_key st) (st_get st w) k")
    case None
    with pass g show ?thesis by (auto simp: replaceObj_def stored_objs_def notFound_def)
  next
    case (Some old)
    have "st_key st y = k" if "f old = Some y" for y
      using key [OF _ that] lookup_key [OF Some] by simp
    with pass g Some show ?thesis
      by (auto simp: replaceObj_def stored_objs_def put split: option.split)
  qed
qed

text \<open>The other operations behind the fault schedule.\<close>

lemma read_effect:
  assumes wf: "well_formed_store st" and run: "guarded st f w = (r, w')"
    and f: "\<And>v. st_get st v = st_get st w \<Longrightarrow> f v = (r', v)"
  shows "stored_objs st w' = stored_objs st w \<and>
         (r = r' \<or> (\<exists>e. r = Inl e \<and> \<not> isContextError e \<and> \<not> IsNotFound e))"
  using run
proof (cases rule: guarded_cases)
  case (fault e)
  from tick_get [OF wf this(1)] have "st_get st w' = st_get st w" .
  with fault show ?thesis by (simp add: stored_objs_def)
next
  case (pass w1)
  note g = tick_get [OF wf pass(1)]
  with pass f [OF g] show ?thesis by (simp add: stored_objs_def)
qed

lemma create_effect:
  assumes wf: "well_formed_store st" and run: "oc_Create (mem_client st) x w = (r, w')"
  shows "case r of
           Inr y \<Rightarrow> stored_objs st w (st_key st x) = None \<and>
             stored_objs st w' = (stored_objs st w)(st_key st x \<mapsto> y) \<and> (\<exists>v. y = st_mk st v x)
         | Inl e \<Rightarrow> stored_objs st w' = stored_objs st w \<and> \<not> isContextError e"
proof -
  note put = store_laws(1) [OF wf] and mk = store_laws(2) [OF wf]
  from run have "guarded st (\<lambda>w. case lookupObj (st_key st) (st_get st w) (st_key st x) of
      None \<Rightarrow> (let y = st_mk st w x in (Inr y, st_put st (putObj (st_key st) y (st_get st w)) w))
    | Some _ \<Rightarrow> (Inl (StatusError AlreadyExists ''already exists''), w)) w = (r, w')"
    by (simp add: mem_client_def)
  then show ?thesis
  proof (cases rule: guarded_cases)
    case (fault e)
    from tick_get [OF wf this(1)] have "st_get st w' = st_get st w" .
    with fault show ?thesis by (simp add: stored_objs_def)
  next
    case (pass w1)
    note g = tick_get [OF wf pass(1)]
    show ?thesis
    proof (cases "lookupObj (st_key st) (st_get st w) (st_key st x)")
      case None
      with pass(2) g have "r = Inr (st_mk st w1 x)"
        "w' = st_put st (putObj (st_key st) (st_mk st w1 x) (st_get st w)) w1"
        by (simp_all add: Let_def)
      with None show ?thesis by (auto simp: stored_objs_def put mk)
    next
      case (Some y)
      with pass(2) g show ?thesis by (auto simp: stored_objs_def)
    qed
  qed
qed

lemma mem_client_api:
  assumes wf: "well_formed_store st" and mk: "\<And>w x. created x (st_mk st w x)"
  shows "object_api (mem_client st) (stored_objs st) (st_key st) (st_labels st)
           created (st_upd st) (st_upds st) (st_gone st)"
proof -
  let ?sel = "\<lambda>ns sel w. remdups (filter (\<lambda>x. stored_objs st w (st_key st x) = Some x \<and>
      selected ns sel (st_key st x) (st_labels st x)) (st_get st w))"
  have get: "stored_objs st w' = stored_objs st w \<and>
      (r = (case stored_objs st w k of None \<Rightarrow> Inl notFound | Some x \<Rightarrow> Inr x) \<or>
       (\<exists>e. r = Inl e \<and> \<not> isContextError e \<and> \<not> IsNotFound e))"
    if "oc_Get (mem_client st) k w = (r, w')" for k w r w'
    by (rule read_effect [OF wf, of "\<lambda>w. case lookupObj (st_key st) (st_get st w) k of
          None \<Rightarrow> (Inl notFound, w) | Some x \<Rightarrow> (Inr x, w)"])
      (use that in \<open>auto simp: mem_client_def stored_objs_def split: option.split\<close>)
  have list: "stored_objs st w' = stored_objs st w \<and>
      (r = Inr (?sel ns sel w) \<or> (\<exists>e. r = Inl e \<and> \<not> isContextError e \<and> \<not> IsNotFound e))"
    if "oc_List (mem_client st) ns sel w = (r, w')" for ns sel w r w'
    by (rule read_effect [OF wf, of "\<lambda>w. (Inr (remdups (filter (\<lambda>x. lookupObj (st_key st) (st_get st w)
          (st_key st x) = Some x \<and> selected ns sel (st_key st x) (st_labels st x)) (st_get st w))), w)"])
      (use that in \<open>auto simp: mem_client_def stored_objs_def\<close>)
  let ?effect = "\<lambda>f k w r w'. case r of
      Inr u \<Rightarrow> \<exists>old. stored_objs st w k = Some old \<and> stored_objs st w' = (stored_objs st w)(k := f old)
    | Inl e \<Rightarrow> stored_objs st w' = stored_objs st w \<and>
        (IsNotFound e \<longrightarrow> stored_objs st w k = None) \<and> \<not> isContextError e"
  have update: "?effect (\<lambda>old. st_upd st old x) (st_key st x) w r w'"
    if "oc_Update (mem_client st) x w = (r, w')" for x w r w'
    by (rule replace_effect [OF wf]) (rule store_laws(3) [OF wf], assumption+, use that in \<open>simp add: mem_client_def\<close>)
  have status: "?effect (\<lambda>old. Some (st_upds st old x)) (st_key st x) w r w'"
    if "oc_UpdateStatus (mem_client st) x w = (r, w')" for x w r w'
    by (rule replace_effect [OF wf]) (drule store_laws(4) [OF wf], simp, use that in \<open>simp add: mem_client_def\<close>)
  have delete: "?effect (st_gone st) k w r w'"
    if "oc_Delete (mem_client st) k w = (r, w')" for k w r w'
    by (rule replace_effect [OF wf]) (drule store_laws(5) [OF wf], simp, use that in \<open>simp add: mem_client_def\<close>)
  show ?thesis
  proof unfold_locales
    show "stored_objs st w k = Some x \<Longrightarrow> st_key st x = k" for w k x
      by (simp add: stored_objs_def lookup_key)
    show "oc_Get (mem_client st) k w = (Inr x, w') \<Longrightarrow>
        stored_objs st w' = stored_objs st w \<and> stored_objs st w k = Some x" for k w x w'
      by (drule get) (auto split: option.splits)
    show "oc_Get (mem_client st) k w = (Inl e, w') \<Longrightarrow> stored_objs st w' = stored_objs st w \<and>
        (IsNotFound e \<longrightarrow> stored_objs st w k = None) \<and> \<not> isContextError e" for k w e w'
      by (drule get) (auto simp: notFound_def split: option.splits)
    show "oc_List (mem_client st) ns sel w = (Inr xs, w') \<Longrightarrow>
        stored_objs st w' = stored_objs st w \<and> distinct (map (st_key st) xs) \<and>
        set xs = {x. stored_objs st w (st_key st x) = Some x \<and> selected ns sel (st_key st x) (st_labels st x)}"
      for ns sel w xs w'
      by (drule list) (auto simp: stored_objs_def distinct_lookup dest: lookup_key)
    show "oc_List (mem_client st) ns sel w = (Inl e, w') \<Longrightarrow>
        stored_objs st w' = stored_objs st w \<and> \<not> isContextError e" for ns sel w e w'
      by (drule list) auto
    show "oc_Create (mem_client st) x w = (Inr y, w') \<Longrightarrow> stored_objs st w (st_key st x) = None \<and>
        stored_objs st w' = (stored_objs st w)(st_key st x \<mapsto> y) \<and> created x y" for x w y w'
      by (drule create_effect [OF wf]) (use mk in auto)
    show "oc_Create (mem_client st) x w = (Inl e, w') \<Longrightarrow>
        stored_objs st w' = stored_objs st w \<and> \<not> isContextError e" for x w e w'
      by (drule create_effect [OF wf]) simp
    show "oc_Update (mem_client st) x w = (Inr u, w') \<Longrightarrow> \<exists>old. stored_objs st w (st_key st x) = Some old \<and>
        stored_objs st w' = (stored_objs st w)(st_key st x := st_upd st old x)" for x w u w'
      by (drule update) simp
    show "oc_Update (mem_client st) x w = (Inl e, w') \<Longrightarrow>
        stored_objs st w' = stored_objs st w \<and> \<not> isContextError e" for x w e w'
      by (drule update) simp
    show "oc_UpdateStatus (mem_client st) x w = (Inr u, w') \<Longrightarrow> \<exists>old. stored_objs st w (st_key st x) = Some old \<and>
        stored_objs st w' = (stored_objs st w)(st_key st x \<mapsto> st_upds st old x)" for x w u w'
      by (drule status) simp
    show "oc_UpdateStatus (mem_client st) x w = (Inl e, w') \<Longrightarrow>
        stored_objs st w' = stored_objs st w \<and> \<not> isContextError e" for x w e w'
      by (drule status) simp
    show "oc_Delete (mem_client st) k w = (Inr u, w') \<Longrightarrow> \<exists>old. stored_objs st w k = Some old \<and>
        stored_objs st w' = (stored_objs st w)(k := st_gone st old)" for k w u w'
      by (drule delete) simp
    show "oc_Delete (mem_client st) k w = (Inl e, w') \<Longrightarrow> stored_objs st w' = stored_objs st w \<and>
        (IsNotFound e \<longrightarrow> stored_objs st w k = None) \<and> \<not> isContextError e" for k w e w'
      by (drule delete) simp
  qed
qed

lemma mem_client_frame:
  assumes "\<And>xs w. view (st_put st xs w) = view w" and "\<And>w. view (snd (st_tick st w)) = view w"
  shows "client_frame (mem_client st) view"
proof -
  have g: "view w' = view w"
    if "guarded st f w = (r, w')" and "\<And>w r w'. f w = (r, w') \<Longrightarrow> view w' = view w"
    for f :: "'b \<Rightarrow> 'r res \<times> 'b" and w w' r
    using that(1)
  proof (cases rule: guarded_cases)
    case fault
    then show ?thesis using assms(2) [of w] by (metis snd_conv)
  next
    case (pass w1)
    then show ?thesis using assms(2) [of w] that(2) by (metis snd_conv)
  qed
  show ?thesis
    by unfold_locales
      (auto simp: mem_client_def replaceObj_def assms(1) Let_def elim!: g split: option.splits)
qed

lemma retry_times_api: "retry_on_conflict (retry_times n)"
proof unfold_locales
  fix f :: "'w \<Rightarrow> unit res \<times> 'w" and w
  show "\<exists>m. retry_times n f w = f (((\<lambda>v. snd (f v)) ^^ m) w) \<and>
      (\<forall>j < m. \<exists>e. fst (f (((\<lambda>v. snd (f v)) ^^ j) w)) = Inl e \<and> IsConflict e)"
  proof (induction n arbitrary: w)
    case 0
    then show ?case by (intro exI [of _ 0]) simp
  next
    case (Suc n)
    obtain r w' where f: "f w = (r, w')" by fastforce
    show ?case
    proof (cases "\<exists>e. r = Inl e \<and> IsConflict e")
      case False
      with f show ?thesis by (intro exI [of _ 0]) (auto split: sum.split)
    next
      case True
      obtain m where m: "retry_times n f w' = f (((\<lambda>v. snd (f v)) ^^ m) w')"
        "\<And>j. j < m \<Longrightarrow> \<exists>e. fst (f (((\<lambda>v. snd (f v)) ^^ j) w')) = Inl e \<and> IsConflict e"
        using Suc.IH [of w'] by blast
      have step: "((\<lambda>v. snd (f v)) ^^ Suc j) w = ((\<lambda>v. snd (f v)) ^^ j) w'" for j
        using f by (simp add: funpow_Suc_right del: funpow.simps)
      have "\<exists>e. fst (f (((\<lambda>v. snd (f v)) ^^ j) w)) = Inl e \<and> IsConflict e" if "j < Suc m" for j
        using that m(2) True f step by (cases j) auto
      moreover have "retry_times (Suc n) f w = f (((\<lambda>v. snd (f v)) ^^ Suc m) w)"
        using True f m(1) step [of m] by auto
      ultimately show ?thesis by blast
    qed
  qed
qed

end
