(* ===== verification/Pod_Model.thy ===== *)
theory Pod_Model
  imports Domain_Model
begin

text \<open>
  Pods and their translation from a tenant cluster to the host cluster:
  \<open>internal/domain/model/pod.go\<close>.

  \<open>TranslatePod\<close> is the isolation boundary of the operator. The lemmas show what a tenant
  controls in the host pod and what it does not: the five tracking labels cannot be
  overridden, projected volumes and mounts at the canonical token path are stripped (and only at
  that exact path), every remaining ConfigMap or
  Secret volume refers to an object that \<open>ResourceRefs\<close> lists for synchronisation, and the
  host name identifies the tenant pod as long as namespaces contain no dash (and not
  otherwise).

  The loop of \<open>TranslatePod\<close> over the source labels runs in Go's unspecified map order.
  \<open>copyLabels\<close> is that loop over one enumeration of the entries; \<open>copyLabels_fmadd\<close> shows
  that every enumeration gives the map union used in the definition of \<open>TranslatePod\<close>.
\<close>

section \<open>Data\<close>

record EnvVar =
  ev_Name :: string
  ev_Value :: string

type_synonym VolumeType = string

abbreviation VolumeTypeProjected :: VolumeType where "VolumeTypeProjected \<equiv> ''projected''"
abbreviation VolumeTypeConfigMap :: VolumeType where "VolumeTypeConfigMap \<equiv> ''configMap''"
abbreviation VolumeTypeSecret :: VolumeType where "VolumeTypeSecret \<equiv> ''secret''"
abbreviation VolumeTypeEmptyDir :: VolumeType where "VolumeTypeEmptyDir \<equiv> ''emptyDir''"
abbreviation VolumeTypePVC :: VolumeType where "VolumeTypePVC \<equiv> ''pvc''"
abbreviation VolumeTypeHostPath :: VolumeType where "VolumeTypeHostPath \<equiv> ''hostPath''"
abbreviation VolumeTypeOther :: VolumeType where "VolumeTypeOther \<equiv> ''other''"

record Volume =
  v_Name :: string
  v_Type :: VolumeType
  v_Source :: string

record VolumeMount =
  vm_Name :: string
  MountPath :: string
  ReadOnly :: bool

record ContainerResources =
  Requests :: ResourceList
  Limits :: ResourceList

record Container =
  c_Name :: string
  c_Image :: string
  c_Command :: "string list"
  c_Args :: "string list"
  c_Env :: "EnvVar list"
  c_VolumeMounts :: "VolumeMount list"
  c_Resources :: ContainerResources

record PodSpec =
  pod_Name :: string
  pod_Namespace :: string
  pod_Labels :: smap
  pod_NodeName :: string
  pod_Containers :: "Container list"
  pod_Volumes :: "Volume list"
  pod_ServiceAccountName :: string
  pod_AutomountServiceAccountToken :: "bool option"
  pod_RuntimeClassName :: string
  pod_NodeSelector :: smap
  pod_Deleting :: bool

record ContainerStatus =
  cs_Name :: string
  cs_Ready :: bool
  cs_RestartCount :: int32
  cs_State :: string

record PodStatus =
  ps_Phase :: string
  ps_PodIP :: string
  ps_ContainerStatuses :: "ContainerStatus list"
  ps_Message :: string
  ps_Reason :: string

record PodTranslation =
  SourcePod :: PodSpec
  TargetPod :: PodSpec

abbreviation LabelManagedBy :: string where "LabelManagedBy \<equiv> ''app.kubernetes.io/managed-by''"
abbreviation LabelManagedByValue :: string where "LabelManagedByValue \<equiv> ''kroderdev-vnode''"
abbreviation LabelVNodePool :: string where "LabelVNodePool \<equiv> ''vnode.kroderdev.io/pool''"
abbreviation LabelVNodeName :: string where "LabelVNodeName \<equiv> ''vnode.kroderdev.io/node-name''"
abbreviation LabelSourcePodName :: string
  where "LabelSourcePodName \<equiv> ''vnode.kroderdev.io/source-pod-name''"
abbreviation LabelSourcePodNS :: string
  where "LabelSourcePodNS \<equiv> ''vnode.kroderdev.io/source-pod-namespace''"

record TranslateOpts =
  o_VNodeName :: string
  o_PoolName :: string
  o_TargetNamespace :: string
  o_RuntimeClass :: string
  o_NodeSelector :: smap

record VolumeResourceRef =
  ref_Type :: VolumeType
  ref_SourceName :: string
  ref_SourceNamespace :: string
  ref_TargetName :: string

section \<open>Translation\<close>

definition isServiceAccountMount :: "VolumeMount \<Rightarrow> bool" where
  "isServiceAccountMount vm \<longleftrightarrow> MountPath vm = ''/var/run/secrets/kubernetes.io/serviceaccount''"

fun stripMounts :: "VolumeMount list \<Rightarrow> VolumeMount list" where
  "stripMounts [] = []"
| "stripMounts (vm # vms) =
     (if isServiceAccountMount vm then stripMounts vms else vm # stripMounts vms)"

fun translateContainers :: "Container list \<Rightarrow> Container list" where
  "translateContainers [] = []"
| "translateContainers (c # cs) =
     \<lparr>c_Name = c_Name c, c_Image = c_Image c, c_Command = c_Command c, c_Args = c_Args c,
      c_Env = c_Env c, c_VolumeMounts = stripMounts (c_VolumeMounts c),
      c_Resources = c_Resources c\<rparr> # translateContainers cs"

fun filterVolumes :: "Volume list \<Rightarrow> string \<Rightarrow> Volume list" where
  "filterVolumes [] sourceNamespace = []"
| "filterVolumes (v # vs) sourceNamespace =
     (if v_Type v = VolumeTypeProjected then filterVolumes vs sourceNamespace
      else if v_Type v = VolumeTypeConfigMap \<or> v_Type v = VolumeTypeSecret
      then v\<lparr>v_Source := sourceNamespace @ ''-'' @ v_Source v\<rparr> # filterVolumes vs sourceNamespace
      else v # filterVolumes vs sourceNamespace)"

definition trackingLabels :: "PodSpec \<Rightarrow> TranslateOpts \<Rightarrow> smap" where
  "trackingLabels source opts =
     fmap_of_list
       [(LabelManagedBy, LabelManagedByValue),
        (LabelVNodePool, o_PoolName opts),
        (LabelVNodeName, o_VNodeName opts),
        (LabelSourcePodName, pod_Name source),
        (LabelSourcePodNS, pod_Namespace source)]"

fun copyLabels :: "(string \<times> string) list \<Rightarrow> smap \<Rightarrow> smap" where
  "copyLabels [] labels = labels"
| "copyLabels ((k, v) # es) labels =
     (if fmlookup labels k = None then copyLabels es (fmupd k v labels)
      else copyLabels es labels)"

definition TranslatePod :: "PodSpec \<Rightarrow> TranslateOpts \<Rightarrow> PodTranslation" where
  "TranslatePod source opts =
     \<lparr>SourcePod = source,
      TargetPod =
        \<lparr>pod_Name = o_VNodeName opts @ ''-'' @ pod_Namespace source @ ''-'' @ pod_Name source,
         pod_Namespace = o_TargetNamespace opts,
         pod_Labels = fmadd (pod_Labels source) (trackingLabels source opts),
         pod_NodeName = [],
         pod_Containers = translateContainers (pod_Containers source),
         pod_Volumes = filterVolumes (pod_Volumes source) (pod_Namespace source),
         pod_ServiceAccountName = [],
         pod_AutomountServiceAccountToken = Some False,
         pod_RuntimeClassName = o_RuntimeClass opts,
         pod_NodeSelector = o_NodeSelector opts,
         pod_Deleting = False\<rparr>\<rparr>"

fun volumeRefs :: "Volume list \<Rightarrow> string \<Rightarrow> VolumeResourceRef list" where
  "volumeRefs [] sourceNS = []"
| "volumeRefs (sv # svs) sourceNS =
     (if v_Type sv \<noteq> VolumeTypeConfigMap \<and> v_Type sv \<noteq> VolumeTypeSecret
      then volumeRefs svs sourceNS
      else \<lparr>ref_Type = v_Type sv, ref_SourceName = v_Source sv, ref_SourceNamespace = sourceNS,
            ref_TargetName = sourceNS @ ''-'' @ v_Source sv\<rparr> # volumeRefs svs sourceNS)"

definition ResourceRefs :: "PodTranslation \<Rightarrow> VolumeResourceRef list" where
  "ResourceRefs t = volumeRefs (pod_Volumes (SourcePod t)) (pod_Namespace (SourcePod t))"

definition isResourceVolume :: "Volume \<Rightarrow> bool" where
  "isResourceVolume v \<longleftrightarrow> v_Type v = VolumeTypeConfigMap \<or> v_Type v = VolumeTypeSecret"

section \<open>Labels\<close>

lemma copyLabels_fmadd_lookup:
  assumes "distinct (map fst es)"
  shows "fmlookup (copyLabels es labels) k = fmlookup (fmadd (fmap_of_list es) labels) k"
  using assms
proof (induction es arbitrary: labels)
  case Nil
  then show ?case by simp
next
  case (Cons e es)
  obtain j v where e: "e = (j, v)" by (cases e)
  from Cons.prems e have notin: "map_of es j = None" by (simp add: map_of_eq_None_iff)
  from Cons e notin show ?case
    by (auto simp: fmlookup_of_list fmdom_fmap_of_list fmlookup_dom_iff split: if_splits)
qed

text \<open>
  Whatever order Go's map iteration takes, the loop that copies the source labels into
  the target map yields the same result: the union in which the labels already set win.
\<close>

lemma copyLabels_order_irrelevant:
  assumes "distinct (map fst es)" and "fmap_of_list es = pod_Labels source"
  shows "copyLabels es (trackingLabels source opts) =
         pod_Labels (TargetPod (TranslatePod source opts))"
  using copyLabels_fmadd_lookup [OF assms(1)] assms(2)
  by (simp add: TranslatePod_def fmap_ext)

lemma trackingLabels_lookup:
  "fmlookup (trackingLabels source opts) k =
     (if k = LabelManagedBy then Some LabelManagedByValue
      else if k = LabelVNodePool then Some (o_PoolName opts)
      else if k = LabelVNodeName then Some (o_VNodeName opts)
      else if k = LabelSourcePodName then Some (pod_Name source)
      else if k = LabelSourcePodNS then Some (pod_Namespace source)
      else None)"
  by (simp add: trackingLabels_def fmlookup_of_list)

text \<open>
  C30: a tenant cannot spoof the tracking labels. In the host pod the five labels have the
  values chosen by the operator, whatever labels the tenant pod carries; every other label of
  the tenant pod is copied unchanged, and no further label appears.
\<close>

theorem TranslatePod_labels:
  "fmlookup (pod_Labels (TargetPod (TranslatePod source opts))) k =
     (if k = LabelManagedBy then Some LabelManagedByValue
      else if k = LabelVNodePool then Some (o_PoolName opts)
      else if k = LabelVNodeName then Some (o_VNodeName opts)
      else if k = LabelSourcePodName then Some (pod_Name source)
      else if k = LabelSourcePodNS then Some (pod_Namespace source)
      else fmlookup (pod_Labels source) k)"
proof -
  have "k |\<in>| fmdom (trackingLabels source opts) \<longleftrightarrow>
        k \<in> {LabelManagedBy, LabelVNodePool, LabelVNodeName, LabelSourcePodName, LabelSourcePodNS}"
    by (simp add: trackingLabels_def)
  then show ?thesis
    by (simp only: TranslatePod_def PodTranslation.simps PodSpec.simps fmlookup_add
        trackingLabels_lookup) auto
qed

section \<open>Service-account tokens and volumes\<close>

lemma stripMounts_filter: "stripMounts vms = filter (\<lambda>vm. \<not> isServiceAccountMount vm) vms"
  by (induction vms) auto

lemma translateContainers_map:
  "translateContainers cs =
     map (\<lambda>c. c\<lparr>c_VolumeMounts := filter (\<lambda>vm. \<not> isServiceAccountMount vm) (c_VolumeMounts c)\<rparr>) cs"
  by (induction cs) (auto simp: stripMounts_filter)

lemma filterVolumes_map:
  "filterVolumes vs ns =
     map (\<lambda>v. if isResourceVolume v then v\<lparr>v_Source := ns @ ''-'' @ v_Source v\<rparr> else v)
       (filter (\<lambda>v. v_Type v \<noteq> VolumeTypeProjected) vs)"
  by (induction vs) (auto simp: isResourceVolume_def)

lemma volumeRefs_map:
  "volumeRefs vs ns =
     map (\<lambda>v. \<lparr>ref_Type = v_Type v, ref_SourceName = v_Source v, ref_SourceNamespace = ns,
               ref_TargetName = ns @ ''-'' @ v_Source v\<rparr>)
       (filter isResourceVolume vs)"
  by (induction vs) (auto simp: isResourceVolume_def)

text \<open>
  C13: what is stripped at the tenant boundary, exactly. The host pod has token automounting
  switched off and no service-account name, and none of its volumes is a projected (token)
  volume, the other volumes being kept in order. Its containers are those of the tenant pod,
  and each of them has exactly the mounts of the tenant container whose path is not the
  canonical token path, letter for letter; so a mount at that path with anything appended, such
  as a slash or a file below it, crosses the boundary.
\<close>

theorem TranslatePod_strips_tokens:
  fixes source opts
  defines "target \<equiv> TargetPod (TranslatePod source opts)"
    and "tokens \<equiv> ''/var/run/secrets/kubernetes.io/serviceaccount''"
  shows "pod_AutomountServiceAccountToken target = Some False \<and>
         pod_ServiceAccountName target = [] \<and>
         map v_Name (pod_Volumes target) =
           map v_Name (filter (\<lambda>v. v_Type v \<noteq> ''projected'') (pod_Volumes source)) \<and>
         list_all (\<lambda>v. v_Type v \<noteq> ''projected'') (pod_Volumes target) \<and>
         list_all2 (\<lambda>c c'. c_Name c' = c_Name c \<and>
             c_VolumeMounts c' = filter (\<lambda>vm. MountPath vm \<noteq> tokens) (c_VolumeMounts c) \<and>
             {vm \<in> set (c_VolumeMounts c). \<exists>x xs. MountPath vm = tokens @ x # xs} \<subseteq> set (c_VolumeMounts c'))
           (pod_Containers source) (pod_Containers target)"
  unfolding target_def tokens_def
  by (auto simp: TranslatePod_def translateContainers_map filterVolumes_map list_all_iff isResourceVolume_def
      isServiceAccountMount_def list_all2_conv_all_nth)

text \<open>
  Apart from the stripped token mounts the workload itself is preserved: the host pod has
  the same containers in the same order, each with the same name, image, command, arguments,
  environment and resources, and with exactly the mounts that are not token mounts.
\<close>

lemma TranslatePod_containers:
  "pod_Containers (TargetPod (TranslatePod source opts)) =
     map (\<lambda>c. c\<lparr>c_VolumeMounts := filter (\<lambda>vm. \<not> isServiceAccountMount vm) (c_VolumeMounts c)\<rparr>)
       (pod_Containers source)"
  by (simp add: TranslatePod_def translateContainers_map)

text \<open>
  C31: the volumes of the host pod and the list of objects to synchronise agree. The ConfigMap
  and Secret volumes of the host pod, in order, name exactly the target objects that
  \<open>ResourceRefs\<close> returns, with the same type, and each of these refers to an object in the
  namespace of the tenant pod.
\<close>

theorem ResourceRefs_cover_volumes:
  fixes source opts
  defines "t \<equiv> TranslatePod source opts"
  shows "map (\<lambda>v. (v_Type v, v_Source v)) (filter isResourceVolume (pod_Volumes (TargetPod t))) =
           map (\<lambda>r. (ref_Type r, ref_TargetName r)) (ResourceRefs t) \<and>
         list_all (\<lambda>r. ref_SourceNamespace r = pod_Namespace source \<and>
           ref_TargetName r = pod_Namespace source @ ''-'' @ ref_SourceName r) (ResourceRefs t)"
proof -
  have "filter isResourceVolume (pod_Volumes (TargetPod t)) =
        map (\<lambda>v. v\<lparr>v_Source := pod_Namespace source @ ''-'' @ v_Source v\<rparr>)
          (filter isResourceVolume (pod_Volumes source))"
  proof -
    have "filter isResourceVolume (filterVolumes vs ns) =
          map (\<lambda>v. v\<lparr>v_Source := ns @ ''-'' @ v_Source v\<rparr>) (filter isResourceVolume vs)" for vs ns
      by (induction vs) (auto simp: isResourceVolume_def)
    then show ?thesis by (simp add: t_def TranslatePod_def)
  qed
  then show ?thesis
    by (simp add: t_def TranslatePod_def ResourceRefs_def volumeRefs_map list_all_iff comp_def)
qed

section \<open>Host names\<close>

text \<open>
  C40: for namespaces without a dash the host pod name identifies the tenant pod: two tenant
  pods on the same virtual node with the same host name have the same namespace and name.
\<close>

theorem TranslatePod_name_inject:
  assumes "CHR ''-'' \<notin> set (pod_Namespace a)" and "CHR ''-'' \<notin> set (pod_Namespace b)"
    and "pod_Name (TargetPod (TranslatePod a opts)) = pod_Name (TargetPod (TranslatePod b opts))"
  shows "pod_Namespace a = pod_Namespace b \<and> pod_Name a = pod_Name b"
  using assms append_sep_inject [of "CHR ''-''" "pod_Namespace a" "pod_Namespace b"]
  by (simp add: TranslatePod_def)

text \<open>
  C39: with a dash in the namespace the host name is ambiguous. For all \<open>x\<close>, \<open>y\<close>, \<open>z\<close>, the
  pod \<open>z\<close> of namespace \<open>x-y\<close> and the pod \<open>y-z\<close> of namespace \<open>x\<close> are translated to
  the same host pod name in the same host namespace, and a Secret or ConfigMap \<open>z\<close> of the
  first namespace and \<open>y-z\<close> of the second are synchronised to the same host object.
\<close>

theorem TranslatePod_name_collision:
  fixes source opts x y z
  defines "a \<equiv> source\<lparr>pod_Namespace := x @ ''-'' @ y, pod_Name := z\<rparr>"
    and "b \<equiv> source\<lparr>pod_Namespace := x, pod_Name := y @ ''-'' @ z\<rparr>"
  shows "pod_Name (TargetPod (TranslatePod a opts)) = pod_Name (TargetPod (TranslatePod b opts)) \<and>
         pod_Namespace (TargetPod (TranslatePod a opts)) =
           pod_Namespace (TargetPod (TranslatePod b opts)) \<and>
         filterVolumes [\<lparr>v_Name = n, v_Type = VolumeTypeSecret, v_Source = z\<rparr>] (pod_Namespace a) =
           filterVolumes [\<lparr>v_Name = n, v_Type = VolumeTypeSecret, v_Source = y @ ''-'' @ z\<rparr>]
             (pod_Namespace b)"
  by (simp add: a_def b_def TranslatePod_def)

end
