(* ===== verification/Ports.thy ===== *)
theory Ports
  imports Pod_Model
begin

text \<open>
  The ports of the hexagonal architecture (\<open>internal/domain/ports\<close>): each Go interface is a
  record of operations over a state of type \<open>'s\<close>, which holds whatever the providers of the
  ports read and write (clusters, caches). A method that returns an error only has result
  \<open>unit res\<close>; a method that returns a value next to an error keeps both.

  The locales state what the providers promise to the domain services. \<open>node_repository\<close> is
  the contract of \<open>ports.NodeRepository\<close> over an abstraction \<open>nodes\<close> of the stored nodes:
  an operation that succeeds has exactly its documented effect, and one that fails leaves
  every other node alone. \<open>registrar_frame\<close> is what the services rely on from
  \<open>ports.NodeRegistrar\<close>: talking to the tenant cluster does not change the stored nodes.
\<close>

section \<open>Outbound ports\<close>

record 's PoolRepository =
  pr_Get :: "string \<Rightarrow> string \<Rightarrow> 's \<Rightarrow> VNodePool res \<times> 's"
  pr_Save :: "VNodePool \<Rightarrow> 's \<Rightarrow> unit res \<times> 's"
  pr_List :: "'s \<Rightarrow> VNodePool list res \<times> 's"

record 's NodeRepository =
  repo_Get :: "string \<Rightarrow> string \<Rightarrow> 's \<Rightarrow> VNode res \<times> 's"
  repo_Save :: "VNode \<Rightarrow> 's \<Rightarrow> unit res \<times> 's"
  repo_Delete :: "string \<Rightarrow> string \<Rightarrow> 's \<Rightarrow> unit res \<times> 's"
  repo_ListByPool :: "string \<Rightarrow> string \<Rightarrow> 's \<Rightarrow> VNode list res \<times> 's"

record 's NodeRegistrar =
  reg_Register :: "VNode \<Rightarrow> TenantRef \<Rightarrow> 's \<Rightarrow> unit res \<times> 's"
  reg_Deregister :: "VNode \<Rightarrow> TenantRef \<Rightarrow> 's \<Rightarrow> unit res \<times> 's"
  reg_UpdateNodeStatus :: "VNode \<Rightarrow> TenantRef \<Rightarrow> 's \<Rightarrow> unit res \<times> 's"

record 's ClusterClient =
  cc_CreatePod :: "PodSpec \<Rightarrow> 's \<Rightarrow> unit res \<times> 's"
  cc_UpdatePod :: "PodSpec \<Rightarrow> 's \<Rightarrow> unit res \<times> 's"
  cc_DeletePod :: "string \<Rightarrow> string \<Rightarrow> 's \<Rightarrow> unit res \<times> 's"
  cc_GetPod :: "string \<Rightarrow> string \<Rightarrow> 's \<Rightarrow> PodSpec res \<times> 's"
  cc_GetPodStatus :: "string \<Rightarrow> string \<Rightarrow> 's \<Rightarrow> PodStatus res \<times> 's"
  cc_ListPodsByLabels :: "string \<Rightarrow> smap \<Rightarrow> 's \<Rightarrow> PodSpec list res \<times> 's"
  cc_EnsureConfigMap ::
    "string \<Rightarrow> string \<Rightarrow> smap \<Rightarrow> (string, bytes) fmap \<Rightarrow> smap \<Rightarrow> 's \<Rightarrow> unit res \<times> 's"
  cc_EnsureSecret :: "string \<Rightarrow> string \<Rightarrow> (string, bytes) fmap \<Rightarrow> smap \<Rightarrow> 's \<Rightarrow> unit res \<times> 's"

record IsolationRuntime =
  rt_RuntimeClassName :: string
  rt_Validate :: "unit res"

record 's KubeconfigResolver =
  kr_Resolve :: "string \<Rightarrow> string \<Rightarrow> 's \<Rightarrow> bytes res \<times> 's"

section \<open>Inbound ports\<close>

record 's PoolManager =
  pm_Reconcile :: "VNodePool \<Rightarrow> 's \<Rightarrow> (VNodePool \<times> goerr option) \<times> 's"

record 's NodeLifecycle =
  lc_Provision :: "VNodePool \<Rightarrow> 's \<Rightarrow> (VNode \<times> goerr option) \<times> 's"
  lc_Deprovision :: "VNode \<Rightarrow> 's \<Rightarrow> unit res \<times> 's"
  lc_UpdateStatus :: "VNode \<Rightarrow> 's \<Rightarrow> unit res \<times> 's"

record PodTranslator =
  tr_Translate :: "PodSpec \<Rightarrow> VNodePool \<Rightarrow> string \<Rightarrow> PodTranslation res"
  tr_SyncStatus :: "PodStatus \<Rightarrow> PodStatus res"

section \<open>The stored form of a node\<close>

text \<open>
  \<open>saved_node old n v\<close>: saving \<open>n\<close> where \<open>old\<close> was stored leaves \<open>v\<close>. Identity, tenant
  reference, phase and conditions are those of \<open>n\<close>; the pool and the capacity are fixed when
  the node is first stored.
\<close>

definition saved_node :: "VNode option \<Rightarrow> VNode \<Rightarrow> VNode \<Rightarrow> bool" where
  "saved_node old n v \<longleftrightarrow>
     nkey v = nkey n \<and> n_TenantRef v = n_TenantRef n \<and> n_Phase v = n_Phase n \<and>
     n_Conditions v = n_Conditions n \<and>
     n_PoolName v = (case old of None \<Rightarrow> n_PoolName n | Some w \<Rightarrow> n_PoolName w) \<and>
     n_Capacity v = (case old of None \<Rightarrow> n_Capacity n | Some w \<Rightarrow> n_Capacity w)"

text \<open>
  \<open>touched_node old n ov\<close>: what a failed save of \<open>n\<close> may leave. A stored node stays stored
  and stays in its pool; a node that was not stored may have been created half-way.
\<close>

definition touched_node :: "VNode option \<Rightarrow> VNode \<Rightarrow> VNode option \<Rightarrow> bool" where
  "touched_node old n ov \<longleftrightarrow>
     (case ov of
        None \<Rightarrow> old = None
      | Some v \<Rightarrow> nkey v = nkey n \<and>
          n_PoolName v = (case old of None \<Rightarrow> n_PoolName n | Some w \<Rightarrow> n_PoolName w))"

definition pool_nodes :: "(objkey \<Rightarrow> VNode option) \<Rightarrow> string \<Rightarrow> string \<Rightarrow> objkey set" where
  "pool_nodes f ns p = {k. \<exists>v. f k = Some v \<and> key_ns k = ns \<and> n_PoolName v = p}"

text \<open>
  The name of the node with a given index (\<open>displayName\<close>, or the pool name when unset).
\<close>

definition nodeName :: "VNodePool \<Rightarrow> nat \<Rightarrow> string" where
  "nodeName pool i =
     ''vnode-'' @ (if p_DisplayName pool = [] then p_Name pool else p_DisplayName pool) @ ''-'' @ itoa i"

definition pool_size :: "(objkey \<Rightarrow> VNode option) \<Rightarrow> VNodePool \<Rightarrow> nat" where
  "pool_size f pool = card (pool_nodes f (p_Namespace pool) (p_Name pool))"

section \<open>The contract of the node repository\<close>

locale node_repository =
  fixes repo :: "'s NodeRepository"
    and nodes :: "'s \<Rightarrow> objkey \<Rightarrow> VNode option"
    and invar :: "'s \<Rightarrow> bool"
  assumes stored_key: "invar s \<Longrightarrow> nodes s k = Some v \<Longrightarrow> nkey v = k"
    and List_ok: "invar s \<Longrightarrow> repo_ListByPool repo ns p s = (Inr xs, s') \<Longrightarrow>
      invar s' \<and> nodes s' = nodes s \<and> distinct (map nkey xs) \<and>
      set xs = {v. nodes s (nkey v) = Some v \<and> n_Namespace v = ns \<and> n_PoolName v = p}"
    and List_err: "invar s \<Longrightarrow> repo_ListByPool repo ns p s = (Inl e, s') \<Longrightarrow>
      invar s' \<and> nodes s' = nodes s"
    and Save_ok: "invar s \<Longrightarrow> repo_Save repo n s = (Inr u, s') \<Longrightarrow>
      invar s' \<and> (\<exists>v. nodes s' = (nodes s)(nkey n \<mapsto> v) \<and> saved_node (nodes s (nkey n)) n v)"
    and Save_err: "invar s \<Longrightarrow> repo_Save repo n s = (Inl e, s') \<Longrightarrow>
      invar s' \<and> (\<exists>ov. nodes s' = (nodes s)(nkey n := ov) \<and> touched_node (nodes s (nkey n)) n ov)"
    and Delete_ok: "invar s \<Longrightarrow> repo_Delete repo ns nm s = (Inr u, s') \<Longrightarrow>
      invar s' \<and> nodes s' = (nodes s)(ObjKey ns nm := None)"
    and Delete_err: "invar s \<Longrightarrow> repo_Delete repo ns nm s = (Inl e, s') \<Longrightarrow>
      invar s' \<and> nodes s' = nodes s"
begin

lemmas repository_laws = List_ok List_err Save_ok Save_err Delete_ok Delete_err

lemma List_keys:
  assumes "invar s" and "repo_ListByPool repo ns p s = (Inr xs, s')"
  shows "nkey ` set xs = pool_nodes (nodes s) ns p"
proof -
  have "k \<in> nkey ` set xs \<longleftrightarrow> k \<in> pool_nodes (nodes s) ns p" for k
    using List_ok [OF assms] stored_key [OF assms(1), of k]
    by (cases k) (force simp: pool_nodes_def image_iff nkey_def)
  then show ?thesis by blast
qed

lemma List_length:
  assumes "invar s" and "repo_ListByPool repo ns p s = (Inr xs, s')"
  shows "length xs = card (pool_nodes (nodes s) ns p) \<and> finite (pool_nodes (nodes s) ns p)"
proof -
  have "distinct (map nkey xs)" using List_ok [OF assms] by simp
  then have "card (set (map nkey xs)) = length (map nkey xs)" by (rule distinct_card)
  with List_keys [OF assms] show ?thesis
    by (metis finite_imageI List.finite_set length_map list.set_map)
qed

lemma Save_touched:
  assumes "invar s" and "repo_Save repo n s = (r, s')"
  shows "invar s' \<and> (\<exists>ov. nodes s' = (nodes s)(nkey n := ov) \<and> touched_node (nodes s (nkey n)) n ov)"
proof (cases r)
  case (Inl e)
  with assms Save_err show ?thesis by blast
next
  case (Inr u)
  with Save_ok [of s n u s'] assms show ?thesis
    by (fastforce simp: saved_node_def touched_node_def)
qed

end

section \<open>The frame contract of the registrar\<close>

locale registrar_frame =
  fixes reg :: "'s NodeRegistrar"
    and nodes :: "'s \<Rightarrow> objkey \<Rightarrow> VNode option"
    and invar :: "'s \<Rightarrow> bool"
  assumes Register_frame: "invar s \<Longrightarrow> reg_Register reg n t s = (r, s') \<Longrightarrow>
      invar s' \<and> nodes s' = nodes s"
    and Deregister_frame: "invar s \<Longrightarrow> reg_Deregister reg n t s = (r, s') \<Longrightarrow>
      invar s' \<and> nodes s' = nodes s"
    and UpdateNodeStatus_frame: "invar s \<Longrightarrow> reg_UpdateNodeStatus reg n t s = (r, s') \<Longrightarrow>
      invar s' \<and> nodes s' = nodes s"

section \<open>The contract of the node lifecycle\<close>

text \<open>
  \<open>node_lifecycle\<close> is what the pool service relies on from \<open>ports.NodeLifecycle\<close>:
  provisioning stores the node whose index is one more than the number of nodes of the pool,
  and deprovisioning removes exactly the given node.
\<close>

locale node_lifecycle =
  fixes svc :: "'s NodeLifecycle"
    and nodes :: "'s \<Rightarrow> objkey \<Rightarrow> VNode option"
    and invar :: "'s \<Rightarrow> bool"
  assumes Provision_ok: "invar s \<Longrightarrow> lc_Provision svc pool s = ((n, None), s') \<Longrightarrow>
      invar s' \<and> n_Phase n = NodePhaseReady \<and> n_PoolName n = p_Name pool \<and> n_TenantRef n = p_TenantRef pool \<and>
      nkey n = ObjKey (p_Namespace pool) (nodeName pool (pool_size (nodes s) pool + 1)) \<and>
      (\<exists>v. nodes s' = (nodes s)(nkey n \<mapsto> v) \<and> saved_node (nodes s (nkey n)) n v)"
    and Provision_err: "invar s \<Longrightarrow> lc_Provision svc pool s = ((n, Some e), s') \<Longrightarrow>
      invar s' \<and> (nodes s' = nodes s \<or>
        (\<exists>m ov. nkey m = ObjKey (p_Namespace pool) (nodeName pool (pool_size (nodes s) pool + 1)) \<and>
          n_PoolName m = p_Name pool \<and>
          nodes s' = (nodes s)(nkey m := ov) \<and> touched_node (nodes s (nkey m)) m ov))"
    and Deprovision_ok: "invar s \<Longrightarrow> lc_Deprovision svc n s = (Inr u, s') \<Longrightarrow>
      invar s' \<and> nodes s' = (nodes s)(nkey n := None)"
    and Deprovision_err: "invar s \<Longrightarrow> lc_Deprovision svc n s = (Inl e, s') \<Longrightarrow>
      invar s' \<and> (\<exists>ov. nodes s' = (nodes s)(nkey n := ov) \<and> touched_node (nodes s (nkey n)) n ov)"

section \<open>Lemmas on the stored form\<close>

lemma touched_node_trans:
  assumes "touched_node old n ov" and "touched_node ov n ov'"
    and "n_PoolName m = n_PoolName n" and "nkey m = nkey n"
  shows "touched_node old m ov'"
  using assms by (auto simp: touched_node_def split: option.splits)

lemma pool_nodes_upd_None: "pool_nodes (f(k := None)) ns p = pool_nodes f ns p - {k}"
  by (auto simp: pool_nodes_def)

lemma pool_nodes_upd_Some:
  "pool_nodes (f(k \<mapsto> v)) ns p =
     (if key_ns k = ns \<and> n_PoolName v = p then insert k (pool_nodes f ns p)
      else pool_nodes f ns p - {k})"
  by (auto simp: pool_nodes_def)

end
