(* ===== verification/Node_Repository.thy ===== *)
theory Node_Repository
  imports Ports Kube_API
begin

text \<open>
  The repository adapter for nodes (\<open>NodeRepository\<close> in
  \<open>internal/adapter/outbound/kubeclient/client.go\<close>): virtual nodes are stored as VNode custom
  resources.

  The operations take the client for VNode objects, the retry helper of \<open>client-go\<close> and the
  clock as parameters. The result of the theory is that the adapter fulfils the contract
  \<open>node_repository\<close> of the port whenever the client behaves as documented; the invariant is
  that the pool label of a stored object agrees with its pool reference.
\<close>

section \<open>Conversions\<close>

abbreviation annotationVClusterName :: string
  where "annotationVClusterName \<equiv> ''vnode.kroderdev.io/vcluster-name''"
abbreviation annotationVClusterNamespace :: string
  where "annotationVClusterNamespace \<equiv> ''vnode.kroderdev.io/vcluster-namespace''"
abbreviation annotationKubeconfigSecret :: string
  where "annotationKubeconfigSecret \<equiv> ''vnode.kroderdev.io/kubeconfig-secret''"

definition isIgnorableClientError :: "goerr \<Rightarrow> bool" where
  "isIgnorableClientError err \<longleftrightarrow> errors_Is err Canceled \<or> errors_Is err DeadlineExceeded"

definition conditionToModel :: "Condition \<Rightarrow> NodeCondition" where
  "conditionToModel c =
     \<lparr>nc_Type = mc_Type c, nc_Status = (mc_Status c = ConditionTrue),
      nc_Reason = mc_Reason c, nc_Message = mc_Message c\<rparr>"

definition conditionFromModel :: "int \<Rightarrow> NodeCondition \<Rightarrow> Condition" where
  "conditionFromModel now c =
     \<lparr>mc_Type = nc_Type c, mc_Status = (if nc_Status c then ConditionTrue else ConditionFalse),
      mc_Reason = nc_Reason c, mc_Message = nc_Message c, mc_LastTransitionTime = now\<rparr>"

definition resourcesToModel :: "NodeResources \<Rightarrow> ResourceList" where
  "resourcesToModel r = \<lparr>CPU = nr_CPU r, Memory = nr_Memory r, Pods = nr_Pods r\<rparr>"

definition resourcesFromModel :: "ResourceList \<Rightarrow> NodeResources" where
  "resourcesFromModel r = \<lparr>nr_CPU = CPU r, nr_Memory = Memory r, nr_Pods = Pods r\<rparr>"

definition crToNode :: "VNodeCR \<Rightarrow> VNode" where
  "crToNode cr =
     \<lparr>n_ID = om_UID (vn_Meta cr),
      n_Name = om_Name (vn_Meta cr),
      n_Namespace = om_Namespace (vn_Meta cr),
      n_PoolName = PoolRef (vn_Spec cr),
      n_TenantRef =
        \<lparr>VClusterName = mget (om_Annotations (vn_Meta cr)) annotationVClusterName,
         VClusterNamespace = mget (om_Annotations (vn_Meta cr)) annotationVClusterNamespace,
         KubeconfigSecret = mget (om_Annotations (vn_Meta cr)) annotationKubeconfigSecret\<rparr>,
      n_Taints = [],
      n_Phase = vs_Phase (vn_Status cr),
      n_Capacity = resourcesToModel (Capacity (vn_Spec cr)),
      n_Allocatable = resourcesToModel (Capacity (vn_Spec cr)),
      n_Conditions = map conditionToModel (vs_Conditions (vn_Status cr))\<rparr>"

definition applyNodeStatus :: "int \<Rightarrow> VNodeCR \<Rightarrow> VNode \<Rightarrow> VNodeCR" where
  "applyNodeStatus now cr node =
     cr\<lparr>vn_Status := \<lparr>vs_Phase = n_Phase node,
                      vs_Conditions = map (conditionFromModel now) (n_Conditions node)\<rparr>\<rparr>"

definition annotate :: "VNode \<Rightarrow> smap \<Rightarrow> smap" where
  "annotate node annotations =
     fmupd annotationKubeconfigSecret (KubeconfigSecret (n_TenantRef node))
       (fmupd annotationVClusterNamespace (VClusterNamespace (n_TenantRef node))
         (fmupd annotationVClusterName (VClusterName (n_TenantRef node)) annotations))"

definition newVNodeCR :: "VNode \<Rightarrow> VNodeCR" where
  "newVNodeCR node =
     \<lparr>vn_Meta = emptyMeta\<lparr>om_Name := n_Name node, om_Namespace := n_Namespace node,
                         om_Labels := fmupd LabelVNodePool (n_PoolName node) fmempty,
                         om_Annotations := annotate node fmempty\<rparr>,
      vn_Spec = \<lparr>PoolRef = n_PoolName node, Capacity = resourcesFromModel (n_Capacity node)\<rparr>,
      vn_Status = \<lparr>vs_Phase = [], vs_Conditions = []\<rparr>\<rparr>"

section \<open>Operations\<close>

definition NodeRepository_Get ::
  "(VNodeCR, 'w) objclient \<Rightarrow> string \<Rightarrow> string \<Rightarrow> 'w \<Rightarrow> VNode res \<times> 'w"
where
  "NodeRepository_Get cl namespace name w =
     (case oc_Get cl (ObjKey namespace name) w of
        (Inl err, w) \<Rightarrow> (Inl err, w)
      | (Inr cr, w) \<Rightarrow> (Inr (crToNode cr), w))"

definition tryUpdateStatus ::
  "(VNodeCR, 'w) objclient \<Rightarrow> ('w \<Rightarrow> int) \<Rightarrow> VNode \<Rightarrow> 'w \<Rightarrow> unit res \<times> 'w"
where
  "tryUpdateStatus cl now node w =
     (case oc_Get cl (nkey node) w of
        (Inl err, w) \<Rightarrow> if isIgnorableClientError err then (Inr (), w) else (Inl err, w)
      | (Inr current, w) \<Rightarrow>
          (case oc_UpdateStatus cl (applyNodeStatus (now w) current node) w of
             (Inl err, w) \<Rightarrow> if isIgnorableClientError err then (Inr (), w) else (Inl err, w)
           | (Inr _, w) \<Rightarrow> (Inr (), w)))"

definition NodeRepository_updateStatus ::
  "(VNodeCR, 'w) objclient \<Rightarrow> 'w retrier \<Rightarrow> ('w \<Rightarrow> int) \<Rightarrow> VNode \<Rightarrow> 'w \<Rightarrow> unit res \<times> 'w"
where
  "NodeRepository_updateStatus cl retry now node = retry (tryUpdateStatus cl now node)"

definition tryAnnotate :: "(VNodeCR, 'w) objclient \<Rightarrow> VNode \<Rightarrow> 'w \<Rightarrow> unit res \<times> 'w" where
  "tryAnnotate cl node w =
     (case oc_Get cl (nkey node) w of
        (Inl err, w) \<Rightarrow> (Inl err, w)
      | (Inr current, w) \<Rightarrow>
          oc_Update cl
            (current\<lparr>vn_Meta := (vn_Meta current)
               \<lparr>om_Annotations := annotate node (om_Annotations (vn_Meta current))\<rparr>\<rparr>) w)"

definition NodeRepository_Save ::
  "(VNodeCR, 'w) objclient \<Rightarrow> 'w retrier \<Rightarrow> ('w \<Rightarrow> int) \<Rightarrow> VNode \<Rightarrow> 'w \<Rightarrow> unit res \<times> 'w"
where
  "NodeRepository_Save cl retry now node w =
     (case oc_Get cl (nkey node) w of
        (Inl err, w) \<Rightarrow>
          if \<not> IsNotFound err then (Inl err, w)
          else
            (case oc_Create cl (newVNodeCR node) w of
               (Inl createErr, w) \<Rightarrow> (Inl (Wrap ''creating VNode CR'' createErr), w)
             | (Inr cr, w) \<Rightarrow>
                 (case oc_UpdateStatus cl (applyNodeStatus (now w) cr node) w of
                    (Inl err, w) \<Rightarrow>
                      if IsConflict err \<or> IsNotFound err
                      then NodeRepository_updateStatus cl retry now node w
                      else (Inl err, w)
                  | (Inr _, w) \<Rightarrow> (Inr (), w)))
      | (Inr cr, w) \<Rightarrow>
          (case retry (tryAnnotate cl node) w of
             (Inl err, w) \<Rightarrow> if isIgnorableClientError err then (Inr (), w) else (Inl err, w)
           | (Inr _, w) \<Rightarrow> NodeRepository_updateStatus cl retry now node w))"

definition NodeRepository_Delete ::
  "(VNodeCR, 'w) objclient \<Rightarrow> string \<Rightarrow> string \<Rightarrow> 'w \<Rightarrow> unit res \<times> 'w"
where
  "NodeRepository_Delete cl namespace name w = oc_Delete cl (ObjKey namespace name) w"

definition NodeRepository_ListByPool ::
  "(VNodeCR, 'w) objclient \<Rightarrow> string \<Rightarrow> string \<Rightarrow> 'w \<Rightarrow> VNode list res \<times> 'w"
where
  "NodeRepository_ListByPool cl namespace poolName w =
     (case oc_List cl (Some namespace) (fmupd LabelVNodePool poolName fmempty) w of
        (Inl err, w) \<Rightarrow> (Inl err, w)
      | (Inr items, w) \<Rightarrow> (Inr (map crToNode items), w))"

definition NewNodeRepository ::
  "(VNodeCR, 'w) objclient \<Rightarrow> 'w retrier \<Rightarrow> ('w \<Rightarrow> int) \<Rightarrow> 'w NodeRepository"
where
  "NewNodeRepository cl retry now =
     \<lparr>repo_Get = NodeRepository_Get cl,
      repo_Save = NodeRepository_Save cl retry now,
      repo_Delete = NodeRepository_Delete cl,
      repo_ListByPool = NodeRepository_ListByPool cl\<rparr>"

section \<open>What the server stores for a VNode\<close>

text \<open>
  A new object gets its identity and creation time from the server and has an empty status;
  an update keeps the stored status and creation data; a status update keeps everything
  else; a VNode has no finalizer, so deletion removes it.
\<close>

definition vnode_created :: "VNodeCR \<Rightarrow> VNodeCR \<Rightarrow> bool" where
  "vnode_created x y \<longleftrightarrow>
     (\<exists>uid ts. y = x\<lparr>vn_Meta := (vn_Meta x)\<lparr>om_UID := uid, om_CreationTimestamp := ts\<rparr>,
                     vn_Status := \<lparr>vs_Phase = [], vs_Conditions = []\<rparr>\<rparr>)"

definition vnode_upd :: "VNodeCR \<Rightarrow> VNodeCR \<Rightarrow> VNodeCR" where
  "vnode_upd old x =
     x\<lparr>vn_Meta := (vn_Meta x)\<lparr>om_UID := om_UID (vn_Meta old),
                               om_CreationTimestamp := om_CreationTimestamp (vn_Meta old)\<rparr>,
       vn_Status := vn_Status old\<rparr>"

definition vnode_upds :: "VNodeCR \<Rightarrow> VNodeCR \<Rightarrow> VNodeCR" where
  "vnode_upds old x = old\<lparr>vn_Status := vn_Status x\<rparr>"

definition vnode_gone :: "VNodeCR \<Rightarrow> VNodeCR option" where
  "vnode_gone x = None"

definition stored_nodes :: "('w \<Rightarrow> objkey \<Rightarrow> VNodeCR option) \<Rightarrow> 'w \<Rightarrow> objkey \<Rightarrow> VNode option" where
  "stored_nodes objs w k = map_option crToNode (objs w k)"

definition labels_agree :: "('w \<Rightarrow> objkey \<Rightarrow> VNodeCR option) \<Rightarrow> 'w \<Rightarrow> bool" where
  "labels_agree objs w \<longleftrightarrow>
     (\<forall>k cr. objs w k = Some cr \<longrightarrow>
        fmlookup (om_Labels (vn_Meta cr)) LabelVNodePool = Some (PoolRef (vn_Spec cr)))"

definition withAnnotations :: "VNode \<Rightarrow> VNodeCR \<Rightarrow> VNodeCR" where
  "withAnnotations node cr =
     cr\<lparr>vn_Meta := (vn_Meta cr)\<lparr>om_Annotations := annotate node (om_Annotations (vn_Meta cr))\<rparr>\<rparr>"

section \<open>Round trips\<close>

lemma condition_roundtrip [simp]: "conditionToModel (conditionFromModel now c) = c"
  by (simp add: conditionToModel_def conditionFromModel_def)

lemma resources_roundtrip [simp]: "resourcesToModel (resourcesFromModel r) = r"
  by (simp add: resourcesToModel_def resourcesFromModel_def)

lemma annotate_get [simp]:
  "mget (annotate node a) annotationVClusterName = VClusterName (n_TenantRef node)"
  "mget (annotate node a) annotationVClusterNamespace = VClusterNamespace (n_TenantRef node)"
  "mget (annotate node a) annotationKubeconfigSecret = KubeconfigSecret (n_TenantRef node)"
  by (simp_all add: annotate_def)

lemma crToNode_key [simp]: "nkey (crToNode cr) = om_key (vn_Meta cr)"
  by (simp add: crToNode_def nkey_def om_key_def)

lemma newVNodeCR_key [simp]: "om_key (vn_Meta (newVNodeCR node)) = nkey node"
  by (simp add: newVNodeCR_def om_key_def nkey_def emptyMeta_def)

lemma isIgnorableClientError_iff [simp]: "isIgnorableClientError e \<longleftrightarrow> isContextError e"
  by (simp add: isIgnorableClientError_def isContextError_def)

lemma stored_forms [simp]:
  "om_key (vn_Meta (applyNodeStatus t cr node)) = om_key (vn_Meta cr)"
  "om_key (vn_Meta (withAnnotations node cr)) = om_key (vn_Meta cr)"
  "vnode_upds cr (applyNodeStatus t cr node) = applyNodeStatus t cr node"
  "vnode_upd cr (withAnnotations node cr) = withAnnotations node cr"
  by (simp_all add: applyNodeStatus_def withAnnotations_def vnode_upds_def vnode_upd_def)

lemma saved_existing:
  "om_key (vn_Meta cr) = nkey node \<Longrightarrow>
     saved_node (Some (crToNode cr)) node (crToNode (applyNodeStatus t (withAnnotations node cr) node))"
  by (simp add: saved_node_def crToNode_def applyNodeStatus_def withAnnotations_def comp_def
      nkey_def om_key_def)

lemma saved_new:
  "vnode_created (newVNodeCR node) cr \<Longrightarrow>
     saved_node None node (crToNode (applyNodeStatus t cr node))"
  by (auto simp: saved_node_def vnode_created_def crToNode_def applyNodeStatus_def newVNodeCR_def
      emptyMeta_def comp_def nkey_def om_key_def)

lemma created_form:
  assumes "vnode_created (newVNodeCR node) cr"
  shows "om_key (vn_Meta cr) = nkey node \<and> PoolRef (vn_Spec cr) = n_PoolName node \<and>
         fmlookup (om_Labels (vn_Meta cr)) LabelVNodePool = Some (PoolRef (vn_Spec cr))"
  using assms by (auto simp: vnode_created_def newVNodeCR_def om_key_def nkey_def emptyMeta_def)

lemma labels_agree_upd:
  assumes "labels_agree objs w" and "objs w' = (objs w)(k := ocr)"
    and "\<And>cr. ocr = Some cr \<Longrightarrow>
           fmlookup (om_Labels (vn_Meta cr)) LabelVNodePool = Some (PoolRef (vn_Spec cr))"
  shows "labels_agree objs w'"
  using assms by (auto simp: labels_agree_def split: if_splits)

lemma stored_nodes_upd:
  "objs w' = (objs w)(k := ocr) \<Longrightarrow>
     stored_nodes objs w' = (stored_nodes objs w)(k := map_option crToNode ocr)"
  by (auto simp: stored_nodes_def fun_eq_iff)

lemma same_pool_and_labels [simp]:
  "PoolRef (vn_Spec (applyNodeStatus t cr node)) = PoolRef (vn_Spec cr)"
  "PoolRef (vn_Spec (withAnnotations node cr)) = PoolRef (vn_Spec cr)"
  "om_Labels (vn_Meta (applyNodeStatus t cr node)) = om_Labels (vn_Meta cr)"
  "om_Labels (vn_Meta (withAnnotations node cr)) = om_Labels (vn_Meta cr)"
  by (simp_all add: applyNodeStatus_def withAnnotations_def)

lemma crToNode_pool [simp]: "n_PoolName (crToNode cr) = PoolRef (vn_Spec cr)"
  by (simp add: crToNode_def)

section \<open>The adapter fulfils the contract of the port\<close>

locale vnode_store =
  object_api cl objs "\<lambda>cr. om_key (vn_Meta cr)" "\<lambda>cr. om_Labels (vn_Meta cr)"
    vnode_created "\<lambda>old x. Some (vnode_upd old x)" vnode_upds vnode_gone +
  retry_on_conflict retry
  for cl :: "(VNodeCR, 'w) objclient"
    and objs :: "'w \<Rightarrow> objkey \<Rightarrow> VNodeCR option"
    and retry :: "'w retrier" +
  fixes now :: "'w \<Rightarrow> int"
begin

lemma tryUpdateStatus_ok:
  assumes "tryUpdateStatus cl now node w = (Inr u, w')"
  shows "\<exists>cr t. objs w (nkey node) = Some cr \<and> objs w' = (objs w)(nkey node \<mapsto> applyNodeStatus t cr node)"
proof -
  obtain cr w1 where g: "oc_Get cl (nkey node) w = (Inr cr, w1)"
    using assms Get_err by (fastforce simp: tryUpdateStatus_def split: prod.splits sum.splits if_splits)
  note g' = Get_ok [OF g]
  have st: "oc_UpdateStatus cl (applyNodeStatus (now w1) cr node) w1 = (Inr (), w')"
    using assms g UpdateStatus_err by (fastforce simp: tryUpdateStatus_def split: prod.splits sum.splits if_splits)
  have k: "om_key (vn_Meta cr) = nkey node" using g' objs_key by blast
  show ?thesis
    using UpdateStatus_ok [OF st] g' k by (intro exI [of _ cr] exI [of _ "now w1"]) auto
qed

lemma tryUpdateStatus_err:
  assumes "tryUpdateStatus cl now node w = (Inl e, w')"
  shows "objs w' = objs w"
  using assms Get_ok Get_err UpdateStatus_err UpdateStatus_ok
  by (fastforce simp: tryUpdateStatus_def split: prod.splits sum.splits if_splits)

lemma updateStatus_effect:
  assumes "NodeRepository_updateStatus cl retry now node w = (r, w')"
  shows "case r of Inl e \<Rightarrow> objs w' = objs w
         | Inr u \<Rightarrow> \<exists>cr t. objs w (nkey node) = Some cr \<and>
             objs w' = (objs w)(nkey node \<mapsto> applyNodeStatus t cr node)"
proof -
  obtain v where v: "objs v = objs w" "retry (tryUpdateStatus cl now node) w = tryUpdateStatus cl now node v"
    using retry_view [of "tryUpdateStatus cl now node" objs w] tryUpdateStatus_err by metis
  with assms have "tryUpdateStatus cl now node v = (r, w')" by (simp add: NodeRepository_updateStatus_def)
  with v(1) tryUpdateStatus_ok tryUpdateStatus_err show ?thesis by (fastforce split: sum.split)
qed

lemma tryAnnotate_effect:
  assumes "tryAnnotate cl node w = (r, w')"
  shows "case r of Inl e \<Rightarrow> objs w' = objs w \<and> \<not> isContextError e
         | Inr u \<Rightarrow> \<exists>cr. objs w (nkey node) = Some cr \<and>
             objs w' = (objs w)(nkey node \<mapsto> withAnnotations node cr)"
proof (cases "oc_Get cl (nkey node) w")
  case (Pair g w1)
  show ?thesis
  proof (cases g)
    case (Inl e)
    with Pair assms Get_err [of "nkey node" w e w1] show ?thesis by (auto simp: tryAnnotate_def)
  next
    case (Inr cr)
    have g': "objs w1 = objs w" "objs w (nkey node) = Some cr" "om_key (vn_Meta cr) = nkey node"
      using Get_ok [of "nkey node" w cr w1] Pair Inr objs_key by auto
    have u: "oc_Update cl (withAnnotations node cr) w1 = (r, w')"
      using assms Pair Inr by (simp add: tryAnnotate_def withAnnotations_def)
    show ?thesis
      using u g' Update_ok [of "withAnnotations node cr" w1 _ w'] Update_err [of "withAnnotations node cr" w1 _ w']
      by (cases r) auto
  qed
qed

lemma retry_tryAnnotate_effect:
  assumes "retry (tryAnnotate cl node) w = (r, w')"
  shows "case r of Inl e \<Rightarrow> objs w' = objs w \<and> \<not> isContextError e
         | Inr u \<Rightarrow> \<exists>cr. objs w (nkey node) = Some cr \<and>
             objs w' = (objs w)(nkey node \<mapsto> withAnnotations node cr)"
proof -
  have "\<And>v e v'. tryAnnotate cl node v = (Inl e, v') \<Longrightarrow> objs v' = objs v"
    using tryAnnotate_effect by fastforce
  then obtain v where v: "objs v = objs w" "retry (tryAnnotate cl node) w = tryAnnotate cl node v"
    using retry_view [of "tryAnnotate cl node" objs w] by metis
  with assms tryAnnotate_effect [of node v r w'] show ?thesis by (cases r) auto
qed

lemma Save_existing:
  assumes g: "oc_Get cl (nkey node) w = (Inr cr, w1)"
    and s: "NodeRepository_Save cl retry now node w = (r, w')"
  shows "\<exists>cr'. objs w' = (objs w)(nkey node \<mapsto> cr') \<and>
           PoolRef (vn_Spec cr') = PoolRef (vn_Spec cr) \<and>
           om_Labels (vn_Meta cr') = om_Labels (vn_Meta cr) \<and> om_key (vn_Meta cr') = nkey node \<and>
           (r = Inr () \<longrightarrow> saved_node (Some (crToNode cr)) node (crToNode cr'))"
proof -
  have g': "objs w1 = objs w" "objs w (nkey node) = Some cr" "om_key (vn_Meta cr) = nkey node"
    using Get_ok [OF g] objs_key by auto
  obtain r2 w2 where an: "retry (tryAnnotate cl node) w1 = (r2, w2)" by fastforce
  note an' = retry_tryAnnotate_effect [OF an]
  show ?thesis
  proof (cases r2)
    case (Inl e)
    with s g an an' g' have "objs w' = objs w \<and> r \<noteq> Inr ()"
      by (auto simp: NodeRepository_Save_def)
    with g' show ?thesis by (intro exI [of _ cr]) auto
  next
    case (Inr u)
    with an' g' have o2: "objs w2 = (objs w)(nkey node \<mapsto> withAnnotations node cr)" by simp
    have up: "NodeRepository_updateStatus cl retry now node w2 = (r, w')"
      using s g an Inr by (simp add: NodeRepository_Save_def)
    show ?thesis
    proof (cases r)
      case (Inl e)
      with updateStatus_effect [OF up] o2 g'(3) show ?thesis
        by (intro exI [of _ "withAnnotations node cr"]) simp
    next
      case (Inr u)
      then obtain t where "objs w' = (objs w)(nkey node \<mapsto> applyNodeStatus t (withAnnotations node cr) node)"
        using updateStatus_effect [OF up] o2 by auto
      with g'(3) saved_existing [OF g'(3), of t] show ?thesis
        by (intro exI [of _ "applyNodeStatus t (withAnnotations node cr) node"]) simp
    qed
  qed
qed

lemma Save_missing:
  assumes g: "oc_Get cl (nkey node) w = (Inl err, w1)" and nf: "IsNotFound err"
    and s: "NodeRepository_Save cl retry now node w = (r, w')"
  shows "objs w (nkey node) = None \<and>
         ((\<exists>e. r = Inl e \<and> objs w' = objs w) \<or>
          (\<exists>cr cr'. vnode_created (newVNodeCR node) cr \<and> objs w' = (objs w)(nkey node \<mapsto> cr') \<and>
             (cr' = cr \<and> r \<noteq> Inr () \<or> (\<exists>t. cr' = applyNodeStatus t cr node))))"
proof -
  have g': "objs w1 = objs w" "objs w (nkey node) = None" using Get_err [OF g] nf by auto
  obtain r2 w2 where c: "oc_Create cl (newVNodeCR node) w1 = (r2, w2)" by fastforce
  show ?thesis
  proof (cases r2)
    case (Inl e)
    with s g nf c g' Create_err [of "newVNodeCR node" w1 e w2] show ?thesis
      by (auto simp: NodeRepository_Save_def)
  next
    case (Inr cr)
    have c': "objs w2 = (objs w)(nkey node \<mapsto> cr)" "vnode_created (newVNodeCR node) cr"
      using Create_ok [of "newVNodeCR node" w1 cr w2] c Inr g' by auto
    have k: "om_key (vn_Meta cr) = nkey node" using created_form [OF c'(2)] by simp
    obtain r3 w3 where u: "oc_UpdateStatus cl (applyNodeStatus (now w2) cr node) w2 = (r3, w3)" by fastforce
    show ?thesis
    proof (cases r3)
      case u3: (Inr z)
      have "objs w3 = (objs w)(nkey node \<mapsto> applyNodeStatus (now w2) cr node)"
        using UpdateStatus_ok [of "applyNodeStatus (now w2) cr node" w2 z w3] u u3 c'(1) k by auto
      with s g nf c Inr u u3 g' c' show ?thesis by (auto simp: NodeRepository_Save_def)
    next
      case e3: (Inl e)
      have o3: "objs w3 = (objs w)(nkey node \<mapsto> cr)"
        using UpdateStatus_err [of "applyNodeStatus (now w2) cr node" w2 e w3] u e3 c'(1) by auto
      show ?thesis
      proof (cases "IsConflict e \<or> IsNotFound e")
        case True
        have up: "NodeRepository_updateStatus cl retry now node w3 = (r, w')"
          using s g nf c Inr u e3 True by (simp add: NodeRepository_Save_def)
        from updateStatus_effect [OF up] o3 g' c'(2) show ?thesis by (cases r) auto
      next
        case False
        with s g nf c Inr u e3 o3 g' c'(2) show ?thesis by (auto simp: NodeRepository_Save_def)
      qed
    qed
  qed
qed

lemma Save_effect:
  assumes inv: "labels_agree objs w" and s: "NodeRepository_Save cl retry now node w = (r, w')"
  shows "labels_agree objs w' \<and>
         (case r of
            Inr u \<Rightarrow> \<exists>v. stored_nodes objs w' = (stored_nodes objs w)(nkey node \<mapsto> v) \<and>
              saved_node (stored_nodes objs w (nkey node)) node v
          | Inl e \<Rightarrow> \<exists>ov. stored_nodes objs w' = (stored_nodes objs w)(nkey node := ov) \<and>
              touched_node (stored_nodes objs w (nkey node)) node ov)"
proof (cases "oc_Get cl (nkey node) w")
  case (Pair g w1)
  show ?thesis
  proof (cases g)
    case (Inr cr)
    with Pair Save_existing [OF _ s] obtain cr' where
      cr': "objs w' = (objs w)(nkey node \<mapsto> cr')" "PoolRef (vn_Spec cr') = PoolRef (vn_Spec cr)"
      "om_Labels (vn_Meta cr') = om_Labels (vn_Meta cr)" "om_key (vn_Meta cr') = nkey node"
      "r = Inr () \<longrightarrow> saved_node (Some (crToNode cr)) node (crToNode cr')"
      by blast
    have o: "objs w (nkey node) = Some cr" using Get_ok [of "nkey node" w cr w1] Pair Inr by simp
    have "labels_agree objs w'"
      by (rule labels_agree_upd [OF inv cr'(1)]) (use inv o cr' in \<open>auto simp: labels_agree_def\<close>)
    moreover have "stored_nodes objs w' = (stored_nodes objs w)(nkey node \<mapsto> crToNode cr')"
      using stored_nodes_upd [of objs w' w, OF cr'(1)] by simp
    ultimately show ?thesis
      using cr' o by (cases r) (auto simp: stored_nodes_def touched_node_def)
  next
    case (Inl err)
    show ?thesis
    proof (cases "IsNotFound err")
      case False
      with s Pair Inl Get_err [of "nkey node" w err w1] have "r = Inl err" "objs w' = objs w"
        by (auto simp: NodeRepository_Save_def)
      with inv show ?thesis
        by (auto simp: labels_agree_def stored_nodes_def touched_node_def fun_eq_iff
            intro!: exI [of _ "map_option crToNode (objs w (nkey node))"] split: option.split
            dest: objs_key)
    next
      case True
      note m = Save_missing [OF Pair [unfolded Inl] True s]
      from m consider (same) e where "r = Inl e" "objs w' = objs w"
        | (new) cr cr' where "vnode_created (newVNodeCR node) cr" "objs w' = (objs w)(nkey node \<mapsto> cr')"
            "cr' = cr \<and> r \<noteq> Inr () \<or> (\<exists>t. cr' = applyNodeStatus t cr node)"
        by blast
      then show ?thesis
      proof cases
        case same
        with inv m show ?thesis
          by (auto simp: labels_agree_def stored_nodes_def touched_node_def fun_eq_iff)
      next
        case new
        note f = created_form [OF new(1)]
        have "labels_agree objs w'"
          by (rule labels_agree_upd [OF inv new(2)]) (use f new(3) in auto)
        moreover have st: "stored_nodes objs w' = (stored_nodes objs w)(nkey node \<mapsto> crToNode cr')"
          using stored_nodes_upd [of objs w' w, OF new(2)] by simp
        moreover have "stored_nodes objs w (nkey node) = None" using m by (simp add: stored_nodes_def)
        moreover have "r = Inr () \<Longrightarrow> saved_node None node (crToNode cr')"
          using new(3) saved_new [OF new(1)] by auto
        moreover have "touched_node None node (Some (crToNode cr'))"
          using new(3) f by (auto simp: touched_node_def)
        ultimately show ?thesis by (cases r) auto
      qed
    qed
  qed
qed

lemma ListByPool_effect:
  assumes inv: "labels_agree objs w" and l: "NodeRepository_ListByPool cl ns p w = (Inr xs, w')"
  shows "objs w' = objs w \<and> distinct (map nkey xs) \<and>
         set xs = {v. stored_nodes objs w (nkey v) = Some v \<and> n_Namespace v = ns \<and> n_PoolName v = p}"
proof -
  let ?sel = "fmupd LabelVNodePool p fmempty"
  obtain crs where ol: "oc_List cl (Some ns) ?sel w = (Inr crs, w')" and xs: "xs = map crToNode crs"
    using l by (auto simp: NodeRepository_ListByPool_def split: prod.splits sum.splits)
  note lk = List_ok [OF ol]
  have sel: "selected (Some ns) ?sel k labels \<longleftrightarrow> key_ns k = ns \<and> fmlookup labels LabelVNodePool = Some p"
    for k labels by (simp add: selected_def)
  have "set xs = crToNode ` {cr. objs w (om_key (vn_Meta cr)) = Some cr \<and>
          key_ns (om_key (vn_Meta cr)) = ns \<and> PoolRef (vn_Spec cr) = p}"
    using lk xs inv by (auto simp: sel labels_agree_def)
  also have "\<dots> = {v. stored_nodes objs w (nkey v) = Some v \<and> n_Namespace v = ns \<and> n_PoolName v = p}"
    by (auto simp: stored_nodes_def om_key_def crToNode_def nkey_def image_iff)
  finally show ?thesis using lk xs by (simp add: comp_def)
qed

end

lemma NewNodeRepository_sel [simp]:
  "repo_Save (NewNodeRepository cl retry now) = NodeRepository_Save cl retry now"
  "repo_Delete (NewNodeRepository cl retry now) = NodeRepository_Delete cl"
  "repo_ListByPool (NewNodeRepository cl retry now) = NodeRepository_ListByPool cl"
  by (simp_all add: NewNodeRepository_def)

lemma same_objs_view:
  assumes "objs w' = objs w"
  shows "labels_agree objs w' = labels_agree objs w \<and> stored_nodes objs w' = stored_nodes objs w"
  using assms by (auto simp: labels_agree_def stored_nodes_def fun_eq_iff)

context vnode_store
begin

lemma Save_Get:
  assumes inv: "labels_agree objs w"
    and save: "NodeRepository_Save cl retry now node w = (Inr (), w')"
    and get: "NodeRepository_Get cl (n_Namespace node) (n_Name node) w' = (Inr v, w'')"
  shows "saved_node (stored_nodes objs w (nkey node)) node v \<and>
         (\<forall>k. k \<noteq> nkey node \<longrightarrow> stored_nodes objs w'' k = stored_nodes objs w k)"
proof -
  obtain v' where v': "stored_nodes objs w' = (stored_nodes objs w)(nkey node \<mapsto> v')"
    "saved_node (stored_nodes objs w (nkey node)) node v'"
    using Save_effect [OF inv save] by auto
  obtain cr where "oc_Get cl (nkey node) w' = (Inr cr, w'')" "v = crToNode cr"
    using get by (auto simp: NodeRepository_Get_def nkey_def split: prod.splits sum.splits)
  with Get_ok [OF this(1)] v' show ?thesis by (auto simp: stored_nodes_def fun_eq_iff split: if_splits)
qed

end

sublocale vnode_store \<subseteq> repository:
  node_repository "NewNodeRepository cl retry now" "stored_nodes objs" "labels_agree objs"
proof (unfold_locales, unfold NewNodeRepository_sel)
  fix w k v
  assume "stored_nodes objs w k = Some v"
  then show "nkey v = k" by (auto simp: stored_nodes_def dest: objs_key)
next
  fix w ns p xs w'
  assume inv: "labels_agree objs w" and l: "NodeRepository_ListByPool cl ns p w = (Inr xs, w')"
  show "labels_agree objs w' \<and> stored_nodes objs w' = stored_nodes objs w \<and> distinct (map nkey xs) \<and>
      set xs = {v. stored_nodes objs w (nkey v) = Some v \<and> n_Namespace v = ns \<and> n_PoolName v = p}"
    using ListByPool_effect [OF inv l] same_objs_view [of objs w' w] inv by simp
next
  fix w ns p e w'
  assume "labels_agree objs w" and "NodeRepository_ListByPool cl ns p w = (Inl e, w')"
  then show "labels_agree objs w' \<and> stored_nodes objs w' = stored_nodes objs w"
    using List_err [of "Some ns" _ w e w'] same_objs_view [of objs w' w]
    by (auto simp: NodeRepository_ListByPool_def split: prod.splits sum.splits)
next
  fix w node u w'
  assume "labels_agree objs w" and "NodeRepository_Save cl retry now node w = (Inr u, w')"
  then show "labels_agree objs w' \<and> (\<exists>v. stored_nodes objs w' = (stored_nodes objs w)(nkey node \<mapsto> v) \<and>
      saved_node (stored_nodes objs w (nkey node)) node v)"
    using Save_effect [of w node "Inr u" w'] by simp
next
  fix w node e w'
  assume "labels_agree objs w" and "NodeRepository_Save cl retry now node w = (Inl e, w')"
  then show "labels_agree objs w' \<and> (\<exists>ov. stored_nodes objs w' = (stored_nodes objs w)(nkey node := ov) \<and>
      touched_node (stored_nodes objs w (nkey node)) node ov)"
    using Save_effect [of w node "Inl e" w'] by simp
next
  fix w ns nm u w'
  assume inv: "labels_agree objs w" and d: "NodeRepository_Delete cl ns nm w = (Inr u, w')"
  then have o: "objs w' = (objs w)(ObjKey ns nm := None)"
    using Delete_ok [of "ObjKey ns nm" w u w'] by (auto simp: NodeRepository_Delete_def vnode_gone_def)
  show "labels_agree objs w' \<and> stored_nodes objs w' = (stored_nodes objs w)(ObjKey ns nm := None)"
    using labels_agree_upd [OF inv o] stored_nodes_upd [of objs w' w, OF o] by simp
next
  fix w ns nm e w'
  assume "labels_agree objs w" and "NodeRepository_Delete cl ns nm w = (Inl e, w')"
  then show "labels_agree objs w' \<and> stored_nodes objs w' = stored_nodes objs w"
    using Delete_err [of "ObjKey ns nm" w e w'] same_objs_view [of objs w' w]
    by (simp add: NodeRepository_Delete_def)
qed

text \<open>
  C18: a saved node is read back. After a save that reports success, a lookup of the node that
  succeeds returns it with the tenant reference, the phase and the conditions that were saved;
  its pool and its capacity are those of the node when it was first stored. A save never
  changes another node.
\<close>

theorem Save_Get_roundtrip:
  assumes "vnode_store cl objs retry" and "labels_agree objs w"
    and "NodeRepository_Save cl retry now node w = (Inr (), w')"
    and "NodeRepository_Get cl (n_Namespace node) (n_Name node) w' = (Inr v, w'')"
  shows "saved_node (stored_nodes objs w (nkey node)) node v \<and>
         (\<forall>k. k \<noteq> nkey node \<longrightarrow> stored_nodes objs w'' k = stored_nodes objs w k)"
  by (rule vnode_store.Save_Get [OF assms])

end
