(* ===== verification/Core_Types.thy ===== *)
theory Core_Types
  imports API_Types
begin

text \<open>
  The Kubernetes objects that the operator reads and writes in the host and tenant clusters
  (nodes, leases, namespaces, pods, ConfigMaps and Secrets of \<open>k8s.io/api\<close>), with the fields
  that the operator touches, and for the status of a pod also fields that it leaves out. A
  pointer field is an option, a pointer to a struct of which only the presence matters is a
  bool; \<open>kv_OtherSource\<close> says that a volume has a source of a kind the operator does not know.

  \<open>resource.Quantity\<close> is a type \<open>'q\<close> of the Kubernetes library. Its operations are the record
  \<open>quantities\<close>: parsing (which fails on malformed input; \<open>MustParse\<close> then panics), creation
  from a number, printing, and the integer value.
\<close>

record 'q quantities =
  q_Parse :: "string \<Rightarrow> 'q option"
  q_New :: "int \<Rightarrow> 'q"
  q_String :: "'q \<Rightarrow> string"
  q_Value :: "'q \<Rightarrow> int"

definition MustParse :: "'q quantities \<Rightarrow> string \<Rightarrow> 'q res" where
  "MustParse q s =
     (case q_Parse q s of
        None \<Rightarrow> Inl (Panic (''cannot parse '' @ s))
      | Some v \<Rightarrow> Inr v)"

type_synonym 'q CoreResources = "(string, 'q) fmap"

abbreviation ResourceCPU :: string where "ResourceCPU \<equiv> ''cpu''"
abbreviation ResourceMemory :: string where "ResourceMemory \<equiv> ''memory''"
abbreviation ResourcePods :: string where "ResourcePods \<equiv> ''pods''"

text \<open>An assignment \<open>out[key] = resource.MustParse(s)\<close> guarded by \<open>s != ""\<close>.\<close>

definition addParsed ::
  "'q quantities \<Rightarrow> string \<Rightarrow> string \<Rightarrow> 'q CoreResources \<Rightarrow> 'q CoreResources res"
where
  "addParsed q key s out =
     (if s = [] then Inr out
      else (case MustParse q s of Inl p \<Rightarrow> Inl p | Inr v \<Rightarrow> Inr (fmupd key v out)))"

section \<open>Nodes, leases and namespaces\<close>

record CoreNodeCondition =
  knc_Type :: string
  knc_Status :: string
  knc_Reason :: string
  knc_Message :: string
  knc_LastHeartbeatTime :: int
  knc_LastTransitionTime :: int

record NodeSystemInfo =
  KubeletVersion :: string
  OperatingSystem :: string
  Architecture :: string
  ContainerRuntimeVersion :: string

record 'q CoreNodeStatus =
  kn_Capacity :: "'q CoreResources"
  kn_Allocatable :: "'q CoreResources"
  kn_Conditions :: "CoreNodeCondition list"
  kn_NodeInfo :: NodeSystemInfo

definition emptyNodeStatus :: "'q CoreNodeStatus" where
  "emptyNodeStatus =
     \<lparr>kn_Capacity = fmempty, kn_Allocatable = fmempty, kn_Conditions = [],
      kn_NodeInfo = \<lparr>KubeletVersion = [], OperatingSystem = [], Architecture = [],
                     ContainerRuntimeVersion = []\<rparr>\<rparr>"

record 'q CoreNode =
  kn_Meta :: ObjectMeta
  kn_Taints :: "CoreTaint list"
  kn_Status :: "'q CoreNodeStatus"

record Lease =
  kl_Meta :: ObjectMeta
  kl_HolderIdentity :: "string option"
  kl_LeaseDurationSeconds :: "int32 option"
  kl_RenewTime :: "int option"

record Namespace =
  kns_Meta :: ObjectMeta

section \<open>ConfigMaps and Secrets\<close>

record ConfigMap =
  km_Meta :: ObjectMeta
  km_Data :: smap
  km_BinaryData :: "(string, bytes) fmap"

record Secret =
  ks_Meta :: ObjectMeta
  ks_Data :: "(string, bytes) fmap"

section \<open>Pods\<close>

record CoreEnvVar =
  kev_Name :: string
  kev_Value :: string

record CoreVolumeMount =
  kvm_Name :: string
  kvm_MountPath :: string
  kvm_ReadOnly :: bool

record 'q CoreContainer =
  kc_Name :: string
  kc_Image :: string
  kc_Command :: "string list"
  kc_Args :: "string list"
  kc_Env :: "CoreEnvVar list"
  kc_VolumeMounts :: "CoreVolumeMount list"
  kc_Requests :: "'q CoreResources"
  kc_Limits :: "'q CoreResources"

record CoreVolume =
  kv_Name :: string
  kv_ConfigMap :: "string option"
  kv_Secret :: "string option"
  kv_PersistentVolumeClaim :: "string option"
  kv_EmptyDir :: bool
  kv_HostPath :: "string option"
  kv_Projected :: bool
  kv_OtherSource :: bool

record ContainerStateRunning =
  kru_StartedAt :: "int option"

record ContainerStateWaiting =
  kwa_Reason :: string
  kwa_Message :: string

record ContainerStateTerminated =
  kte_ExitCode :: int32
  kte_Reason :: string
  kte_Message :: string
  kte_StartedAt :: "int option"
  kte_FinishedAt :: "int option"

record CoreContainerStatus =
  kcs_Name :: string
  kcs_Ready :: bool
  kcs_RestartCount :: int32
  kcs_Running :: "ContainerStateRunning option"
  kcs_Waiting :: "ContainerStateWaiting option"
  kcs_Terminated :: "ContainerStateTerminated option"
  kcs_LastTerminated :: "ContainerStateTerminated option"
  kcs_Image :: string
  kcs_ContainerID :: string

record CorePodCondition =
  kpc_Type :: string
  kpc_Status :: string
  kpc_Reason :: string
  kpc_Message :: string

record CorePodStatus =
  kps_Phase :: string
  kps_PodIP :: string
  kps_Message :: string
  kps_Reason :: string
  kps_ContainerStatuses :: "CoreContainerStatus list"
  kps_Conditions :: "CorePodCondition list"
  kps_HostIP :: string
  kps_StartTime :: "int option"

definition emptyPodStatus :: CorePodStatus where
  "emptyPodStatus =
     \<lparr>kps_Phase = [], kps_PodIP = [], kps_Message = [], kps_Reason = [], kps_ContainerStatuses = [],
      kps_Conditions = [], kps_HostIP = [], kps_StartTime = None\<rparr>"

text \<open>The zero values of the three container states.\<close>

definition zeroRunning :: ContainerStateRunning where
  "zeroRunning = \<lparr>kru_StartedAt = None\<rparr>"

definition zeroWaiting :: ContainerStateWaiting where
  "zeroWaiting = \<lparr>kwa_Reason = [], kwa_Message = []\<rparr>"

definition zeroTerminated :: ContainerStateTerminated where
  "zeroTerminated =
     \<lparr>kte_ExitCode = 0, kte_Reason = [], kte_Message = [], kte_StartedAt = None, kte_FinishedAt = None\<rparr>"

record 'q CorePod =
  kp_Meta :: ObjectMeta
  kp_NodeName :: string
  kp_ServiceAccountName :: string
  kp_AutomountServiceAccountToken :: "bool option"
  kp_RuntimeClassName :: "string option"
  kp_NodeSelector :: smap
  kp_Containers :: "'q CoreContainer list"
  kp_Volumes :: "CoreVolume list"
  kp_Status :: CorePodStatus

end
