(* ===== verification/Tenant_Clients.thy ===== *)
theory Tenant_Clients
  imports Ports Core_Types Kube_API
begin

text \<open>
  Access to the tenant clusters: the resolution of kubeconfigs from Secrets
  (\<open>internal/adapter/outbound/kubeclient/kubeconfig.go\<close>) and the cache of tenant clients,
  \<open>TenantClientManager\<close> in \<open>internal/adapter/outbound/virtualkubelet/registrar.go\<close>.

  A clientset is a record of the typed clients the operator uses. The state of the operator
  process is a record \<open>mstate\<close>: the cache of clientsets next to the outside world. \<open>onw\<close> runs
  an operation of the world there. Parsing a kubeconfig and building a clientset are functions
  of \<open>client-go\<close> and parameters (\<open>tm_RESTConfig\<close>, \<open>tm_factory\<close>). The mutex serialises the
  accesses to the cache; the operations below are its critical sections in sequence.

  The lemmas show when a kubeconfig is resolved and that the cache only ever holds clientsets
  the factory built, which is the invariant that carries the frame properties of the tenant
  clients, and that a cached client is used without looking at the Secret again.
\<close>

section \<open>Clientsets and the state of the operator\<close>

record ('q, 'w) clientset =
  ks_Nodes :: "('q CoreNode, 'w) objclient"
  ks_Leases :: "(Lease, 'w) objclient"
  ks_Namespaces :: "(Namespace, 'w) objclient"
  ks_Pods :: "('q CorePod, 'w) objclient"
  ks_ConfigMaps :: "(ConfigMap, 'w) objclient"
  ks_Secrets :: "(Secret, 'w) objclient"

record ('q, 'w) mstate =
  ms_clients :: "(string, ('q, 'w) clientset) fmap"
  ms_world :: 'w

definition onw :: "('w \<Rightarrow> 'a \<times> 'w) \<Rightarrow> ('q, 'w) mstate \<Rightarrow> 'a \<times> ('q, 'w) mstate" where
  "onw f s = (case f (ms_world s) of (r, w) \<Rightarrow> (r, s\<lparr>ms_world := w\<rparr>))"

definition liftRepo :: "'w NodeRepository \<Rightarrow> ('q, 'w) mstate NodeRepository" where
  "liftRepo repo =
     \<lparr>repo_Get = (\<lambda>ns n. onw (repo_Get repo ns n)),
      repo_Save = (\<lambda>node. onw (repo_Save repo node)),
      repo_Delete = (\<lambda>ns n. onw (repo_Delete repo ns n)),
      repo_ListByPool = (\<lambda>ns p. onw (repo_ListByPool repo ns p))\<rparr>"

definition liftClient :: "('o, 'w) objclient \<Rightarrow> ('o, ('q, 'w) mstate) objclient" where
  "liftClient cl =
     \<lparr>oc_Get = (\<lambda>k. onw (oc_Get cl k)), oc_List = (\<lambda>ns sel. onw (oc_List cl ns sel)),
      oc_Create = (\<lambda>x. onw (oc_Create cl x)), oc_Update = (\<lambda>x. onw (oc_Update cl x)),
      oc_UpdateStatus = (\<lambda>x. onw (oc_UpdateStatus cl x)), oc_Delete = (\<lambda>k. onw (oc_Delete cl k))\<rparr>"

section \<open>Kubeconfig resolution\<close>

fun kubeconfigData :: "string list \<Rightarrow> (string, bytes) fmap \<Rightarrow> bytes option" where
  "kubeconfigData [] secret = None"
| "kubeconfigData (key # keys) secret =
     (case fmlookup secret key of
        Some data \<Rightarrow> if data \<noteq> [] then Some data else kubeconfigData keys secret
      | None \<Rightarrow> kubeconfigData keys secret)"

definition Resolve ::
  "(Secret, 'w) objclient \<Rightarrow> string \<Rightarrow> string \<Rightarrow> 'w \<Rightarrow> bytes res \<times> 'w"
where
  "Resolve cl secretNamespace secretName w =
     (case oc_Get cl (ObjKey secretNamespace secretName) w of
        (Inl err, w) \<Rightarrow>
          (Inl (Wrap (''getting kubeconfig secret '' @ secretNamespace @ ''/'' @ secretName) err), w)
      | (Inr secret, w) \<Rightarrow>
          (case kubeconfigData [''kubeconfig'', ''config'', ''value''] (ks_Data secret) of
             Some data \<Rightarrow> (Inr data, w)
           | None \<Rightarrow>
               (Inl (Errorf (''kubeconfig secret '' @ secretNamespace @ ''/'' @ secretName @
                  '' has no recognized kubeconfig key (tried: kubeconfig, config, value)'')), w)))"

definition SecretKubeconfigResolver :: "(Secret, 'w) objclient \<Rightarrow> 'w KubeconfigResolver" where
  "SecretKubeconfigResolver cl = \<lparr>kr_Resolve = Resolve cl\<rparr>"

section \<open>The client cache\<close>

record ('c, 'q, 'w) TenantClientManager =
  tm_resolver :: "'w KubeconfigResolver"
  tm_RESTConfig :: "bytes \<Rightarrow> 'c res"
  tm_factory :: "'c \<Rightarrow> ('q, 'w) clientset res"

definition cacheKey :: "TenantRef \<Rightarrow> string" where
  "cacheKey tenant = VClusterNamespace tenant @ ''/'' @ KubeconfigSecret tenant"

definition Invalidate :: "TenantRef \<Rightarrow> ('q, 'w) mstate \<Rightarrow> ('q, 'w) mstate" where
  "Invalidate tenant s = s\<lparr>ms_clients := fmdrop (cacheKey tenant) (ms_clients s)\<rparr>"

definition TenantClients_Get ::
  "('c, 'q, 'w) TenantClientManager \<Rightarrow> TenantRef \<Rightarrow> ('q, 'w) mstate \<Rightarrow>
   ('q, 'w) clientset res \<times> ('q, 'w) mstate"
where
  "TenantClients_Get m tenant s =
     (case fmlookup (ms_clients s) (cacheKey tenant) of
        Some clientset \<Rightarrow> (Inr clientset, s)
      | None \<Rightarrow>
          (case onw (kr_Resolve (tm_resolver m) (VClusterNamespace tenant) (KubeconfigSecret tenant)) s of
             (Inl err, s) \<Rightarrow> (Inl (Wrap ''resolving tenant kubeconfig'' err), Invalidate tenant s)
           | (Inr kubeconfig, s) \<Rightarrow>
               (case tm_RESTConfig m kubeconfig of
                  Inl err \<Rightarrow> (Inl (Wrap ''building tenant rest config'' err), Invalidate tenant s)
                | Inr cfg \<Rightarrow>
                    (case tm_factory m cfg of
                       Inl err \<Rightarrow> (Inl (Wrap ''building tenant clientset'' err), Invalidate tenant s)
                     | Inr clientset \<Rightarrow>
                         (Inr clientset,
                          s\<lparr>ms_clients := fmupd (cacheKey tenant) clientset (ms_clients s)\<rparr>)))))"

text \<open>The cache only holds clientsets with a property \<open>P\<close>.\<close>

definition cache_all ::
  "(('q, 'w) clientset \<Rightarrow> bool) \<Rightarrow> (string, ('q, 'w) clientset) fmap \<Rightarrow> bool"
where
  "cache_all P m \<longleftrightarrow> fmpred (\<lambda>k cs. P cs) m"

section \<open>Lemmas on the state\<close>

lemma onw_D:
  "onw f s = (r, s') \<Longrightarrow> f (ms_world s) = (r, ms_world s') \<and> ms_clients s' = ms_clients s"
  by (auto simp: onw_def split: prod.splits)

lemma liftRepo_sel [simp]:
  "repo_Get (liftRepo repo) ns n = onw (repo_Get repo ns n)"
  "repo_Save (liftRepo repo) node = onw (repo_Save repo node)"
  "repo_Delete (liftRepo repo) ns n = onw (repo_Delete repo ns n)"
  "repo_ListByPool (liftRepo repo) ns p = onw (repo_ListByPool repo ns p)"
  by (simp_all add: liftRepo_def)

lemma liftClient_sel [simp]:
  "oc_Get (liftClient cl) k = onw (oc_Get cl k)"
  "oc_List (liftClient cl) ns sel = onw (oc_List cl ns sel)"
  "oc_Create (liftClient cl) x = onw (oc_Create cl x)"
  "oc_Update (liftClient cl) x = onw (oc_Update cl x)"
  "oc_UpdateStatus (liftClient cl) x = onw (oc_UpdateStatus cl x)"
  "oc_Delete (liftClient cl) k = onw (oc_Delete cl k)"
  by (simp_all add: liftClient_def)

text \<open>The lifted repository keeps its contract, together with any property of the cache.\<close>

context node_repository
begin

lemma liftRepo_contract:
  "node_repository (liftRepo repo) (\<lambda>s. nodes (ms_world s))
     (\<lambda>s. invar (ms_world s) \<and> J (ms_clients s))"
  by unfold_locales (auto dest!: onw_D dest: stored_key repository_laws)

end

section \<open>Kubeconfigs\<close>

text \<open>
  A kubeconfig Secret resolves exactly when one of the keys kubeconfig, config and value
  holds data, and the first of them in this order is taken.
\<close>

lemma Resolve_first_key:
  assumes "oc_Get cl (ObjKey ns name) w = (Inr secret, w')"
  shows "fst (Resolve cl ns name w) =
    (case find (\<lambda>d. d \<noteq> []) (List.map_filter (fmlookup (ks_Data secret))
            [''kubeconfig'', ''config'', ''value'']) of
       Some data \<Rightarrow> Inr data
     | None \<Rightarrow> Inl (Errorf (''kubeconfig secret '' @ ns @ ''/'' @ name @
         '' has no recognized kubeconfig key (tried: kubeconfig, config, value)'')))"
proof -
  have "kubeconfigData keys m = find (\<lambda>d. d \<noteq> []) (List.map_filter (fmlookup m) keys)" for keys m
    by (induction keys) (auto simp: List.map_filter_simps split: option.split)
  with assms show ?thesis by (simp add: Resolve_def split: option.split)
qed

section \<open>The cache\<close>

text \<open>
  A clientset that was once built for a kubeconfig Secret is used from then on without
  looking at the Secret: after a successful lookup every further lookup for a tenant with the
  same Secret returns the same clientset and changes nothing, whatever happens to the world
  (the content of the Secret included) in between.
\<close>

lemma TenantClients_Get_cached:
  assumes "TenantClients_Get m tenant s = (Inr cs, s')"
    and "VClusterNamespace tenant' = VClusterNamespace tenant"
    and "KubeconfigSecret tenant' = KubeconfigSecret tenant"
  shows "TenantClients_Get m tenant' (s'\<lparr>ms_world := w\<rparr>) = (Inr cs, s'\<lparr>ms_world := w\<rparr>)"
  using assms
  by (auto simp: TenantClients_Get_def cacheKey_def split: prod.splits sum.splits option.splits)

locale tenant_clients =
  fixes m :: "('c, 'q, 'w) TenantClientManager"
    and P :: "('q, 'w) clientset \<Rightarrow> bool"
    and view :: "'w \<Rightarrow> 'v"
  assumes factory_P: "tm_factory m cfg = Inr cs \<Longrightarrow> P cs"
    and resolver_frame: "kr_Resolve (tm_resolver m) ns name w = (r, w') \<Longrightarrow> view w' = view w"
begin

lemma Get_cache:
  assumes "cache_all P (ms_clients s)" and "TenantClients_Get m tenant s = (r, s')"
  shows "cache_all P (ms_clients s') \<and> view (ms_world s') = view (ms_world s) \<and>
         (\<forall>cs. r = Inr cs \<longrightarrow> P cs)"
  using assms factory_P
  by (auto simp: TenantClients_Get_def Invalidate_def cache_all_def fmpred_iff
      split: prod.splits sum.splits option.splits if_splits dest!: onw_D dest: resolver_frame)

end

end
