(* ===== verification/Registrar.thy ===== *)
theory Registrar
  imports Tenant_Clients
begin

text \<open>
  The node registrar (\<open>Registrar\<close> in
  \<open>internal/adapter/outbound/virtualkubelet/registrar.go\<close>): it represents a virtual node in the
  tenant cluster by a Node object and a Lease.

  The functions on a clientset work on the world; the three methods of the port add the client
  cache. \<open>sysenv\<close> bundles what the code takes from its libraries and its build: the quantity
  operations, the clock, the retry helper and the version string. A malformed quantity makes
  \<open>resource.MustParse\<close> panic, which is the result \<open>Inl (Panic ...)\<close>.

  The locale \<open>tenant_cluster\<close> is a tenant cluster whose clients behave as documented. The
  lemmas there show that a registration that succeeds leaves the Node with the labels, taints,
  capacity and conditions of the virtual node and a Lease held by it, and that a
  deregistration that succeeds for a tenant with a kubeconfig Secret leaves neither.
\<close>

abbreviation leaseNamespace :: string where "leaseNamespace \<equiv> ''kube-node-lease''"

record ('q, 'w) sysenv =
  env_q :: "'q quantities"
  env_now :: "'w \<Rightarrow> int"
  env_retry :: "'w retrier"
  env_version :: string

section \<open>Building the Node object\<close>

definition buildResources :: "'q quantities \<Rightarrow> ResourceList \<Rightarrow> 'q CoreResources res" where
  "buildResources q r =
     (case addParsed q ResourceCPU (CPU r) fmempty of
        Inl p \<Rightarrow> Inl p
      | Inr out \<Rightarrow>
          (case addParsed q ResourceMemory (Memory r) out of
             Inl p \<Rightarrow> Inl p
           | Inr out \<Rightarrow>
               Inr (if 0 <s Pods r then fmupd ResourcePods (q_New q (sint (Pods r))) out else out)))"

definition buildNodeConditions :: "int \<Rightarrow> VNode \<Rightarrow> CoreNodeCondition list" where
  "buildNodeConditions now node =
     map (\<lambda>c. \<lparr>knc_Type = (if nc_Type c = NodeConditionReady then ''Ready'' else nc_Type c),
               knc_Status = (if nc_Status c then ConditionTrue else ConditionFalse),
               knc_Reason = nc_Reason c, knc_Message = nc_Message c,
               knc_LastHeartbeatTime = now, knc_LastTransitionTime = now\<rparr>)
       (n_Conditions node)"

definition nodeLabels :: "VNode \<Rightarrow> smap" where
  "nodeLabels node =
     fmap_of_list
       [(''kubernetes.io/os'', ''linux''),
        (''kubernetes.io/arch'', ''amd64''),
        (''kubernetes.io/hostname'', n_Name node),
        (''node.kubernetes.io/exclude-from-external-load-balancers'', ''true''),
        (''node-role.kubernetes.io/worker'', ''''),
        (''vnode.kroderdev.io/managed'', ''true''),
        (''vnode.kroderdev.io/pool'', n_PoolName node),
        (''vnode.kroderdev.io/vnode'', n_Name node)]"

definition nodeAnnotations :: "VNode \<Rightarrow> smap" where
  "nodeAnnotations node =
     fmap_of_list
       [(''vnode.kroderdev.io/vcluster-name'', VClusterName (n_TenantRef node)),
        (''vnode.kroderdev.io/vcluster-namespace'', VClusterNamespace (n_TenantRef node))]"

definition mapNodeTaints :: "Taint list \<Rightarrow> CoreTaint list" where
  "mapNodeTaints ts =
     map (\<lambda>t. \<lparr>ct_Key = taint_Key t, ct_Value = taint_Value t, ct_Effect = taint_Effect t\<rparr>) ts"

definition nodeSystemInfo :: "string \<Rightarrow> NodeSystemInfo" where
  "nodeSystemInfo version =
     \<lparr>KubeletVersion = ''vnode/'' @ version, OperatingSystem = ''linux'',
      Architecture = ''amd64'', ContainerRuntimeVersion = ''vnode/'' @ version\<rparr>"

definition newCoreNode :: "VNode \<Rightarrow> 'q CoreNode" where
  "newCoreNode node =
     \<lparr>kn_Meta = emptyMeta\<lparr>om_Name := n_Name node, om_Labels := nodeLabels node,
                         om_Annotations := nodeAnnotations node\<rparr>,
      kn_Taints = mapNodeTaints (n_Taints node),
      kn_Status = emptyNodeStatus\<rparr>"

definition relabelled :: "VNode \<Rightarrow> 'q CoreNode \<Rightarrow> 'q CoreNode" where
  "relabelled node current =
     current\<lparr>kn_Meta := (kn_Meta current)\<lparr>om_Labels := nodeLabels node,
                                          om_Annotations := nodeAnnotations node\<rparr>,
             kn_Taints := mapNodeTaints (n_Taints node)\<rparr>"

section \<open>Operations on a tenant cluster\<close>

definition upsertNode :: "('q, 'w) clientset \<Rightarrow> VNode \<Rightarrow> 'w \<Rightarrow> unit res \<times> 'w" where
  "upsertNode cs node w =
     (case oc_Get (ks_Nodes cs) (ObjKey [] (n_Name node)) w of
        (Inl err, w) \<Rightarrow>
          if \<not> IsNotFound err then (Inl (Wrap (''getting tenant node '' @ n_Name node) err), w)
          else
            (case oc_Create (ks_Nodes cs) (newCoreNode node) w of
               (Inl err, w) \<Rightarrow> (Inl (Wrap (''creating tenant node '' @ n_Name node) err), w)
             | (Inr _, w) \<Rightarrow> (Inr (), w))
      | (Inr current, w) \<Rightarrow>
          (case oc_Update (ks_Nodes cs) (relabelled node current) w of
             (Inl err, w) \<Rightarrow> (Inl (Wrap (''updating tenant node '' @ n_Name node) err), w)
           | (Inr _, w) \<Rightarrow> (Inr (), w)))"

definition ensureLeaseNamespace :: "('q, 'w) clientset \<Rightarrow> 'w \<Rightarrow> unit res \<times> 'w" where
  "ensureLeaseNamespace cs w =
     (case oc_Get (ks_Namespaces cs) (ObjKey [] leaseNamespace) w of
        (Inr _, w) \<Rightarrow> (Inr (), w)
      | (Inl err, w) \<Rightarrow>
          if \<not> IsNotFound err then (Inl (Wrap ''getting lease namespace'' err), w)
          else
            (case oc_Create (ks_Namespaces cs) \<lparr>kns_Meta = emptyMeta\<lparr>om_Name := leaseNamespace\<rparr>\<rparr> w of
               (Inl err, w) \<Rightarrow>
                 if \<not> IsAlreadyExists err then (Inl (Wrap ''creating lease namespace'' err), w)
                 else (Inr (), w)
             | (Inr _, w) \<Rightarrow> (Inr (), w)))"

definition heldLease :: "string \<Rightarrow> int \<Rightarrow> Lease \<Rightarrow> Lease" where
  "heldLease name now l =
     l\<lparr>kl_HolderIdentity := Some name, kl_LeaseDurationSeconds := Some 40,
       kl_RenewTime := Some now\<rparr>"

definition newLease :: "string \<Rightarrow> int \<Rightarrow> Lease" where
  "newLease name now =
     \<lparr>kl_Meta = emptyMeta\<lparr>om_Name := name, om_Namespace := leaseNamespace\<rparr>,
      kl_HolderIdentity = Some name, kl_LeaseDurationSeconds = Some 40, kl_RenewTime = Some now\<rparr>"

definition upsertLease ::
  "('q, 'w) sysenv \<Rightarrow> ('q, 'w) clientset \<Rightarrow> string \<Rightarrow> 'w \<Rightarrow> unit res \<times> 'w"
where
  "upsertLease env cs name w =
     (let now = env_now env w in
      case oc_Get (ks_Leases cs) (ObjKey leaseNamespace name) w of
        (Inl err, w) \<Rightarrow>
          if \<not> IsNotFound err then (Inl (Wrap (''getting node lease '' @ name) err), w)
          else
            (case oc_Create (ks_Leases cs) (newLease name now) w of
               (Inl err, w) \<Rightarrow> (Inl (Wrap (''creating node lease '' @ name) err), w)
             | (Inr _, w) \<Rightarrow> (Inr (), w))
      | (Inr current, w) \<Rightarrow>
          (case oc_Update (ks_Leases cs) (heldLease name now current) w of
             (Inl err, w) \<Rightarrow> (Inl (Wrap (''updating node lease '' @ name) err), w)
           | (Inr _, w) \<Rightarrow> (Inr (), w)))"

definition tryNodeStatus ::
  "('q, 'w) sysenv \<Rightarrow> ('q, 'w) clientset \<Rightarrow> VNode \<Rightarrow> 'w \<Rightarrow> unit res \<times> 'w"
where
  "tryNodeStatus env cs node w =
     (case oc_Get (ks_Nodes cs) (ObjKey [] (n_Name node)) w of
        (Inl err, w) \<Rightarrow> (Inl (Wrap (''getting tenant node '' @ n_Name node) err), w)
      | (Inr current, w) \<Rightarrow>
          (case buildResources (env_q env) (n_Capacity node) of
             Inl p \<Rightarrow> (Inl p, w)
           | Inr capacity \<Rightarrow>
               (case buildResources (env_q env) (n_Allocatable node) of
                  Inl p \<Rightarrow> (Inl p, w)
                | Inr allocatable \<Rightarrow>
                    oc_UpdateStatus (ks_Nodes cs)
                      (current\<lparr>kn_Status :=
                         \<lparr>kn_Capacity = capacity, kn_Allocatable = allocatable,
                          kn_Conditions = buildNodeConditions (env_now env w) node,
                          kn_NodeInfo = nodeSystemInfo (env_version env)\<rparr>\<rparr>) w)))"

definition updateNodeStatusOn ::
  "('q, 'w) sysenv \<Rightarrow> ('q, 'w) clientset \<Rightarrow> VNode \<Rightarrow> 'w \<Rightarrow> unit res \<times> 'w"
where
  "updateNodeStatusOn env cs node w =
     (case env_retry env (tryNodeStatus env cs node) w of
        (Inl err, w) \<Rightarrow> (Inl (Wrap (''updating tenant node '' @ n_Name node @ '' status'') err), w)
      | (Inr _, w) \<Rightarrow> upsertLease env cs (n_Name node) w)"

definition deleteExisting ::
  "('o, 'w) objclient \<Rightarrow> objkey \<Rightarrow> string \<Rightarrow> 'w \<Rightarrow> unit res \<times> 'w"
where
  "deleteExisting cl k msg w =
     (case oc_Delete cl k w of
        (Inl err, w) \<Rightarrow> if \<not> IsNotFound err then (Inl (Wrap msg err), w) else (Inr (), w)
      | (Inr _, w) \<Rightarrow> (Inr (), w))"

definition deregisterOn :: "('q, 'w) clientset \<Rightarrow> VNode \<Rightarrow> 'w \<Rightarrow> unit res \<times> 'w" where
  "deregisterOn cs node w =
     (case deleteExisting (ks_Leases cs) (ObjKey leaseNamespace (n_Name node))
             (''deleting lease '' @ n_Name node) w of
        (Inl err, w) \<Rightarrow> (Inl err, w)
      | (Inr _, w) \<Rightarrow>
          deleteExisting (ks_Nodes cs) (ObjKey [] (n_Name node)) (''deleting tenant node '' @ n_Name node) w)"

section \<open>The methods of the port\<close>

definition UpdateNodeStatus ::
  "('c, 'q, 'w) TenantClientManager \<Rightarrow> ('q, 'w) sysenv \<Rightarrow> VNode \<Rightarrow> TenantRef \<Rightarrow>
   ('q, 'w) mstate \<Rightarrow> unit res \<times> ('q, 'w) mstate"
where
  "UpdateNodeStatus m env node tenant s =
     (if KubeconfigSecret tenant = [] then (Inr (), s)
      else
        (case TenantClients_Get m tenant s of
           (Inl err, s) \<Rightarrow> (Inl err, s)
         | (Inr cs, s) \<Rightarrow> onw (updateNodeStatusOn env cs node) s))"

definition Register ::
  "('c, 'q, 'w) TenantClientManager \<Rightarrow> ('q, 'w) sysenv \<Rightarrow> VNode \<Rightarrow> TenantRef \<Rightarrow>
   ('q, 'w) mstate \<Rightarrow> unit res \<times> ('q, 'w) mstate"
where
  "Register m env node tenant s =
     (case TenantClients_Get m tenant s of
        (Inl err, s) \<Rightarrow> (Inl err, s)
      | (Inr cs, s) \<Rightarrow>
          (case onw (ensureLeaseNamespace cs) s of
             (Inl err, s) \<Rightarrow> (Inl err, s)
           | (Inr _, s) \<Rightarrow>
               (case onw (upsertNode cs node) s of
                  (Inl err, s) \<Rightarrow> (Inl err, s)
                | (Inr _, s) \<Rightarrow> UpdateNodeStatus m env node tenant s)))"

definition Deregister ::
  "('c, 'q, 'w) TenantClientManager \<Rightarrow> VNode \<Rightarrow> TenantRef \<Rightarrow>
   ('q, 'w) mstate \<Rightarrow> unit res \<times> ('q, 'w) mstate"
where
  "Deregister m node tenant s =
     (if KubeconfigSecret tenant = [] then (Inr (), s)
      else
        (case TenantClients_Get m tenant s of
           (Inl err, s) \<Rightarrow> (Inl err, s)
         | (Inr cs, s) \<Rightarrow> onw (deregisterOn cs node) s))"

definition NewRegistrar ::
  "('c, 'q, 'w) TenantClientManager \<Rightarrow> ('q, 'w) sysenv \<Rightarrow> ('q, 'w) mstate NodeRegistrar"
where
  "NewRegistrar m env =
     \<lparr>reg_Register = Register m env, reg_Deregister = Deregister m,
      reg_UpdateNodeStatus = UpdateNodeStatus m env\<rparr>"

text \<open>
  Registered: the Node and the Lease that a virtual node has in the tenant cluster. The Node may
  have further taints, which the server adds on creation.
\<close>

definition node_represented ::
  "('q, 'w) sysenv \<Rightarrow> VNode \<Rightarrow> 'q CoreNode option \<Rightarrow> Lease option \<Rightarrow> bool"
where
  "node_represented env node kn kl \<longleftrightarrow>
     (case (kn, kl) of
        (Some n, Some l) \<Rightarrow>
          om_Labels (kn_Meta n) = nodeLabels node \<and>
          om_Annotations (kn_Meta n) = nodeAnnotations node \<and>
          (\<exists>added. kn_Taints n = mapNodeTaints (n_Taints node) @ added) \<and>
          Inr (kn_Capacity (kn_Status n)) = buildResources (env_q env) (n_Capacity node) \<and>
          Inr (kn_Allocatable (kn_Status n)) = buildResources (env_q env) (n_Allocatable node) \<and>
          (\<exists>t. kn_Conditions (kn_Status n) = buildNodeConditions t node) \<and>
          kn_NodeInfo (kn_Status n) = nodeSystemInfo (env_version env) \<and>
          kl_HolderIdentity l = Some (n_Name node) \<and> kl_LeaseDurationSeconds l = Some 40
      | _ \<Rightarrow> False)"

text \<open>The clients of a tenant cluster leave a view of the host cluster alone.\<close>

definition clientset_framed :: "('w \<Rightarrow> 'v) \<Rightarrow> ('q, 'w) clientset \<Rightarrow> bool" where
  "clientset_framed view cs \<longleftrightarrow>
     client_frame (ks_Nodes cs) view \<and> client_frame (ks_Leases cs) view \<and>
     client_frame (ks_Namespaces cs) view \<and> client_frame (ks_Pods cs) view \<and>
     client_frame (ks_ConfigMaps cs) view \<and> client_frame (ks_Secrets cs) view"

section \<open>What the server stores\<close>

text \<open>
  On creation a Node gets its identity, and admission (\<open>TaintNodesByCondition\<close>) may add taints.
  An update stores what it is sent, apart from the status. Nodes and Leases have no finalizers,
  so a deletion removes them.
\<close>

definition node_created :: "'q CoreNode \<Rightarrow> 'q CoreNode \<Rightarrow> bool" where
  "node_created x y \<longleftrightarrow>
     (\<exists>uid ts added. y = x\<lparr>kn_Meta := (kn_Meta x)\<lparr>om_UID := uid, om_CreationTimestamp := ts\<rparr>,
                           kn_Taints := kn_Taints x @ added\<rparr>)"

definition node_upd :: "'q CoreNode \<Rightarrow> 'q CoreNode \<Rightarrow> 'q CoreNode" where
  "node_upd old x = x\<lparr>kn_Status := kn_Status old\<rparr>"

definition node_upds :: "'q CoreNode \<Rightarrow> 'q CoreNode \<Rightarrow> 'q CoreNode" where
  "node_upds old x = old\<lparr>kn_Status := kn_Status x\<rparr>"

definition lease_created :: "Lease \<Rightarrow> Lease \<Rightarrow> bool" where
  "lease_created x y \<longleftrightarrow>
     (\<exists>uid ts. y = x\<lparr>kl_Meta := (kl_Meta x)\<lparr>om_UID := uid, om_CreationTimestamp := ts\<rparr>\<rparr>)"

section \<open>A tenant cluster that behaves as documented\<close>

context object_api
begin

lemma deleteExisting_ok:
  assumes "\<And>x. gone x = None" and "deleteExisting cl k msg w = (Inr u, w')"
  shows "objs w' = (objs w)(k := None)"
proof (cases "oc_Delete cl k w")
  case (Pair r w1)
  with assms show ?thesis
    using Delete_ok [of k w _ w1] Delete_err [of k w _ w1]
    by (cases r) (auto simp: deleteExisting_def fun_upd_idem_iff split: if_splits)
qed

end

context client_frame
begin

lemma deleteExisting_frame:
  assumes "deleteExisting cl k msg w = (r, w')"
  shows "view w' = view w"
  using assms Delete_frame
  by (auto simp: deleteExisting_def split: prod.splits sum.splits if_splits)

end

locale tenant_cluster =
  tn: object_api "ks_Nodes cs" tnodes "\<lambda>n. om_key (kn_Meta n)" "\<lambda>n. om_Labels (kn_Meta n)"
    node_created "\<lambda>old x. Some (node_upd old x)" node_upds "\<lambda>n. None" +
  tl: object_api "ks_Leases cs" tleases "\<lambda>l. om_key (kl_Meta l)" "\<lambda>l. om_Labels (kl_Meta l)"
    lease_created "\<lambda>old l. Some l" "\<lambda>old l. l" "\<lambda>l. None" +
  ns_nodes: client_frame "ks_Namespaces cs" tnodes +
  lease_nodes: client_frame "ks_Leases cs" tnodes +
  node_leases: client_frame "ks_Nodes cs" tleases +
  retry_on_conflict "env_retry env"
  for cs :: "('q, 'w) clientset"
    and env :: "('q, 'w) sysenv"
    and tnodes :: "'w \<Rightarrow> objkey \<Rightarrow> 'q CoreNode option"
    and tleases :: "'w \<Rightarrow> objkey \<Rightarrow> Lease option"
begin

lemma upsertNode_ok:
  assumes "upsertNode cs node w = (Inr u, w')"
  shows "\<exists>n. tnodes w' = (tnodes w)(ObjKey [] (n_Name node) \<mapsto> n) \<and>
           om_key (kn_Meta n) = ObjKey [] (n_Name node) \<and>
           om_Labels (kn_Meta n) = nodeLabels node \<and> om_Annotations (kn_Meta n) = nodeAnnotations node \<and>
           (\<exists>added. kn_Taints n = mapNodeTaints (n_Taints node) @ added)"
proof (cases "oc_Get (ks_Nodes cs) (ObjKey [] (n_Name node)) w")
  case (Pair r w1)
  show ?thesis
  proof (cases r)
    case (Inl err)
    obtain y where c: "oc_Create (ks_Nodes cs) (newCoreNode node) w1 = (Inr y, w')"
      using assms Pair Inl by (auto simp: upsertNode_def split: prod.splits sum.splits if_splits)
    have "om_key (kn_Meta (newCoreNode node :: 'q CoreNode)) = ObjKey [] (n_Name node)"
      by (simp add: newCoreNode_def om_key_def emptyMeta_def)
    with tn.Create_ok [OF c] tn.Get_err [OF Pair [unfolded Inl]] show ?thesis
      by (auto simp: node_created_def newCoreNode_def om_key_def emptyMeta_def)
  next
    case (Inr current)
    have u: "oc_Update (ks_Nodes cs) (relabelled node current) w1 = (Inr (), w')"
      using assms Pair Inr by (auto simp: upsertNode_def split: prod.splits sum.splits)
    have k: "om_key (kn_Meta current) = ObjKey [] (n_Name node)"
      using tn.Get_ok [OF Pair [unfolded Inr]] tn.objs_key by blast
    with tn.Update_ok [OF u] tn.Get_ok [OF Pair [unfolded Inr]] show ?thesis
      by (auto simp: relabelled_def node_upd_def)
  qed
qed

lemma tryNodeStatus_ok:
  assumes "tryNodeStatus env cs node w = (Inr u, w')"
  shows "\<exists>n cap alloc t. tnodes w (ObjKey [] (n_Name node)) = Some n \<and>
           buildResources (env_q env) (n_Capacity node) = Inr cap \<and>
           buildResources (env_q env) (n_Allocatable node) = Inr alloc \<and>
           tnodes w' = (tnodes w)(ObjKey [] (n_Name node) \<mapsto>
             n\<lparr>kn_Status := \<lparr>kn_Capacity = cap, kn_Allocatable = alloc,
                kn_Conditions = buildNodeConditions t node,
                kn_NodeInfo = nodeSystemInfo (env_version env)\<rparr>\<rparr>)"
proof -
  obtain n w1 cap alloc where g: "oc_Get (ks_Nodes cs) (ObjKey [] (n_Name node)) w = (Inr n, w1)"
    and b: "buildResources (env_q env) (n_Capacity node) = Inr cap"
      "buildResources (env_q env) (n_Allocatable node) = Inr alloc"
    using assms by (auto simp: tryNodeStatus_def split: prod.splits sum.splits)
  let ?n = "n\<lparr>kn_Status := \<lparr>kn_Capacity = cap, kn_Allocatable = alloc,
              kn_Conditions = buildNodeConditions (env_now env w1) node,
              kn_NodeInfo = nodeSystemInfo (env_version env)\<rparr>\<rparr>"
  have u: "oc_UpdateStatus (ks_Nodes cs) ?n w1 = (Inr u, w')"
    using assms g b by (simp add: tryNodeStatus_def)
  have k: "om_key (kn_Meta n) = ObjKey [] (n_Name node)" using tn.Get_ok [OF g] tn.objs_key by blast
  with tn.UpdateStatus_ok [OF u] tn.Get_ok [OF g] b show ?thesis
    by (intro exI [of _ n] exI [of _ cap] exI [of _ alloc] exI [of _ "env_now env w1"])
      (simp add: node_upds_def)
qed

lemma tryNodeStatus_err:
  assumes "tryNodeStatus env cs node w = (Inl e, w')"
  shows "tnodes w' = tnodes w"
  using assms
  by (auto simp: tryNodeStatus_def split: prod.splits sum.splits
      dest!: tn.Get_ok tn.Get_err tn.UpdateStatus_err)

lemma tryNodeStatus_leases:
  assumes "tryNodeStatus env cs node w = (r, w')"
  shows "tleases w' = tleases w"
  using assms
  by (auto simp: tryNodeStatus_def split: prod.splits sum.splits
      dest!: node_leases.Get_frame node_leases.UpdateStatus_frame)

lemma upsertLease_ok:
  assumes "upsertLease env cs name w = (Inr u, w')"
  shows "tnodes w' = tnodes w \<and>
         (\<exists>l. tleases w' = (tleases w)(ObjKey leaseNamespace name \<mapsto> l) \<and>
            kl_HolderIdentity l = Some name \<and> kl_LeaseDurationSeconds l = Some 40 \<and>
            kl_RenewTime l = Some (env_now env w))"
proof (cases "oc_Get (ks_Leases cs) (ObjKey leaseNamespace name) w")
  case (Pair r w1)
  note fr = lease_nodes.Get_frame [OF Pair]
  show ?thesis
  proof (cases r)
    case (Inl err)
    obtain y where c: "oc_Create (ks_Leases cs) (newLease name (env_now env w)) w1 = (Inr y, w')"
      using assms Pair Inl by (auto simp: upsertLease_def Let_def split: prod.splits sum.splits if_splits)
    with tl.Create_ok [OF c] tl.Get_err [OF Pair [unfolded Inl]] fr lease_nodes.Create_frame [OF c]
    show ?thesis by (auto simp: lease_created_def newLease_def om_key_def emptyMeta_def)
  next
    case (Inr current)
    have u: "oc_Update (ks_Leases cs) (heldLease name (env_now env w) current) w1 = (Inr (), w')"
      using assms Pair Inr by (auto simp: upsertLease_def Let_def split: prod.splits sum.splits)
    have "om_key (kl_Meta current) = ObjKey leaseNamespace name"
      using tl.Get_ok [OF Pair [unfolded Inr]] tl.objs_key by blast
    with tl.Update_ok [OF u] tl.Get_ok [OF Pair [unfolded Inr]] fr lease_nodes.Update_frame [OF u]
    show ?thesis by (auto simp: heldLease_def)
  qed
qed

lemma updateNodeStatusOn_ok:
  assumes "updateNodeStatusOn env cs node w = (Inr u, w')"
  shows "\<exists>n cap alloc t l. tnodes w (ObjKey [] (n_Name node)) = Some n \<and>
           buildResources (env_q env) (n_Capacity node) = Inr cap \<and>
           buildResources (env_q env) (n_Allocatable node) = Inr alloc \<and>
           tnodes w' = (tnodes w)(ObjKey [] (n_Name node) \<mapsto>
             n\<lparr>kn_Status := \<lparr>kn_Capacity = cap, kn_Allocatable = alloc,
                kn_Conditions = buildNodeConditions t node,
                kn_NodeInfo = nodeSystemInfo (env_version env)\<rparr>\<rparr>) \<and>
           tleases w' = (tleases w)(ObjKey leaseNamespace (n_Name node) \<mapsto> l) \<and>
           kl_HolderIdentity l = Some (n_Name node) \<and> kl_LeaseDurationSeconds l = Some 40"
proof -
  obtain w1 where r: "env_retry env (tryNodeStatus env cs node) w = (Inr (), w1)"
    and l: "upsertLease env cs (n_Name node) w1 = (Inr u, w')"
    using assms by (auto simp: updateNodeStatusOn_def split: prod.splits sum.splits)
  obtain v where v: "tnodes v = tnodes w" "tryNodeStatus env cs node v = (Inr (), w1)"
    using retry_view [of "tryNodeStatus env cs node" tnodes w] tryNodeStatus_err r by metis
  have "tleases w1 = tleases w"
    by (rule retry_frame [of "tryNodeStatus env cs node" tleases, OF tryNodeStatus_leases r])
  with tryNodeStatus_ok [OF v(2)] v(1) upsertLease_ok [OF l] show ?thesis by auto
qed

lemma ensureLeaseNamespace_frame:
  assumes "ensureLeaseNamespace cs w = (r, w')"
  shows "tnodes w' = tnodes w"
  using assms
  by (auto simp: ensureLeaseNamespace_def split: prod.splits sum.splits if_splits
      dest!: ns_nodes.Get_frame ns_nodes.Create_frame)

lemma Register_represented:
  assumes got: "TenantClients_Get m tenant s = (Inr cs, s0)" and ne: "KubeconfigSecret tenant \<noteq> []"
    and run: "Register m env node tenant s = (Inr u, s')"
  shows "node_represented env node
           (tnodes (ms_world s') (ObjKey [] (n_Name node)))
           (tleases (ms_world s') (ObjKey leaseNamespace (n_Name node)))"
proof -
  obtain s1 s2 where ln: "onw (ensureLeaseNamespace cs) s0 = (Inr (), s1)"
    and up: "onw (upsertNode cs node) s1 = (Inr (), s2)"
    and st: "UpdateNodeStatus m env node tenant s2 = (Inr u, s')"
    using run got by (auto simp: Register_def split: prod.splits sum.splits)
  have "ms_clients s2 = ms_clients s0" using ln up by (auto dest!: onw_D)
  then have "s2 = s0\<lparr>ms_world := ms_world s2\<rparr>" by simp
  then have "TenantClients_Get m tenant s2 = (Inr cs, s2)"
    using TenantClients_Get_cached [OF got, of tenant "ms_world s2"] by metis
  then have "onw (updateNodeStatusOn env cs node) s2 = (Inr u, s')"
    using st ne by (simp add: UpdateNodeStatus_def)
  then have "updateNodeStatusOn env cs node (ms_world s2) = (Inr u, ms_world s')"
    and "upsertNode cs node (ms_world s1) = (Inr (), ms_world s2)"
    using up by (auto dest!: onw_D)
  from updateNodeStatusOn_ok [OF this(1)] upsertNode_ok [OF this(2)]
  show ?thesis by (auto simp: node_represented_def)
qed

lemma deregisterOn_ok:
  assumes "deregisterOn cs node w = (Inr u, w')"
  shows "tnodes w' = (tnodes w)(ObjKey [] (n_Name node) := None) \<and>
         tleases w' = (tleases w)(ObjKey leaseNamespace (n_Name node) := None)"
proof -
  obtain w1 where dl: "deleteExisting (ks_Leases cs) (ObjKey leaseNamespace (n_Name node))
      (''deleting lease '' @ n_Name node) w = (Inr (), w1)"
    and dn: "deleteExisting (ks_Nodes cs) (ObjKey [] (n_Name node))
      (''deleting tenant node '' @ n_Name node) w1 = (Inr u, w')"
    using assms by (auto simp: deregisterOn_def split: prod.splits sum.splits)
  show ?thesis
    using tl.deleteExisting_ok [OF _ dl] tn.deleteExisting_ok [OF _ dn]
      lease_nodes.deleteExisting_frame [OF dl] node_leases.deleteExisting_frame [OF dn]
    by simp
qed

end

section \<open>The registrar only talks to the tenant cluster\<close>

text \<open>
  \<open>registrar\<close>: the clients of tenant clusters leave the view of the host cluster alone, and so
  does the resolution of kubeconfigs. Then the registrar fulfils the frame contract that the
  node service relies on; the invariant is that every cached clientset came from the factory.
\<close>

locale registrar =
  tenant_clients m "clientset_framed view" view + retry_on_conflict "env_retry env"
  for m :: "('c, 'q, 'w) TenantClientManager"
    and env :: "('q, 'w) sysenv"
    and view :: "'w \<Rightarrow> 'v" +
  fixes nodes :: "'w \<Rightarrow> objkey \<Rightarrow> VNode option"
    and invar :: "'w \<Rightarrow> bool"
  assumes nodes_view: "view w' = view w \<Longrightarrow> nodes w' = nodes w \<and> invar w' = invar w"
begin

abbreviation cache_ok :: "(string, ('q, 'w) clientset) fmap \<Rightarrow> bool" where
  "cache_ok \<equiv> cache_all (clientset_framed view)"

lemma framed_ops:
  assumes "clientset_framed view cs"
  shows "ensureLeaseNamespace cs w = (r, w') \<Longrightarrow> view w' = view w"
    and "upsertNode cs node w = (r, w') \<Longrightarrow> view w' = view w"
    and "upsertLease env cs name w = (r, w') \<Longrightarrow> view w' = view w"
    and "tryNodeStatus env cs node w = (r, w') \<Longrightarrow> view w' = view w"
    and "deregisterOn cs node w = (r, w') \<Longrightarrow> view w' = view w"
proof -
  have fn: "client_frame (ks_Nodes cs) view" and fl: "client_frame (ks_Leases cs) view"
    and fs: "client_frame (ks_Namespaces cs) view"
    using assms by (simp_all add: clientset_framed_def)
  show "ensureLeaseNamespace cs w = (r, w') \<Longrightarrow> view w' = view w"
    by (auto simp: ensureLeaseNamespace_def split: prod.splits sum.splits if_splits
        dest!: client_frame.Get_frame [OF fs] client_frame.Create_frame [OF fs])
  show "upsertNode cs node w = (r, w') \<Longrightarrow> view w' = view w"
    by (auto simp: upsertNode_def split: prod.splits sum.splits if_splits
        dest!: client_frame.Get_frame [OF fn] client_frame.Create_frame [OF fn]
          client_frame.Update_frame [OF fn])
  show "upsertLease env cs name w = (r, w') \<Longrightarrow> view w' = view w"
    by (auto simp: upsertLease_def Let_def split: prod.splits sum.splits if_splits
        dest!: client_frame.Get_frame [OF fl] client_frame.Create_frame [OF fl]
          client_frame.Update_frame [OF fl])
  show "tryNodeStatus env cs node w = (r, w') \<Longrightarrow> view w' = view w"
    by (auto simp: tryNodeStatus_def split: prod.splits sum.splits
        dest!: client_frame.Get_frame [OF fn] client_frame.UpdateStatus_frame [OF fn])
  show "deregisterOn cs node w = (r, w') \<Longrightarrow> view w' = view w"
    by (auto simp: deregisterOn_def split: prod.splits sum.splits
        dest!: client_frame.deleteExisting_frame [OF fl] client_frame.deleteExisting_frame [OF fn])
qed

lemma updateNodeStatusOn_frame:
  assumes cs: "clientset_framed view cs" and "updateNodeStatusOn env cs node w = (r, w')"
  shows "view w' = view w"
  using assms(2) retry_frame [of "tryNodeStatus env cs node" view, OF framed_ops(4) [OF cs]]
  by (auto simp: updateNodeStatusOn_def split: prod.splits sum.splits dest!: framed_ops(3) [OF cs])

lemma onw_frame:
  assumes "onw f s = (r, s')" and "\<And>w r w'. f w = (r, w') \<Longrightarrow> view w' = view w"
    and "cache_ok (ms_clients s)"
  shows "cache_ok (ms_clients s') \<and> view (ms_world s') = view (ms_world s)"
  using assms by (auto dest!: onw_D)

lemma UpdateNodeStatus_keeps:
  assumes "cache_ok (ms_clients s)" and "UpdateNodeStatus m env node tenant s = (r, s')"
  shows "cache_ok (ms_clients s') \<and> view (ms_world s') = view (ms_world s)"
proof (cases "KubeconfigSecret tenant = []")
  case True
  with assms show ?thesis by (simp add: UpdateNodeStatus_def)
next
  case False
  obtain g s1 where g: "TenantClients_Get m tenant s = (g, s1)" by fastforce
  note c = Get_cache [OF assms(1) g]
  show ?thesis
  proof (cases g)
    case (Inl e)
    with assms False g c show ?thesis by (simp add: UpdateNodeStatus_def)
  next
    case (Inr cs)
    have run: "onw (updateNodeStatusOn env cs node) s1 = (r, s')"
      using assms(2) False g Inr by (simp add: UpdateNodeStatus_def)
    have cs: "clientset_framed view cs" using c Inr by blast
    show ?thesis using onw_frame [OF run updateNodeStatusOn_frame [OF cs]] c by simp
  qed
qed

lemma Register_keeps:
  assumes "cache_ok (ms_clients s)" and "Register m env node tenant s = (r, s')"
  shows "cache_ok (ms_clients s') \<and> view (ms_world s') = view (ms_world s)"
proof -
  obtain g s1 where g: "TenantClients_Get m tenant s = (g, s1)" by fastforce
  note c = Get_cache [OF assms(1) g]
  show ?thesis
  proof (cases g)
    case (Inl e)
    with assms g c show ?thesis by (simp add: Register_def)
  next
    case (Inr cs)
    then have cs: "clientset_framed view cs" using c by blast
    obtain r2 s2 where ln: "onw (ensureLeaseNamespace cs) s1 = (r2, s2)" by fastforce
    have ln': "cache_ok (ms_clients s2) \<and> view (ms_world s2) = view (ms_world s)"
      using onw_frame [OF ln framed_ops(1) [OF cs]] c by simp
    obtain r3 s3 where up: "onw (upsertNode cs node) s2 = (r3, s3)" by fastforce
    have up': "cache_ok (ms_clients s3) \<and> view (ms_world s3) = view (ms_world s)"
      using onw_frame [OF up framed_ops(2) [OF cs]] ln' by simp
    consider "s' = s2" | "s' = s3" | "UpdateNodeStatus m env node tenant s3 = (r, s')"
      using assms(2) g Inr ln up by (cases r2; cases r3) (simp_all add: Register_def)
    then show ?thesis using ln' up' UpdateNodeStatus_keeps [of s3 node tenant r s'] by cases simp_all
  qed
qed

lemma Deregister_keeps:
  assumes "cache_ok (ms_clients s)" and "Deregister m node tenant s = (r, s')"
  shows "cache_ok (ms_clients s') \<and> view (ms_world s') = view (ms_world s)"
proof (cases "KubeconfigSecret tenant = []")
  case True
  with assms show ?thesis by (simp add: Deregister_def)
next
  case False
  obtain g s1 where g: "TenantClients_Get m tenant s = (g, s1)" by fastforce
  note c = Get_cache [OF assms(1) g]
  show ?thesis
  proof (cases g)
    case (Inl e)
    with assms False g c show ?thesis by (simp add: Deregister_def)
  next
    case (Inr cs)
    have run: "onw (deregisterOn cs node) s1 = (r, s')"
      using assms(2) False g Inr by (simp add: Deregister_def)
    have cs: "clientset_framed view cs" using c Inr by blast
    show ?thesis using onw_frame [OF run framed_ops(5) [OF cs]] c by simp
  qed
qed

end

sublocale registrar \<subseteq> frame: registrar_frame "NewRegistrar m env" "\<lambda>s. nodes (ms_world s)"
  "\<lambda>s. invar (ms_world s) \<and> cache_all (clientset_framed view) (ms_clients s)"
  by unfold_locales
    (auto simp: NewRegistrar_def dest: Register_keeps Deregister_keeps UpdateNodeStatus_keeps nodes_view)

section \<open>Properties\<close>


text \<open>
  C21: what a deregistration that succeeds did. For a tenant without a kubeconfig Secret it did
  nothing at all. Otherwise, in the cluster of the client that the lookup returns (cached or
  built for the occasion), the Node and the Lease of the virtual node are gone, whether or not
  they were there, and every other Node and Lease is as it was after the lookup.
\<close>

theorem Deregister_removes_node:
  assumes "Deregister m node tenant s = (Inr (), s')"
  shows "if KubeconfigSecret tenant = [] then s' = s
         else \<exists>cs s0. TenantClients_Get m tenant s = (Inr cs, s0) \<and>
           (\<forall>env tnodes tleases. tenant_cluster cs env tnodes tleases \<longrightarrow>
              tnodes (ms_world s') = (tnodes (ms_world s0))(ObjKey [] (n_Name node) := None) \<and>
              tleases (ms_world s') = (tleases (ms_world s0))(ObjKey leaseNamespace (n_Name node) := None))"
proof (cases "KubeconfigSecret tenant = []")
  case True
  with assms show ?thesis by (simp add: Deregister_def)
next
  case False
  then obtain cs s0 where got: "TenantClients_Get m tenant s = (Inr cs, s0)"
    and run: "onw (deregisterOn cs node) s0 = (Inr (), s')"
    using assms by (auto simp: Deregister_def split: prod.splits sum.splits)
  have "deregisterOn cs node (ms_world s0) = (Inr (), ms_world s')" using onw_D [OF run] by simp
  with got False tenant_cluster.deregisterOn_ok [of cs _ _ _ node "ms_world s0" "()" "ms_world s'"] show ?thesis
    by auto
qed

end
