(* ===== verification/Node_Service.thy ===== *)
theory Node_Service
  imports Ports
begin

text \<open>
  The node lifecycle service (\<open>internal/domain/service/node_service.go\<close>): provisioning,
  deprovisioning and the status reconciliation of a single virtual node, over an arbitrary
  node repository and registrar.

  The logging of a failed deregistration has no effect on the state and is not modelled; the
  error itself is dropped there, as in the code. A panic in a port skips the rest of the
  method. The lemmas cover every branch of
  \<open>UpdateStatus\<close> (which errors escape, when the node is saved and when a save is skipped),
  and the final section shows that the service fulfils the contract \<open>node_lifecycle\<close> that the
  pool service relies on.
\<close>

section \<open>Conditions\<close>

definition cond :: "NodeConditionType \<Rightarrow> bool \<Rightarrow> string \<Rightarrow> string \<Rightarrow> NodeCondition" where
  "cond ty st rs msg = \<lparr>nc_Type = ty, nc_Status = st, nc_Reason = rs, nc_Message = msg\<rparr>"

definition readyNodeConditions :: "NodeCondition list" where
  "readyNodeConditions =
     [cond NodeConditionKubeconfig True ''KubeconfigResolved'' ''Tenant kubeconfig resolved'',
      cond NodeConditionRegistered True ''RegistrationSucceeded'' ''Node registered in tenant cluster'',
      cond NodeConditionLease True ''LeaseActive'' ''Node lease is active'',
      cond NodeConditionReady True ''Ready'' ''Node is ready'',
      cond NodeConditionDegraded False ''Healthy'' ''Node registration is healthy'']"

definition registrationFailedConditions :: "goerr \<Rightarrow> NodeCondition list" where
  "registrationFailedConditions err =
     [cond NodeConditionKubeconfig False ''RegistrationFailed'' (error_string err),
      cond NodeConditionRegistered False ''RegistrationFailed'' (error_string err),
      cond NodeConditionReady False ''RegistrationFailed'' (error_string err),
      cond NodeConditionDegraded True ''RegistrationFailed'' (error_string err)]"

fun registeredConditionFalse :: "NodeCondition list \<Rightarrow> bool" where
  "registeredConditionFalse [] = True"
| "registeredConditionFalse (c # cs) =
     (if nc_Type c \<noteq> NodeConditionRegistered then registeredConditionFalse cs
      else \<not> nc_Status c)"

definition shouldRetryRegistration :: "VNode \<Rightarrow> bool" where
  "shouldRetryRegistration node =
     (if n_Phase node \<noteq> NodePhasePending \<and> n_Phase node \<noteq> NodePhaseNotReady then False
      else registeredConditionFalse (n_Conditions node))"

definition hasRegisteredCondition :: "VNode \<Rightarrow> bool" where
  "hasRegisteredCondition node =
     list_ex (\<lambda>c. nc_Type c = NodeConditionRegistered) (n_Conditions node)"

definition isIgnorableStatusError :: "goerr \<Rightarrow> bool" where
  "isIgnorableStatusError err \<longleftrightarrow> errors_Is err Canceled \<or> errors_Is err DeadlineExceeded"

section \<open>The status a node is given\<close>

definition readyNode :: "VNode \<Rightarrow> VNode" where
  "readyNode node = node\<lparr>n_Phase := NodePhaseReady, n_Conditions := readyNodeConditions\<rparr>"

definition registrationFailedNode :: "goerr \<Rightarrow> VNode \<Rightarrow> VNode" where
  "registrationFailedNode err node =
     node\<lparr>n_Phase := NodePhaseNotReady, n_Conditions := registrationFailedConditions err\<rparr>"

definition syncFailedNode :: "goerr \<Rightarrow> VNode \<Rightarrow> VNode" where
  "syncFailedNode err node =
     node\<lparr>n_Phase := NodePhaseNotReady,
          n_Conditions :=
            [cond NodeConditionReady False ''StatusSyncFailed'' (error_string err),
             cond NodeConditionDegraded True ''StatusSyncFailed'' (error_string err)]\<rparr>"

definition terminatingNode :: "VNode \<Rightarrow> VNode" where
  "terminatingNode node =
     node\<lparr>n_Phase := NodePhaseTerminating,
          n_Conditions := [cond NodeConditionReady False ''Terminating'' ''Node is being removed'']\<rparr>"

section \<open>Provisioning and deprovisioning\<close>

definition emptyVNode :: VNode where
  "emptyVNode =
     \<lparr>n_ID = [], n_Name = [], n_Namespace = [], n_PoolName = [],
      n_TenantRef = \<lparr>VClusterName = [], VClusterNamespace = [], KubeconfigSecret = []\<rparr>,
      n_Taints = [], n_Phase = [], n_Capacity = emptyResources, n_Allocatable = emptyResources,
      n_Conditions = []\<rparr>"

definition newNode :: "VNodePool \<Rightarrow> nat \<Rightarrow> VNode" where
  "newNode pool existing =
     emptyVNode
       \<lparr>n_Name := nodeName pool (existing + 1),
        n_Namespace := p_Namespace pool,
        n_PoolName := p_Name pool,
        n_TenantRef := p_TenantRef pool,
        n_Taints := p_Taints pool,
        n_Phase := NodePhasePending,
        n_Capacity := p_PerNodeResources pool,
        n_Allocatable := p_PerNodeResources pool,
        n_Conditions := [cond NodeConditionReady False ''Registering''
          ''Waiting for tenant cluster node registration'']\<rparr>"

definition Provision ::
  "'s NodeRepository \<Rightarrow> 's NodeRegistrar \<Rightarrow> VNodePool \<Rightarrow> 's \<Rightarrow> (VNode \<times> goerr option) \<times> 's"
where
  "Provision repo reg pool s =
     (case repo_ListByPool repo (p_Namespace pool) (p_Name pool) s of
        (Inl err, s) \<Rightarrow> ((emptyVNode, Some (Wrap ''listing existing nodes'' err)), s)
      | (Inr existing, s) \<Rightarrow>
          (let node = newNode pool (length existing) in
           case repo_Save repo node s of
             (Inl err, s) \<Rightarrow> ((emptyVNode, Some (Wrap (''saving node '' @ n_Name node) err)), s)
           | (Inr _, s) \<Rightarrow>
               (case reg_Register reg node (p_TenantRef pool) s of
                  (Inl err, s) \<Rightarrow>
                    if isPanic err then ((emptyVNode, Some err), s)
                    else
                      (let node = registrationFailedNode err node in
                       case repo_Save repo node s of
                         (_, s) \<Rightarrow>
                           ((node, Some (Wrap (''registering node '' @ n_Name node @ '' in vcluster'') err)), s))
                | (Inr _, s) \<Rightarrow>
                    (let node = readyNode node in
                     case repo_Save repo node s of
                       (Inl err, s) \<Rightarrow>
                         ((node, Some (Wrap (''updating node '' @ n_Name node @ '' status'') err)), s)
                     | (Inr _, s) \<Rightarrow> ((node, None), s)))))"

definition Deprovision ::
  "'s NodeRepository \<Rightarrow> 's NodeRegistrar \<Rightarrow> VNode \<Rightarrow> 's \<Rightarrow> unit res \<times> 's"
where
  "Deprovision repo reg node s =
     (let node = terminatingNode node in
      case repo_Save repo node s of
        (Inl err, s) \<Rightarrow>
          (Inl (Wrap (''marking node '' @ n_Name node @ '' as terminating'') err), s)
      | (Inr _, s) \<Rightarrow>
          (case reg_Deregister reg node (n_TenantRef node) s of
             (r, s) \<Rightarrow>
               if (case r of Inl err \<Rightarrow> isPanic err | Inr _ \<Rightarrow> False) then (r, s)
               else
                 (case repo_Delete repo (n_Namespace node) (n_Name node) s of
                    (Inl err, s) \<Rightarrow> (Inl (Wrap (''deleting node '' @ n_Name node) err), s)
                  | (Inr _, s) \<Rightarrow> (Inr (), s))))"

section \<open>Status reconciliation\<close>

definition saveReady :: "'s NodeRepository \<Rightarrow> VNode \<Rightarrow> 's \<Rightarrow> unit res \<times> 's" where
  "saveReady repo node s =
     (case repo_Save repo (readyNode node) s of
        (Inl err, s) \<Rightarrow> if isIgnorableStatusError err then (Inr (), s) else (Inl err, s)
      | (Inr _, s) \<Rightarrow> (Inr (), s))"

definition retryRegistration ::
  "'s NodeRepository \<Rightarrow> 's NodeRegistrar \<Rightarrow> VNode \<Rightarrow> 's \<Rightarrow> unit res \<times> 's"
where
  "retryRegistration repo reg node s =
     (case reg_Register reg node (n_TenantRef node) s of
        (Inl err, s) \<Rightarrow>
          if isPanic err then (Inl err, s)
          else if isIgnorableStatusError err then (Inr (), s)
          else if n_Phase node \<noteq> NodePhaseNotReady \<or> \<not> hasRegisteredCondition node
          then (case repo_Save repo (registrationFailedNode err node) s of
                  (Inl saveErr, s) \<Rightarrow>
                    if isIgnorableStatusError saveErr then (Inr (), s)
                    else (Inl (Wrap (''updating node '' @ n_Name node @
                                     '' status after registration retry failure'') saveErr), s)
                | (Inr _, s) \<Rightarrow>
                    (Inl (Wrap (''retrying tenant node registration for '' @ n_Name node) err), s))
          else (Inl (Wrap (''retrying tenant node registration for '' @ n_Name node) err), s)
      | (Inr _, s) \<Rightarrow> saveReady repo node s)"

definition UpdateStatus ::
  "'s NodeRepository \<Rightarrow> 's NodeRegistrar \<Rightarrow> VNode \<Rightarrow> 's \<Rightarrow> unit res \<times> 's"
where
  "UpdateStatus repo reg node s =
     (if n_Phase node = [] \<and> n_Conditions node = [] then (Inr (), s)
      else if shouldRetryRegistration node then retryRegistration repo reg node s
      else
        (case reg_UpdateNodeStatus reg node (n_TenantRef node) s of
           (Inl err, s) \<Rightarrow>
             if isPanic err then (Inl err, s)
             else if isIgnorableStatusError err then (Inr (), s)
             else
               (case repo_Save repo (syncFailedNode err node) s of
                  (Inl saveErr, s) \<Rightarrow>
                    if isIgnorableStatusError saveErr then (Inr (), s)
                    else (Inl (Wrap (''updating node '' @ n_Name node @
                                     '' status after sync failure'') saveErr), s)
                | (Inr _, s) \<Rightarrow>
                    (Inl (Wrap (''syncing tenant node status for '' @ n_Name node) err), s))
         | (Inr _, s) \<Rightarrow>
             if n_Phase node = NodePhaseReady \<and> IsReady node then (Inr (), s)
             else saveReady repo node s))"

definition NodeService ::
  "'s NodeRepository \<Rightarrow> 's NodeRegistrar \<Rightarrow> 's NodeLifecycle"
where
  "NodeService repo reg =
     \<lparr>lc_Provision = Provision repo reg, lc_Deprovision = Deprovision repo reg,
      lc_UpdateStatus = UpdateStatus repo reg\<rparr>"

section \<open>Facts about conditions\<close>

lemma isIgnorableStatusError_iff [simp]: "isIgnorableStatusError e \<longleftrightarrow> isContextError e"
  by (simp add: isIgnorableStatusError_def isContextError_def)

lemma ready_conditions [simp]:
  "readyCondition readyNodeConditions"
  "\<not> registeredConditionFalse readyNodeConditions"
  by (simp_all add: readyNodeConditions_def cond_def)

lemma failed_conditions [simp]:
  "\<not> readyCondition (registrationFailedConditions e)"
  "registeredConditionFalse (registrationFailedConditions e)"
  "list_ex (\<lambda>c. nc_Type c = NodeConditionRegistered) (registrationFailedConditions e)"
  by (simp_all add: registrationFailedConditions_def cond_def)

lemma registeredConditionFalse_find:
  "registeredConditionFalse cs =
     (case find (\<lambda>c. nc_Type c = NodeConditionRegistered) cs of
        None \<Rightarrow> True | Some c \<Rightarrow> \<not> nc_Status c)"
  by (induction cs) auto

lemmas status_node_defs =
  readyNode_def registrationFailedNode_def syncFailedNode_def terminatingNode_def

lemma status_nodes_key [simp]:
  "nkey (readyNode n) = nkey n" "nkey (registrationFailedNode e n) = nkey n"
  "nkey (syncFailedNode e n) = nkey n" "nkey (terminatingNode n) = nkey n"
  by (simp_all add: nkey_def status_node_defs)

lemma status_nodes_fields [simp]:
  "n_PoolName (readyNode n) = n_PoolName n"
  "n_PoolName (registrationFailedNode e n) = n_PoolName n"
  "n_PoolName (syncFailedNode e n) = n_PoolName n"
  "n_PoolName (terminatingNode n) = n_PoolName n"
  "n_TenantRef (readyNode n) = n_TenantRef n"
  "n_TenantRef (registrationFailedNode e n) = n_TenantRef n"
  "n_TenantRef (terminatingNode n) = n_TenantRef n"
  "n_Name (registrationFailedNode e n) = n_Name n"
  "n_Name (terminatingNode n) = n_Name n"
  "n_Namespace (terminatingNode n) = n_Namespace n"
  "n_Capacity (readyNode n) = n_Capacity n"
  "n_Phase (readyNode n) = NodePhaseReady"
  "n_Phase (registrationFailedNode e n) = NodePhaseNotReady"
  by (simp_all add: status_node_defs)

lemma touched_terminating [simp]:
  "touched_node old (terminatingNode n) ov = touched_node old n ov"
  by (simp add: touched_node_def cong: option.case_cong)

lemmas update_status_defs = UpdateStatus_def retryRegistration_def saveReady_def
lemmas result_splits = prod.splits sum.splits if_splits

section \<open>Which errors escape from the status reconciliation\<close>

text \<open>Where a status reconciliation ends: it makes one call to the registrar and at most one save.\<close>

lemma UpdateStatus_cases:
  assumes "UpdateStatus repo reg n s = (r, s')"
    and "reg_Register reg n (n_TenantRef n) s = (r1, s1)"
    and "reg_UpdateNodeStatus reg n (n_TenantRef n) s = (r2, s2)"
  shows "s' = s \<or> s' = s1 \<or> s' = s2 \<or>
         (\<exists>m rs t. nkey m = nkey n \<and> n_PoolName m = n_PoolName n \<and> t \<in> {s1, s2} \<and> repo_Save repo m t = (rs, s'))"
proof -
  have save: "\<exists>m rs t. nkey m = nkey n \<and> n_PoolName m = n_PoolName n \<and> t \<in> {s1, s2} \<and> repo_Save repo m t = (rs, s')"
    if "repo_Save repo m t = (rs, s')" "nkey m = nkey n" "n_PoolName m = n_PoolName n" "t \<in> {s1, s2}" for m rs t
    using that by blast
  have ready: "\<exists>rs. repo_Save repo (readyNode n) t = (rs, s')" if "saveReady repo n t = (r, s')" for t
    using that by (auto simp: saveReady_def split: result_splits)
  show ?thesis
  proof (cases "shouldRetryRegistration n")
    case True
    then consider "s' = s \<or> s' = s1" | e rs where "repo_Save repo (registrationFailedNode e n) s1 = (rs, s')"
      | "saveReady repo n s1 = (r, s')"
      using assms(1,2) by (cases r1) (auto simp: UpdateStatus_def retryRegistration_def split: result_splits)
    then show ?thesis
    proof cases
      case 2
      then show ?thesis using save [of "registrationFailedNode e n" s1 rs] by simp
    next
      case 3
      then show ?thesis using ready [of s1] save [of "readyNode n" s1] by auto
    qed auto
  next
    case False
    have "s' = s \<or> s' = s2 \<or> (\<exists>e rs. repo_Save repo (syncFailedNode e n) s2 = (rs, s')) \<or>
        saveReady repo n s2 = (r, s')"
    proof (cases r2)
      case (Inl e)
      obtain rs s3 where sv: "repo_Save repo (syncFailedNode e n) s2 = (rs, s3)" by fastforce
      then have "s' = s \<or> s' = s2 \<or> s' = s3"
        using assms(1,3) False Inl by (cases rs) (simp_all add: UpdateStatus_def split: if_splits)
      with sv show ?thesis by blast
    next
      case (Inr u)
      then show ?thesis using assms(1,3) False by (simp add: UpdateStatus_def split: if_splits)
    qed
    then consider "s' = s \<or> s' = s2" | e rs where "repo_Save repo (syncFailedNode e n) s2 = (rs, s')"
      | "saveReady repo n s2 = (r, s')" by blast
    then show ?thesis
    proof cases
      case 2
      then show ?thesis using save [of "syncFailedNode e n" s2 rs] by simp
    next
      case 3
      then show ?thesis using ready [of s2] save [of "readyNode n" s2] by auto
    qed auto
  qed
qed

text \<open>
  \<open>UpdateStatus\<close> never reports a cancelled or expired context, whichever of its calls
  returned it: the error it returns, if any, is not a context error.
\<close>

lemma UpdateStatus_no_context_error:
  assumes "UpdateStatus repo reg node s = (Inl e, s')"
  shows "\<not> isContextError e"
  using assms by (auto simp: update_status_defs split: result_splits dest: panic_not_status)

text \<open>
  A node that is Ready and whose tenant status update succeeds is not written: the state
  after \<open>UpdateStatus\<close> is the state the registrar left, so a healthy node does not trigger
  its own reconciliation again.
\<close>

lemma UpdateStatus_ready_no_write:
  assumes "n_Phase node = NodePhaseReady"
    and "reg_UpdateNodeStatus reg node (n_TenantRef node) s = (Inr (), s1)"
  shows "UpdateStatus repo reg node s = (Inr (), s1)"
  using assms by (simp add: update_status_defs shouldRetryRegistration_def IsReady_def)

text \<open>
  C36: a node whose registration keeps failing is written at most once. On the node as a
  failed attempt leaves it (phase NotReady, conditions of the first error), a further failed
  registration with any other error is reported to the caller and leaves the state exactly
  as the registrar left it.
\<close>

theorem UpdateStatus_failing_no_rewrite:
  assumes "reg_Register reg (registrationFailedNode err node) (n_TenantRef node) s = (Inl err2, s1)"
    and "\<not> isContextError err2" and "\<not> isPanic err2"
  shows "UpdateStatus repo reg (registrationFailedNode err node) s =
         (Inl (Wrap (''retrying tenant node registration for '' @ n_Name node) err2), s1)"
proof -
  let ?failed = "registrationFailedNode err node"
  have "shouldRetryRegistration ?failed" and "hasRegisteredCondition ?failed"
    by (simp_all add: registrationFailedNode_def shouldRetryRegistration_def hasRegisteredCondition_def)
  with assms show ?thesis by (simp add: update_status_defs)
qed

section \<open>The service fulfils the lifecycle contract\<close>

locale node_service =
  node_repository repo nodes invar + registrar_frame reg nodes invar
  for repo :: "'s NodeRepository"
    and reg :: "'s NodeRegistrar"
    and nodes :: "'s \<Rightarrow> objkey \<Rightarrow> VNode option"
    and invar :: "'s \<Rightarrow> bool"
begin

lemmas frames = Register_frame Deregister_frame UpdateNodeStatus_frame

lemma Provision_stored:
  assumes "invar s" and "Provision repo reg pool s = ((n, None), s')"
  shows "invar s' \<and> n_Phase n = NodePhaseReady \<and> n_PoolName n = p_Name pool \<and> n_TenantRef n = p_TenantRef pool \<and>
      nkey n = ObjKey (p_Namespace pool) (nodeName pool (pool_size (nodes s) pool + 1)) \<and>
      (\<exists>v. nodes s' = (nodes s)(nkey n \<mapsto> v) \<and> saved_node (nodes s (nkey n)) n v)"
proof -
  let ?ns = "p_Namespace pool" and ?p = "p_Name pool"
  obtain xs s1 where l: "repo_ListByPool repo ?ns ?p s = (Inr xs, s1)"
    using assms(2) by (auto simp: Provision_def split: result_splits)
  let ?n0 = "newNode pool (length xs)"
  let ?n1 = "readyNode ?n0"
  obtain s2 s3 where sv: "repo_Save repo ?n0 s1 = (Inr (), s2)"
    and rg: "reg_Register reg ?n0 (p_TenantRef pool) s2 = (Inr (), s3)"
    and sv2: "repo_Save repo ?n1 s3 = (Inr (), s')" and n: "n = ?n1"
    using assms(2) l by (auto simp: Provision_def Let_def split: result_splits)
  have inv: "invar s1" "invar s2" "invar s3" "invar s'" and n1: "nodes s1 = nodes s"
    and n3: "nodes s3 = nodes s2"
    using List_ok [OF assms(1) l] Save_ok [OF _ sv] Register_frame [OF _ rg] Save_ok [OF _ sv2]
    by blast+
  obtain v where v: "nodes s2 = (nodes s)(nkey ?n0 \<mapsto> v)" "saved_node (nodes s (nkey ?n0)) ?n0 v"
    using Save_ok [OF inv(1) sv] n1 by auto
  obtain w where w: "nodes s' = (nodes s2)(nkey ?n0 \<mapsto> w)" "saved_node (Some v) ?n1 w"
    using Save_ok [OF inv(3) sv2] n3 v(1) by auto
  have "saved_node (nodes s (nkey ?n0)) ?n1 w"
    using v(2) w(2) by (auto simp: saved_node_def split: option.splits)
  moreover have "nkey ?n0 = ObjKey ?ns (nodeName pool (pool_size (nodes s) pool + 1))"
    using List_length [OF assms(1) l] by (simp add: newNode_def nkey_def pool_size_def)
  ultimately show ?thesis
    using n w(1) v(1) inv by (auto simp: newNode_def)
qed

lemma Provision_failed:
  assumes "invar s" and "Provision repo reg pool s = ((n, Some e), s')"
  shows "invar s' \<and> (nodes s' = nodes s \<or>
        (\<exists>m ov. nkey m = ObjKey (p_Namespace pool) (nodeName pool (pool_size (nodes s) pool + 1)) \<and>
          n_PoolName m = p_Name pool \<and>
          nodes s' = (nodes s)(nkey m := ov) \<and> touched_node (nodes s (nkey m)) m ov))"
proof -
  let ?ns = "p_Namespace pool" and ?p = "p_Name pool"
  obtain r s1 where l: "repo_ListByPool repo ?ns ?p s = (r, s1)" by fastforce
  show ?thesis
  proof (cases r)
    case (Inl e1)
    with l assms List_err show ?thesis by (auto simp: Provision_def)
  next
    case (Inr xs)
    let ?n0 = "newNode pool (length xs)"
    have l': "invar s1" "nodes s1 = nodes s" using List_ok [OF assms(1)] l Inr by blast+
    have key: "nkey ?n0 = ObjKey ?ns (nodeName pool (pool_size (nodes s) pool + 1))"
      and pn: "n_PoolName ?n0 = ?p"
      using List_length [OF assms(1), of ?ns ?p xs s1] l Inr
      by (simp_all add: newNode_def nkey_def pool_size_def)
    obtain r2 s2 where sv: "repo_Save repo ?n0 s1 = (r2, s2)" by fastforce
    obtain ov where ov: "invar s2" "nodes s2 = (nodes s)(nkey ?n0 := ov)"
      "touched_node (nodes s (nkey ?n0)) ?n0 ov"
      using Save_touched [OF l'(1) sv] l'(2) by auto
    obtain r3 s3 where rg: "reg_Register reg ?n0 (p_TenantRef pool) s2 = (r3, s3)" by fastforce
    have s3: "invar s3" "nodes s3 = nodes s2" using Register_frame [OF ov(1) rg] by auto
    show ?thesis
    proof (cases r2)
      case (Inl e2)
      with assms(2) l Inr sv have "s' = s2" by (simp add: Provision_def Let_def)
      with ov key pn show ?thesis by blast
    next
      case u: (Inr u)
      show ?thesis
      proof (cases "\<exists>e3. r3 = Inl e3 \<and> isPanic e3")
      case True
      with assms(2) l Inr sv u rg have "s' = s3" by (auto simp: Provision_def Let_def)
      with ov key pn s3 show ?thesis by metis
    next
      case False
      define n1 where
        "n1 = (case r3 of Inl e3 \<Rightarrow> registrationFailedNode e3 ?n0 | Inr _ \<Rightarrow> readyNode ?n0)"
      obtain r4 where n1: "repo_Save repo n1 s3 = (r4, s')"
        using assms(2) l Inr sv u rg False
        by (auto simp: Provision_def Let_def n1_def split: result_splits)
      have same: "nkey n1 = nkey ?n0" "n_PoolName n1 = n_PoolName ?n0"
        by (simp_all add: n1_def split: sum.split)
      obtain ov' where ov': "invar s'" "nodes s' = (nodes s3)(nkey n1 := ov')"
        "touched_node (nodes s3 (nkey n1)) n1 ov'"
        using Save_touched [OF s3(1) n1] by blast
      have "touched_node (nodes s (nkey ?n0)) ?n0 ov'"
        using ov(2,3) ov'(3) s3(2) same by (auto simp: touched_node_def split: option.splits)
      with ov'(1,2) s3(2) ov(2) same key pn show ?thesis by auto
      qed
    qed
  qed
qed

lemma Deprovision_removed:
  assumes "invar s" and "Deprovision repo reg n s = (Inr u, s')"
  shows "invar s' \<and> nodes s' = (nodes s)(nkey n := None)"
proof -
  let ?m = "terminatingNode n"
  obtain r s1 s2 where sv: "repo_Save repo ?m s = (Inr (), s1)"
    and dr: "reg_Deregister reg ?m (n_TenantRef ?m) s1 = (r, s2)"
    and del: "repo_Delete repo (n_Namespace n) (n_Name n) s2 = (Inr (), s')"
    using assms(2) by (auto simp: Deprovision_def Let_def split: result_splits)
  then show ?thesis
    using Save_ok [OF assms(1) sv] Deregister_frame [OF _ dr] Delete_ok [OF _ del]
    by (auto simp: nkey_def)
qed

lemma Deprovision_failed:
  assumes "invar s" and "Deprovision repo reg n s = (Inl e, s')"
  shows "invar s' \<and> (\<exists>ov. nodes s' = (nodes s)(nkey n := ov) \<and> touched_node (nodes s (nkey n)) n ov)"
proof -
  let ?m = "terminatingNode n"
  obtain r1 s1 where sv: "repo_Save repo ?m s = (r1, s1)" by fastforce
  have "invar s1 \<and> (\<exists>ov. nodes s1 = (nodes s)(nkey n := ov) \<and> touched_node (nodes s (nkey n)) n ov)"
    using Save_touched [OF assms(1) sv] by simp
  moreover obtain r2 s2 where dr: "reg_Deregister reg ?m (n_TenantRef ?m) s1 = (r2, s2)" by fastforce
  moreover have "s' = s1 \<or> s' = s2 \<or> (\<exists>e'. repo_Delete repo (n_Namespace n) (n_Name n) s2 = (Inl e', s'))"
    using assms(2) sv dr by (auto simp: Deprovision_def Let_def split: result_splits)
  ultimately show ?thesis
    using Deregister_frame [OF _ dr] Delete_err by metis
qed

end

lemma NodeService_sel [simp]:
  "lc_Provision (NodeService repo reg) = Provision repo reg"
  "lc_Deprovision (NodeService repo reg) = Deprovision repo reg"
  "lc_UpdateStatus (NodeService repo reg) = UpdateStatus repo reg"
  by (simp_all add: NodeService_def)

sublocale node_service \<subseteq> lifecycle: node_lifecycle "NodeService repo reg" nodes invar
  by unfold_locales
    (unfold NodeService_sel; rule Provision_stored Provision_failed Deprovision_removed
      Deprovision_failed; assumption)+

end
