(* ===== verification/Pool_Service.thy ===== *)
theory Pool_Service
  imports Ports
begin

text \<open>
  The pool service (\<open>internal/domain/service/pool_service.go\<close>): one reconciliation of a pool
  adds or removes nodes until their number is the requested one.

  The two loops count a 32-bit index up to the number of actions; they are recursions on that
  number. \<open>scaleUp\<close> threads the pool, whose \<open>Nodes\<close> field the loop extends, and the slice of
  working nodes. The main result, proved in the locale \<open>pool_service\<close> from the contracts of
  the repository and of the node lifecycle, is that a reconciliation that returns no error
  leaves exactly the requested number of nodes and touches no other node, provided the names
  of the nodes to add are free; a second result shows what happens when they are not.
\<close>

section \<open>Reconciliation\<close>

fun scaleUp ::
  "'s NodeLifecycle \<Rightarrow> VNodePool \<Rightarrow> VNode list \<Rightarrow> nat \<Rightarrow> nat \<Rightarrow> 's \<Rightarrow>
   (VNodePool \<times> VNode list \<times> goerr option) \<times> 's"
where
  "scaleUp svc pool working i 0 s = ((pool, working, None), s)"
| "scaleUp svc pool working i (Suc k) s =
     (case lc_Provision svc pool s of
        ((node, Some err), s) \<Rightarrow>
          ((pool\<lparr>p_Phase := PoolPhaseFailed\<rparr>, working,
            Some (Wrap (''provisioning node '' @ itoa i @ '' for pool '' @ p_Name pool) err)), s)
      | ((node, None), s) \<Rightarrow>
          scaleUp svc (pool\<lparr>p_Nodes := p_Nodes pool @ [n_Name node]\<rparr>) (working @ [node]) (i + 1) k s)"

fun scaleDown ::
  "'s NodeLifecycle \<Rightarrow> VNodePool \<Rightarrow> VNode list \<Rightarrow> nat \<Rightarrow> 's \<Rightarrow>
   (VNodePool \<times> VNode list \<times> goerr option) \<times> 's"
where
  "scaleDown svc pool working 0 s = ((pool, working, None), s)"
| "scaleDown svc pool working (Suc k) s =
     (if working = [] then ((pool, working, None), s)
      else
        (case lc_Deprovision svc (last working) s of
           (Inl err, s) \<Rightarrow>
             ((pool\<lparr>p_Phase := PoolPhaseFailed\<rparr>, working,
               Some (Wrap (''deprovisioning node '' @ n_Name (last working)) err)), s)
         | (Inr _, s) \<Rightarrow> scaleDown svc pool (butlast working) k s))"

definition countsAsReady :: "VNode \<Rightarrow> bool" where
  "countsAsReady n \<longleftrightarrow> n_Phase n \<noteq> NodePhaseNotReady \<and> n_Phase n \<noteq> NodePhaseTerminating"

definition PoolService_Reconcile ::
  "'s NodeRepository \<Rightarrow> 's NodeLifecycle \<Rightarrow> VNodePool \<Rightarrow> 's \<Rightarrow> (VNodePool \<times> goerr option) \<times> 's"
where
  "PoolService_Reconcile repo svc pool s =
     (case repo_ListByPool repo (p_Namespace pool) (p_Name pool) s of
        (Inl err, s) \<Rightarrow> ((pool, Some (Wrap (''listing nodes for pool '' @ p_Name pool) err)), s)
      | (Inr existing, s) \<Rightarrow>
          (case DesiredScaleActions pool (len32 existing) of
             (toAdd, toRemove) \<Rightarrow>
               (case scaleUp svc pool existing 0 (nat (sint toAdd)) s of
                  ((pool, working, Some err), s) \<Rightarrow> ((pool, Some err), s)
                | ((pool, working, None), s) \<Rightarrow>
                    (case scaleDown svc pool working (nat (sint toRemove)) s of
                       ((pool, working, Some err), s) \<Rightarrow> ((pool, Some err), s)
                     | ((pool, working, None), s) \<Rightarrow>
                         (let readyCount = len32 (filter countsAsReady working) in
                          ((pool\<lparr>p_ReadyNodes := readyCount,
                                 p_Phase := (if readyCount = p_NodeCount pool then PoolPhaseReady
                                             else PoolPhaseScaling)\<rparr>, None), s))))))"

definition PoolService :: "'s NodeRepository \<Rightarrow> 's NodeLifecycle \<Rightarrow> 's PoolManager" where
  "PoolService repo svc = \<lparr>pm_Reconcile = PoolService_Reconcile repo svc\<rparr>"

text \<open>
  The names that a scale-up of the pool is going to use are free in the namespace.
\<close>

definition fresh_names :: "(objkey \<Rightarrow> VNode option) \<Rightarrow> VNodePool \<Rightarrow> bool" where
  "fresh_names f pool \<longleftrightarrow>
     (\<forall>i \<in> {pool_size f pool <.. nat (sint (p_NodeCount pool))}.
        f (ObjKey (p_Namespace pool) (nodeName pool i)) = None)"

text \<open>
  The stored nodes of a pool that its status counts as ready: those whose phase is neither
  NotReady nor Terminating.
\<close>

definition ready_nodes :: "(objkey \<Rightarrow> VNode option) \<Rightarrow> VNodePool \<Rightarrow> objkey set" where
  "ready_nodes f pool =
     {k \<in> pool_nodes f (p_Namespace pool) (p_Name pool).
        \<exists>v. f k = Some v \<and> n_Phase v \<noteq> NodePhaseNotReady \<and> n_Phase v \<noteq> NodePhaseTerminating}"

text \<open>A working list that agrees with the stored nodes of the pool.\<close>

definition tracks :: "(objkey \<Rightarrow> VNode option) \<Rightarrow> VNodePool \<Rightarrow> VNode list \<Rightarrow> bool" where
  "tracks f pool w \<longleftrightarrow>
     distinct (map nkey w) \<and> nkey ` set w = pool_nodes f (p_Namespace pool) (p_Name pool) \<and>
     (\<forall>n \<in> set w. \<exists>v. f (nkey n) = Some v \<and> n_Phase v = n_Phase n)"

section \<open>Basic facts\<close>

lemma pool_size_upd [simp]:
  "pool_size f (pool\<lparr>p_Nodes := xs\<rparr>) = pool_size f pool"
  "pool_size f (pool\<lparr>p_Phase := ph\<rparr>) = pool_size f pool"
  by (simp_all add: pool_size_def)

lemma nodeName_upd [simp]: "nodeName (pool\<lparr>p_Nodes := xs\<rparr>) i = nodeName pool i"
  by (simp add: nodeName_def)

lemma nodeName_inject [simp]: "nodeName pool i = nodeName pool j \<longleftrightarrow> i = j"
  by (simp add: nodeName_def)

lemma tracks_upd [simp]: "tracks f (pool\<lparr>p_Nodes := xs\<rparr>) w = tracks f pool w"
  by (simp add: tracks_def)

lemma tracks_ready:
  assumes "tracks f pool w"
  shows "card (ready_nodes f pool) = length (filter countsAsReady w)"
proof -
  have keys: "pool_nodes f (p_Namespace pool) (p_Name pool) = nkey ` set w" using assms by (simp add: tracks_def)
  have "(\<exists>v. f (nkey n) = Some v \<and> n_Phase v \<noteq> NodePhaseNotReady \<and> n_Phase v \<noteq> NodePhaseTerminating) \<longleftrightarrow>
      countsAsReady n" if "n \<in> set w" for n
    using assms that by (fastforce simp: tracks_def countsAsReady_def)
  then have "ready_nodes f pool = set (map nkey (filter countsAsReady w))"
    unfolding ready_nodes_def keys by auto
  moreover have "distinct (map nkey (filter countsAsReady w))"
    using assms by (simp add: tracks_def distinct_map inj_on_def)
  ultimately show ?thesis by (metis distinct_card length_map)
qed

lemma scaleUp_pool:
  "scaleUp svc pool w i k s = ((pool', w', None), s') \<Longrightarrow>
   p_Namespace pool' = p_Namespace pool \<and> p_Name pool' = p_Name pool"
  by (induction svc pool w i k s rule: scaleUp.induct) (auto split: prod.splits option.splits)

lemma sint_len32: "length xs < 2 ^ 31 \<Longrightarrow> sint (len32 xs) = int (length xs)"
  by (simp add: len32_def signed_of_nat signed_take_bit_int_eq_self)

lemma word_of_nat_sint: "0 \<le> sint (x :: int32) \<Longrightarrow> word_of_nat (nat (sint x)) = x"
proof -
  assume "0 \<le> sint x"
  then have "(word_of_nat (nat (sint x)) :: int32) = word_of_int (sint x)"
    by (metis int_nat_eq of_int_of_nat_eq)
  also have "\<dots> = x" by (simp add: bit_eq_iff bit_word_of_int_iff bit_sint_iff)
  finally show ?thesis .
qed

text \<open>
  An error of the reconciliation is reported in the phase. Whatever the repository and
  the node lifecycle do, the returned pool is Failed after a provisioning or deprovisioning
  error and unchanged after a listing error; without error its phase is Ready exactly when
  the number of ready nodes is the requested one, and Scaling otherwise.
\<close>

lemma PoolService_outcome:
  assumes "PoolService_Reconcile repo svc pool s = ((pool', err), s')"
  shows "case err of
           Some e \<Rightarrow> pool' = pool \<or> p_Phase pool' = PoolPhaseFailed
         | None \<Rightarrow> p_NodeCount pool' = p_NodeCount pool \<and>
             p_Phase pool' = (if p_ReadyNodes pool' = p_NodeCount pool then PoolPhaseReady
                              else PoolPhaseScaling)"
proof -
  have up: "scaleUp svc pool w i k s = ((pool', w', err), s') \<Longrightarrow>
      (case err of Some e \<Rightarrow> p_Phase pool' = PoolPhaseFailed
       | None \<Rightarrow> p_NodeCount pool' = p_NodeCount pool)" for pool pool' w w' i k err s s'
    by (induction svc pool w i k s rule: scaleUp.induct) (auto split: prod.splits option.splits)
  have down: "scaleDown svc pool w k s = ((pool', w', err), s') \<Longrightarrow>
      (case err of Some e \<Rightarrow> p_Phase pool' = PoolPhaseFailed
       | None \<Rightarrow> pool' = pool)" for pool pool' w w' k err s s'
    by (induction svc pool w k s rule: scaleDown.induct) (auto split: prod.splits sum.splits if_splits)
  show ?thesis
    using assms
    by (auto simp: PoolService_Reconcile_def Let_def split: prod.splits sum.splits option.splits
        dest!: up down)
qed

lemma PoolService_result:
  assumes "PoolService_Reconcile repo svc pool s = ((pool', None), s')"
  shows "p_NodeCount pool' = p_NodeCount pool \<and>
         p_Phase pool' = (if p_ReadyNodes pool' = p_NodeCount pool then PoolPhaseReady
                          else PoolPhaseScaling)"
  using PoolService_outcome [OF assms] by simp

section \<open>The number of nodes\<close>

locale pool_service =
  node_repository repo nodes invar + node_lifecycle svc nodes invar
  for repo :: "'s NodeRepository"
    and svc :: "'s NodeLifecycle"
    and nodes :: "'s \<Rightarrow> objkey \<Rightarrow> VNode option"
    and invar :: "'s \<Rightarrow> bool"
begin

lemma Provision_fresh:
  assumes "invar s" and "lc_Provision svc pool s = ((n, None), s')"
    and "finite (pool_nodes (nodes s) (p_Namespace pool) (p_Name pool))"
    and "nodes s (ObjKey (p_Namespace pool) (nodeName pool (pool_size (nodes s) pool + 1))) = None"
  shows "pool_size (nodes s') pool = pool_size (nodes s) pool + 1 \<and>
         finite (pool_nodes (nodes s') (p_Namespace pool) (p_Name pool))"
proof -
  let ?P = "pool_nodes (nodes s) (p_Namespace pool) (p_Name pool)"
  obtain v where v: "nodes s' = (nodes s)(nkey n \<mapsto> v)" "saved_node None n v"
    and n: "n_PoolName n = p_Name pool" "key_ns (nkey n) = p_Namespace pool" "nodes s (nkey n) = None"
    using Provision_ok [OF assms(1,2)] assms(4) by auto
  from v n have "pool_nodes (nodes s') (p_Namespace pool) (p_Name pool) = insert (nkey n) ?P"
    by (simp add: pool_nodes_upd_Some saved_node_def)
  moreover have "nkey n \<notin> ?P" using n(3) by (simp add: pool_nodes_def)
  ultimately show ?thesis using assms(3) by (simp add: pool_size_def)
qed

lemma scaleUp_ok:
  assumes "invar s" and "scaleUp svc pool w i k s = ((pool', w', None), s')"
    and "finite (pool_nodes (nodes s) (p_Namespace pool) (p_Name pool))"
    and "\<And>j. pool_size (nodes s) pool < j \<Longrightarrow> j \<le> pool_size (nodes s) pool + k \<Longrightarrow>
           nodes s (ObjKey (p_Namespace pool) (nodeName pool j)) = None"
  shows "invar s' \<and> pool_size (nodes s') pool = pool_size (nodes s) pool + k \<and>
         (\<forall>x. (\<forall>j \<in> {pool_size (nodes s) pool <.. pool_size (nodes s) pool + k}.
                x \<noteq> ObjKey (p_Namespace pool) (nodeName pool j)) \<longrightarrow> nodes s' x = nodes s x) \<and>
         (\<exists>us. w' = w @ us \<and> length us = k \<and> (\<forall>u \<in> set us. n_Phase u = NodePhaseReady))"
  using assms
proof (induction k arbitrary: pool w i s)
  case 0
  then show ?case by simp
next
  case (Suc k)
  let ?sz = "pool_size (nodes s) pool" and ?ns = "p_Namespace pool"
  from Suc.prems(2) obtain n s1 where pr: "lc_Provision svc pool s = ((n, None), s1)"
    by (auto split: prod.splits option.splits)
  let ?pool1 = "pool\<lparr>p_Nodes := p_Nodes pool @ [n_Name n]\<rparr>"
  have up: "scaleUp svc ?pool1 (w @ [n]) (i + 1) k s1 = ((pool', w', None), s')"
    using Suc.prems(2) pr by simp
  obtain v where n: "invar s1" "n_Phase n = NodePhaseReady" "nkey n = ObjKey ?ns (nodeName pool (?sz + 1))"
    "nodes s1 = (nodes s)(nkey n \<mapsto> v)"
    using Provision_ok [OF Suc.prems(1) pr] by blast
  have sz: "pool_size (nodes s1) pool = ?sz + 1"
    "finite (pool_nodes (nodes s1) ?ns (p_Name pool))"
    using Provision_fresh [OF Suc.prems(1) pr Suc.prems(3)] Suc.prems(4) [of "?sz + 1"] by simp_all
  have free: "nodes s1 (ObjKey ?ns (nodeName pool j)) = None"
    if "?sz + 1 < j" "j \<le> ?sz + 1 + k" for j
    using that n(3,4) Suc.prems(4) [of j] by simp
  note IH = Suc.IH [of s1 ?pool1 "w @ [n]" "i + 1", OF n(1) up, simplified, OF sz(2)]
  have "invar s' \<and> pool_size (nodes s') pool = ?sz + Suc k"
    using IH sz(1) free by simp
  moreover have "nodes s' x = nodes s x"
    if x: "\<forall>j \<in> {?sz <.. ?sz + Suc k}. x \<noteq> ObjKey ?ns (nodeName pool j)" for x
  proof -
    have "x \<noteq> nkey n" using x n(3) by simp
    moreover have "nodes s' x = nodes s1 x" using IH sz(1) free x by simp
    ultimately show ?thesis using n(4) by simp
  qed
  moreover obtain us where "w' = w @ n # us" "length us = k" "\<forall>u \<in> set us. n_Phase u = NodePhaseReady"
    using IH sz(1) free by auto
  then have "\<exists>us. w' = w @ us \<and> length us = Suc k \<and> (\<forall>u \<in> set us. n_Phase u = NodePhaseReady)"
    using n(2) by (intro exI [of _ "n # us"]) simp
  ultimately show ?case by blast
qed

text \<open>The working list follows the stored nodes through both loops.\<close>

lemma scaleUp_tracks:
  assumes "invar s" and "scaleUp svc pool w i k s = ((pool', w', None), s')" and "tracks (nodes s) pool w"
    and "\<And>j. pool_size (nodes s) pool < j \<Longrightarrow> j \<le> pool_size (nodes s) pool + k \<Longrightarrow>
           nodes s (ObjKey (p_Namespace pool) (nodeName pool j)) = None"
  shows "tracks (nodes s') pool w'"
  using assms
proof (induction k arbitrary: pool w i s)
  case (Suc k)
  let ?sz = "pool_size (nodes s) pool" and ?P = "pool_nodes (nodes s) (p_Namespace pool) (p_Name pool)"
  from Suc.prems(2) obtain n s1 where pr: "lc_Provision svc pool s = ((n, None), s1)"
    by (auto split: prod.splits option.splits)
  let ?pool1 = "pool\<lparr>p_Nodes := p_Nodes pool @ [n_Name n]\<rparr>"
  have up: "scaleUp svc ?pool1 (w @ [n]) (i + 1) k s1 = ((pool', w', None), s')" using Suc.prems(2) pr by simp
  have new: "nodes s (ObjKey (p_Namespace pool) (nodeName pool (?sz + 1))) = None" using Suc.prems(4) by simp
  obtain v where n: "invar s1" "nkey n = ObjKey (p_Namespace pool) (nodeName pool (?sz + 1))"
    "nodes s1 = (nodes s)(nkey n \<mapsto> v)" "n_Phase v = n_Phase n" "n_PoolName v = p_Name pool" "nodes s (nkey n) = None"
    using Provision_ok [OF Suc.prems(1) pr] new by (auto simp: saved_node_def)
  have fin: "finite ?P" using Suc.prems(3) by (metis List.finite_set finite_imageI tracks_def)
  have sz: "pool_size (nodes s1) pool = ?sz + 1" using Provision_fresh [OF Suc.prems(1) pr fin new] by simp
  have "nkey n \<notin> nkey ` set w" using Suc.prems(3) n(6) by (auto simp: tracks_def pool_nodes_def)
  then have "tracks (nodes s1) pool (w @ [n])"
    using Suc.prems(3) n by (auto simp: tracks_def pool_nodes_upd_Some)
  moreover have "nodes s1 (ObjKey (p_Namespace pool) (nodeName pool j)) = None"
    if "?sz + 1 < j" "j \<le> ?sz + 1 + k" for j
    using that n(2,3) Suc.prems(4) [of j] by simp
  ultimately have "tracks (nodes s') ?pool1 w'" using Suc.IH [OF n(1) up] sz by simp
  then show ?case by simp
qed simp

lemma scaleDown_tracks:
  assumes "invar s" and "scaleDown svc pool w k s = ((pool', w', None), s')" and "tracks (nodes s) pool w"
  shows "tracks (nodes s') pool w'"
  using assms
proof (induction k arbitrary: w s)
  case (Suc k)
  show ?case
  proof (cases w rule: rev_cases)
    case (snoc us u)
    from Suc.prems(2) snoc obtain s1 where dp: "lc_Deprovision svc u s = (Inr (), s1)"
      and down: "scaleDown svc pool us k s1 = ((pool', w', None), s')"
      by (auto split: prod.splits sum.splits)
    have s1: "invar s1" "nodes s1 = (nodes s)(nkey u := None)"
      using Deprovision_ok [OF Suc.prems(1) dp] by auto
    have "nkey n \<noteq> nkey u" if "n \<in> set us" for n using Suc.prems(3) snoc that by (auto simp: tracks_def) (metis imageI)
    then have "tracks (nodes s1) pool us"
      using Suc.prems(3) s1(2) snoc by (auto simp: tracks_def pool_nodes_upd_None)
    with Suc.IH [OF s1(1) down] show ?thesis .
  qed (use Suc.prems in simp)
qed simp

lemma scaleDown_ok:
  assumes "invar s" and "scaleDown svc pool w k s = ((pool', w', None), s')" and "distinct (map nkey w)"
  shows "invar s' \<and> w' = take (length w - k) w \<and>
         nodes s' = (\<lambda>x. if x \<in> nkey ` set (drop (length w - k) w) then None else nodes s x)"
  using assms
proof (induction k arbitrary: w s)
  case 0
  then show ?case by auto
next
  case (Suc k)
  show ?case
  proof (cases w rule: rev_cases)
    case Nil
    with Suc.prems show ?thesis by auto
  next
    case (snoc us u)
    from Suc.prems(2) snoc obtain s1 where dp: "lc_Deprovision svc u s = (Inr (), s1)"
      and down: "scaleDown svc pool us k s1 = ((pool', w', None), s')"
      by (auto split: prod.splits sum.splits)
    have s1: "invar s1" "nodes s1 = (nodes s)(nkey u := None)"
      using Deprovision_ok [OF Suc.prems(1) dp] by auto
    have "distinct (map nkey us)" using Suc.prems(3) snoc by simp
    from Suc.IH [OF s1(1) down this] s1(2) snoc show ?thesis by auto
  qed
qed

lemma Reconcile_runs:
  assumes "invar s" and "0 \<le> sint (p_NodeCount pool)"
    and "pool_size (nodes s) pool < 2 ^ 31"
    and "PoolService_Reconcile repo svc pool s = ((pool', None), s')"
  obtains xs s1 pool1 w1 s2 w2 where
    "repo_ListByPool repo (p_Namespace pool) (p_Name pool) s = (Inr xs, s1)"
    and "scaleUp svc pool xs 0 (nat (sint (p_NodeCount pool)) - length xs) s1 = ((pool1, w1, None), s2)"
    and "scaleDown svc pool1 w1 (length xs - nat (sint (p_NodeCount pool))) s2 = ((pool1, w2, None), s')"
    and "p_ReadyNodes pool' = len32 (filter countsAsReady w2)"
proof -
  obtain xs s1 where l: "repo_ListByPool repo (p_Namespace pool) (p_Name pool) s = (Inr xs, s1)"
    using assms(4) by (auto simp: PoolService_Reconcile_def split: prod.splits sum.splits)
  obtain a r where ar: "DesiredScaleActions pool (len32 xs) = (a, r)" by fastforce
  have len: "sint (len32 xs) = int (length xs)"
    using List_length [OF assms(1) l] assms(3) by (simp add: sint_len32 pool_size_def)
  have "sint a = max 0 (sint (p_NodeCount pool) - int (length xs)) \<and>
        sint r = max 0 (int (length xs) - sint (p_NodeCount pool))"
    using scale_actions_exact [OF assms(2) _ ar] len by simp
  then have n: "nat (sint a) = nat (sint (p_NodeCount pool)) - length xs"
    "nat (sint r) = length xs - nat (sint (p_NodeCount pool))"
    using assms(2) by (simp_all add: nat_diff_distrib max_def)
  have down: "scaleDown svc q w k t = ((q', w', None), t') \<Longrightarrow> q' = q" for q q' w w' k t t'
    by (induction svc q w k t rule: scaleDown.induct) (auto split: prod.splits sum.splits if_splits)
  obtain pool1 w1 s2 pool2 w2 where up: "scaleUp svc pool xs 0 (nat (sint a)) s1 = ((pool1, w1, None), s2)"
    and dn: "scaleDown svc pool1 w1 (nat (sint r)) s2 = ((pool2, w2, None), s')"
    and rd: "p_ReadyNodes pool' = len32 (filter countsAsReady w2)"
    using assms(4) l ar
    by (auto simp: PoolService_Reconcile_def Let_def split: prod.splits sum.splits option.splits)
  from down [OF dn] have "pool2 = pool1" .
  with that l up dn rd show ?thesis unfolding n by blast
qed

lemma pool_nodes_without:
  assumes "f' = (\<lambda>x. if x \<in> K then None else f x)"
  shows "pool_nodes f' ns p = pool_nodes f ns p - K"
  using assms by (auto simp: pool_nodes_def)

lemma Reconcile_down:
  assumes "invar s" and "0 \<le> sint (p_NodeCount pool)" and "pool_size (nodes s) pool < 2 ^ 31"
    and "nat (sint (p_NodeCount pool)) \<le> pool_size (nodes s) pool"
    and "PoolService_Reconcile repo svc pool s = ((pool', None), s')"
  shows "invar s' \<and> pool_size (nodes s') pool = nat (sint (p_NodeCount pool)) \<and>
         (\<forall>x. x \<notin> pool_nodes (nodes s) (p_Namespace pool) (p_Name pool) \<longrightarrow> nodes s' x = nodes s x)"
proof -
  let ?P = "\<lambda>s. pool_nodes (nodes s) (p_Namespace pool) (p_Name pool)"
  let ?n = "nat (sint (p_NodeCount pool))"
  obtain xs s1 pool1 w1 s2 w2 where l: "repo_ListByPool repo (p_Namespace pool) (p_Name pool) s = (Inr xs, s1)"
    and up: "scaleUp svc pool xs 0 (?n - length xs) s1 = ((pool1, w1, None), s2)"
    and down: "scaleDown svc pool1 w1 (length xs - ?n) s2 = ((pool1, w2, None), s')"
    using Reconcile_runs [OF assms(1,2,3,5)] .
  note ls = List_ok [OF assms(1) l] and keys = List_keys [OF assms(1) l]
    and len = List_length [OF assms(1) l]
  have w1: "w1 = xs" "s2 = s1" using up len assms(4) by (simp_all add: pool_size_def)
  let ?m = "length xs - (length xs - ?n)"
  have m: "?m = ?n" using len assms(4) by (simp add: pool_size_def)
  have d: "invar s'" "nodes s' = (\<lambda>x. if x \<in> nkey ` set (drop ?n xs) then None else nodes s x)"
    using scaleDown_ok [OF _ down] ls w1 m by auto
  have "?P s' = nkey ` set xs - nkey ` set (drop ?n xs)"
    using pool_nodes_without [OF d(2)] keys by simp
  also have "\<dots> = nkey ` set (take ?n xs)"
  proof -
    have "set (map nkey (take ?n xs)) \<inter> set (map nkey (drop ?n xs)) = {}"
      using ls by (metis append_take_drop_id distinct_append map_append)
    moreover have "nkey ` set xs = nkey ` set (take ?n xs) \<union> nkey ` set (drop ?n xs)"
      by (metis append_take_drop_id image_Un set_append)
    ultimately show ?thesis by auto
  qed
  finally have "?P s' = set (map nkey (take ?n xs))" by simp
  moreover have "distinct (map nkey (take ?n xs))" using ls by (simp add: take_map [symmetric])
  ultimately have "card (?P s') = ?n"
    using distinct_card [of "map nkey (take ?n xs)"] len assms(4) by (simp add: pool_size_def)
  moreover have "nkey ` set (drop ?n xs) \<subseteq> ?P s"
    using keys set_drop_subset by fastforce
  ultimately show ?thesis using d by (auto simp: pool_size_def)
qed

lemma Reconcile_steady:
  assumes "invar s" and "0 \<le> sint (p_NodeCount pool)" and "pool_size (nodes s) pool < 2 ^ 31"
    and "pool_size (nodes s) pool = nat (sint (p_NodeCount pool))"
    and "PoolService_Reconcile repo svc pool s = ((pool', None), s')"
  shows "nodes s' = nodes s"
proof -
  let ?n = "nat (sint (p_NodeCount pool))"
  obtain xs s1 pool1 w1 s2 w2 where l: "repo_ListByPool repo (p_Namespace pool) (p_Name pool) s = (Inr xs, s1)"
    and up: "scaleUp svc pool xs 0 (?n - length xs) s1 = ((pool1, w1, None), s2)"
    and down: "scaleDown svc pool1 w1 (length xs - ?n) s2 = ((pool1, w2, None), s')"
    using Reconcile_runs [OF assms(1,2,3,5)] .
  have "length xs = ?n" using List_length [OF assms(1) l] assms(4) by (simp add: pool_size_def)
  with up down List_ok [OF assms(1) l] show ?thesis by simp
qed

lemma Reconcile_up:
  assumes "invar s" and "0 \<le> sint (p_NodeCount pool)" and "pool_size (nodes s) pool < 2 ^ 31"
    and "pool_size (nodes s) pool < nat (sint (p_NodeCount pool))"
    and "fresh_names (nodes s) pool"
    and "PoolService_Reconcile repo svc pool s = ((pool', None), s')"
  shows "invar s' \<and> pool_size (nodes s') pool = nat (sint (p_NodeCount pool)) \<and>
         (\<forall>x. nodes s x \<noteq> None \<longrightarrow> nodes s' x = nodes s x)"
proof -
  let ?n = "nat (sint (p_NodeCount pool))"
  obtain xs s1 pool1 w1 s2 w2 where l: "repo_ListByPool repo (p_Namespace pool) (p_Name pool) s = (Inr xs, s1)"
    and up: "scaleUp svc pool xs 0 (?n - length xs) s1 = ((pool1, w1, None), s2)"
    and down: "scaleDown svc pool1 w1 (length xs - ?n) s2 = ((pool1, w2, None), s')"
    using Reconcile_runs [OF assms(1,2,3,6)] .
  note ls = List_ok [OF assms(1) l] and len = List_length [OF assms(1) l]
  have sz: "length xs = pool_size (nodes s) pool" using len by (simp add: pool_size_def)
  have s': "s' = s2" using down sz assms(4) by simp
  have inv1: "invar s1" and n1: "nodes s1 = nodes s" using ls by auto
  have free: "nodes s1 (ObjKey (p_Namespace pool) (nodeName pool j)) = None"
    if "pool_size (nodes s1) pool < j" "j \<le> pool_size (nodes s1) pool + (?n - length xs)" for j
    using that assms(4,5) sz n1 by (auto simp: fresh_names_def)
  have fin: "finite (pool_nodes (nodes s1) (p_Namespace pool) (p_Name pool))" using len n1 by simp
  note up' = scaleUp_ok [OF inv1 up fin free]
  have "invar s2 \<and> pool_size (nodes s2) pool = ?n" using up' n1 sz assms(4) by simp
  moreover have "nodes s2 x = nodes s x" if x: "nodes s x \<noteq> None" for x
  proof -
    have "x \<noteq> ObjKey (p_Namespace pool) (nodeName pool j)"
      if "j \<in> {pool_size (nodes s1) pool <.. pool_size (nodes s1) pool + (?n - length xs)}" for j
      using x free [of j] that n1 by auto
    with up' have "nodes s2 x = nodes s1 x" by blast
    with n1 show ?thesis by simp
  qed
  ultimately show ?thesis using s' by blast
qed

lemma Reconcile_counts_ready:
  assumes "invar s" and "0 \<le> sint (p_NodeCount pool)" and "pool_size (nodes s) pool < 2 ^ 31"
    and "fresh_names (nodes s) pool" and "PoolService_Reconcile repo svc pool s = ((pool', None), s')"
  shows "p_ReadyNodes pool' = word_of_nat (card (ready_nodes (nodes s') pool))"
proof -
  let ?n = "nat (sint (p_NodeCount pool))"
  obtain xs s1 pool1 w1 s2 w2 where l: "repo_ListByPool repo (p_Namespace pool) (p_Name pool) s = (Inr xs, s1)"
    and up: "scaleUp svc pool xs 0 (?n - length xs) s1 = ((pool1, w1, None), s2)"
    and down: "scaleDown svc pool1 w1 (length xs - ?n) s2 = ((pool1, w2, None), s')"
    and rd: "p_ReadyNodes pool' = len32 (filter countsAsReady w2)"
    using Reconcile_runs [OF assms(1,2,3,5)] .
  note ls = List_ok [OF assms(1) l] and keys = List_keys [OF assms(1) l] and len = List_length [OF assms(1) l]
  have sz: "length xs = pool_size (nodes s1) pool" using len ls by (simp add: pool_size_def)
  have t1: "tracks (nodes s1) pool xs" using ls keys by (auto simp: tracks_def)
  have free: "nodes s1 (ObjKey (p_Namespace pool) (nodeName pool j)) = None"
    if "pool_size (nodes s1) pool < j" "j \<le> pool_size (nodes s1) pool + (?n - length xs)" for j
    using that assms(4) sz ls by (auto simp: fresh_names_def)
  have "invar s1" using ls by simp
  note inv2 = conjunct1 [OF scaleUp_ok [OF this up _ free]] and t2 = scaleUp_tracks [OF this up t1 free]
  have "finite (pool_nodes (nodes s1) (p_Namespace pool) (p_Name pool))" using len ls by simp
  from inv2 [OF this] have "invar s2" by simp
  moreover have "tracks (nodes s2) pool1 w1" using t2 scaleUp_pool [OF up] by (simp add: tracks_def)
  ultimately have "tracks (nodes s') pool1 w2" by (rule scaleDown_tracks [OF _ down])
  moreover have "ready_nodes f pool1 = ready_nodes f pool" for f
    using scaleUp_pool [OF up] by (simp add: ready_nodes_def)
  ultimately show ?thesis using rd tracks_ready [of "nodes s'" pool1 w2] by (simp add: len32_def)
qed

lemma Reconcile_taken_name:
  assumes "invar s" and "0 \<le> sint (p_NodeCount pool)" and "pool_size (nodes s) pool < 2 ^ 31"
    and "nat (sint (p_NodeCount pool)) = pool_size (nodes s) pool + 1"
    and "nodes s (ObjKey (p_Namespace pool) (nodeName pool (pool_size (nodes s) pool + 1))) = Some v"
    and "\<And>x. x \<in> pool_nodes (nodes s) (p_Namespace pool) (p_Name pool) \<Longrightarrow> countsAsReady (the (nodes s x))"
    and "PoolService_Reconcile repo svc pool s = ((pool', None), s')"
  shows "dom (nodes s') = dom (nodes s) \<and> pool_size (nodes s') pool = pool_size (nodes s) pool \<and>
         p_ReadyNodes pool' = p_NodeCount pool \<and>
         (\<exists>u. nodes s' (ObjKey (p_Namespace pool) (nodeName pool (pool_size (nodes s) pool + 1))) = Some u \<and>
            n_PoolName u = n_PoolName v \<and> n_TenantRef u = p_TenantRef pool)"
proof -
  let ?sz = "pool_size (nodes s) pool"
  obtain xs s1 pool1 w1 s2 w2 where l: "repo_ListByPool repo (p_Namespace pool) (p_Name pool) s = (Inr xs, s1)"
    and up: "scaleUp svc pool xs 0 (nat (sint (p_NodeCount pool)) - length xs) s1 = ((pool1, w1, None), s2)"
    and down: "scaleDown svc pool1 w1 (length xs - nat (sint (p_NodeCount pool))) s2 = ((pool1, w2, None), s')"
    and rd: "p_ReadyNodes pool' = len32 (filter countsAsReady w2)"
    using Reconcile_runs [OF assms(1,2,3,7)] .
  note ls = List_ok [OF assms(1) l] and len = List_length [OF assms(1) l]
    and keys = List_keys [OF assms(1) l]
  have sz: "length xs = ?sz" using len by (simp add: pool_size_def)
  have one: "nat (sint (p_NodeCount pool)) - length xs = Suc 0" using sz assms(4) by simp
  obtain n where pr: "lc_Provision svc pool s1 = ((n, None), s2)" and w1: "w1 = xs @ [n]"
    using up unfolding one by (auto split: prod.splits option.splits)
  have s': "s' = s2" "w2 = w1" using down sz assms(4) by simp_all
  obtain u where n: "n_Phase n = NodePhaseReady" "nodes s2 = (nodes s)(nkey n \<mapsto> u)"
    "nodes s (nkey n) = Some v" "n_PoolName u = n_PoolName v" "n_TenantRef u = p_TenantRef pool"
    "nkey n = ObjKey (p_Namespace pool) (nodeName pool (?sz + 1))"
    using Provision_ok [OF _ pr] ls assms(5) by (auto simp: saved_node_def)
  have "pool_nodes (nodes s2) ns p = pool_nodes (nodes s) ns p" for ns p
    using n(2-4) by (auto simp: pool_nodes_def)
  moreover have "dom (nodes s2) = dom (nodes s)" using n(2,3) by auto
  moreover have "countsAsReady y" if "y \<in> set xs" for y
    using that ls keys assms(6) [of "nkey y"] by auto
  then have "filter countsAsReady w2 = w1" using s' w1 n(1) by (simp add: countsAsReady_def)
  then have "p_ReadyNodes pool' = word_of_nat (?sz + 1)" using rd w1 sz by (simp add: len32_def)
  then have "p_ReadyNodes pool' = p_NodeCount pool"
    using assms(2,4) word_of_nat_sint [of "p_NodeCount pool"] by simp
  ultimately show ?thesis using s' n by (simp add: pool_size_def)
qed

end

end
