(* ===== verification/Wiring.thy ===== *)
theory Wiring
  imports Node_Repository Registrar Node_Service Pool_Service
begin

text \<open>
  The composition of the node side of the operator, as \<open>cmd/vnode/main.go\<close> wires it: the
  repository over the VNode client, the registrar over the tenant clients, the node service
  over both, and the pool service over the repository and the node service.

  The locale \<open>operator\<close> collects what is documented of the outside world: the VNode client,
  the retry helper, and tenant clients that do not write VNode objects. In it the wired
  services fulfil all the contracts of the ports, so every result proved from a contract holds
  for the wired operator.
\<close>

definition main_tenantClients ::
  "(Secret, 'w) objclient \<Rightarrow> (bytes \<Rightarrow> 'c res) \<Rightarrow> ('c \<Rightarrow> ('q, 'w) clientset res) \<Rightarrow>
   ('c, 'q, 'w) TenantClientManager"
where
  "main_tenantClients secrets restConfig factory =
     \<lparr>tm_resolver = SecretKubeconfigResolver secrets, tm_RESTConfig = restConfig, tm_factory = factory\<rparr>"

definition main_nodeRepo ::
  "(VNodeCR, 'w) objclient \<Rightarrow> ('q, 'w) sysenv \<Rightarrow> ('q, 'w) mstate NodeRepository"
where
  "main_nodeRepo vnodes env = liftRepo (NewNodeRepository vnodes (env_retry env) (env_now env))"

definition main_nodeSvc ::
  "(VNodeCR, 'w) objclient \<Rightarrow> ('c, 'q, 'w) TenantClientManager \<Rightarrow> ('q, 'w) sysenv \<Rightarrow>
   ('q, 'w) mstate NodeLifecycle"
where
  "main_nodeSvc vnodes tenants env = NodeService (main_nodeRepo vnodes env) (NewRegistrar tenants env)"

definition main_poolSvc ::
  "(VNodeCR, 'w) objclient \<Rightarrow> ('c, 'q, 'w) TenantClientManager \<Rightarrow> ('q, 'w) sysenv \<Rightarrow>
   ('q, 'w) mstate PoolManager"
where
  "main_poolSvc vnodes tenants env =
     PoolService (main_nodeRepo vnodes env) (main_nodeSvc vnodes tenants env)"

text \<open>The nodes stored in the host cluster, and the invariant of the wired operator.\<close>

definition cluster_nodes ::
  "('w \<Rightarrow> objkey \<Rightarrow> VNodeCR option) \<Rightarrow> ('q, 'w) mstate \<Rightarrow> objkey \<Rightarrow> VNode option"
where
  "cluster_nodes objs s = stored_nodes objs (ms_world s)"

definition operator_invar ::
  "('w \<Rightarrow> objkey \<Rightarrow> VNodeCR option) \<Rightarrow> ('q, 'w) mstate \<Rightarrow> bool"
where
  "operator_invar objs s \<longleftrightarrow>
     labels_agree objs (ms_world s) \<and> cache_all (clientset_framed objs) (ms_clients s)"

section \<open>The wired operator fulfils the contracts\<close>

locale operator =
  store: vnode_store vnodes objs "env_retry env" "env_now env" +
  tc: tenant_clients tenants "clientset_framed objs" objs
  for vnodes :: "(VNodeCR, 'w) objclient"
    and tenants :: "('c, 'q, 'w) TenantClientManager"
    and env :: "('q, 'w) sysenv"
    and objs :: "'w \<Rightarrow> objkey \<Rightarrow> VNodeCR option"

sublocale operator \<subseteq> reg: registrar tenants env objs "stored_nodes objs" "labels_agree objs"
  by unfold_locales (drule same_objs_view, simp)

sublocale operator \<subseteq> ns: node_service "main_nodeRepo vnodes env" "NewRegistrar tenants env"
  "cluster_nodes objs" "operator_invar objs"
proof -
  have "node_repository (main_nodeRepo vnodes env) (cluster_nodes objs) (operator_invar objs)"
    using store.repository.liftRepo_contract [of "cache_all (clientset_framed objs)"]
    by (simp add: main_nodeRepo_def cluster_nodes_def [abs_def] operator_invar_def [abs_def])
  moreover have "registrar_frame (NewRegistrar tenants env) (cluster_nodes objs) (operator_invar objs)"
    using reg.frame.registrar_frame_axioms
    by (simp add: cluster_nodes_def [abs_def] operator_invar_def [abs_def])
  ultimately show "node_service (main_nodeRepo vnodes env) (NewRegistrar tenants env)
      (cluster_nodes objs) (operator_invar objs)"
    by (rule node_service.intro)
qed

sublocale operator \<subseteq> ps: pool_service "main_nodeRepo vnodes env" "main_nodeSvc vnodes tenants env"
  "cluster_nodes objs" "operator_invar objs"
  unfolding main_nodeSvc_def by unfold_locales

section \<open>Results for the wired operator\<close>

lemma main_poolSvc_sel:
  "pm_Reconcile (main_poolSvc vnodes tenants env) =
     PoolService_Reconcile (main_nodeRepo vnodes env) (main_nodeSvc vnodes tenants env)"
  by (simp add: main_poolSvc_def PoolService_def)

lemma main_nodeSvc_sel:
  "lc_UpdateStatus (main_nodeSvc vnodes tenants env) =
     UpdateStatus (main_nodeRepo vnodes env) (NewRegistrar tenants env)"
  by (simp add: main_nodeSvc_def)

context operator
begin

lemmas scales_down = ps.Reconcile_down [folded main_poolSvc_sel]
lemmas scales_not = ps.Reconcile_steady [folded main_poolSvc_sel]
lemmas scales_up = ps.Reconcile_up [folded main_poolSvc_sel]
lemmas counts_ready = ps.Reconcile_counts_ready [folded main_poolSvc_sel]
lemmas name_taken = ps.Reconcile_taken_name [folded main_poolSvc_sel]

end

end
