(* ===== verification/VNode_Reconciler.thy ===== *)
theory VNode_Reconciler
  imports Wiring
begin

text \<open>
  The VNode controller (\<open>internal/adapter/inbound/reconciler/vnode_reconciler.go\<close>): it drives
  the status reconciliation of a single virtual node and decides when to look at it again.

  Durations are integers in nanoseconds, as \<open>time.Duration\<close>. The backoff loop ends after at
  most five doublings, so no value exceeds 180 seconds and the 64-bit arithmetic cannot wrap;
  \<open>requeueBackoff_closed_form\<close> is the loop in closed form. A request for a reconciliation is
  the key of the object. Logging is not modelled.

  The lemmas show that a pending or failed node is looked at again after 2 to 60 seconds, that
  a healthy node is left alone, and which errors the controller swallows: among them the
  NotFound error of a missing kubeconfig Secret, which leaves the node unattended.
\<close>

section \<open>Requeueing\<close>

record Result =
  RequeueAfter :: int

definition noRequeue :: Result where
  "noRequeue = \<lparr>RequeueAfter = 0\<rparr>"

abbreviation Second :: int where "Second \<equiv> 1000000000"

definition vnodeMinRequeue :: int where "vnodeMinRequeue = 2 * Second"
definition vnodeMaxRequeue :: int where "vnodeMaxRequeue = 60 * Second"

definition shouldRequeueVNode :: "VNode \<Rightarrow> bool" where
  "shouldRequeueVNode node \<longleftrightarrow> n_Phase node = NodePhasePending \<or> n_Phase node = NodePhaseNotReady"

function backoffLoop :: "int \<Rightarrow> int \<Rightarrow> int \<Rightarrow> int" where
  "backoffLoop age threshold delay =
     (if threshold \<le> age \<and> delay < vnodeMaxRequeue
      then backoffLoop age (threshold + 30 * Second) (delay * 2)
      else delay)"
  by pat_completeness auto
termination
  by (relation "measure (\<lambda>(age, threshold, delay). nat (age - threshold + 1))") auto

declare backoffLoop.simps [simp del]

definition requeueBackoff :: "int \<Rightarrow> VNodeCR \<Rightarrow> int" where
  "requeueBackoff now cr =
     (let age = now - om_CreationTimestamp (vn_Meta cr);
          delay = backoffLoop age (30 * Second) vnodeMinRequeue
      in if delay > vnodeMaxRequeue then vnodeMaxRequeue else delay)"

section \<open>Reconciliation\<close>

definition crToVNode :: "VNodeCR \<Rightarrow> VNode" where
  "crToVNode cr =
     \<lparr>n_ID = om_UID (vn_Meta cr),
      n_Name = om_Name (vn_Meta cr),
      n_Namespace = om_Namespace (vn_Meta cr),
      n_PoolName = PoolRef (vn_Spec cr),
      n_TenantRef =
        \<lparr>VClusterName = mget (om_Annotations (vn_Meta cr)) annotationVClusterName,
         VClusterNamespace = mget (om_Annotations (vn_Meta cr)) annotationVClusterNamespace,
         KubeconfigSecret = mget (om_Annotations (vn_Meta cr)) annotationKubeconfigSecret\<rparr>,
      n_Taints = [],
      n_Phase = vs_Phase (vn_Status cr),
      n_Capacity = resourcesToModel (Capacity (vn_Spec cr)),
      n_Allocatable = emptyResources,
      n_Conditions = map conditionToModel (vs_Conditions (vn_Status cr))\<rparr>"

definition VNodeReconciler_Reconcile ::
  "(VNodeCR, 's) objclient \<Rightarrow> 's NodeLifecycle \<Rightarrow> ('s \<Rightarrow> int) \<Rightarrow> objkey \<Rightarrow> 's \<Rightarrow> Result res \<times> 's"
where
  "VNodeReconciler_Reconcile cl nodeSvc now req s =
     (case oc_Get cl req s of
        (Inl err, s) \<Rightarrow> (if IsNotFound err then Inr noRequeue else Inl err, s)
      | (Inr cr, s) \<Rightarrow>
          (let node = crToVNode cr in
           case lc_UpdateStatus nodeSvc node s of
             (Inl err, s) \<Rightarrow>
               if IsNotFound err \<or> errors_Is err Canceled \<or> errors_Is err DeadlineExceeded
               then (Inr noRequeue, s)
               else (Inl (Wrap (''updating node '' @ n_Name node) err), s)
           | (Inr _, s) \<Rightarrow>
               if shouldRequeueVNode node
               then (Inr \<lparr>RequeueAfter = requeueBackoff (now s) cr\<rparr>, s)
               else (Inr noRequeue, s)))"

definition main_vnodeReconciler ::
  "(VNodeCR, 'w) objclient \<Rightarrow> ('c, 'q, 'w) TenantClientManager \<Rightarrow> ('q, 'w) sysenv \<Rightarrow>
   objkey \<Rightarrow> ('q, 'w) mstate \<Rightarrow> Result res \<times> ('q, 'w) mstate"
where
  "main_vnodeReconciler vnodes tenants env =
     VNodeReconciler_Reconcile (liftClient vnodes) (main_nodeSvc vnodes tenants env)
       (\<lambda>s. env_now env (ms_world s))"

section \<open>The backoff\<close>

lemma backoffLoop_step:
  assumes "k \<le> 5"
  shows "backoffLoop age (30 * Second * (int k + 1)) (vnodeMinRequeue * 2 ^ k) =
         vnodeMinRequeue * 2 ^ (if age < 30 * Second * (int k + 1) then k else min 5 (nat (age div (30 * Second))))"
  using assms
proof (induction "5 - k" arbitrary: k)
  case 0
  then have "k = 5" by simp
  then show ?case
    by (subst backoffLoop.simps) (simp add: vnodeMinRequeue_def vnodeMaxRequeue_def)
next
  case (Suc j)
  then have k: "k < 5" by simp
  have lt: "vnodeMinRequeue * 2 ^ k < vnodeMaxRequeue"
  proof -
    have "(2::int) ^ k \<le> 2 ^ 4" using k by (intro power_increasing) simp_all
    then show ?thesis by (simp add: vnodeMinRequeue_def vnodeMaxRequeue_def)
  qed
  show ?case
  proof (cases "age < 30 * Second * (int k + 1)")
    case True
    then show ?thesis by (subst backoffLoop.simps) simp
  next
    case False
    have th: "30 * Second * (int k + 1) + 30 * Second = 30 * Second * (int (Suc k) + 1)" by simp
    have "backoffLoop age (30 * Second * (int k + 1)) (vnodeMinRequeue * 2 ^ k) =
          backoffLoop age (30 * Second * (int (Suc k) + 1)) (vnodeMinRequeue * 2 ^ Suc k)"
      using False lt by (subst backoffLoop.simps) (simp add: algebra_simps)
    also have "\<dots> = vnodeMinRequeue * 2 ^ (if age < 30 * Second * (int (Suc k) + 1) then Suc k
        else min 5 (nat (age div (30 * Second))))"
      using Suc.hyps(1) [of "Suc k"] Suc.hyps(2) k by simp
    also have "(if age < 30 * Second * (int (Suc k) + 1) then Suc k
        else min 5 (nat (age div (30 * Second)))) = min 5 (nat (age div (30 * Second)))"
    proof (cases "age < 30 * Second * (int (Suc k) + 1)")
      case True
      then have "age div (30 * Second) = int (Suc k)" using False
        by (intro int_div_pos_eq [where r = "age - 30 * Second * int (Suc k)"]) simp_all
      then show ?thesis using True k by simp
    qed simp
    finally show ?thesis using False by simp
  qed
qed

lemma requeueBackoff_eq:
  "requeueBackoff now cr =
     min (60 * Second)
       (2 * Second * 2 ^ min 5 (nat ((now - om_CreationTimestamp (vn_Meta cr)) div (30 * Second))))"
proof -
  let ?age = "now - om_CreationTimestamp (vn_Meta cr)"
  have "(if ?age < 30 * Second then 0 else min 5 (nat (?age div (30 * Second)))) =
        min 5 (nat (?age div (30 * Second)))"
  proof (cases "?age < 30 * Second")
    case True
    have "x div (30 * Second) < 1" if "x < 30 * Second" for x :: int using that by presburger
    from this [OF True] show ?thesis using True by simp
  qed simp
  with backoffLoop_step [of 0 ?age]
  have e: "backoffLoop ?age (30 * Second) vnodeMinRequeue =
      vnodeMinRequeue * 2 ^ min 5 (nat (?age div (30 * Second)))" by simp
  have "(if y < x then y else x) = min y x" for x y :: int by simp
  then show ?thesis
    unfolding requeueBackoff_def Let_def e by (simp only: vnodeMinRequeue_def vnodeMaxRequeue_def)
qed

lemma requeueBackoff_bounds: "2 * Second \<le> requeueBackoff now cr \<and> requeueBackoff now cr \<le> 60 * Second"
proof -
  have "2 * Second \<le> min (60 * Second) (2 * Second * 2 ^ n) \<and> min (60 * Second) (2 * Second * 2 ^ n) \<le> 60 * Second"
    for n :: nat using one_le_power [of "2::int" n] by simp
  then show ?thesis unfolding requeueBackoff_eq .
qed

text \<open>
  C25: the exponential backoff in closed form. The delay before a pending or failed node is
  looked at again is 2 seconds, doubled for every full 30 seconds since the creation of the
  node, and at most 60 seconds (reached after 150 seconds); a creation time in the future
  counts as age 0. The loop ends for every age.
\<close>

theorem requeueBackoff_closed_form:
  "requeueBackoff now cr =
     min (60 * Second)
       (2 * Second * 2 ^ min 5 (nat ((now - om_CreationTimestamp (vn_Meta cr)) div (30 * Second))))"
  by (rule requeueBackoff_eq)

section \<open>Outcome of a reconciliation\<close>

lemma crToVNode_simps [simp]:
  "nkey (crToVNode cr) = om_key (vn_Meta cr)" "n_Phase (crToVNode cr) = vs_Phase (vn_Status cr)"
  "n_Conditions (crToVNode cr) = n_Conditions (crToNode cr)"
  "n_TenantRef (crToVNode cr) = n_TenantRef (crToNode cr)"
  by (simp_all add: crToVNode_def crToNode_def nkey_def om_key_def)

text \<open>
  C26: a pending or failed node is looked at again. Whatever the client and the node service do,
  a reconciliation of an existing node that reports success without a requeue is one of a
  node that is neither Pending nor NotReady, or one whose status reconciliation failed with a
  NotFound or context error; every other error is returned to the controller, which retries,
  and a requeue comes after 2 to 60 seconds.
\<close>

theorem VNodeReconciler_requeues:
  assumes "oc_Get cl req s = (Inr cr, s1)"
    and "lc_UpdateStatus nodeSvc (crToVNode cr) s1 = (r, s2)"
    and "VNodeReconciler_Reconcile cl nodeSvc now req s = (out, s')"
  shows "s' = s2 \<and>
         (case out of
            Inl e \<Rightarrow> \<exists>err. r = Inl err \<and> \<not> IsNotFound err \<and> \<not> isContextError err
          | Inr res \<Rightarrow>
              if RequeueAfter res = 0
              then (\<exists>err. r = Inl err \<and> (IsNotFound err \<or> isContextError err)) \<or>
                vs_Phase (vn_Status cr) \<notin> {NodePhasePending, NodePhaseNotReady}
              else r = Inr () \<and> vs_Phase (vn_Status cr) \<in> {NodePhasePending, NodePhaseNotReady} \<and>
                2 * Second \<le> RequeueAfter res \<and> RequeueAfter res \<le> 60 * Second)"
proof -
  have "requeueBackoff t cr \<noteq> 0" for t using requeueBackoff_bounds [of t cr] by auto
  then show ?thesis
    using assms requeueBackoff_bounds [of "now s2" cr]
    by (auto simp: VNodeReconciler_Reconcile_def Let_def shouldRequeueVNode_def noRequeue_def
        isContextError_def split: sum.splits if_splits)
qed

section \<open>A missing kubeconfig Secret\<close>

lemma Get_missing_secret:
  assumes "tm_resolver tenants = SecretKubeconfigResolver secrets"
    and "fmlookup (ms_clients s) (cacheKey tenant) = None"
    and "oc_Get secrets (ObjKey (VClusterNamespace tenant) (KubeconfigSecret tenant)) (ms_world s) = (Inl err, w)"
  shows "\<exists>msg. TenantClients_Get tenants tenant s =
           (Inl (Wrap ''resolving tenant kubeconfig'' (Wrap msg err)), s\<lparr>ms_world := w\<rparr>)"
proof -
  have "fmdrop (cacheKey tenant) (ms_clients s) = ms_clients s"
    using assms(2) by (intro fmap_ext) auto
  with assms show ?thesis
    by (simp add: TenantClients_Get_def SecretKubeconfigResolver_def Resolve_def onw_def Invalidate_def)
qed

text \<open>
  C38: a node whose kubeconfig Secret does not exist is given up. Once its failed registration is
  recorded, a reconciliation of the node ends with success and without a requeue, and writes
  nothing, so no event brings the controller back: the NotFound error of the Secret is taken
  for a NotFound error of the node.
\<close>

theorem VNodeReconciler_missing_secret:
  assumes "tm_resolver tenants = SecretKubeconfigResolver secrets"
    and "oc_Get vnodes req (ms_world s) = (Inr cr, w1)"
    and "vs_Phase (vn_Status cr) = NodePhaseNotReady" and "hasRegisteredCondition (crToNode cr)"
    and "registeredConditionFalse (n_Conditions (crToNode cr))"
    and "fmlookup (ms_clients s) (cacheKey (n_TenantRef (crToNode cr))) = None"
    and "oc_Get secrets (ObjKey (VClusterNamespace (n_TenantRef (crToNode cr)))
           (KubeconfigSecret (n_TenantRef (crToNode cr)))) w1 = (Inl err, w2)"
    and "IsNotFound err"
  shows "main_vnodeReconciler vnodes tenants env req s = (Inr noRequeue, s\<lparr>ms_world := w2\<rparr>)"
proof -
  let ?n = "crToVNode cr" and ?s1 = "s\<lparr>ms_world := w1\<rparr>"
  obtain msg where g: "TenantClients_Get tenants (n_TenantRef ?n) ?s1 =
      (Inl (Wrap ''resolving tenant kubeconfig'' (Wrap msg err)), ?s1\<lparr>ms_world := w2\<rparr>)"
    using Get_missing_secret [OF assms(1), of ?s1 "n_TenantRef ?n"] assms(6,7) by auto
  have ne: "\<not> isContextError err" "\<not> isPanic err"
    using NotFound_not_context [OF assms(8)] panic_not_status assms(8) by (auto simp: IsNotFound_def)
  have "shouldRetryRegistration ?n" "n_Phase ?n = NodePhaseNotReady" "hasRegisteredCondition ?n"
    using assms(3-5) by (auto simp: shouldRetryRegistration_def hasRegisteredCondition_def)
  then have "UpdateStatus (main_nodeRepo vnodes env) (NewRegistrar tenants env) ?n ?s1 =
      (Inl (Wrap (''retrying tenant node registration for '' @ n_Name ?n)
         (Wrap ''resolving tenant kubeconfig'' (Wrap msg err))), ?s1\<lparr>ms_world := w2\<rparr>)"
    using g ne by (simp add: update_status_defs NewRegistrar_def Register_def)
  then show ?thesis
    using assms(2,8)
    by (simp add: main_vnodeReconciler_def VNodeReconciler_Reconcile_def onw_def main_nodeSvc_sel Let_def)
qed

section \<open>Healing\<close>

context vnode_store
begin

lemma Save_no_context:
  assumes "NodeRepository_Save cl retry now node w = (Inl e, w')"
  shows "\<not> isContextError e"
proof -
  have up: "\<not> isContextError e" if r: "NodeRepository_updateStatus cl retry now node v = (Inl e, v')" for e v v'
  proof -
    obtain u where "retry (tryUpdateStatus cl now node) v = tryUpdateStatus cl now node u"
      by (rule retry_view [of "tryUpdateStatus cl now node" "\<lambda>_. ()"]) auto
    with r show ?thesis
      by (auto simp: NodeRepository_updateStatus_def tryUpdateStatus_def
          split: prod.splits sum.splits if_splits)
  qed
  show ?thesis
    using assms
    by (auto simp: NodeRepository_Save_def split: prod.splits sum.splits if_splits
        dest: up Get_err Create_err UpdateStatus_err)
qed

end

context operator
begin

lemma saveReady_stored:
  assumes "operator_invar objs s" and "saveReady (main_nodeRepo vnodes env) node s = (Inr u, s')"
  shows "operator_invar objs s' \<and> (\<exists>v. cluster_nodes objs s' (nkey node) = Some v \<and>
           n_Phase v = NodePhaseReady \<and> n_Conditions v = readyNodeConditions)"
proof -
  have "repo_Save (main_nodeRepo vnodes env) (readyNode node) s = (Inr (), s')"
    using assms(2) store.Save_no_context
    by (auto simp: saveReady_def main_nodeRepo_def split: prod.splits sum.splits if_splits dest!: onw_D)
  from ns.Save_ok [OF assms(1) this] show ?thesis
    by (auto simp: saved_node_def) (simp add: readyNode_def)
qed

lemma heals:
  assumes "operator_invar objs s" and "shouldRetryRegistration node"
    and "reg_Register (NewRegistrar tenants env) node (n_TenantRef node) s = (Inr (), s1)"
    and "UpdateStatus (main_nodeRepo vnodes env) (NewRegistrar tenants env) node s = (Inr u, s')"
  shows "operator_invar objs s' \<and> (\<exists>v. cluster_nodes objs s' (nkey node) = Some v \<and>
           n_Phase v = NodePhaseReady \<and> n_Conditions v = readyNodeConditions)"
proof -
  have "\<not> (n_Phase node = [] \<and> n_Conditions node = [])"
    using assms(2) by (auto simp: shouldRetryRegistration_def split: if_splits)
  then have "saveReady (main_nodeRepo vnodes env) node s1 = (Inr u, s')"
    using assms(2-4) by (auto simp: UpdateStatus_def retryRegistration_def split: if_splits)
  moreover have "operator_invar objs s1" using ns.Register_frame [OF assms(1,3)] by blast
  ultimately show ?thesis by (rule saveReady_stored [rotated])
qed

end

text \<open>
  C17: a node heals. When a reconciliation finds a pending or failed node whose registration is
  not recorded as successful, the registration in the tenant cluster now succeeds and the
  reconciliation schedules the next one, then the stored node is Ready with the full set of
  positive conditions.
\<close>

theorem VNodeReconciler_heals:
  assumes "operator vnodes tenants env objs" and "operator_invar objs s"
    and "oc_Get vnodes req (ms_world s) = (Inr cr, w1)"
    and "shouldRetryRegistration (crToVNode cr)"
    and "Register tenants env (crToVNode cr) (n_TenantRef (crToVNode cr)) (s\<lparr>ms_world := w1\<rparr>) = (Inr (), s1)"
    and "main_vnodeReconciler vnodes tenants env req s = (Inr res, s')" and "RequeueAfter res \<noteq> 0"
  shows "\<exists>v. cluster_nodes objs s' req = Some v \<and> n_Phase v = NodePhaseReady \<and>
           n_Conditions v = readyNodeConditions \<and> IsReady v"
proof -
  let ?n = "crToVNode cr" and ?s0 = "s\<lparr>ms_world := w1\<rparr>"
  have st: "vnode_store vnodes objs (env_retry env)" using assms(1) by (simp add: operator_def)
  then have api: "object_api vnodes objs (\<lambda>cr. om_key (vn_Meta cr)) (\<lambda>cr. om_Labels (vn_Meta cr))
      vnode_created (\<lambda>old x. Some (vnode_upd old x)) vnode_upds vnode_gone"
    by (simp add: vnode_store_def)
  note g = object_api.Get_ok [OF api assms(3)]
  have key: "nkey ?n = req" using object_api.objs_key [OF api] g by auto
  have inv: "operator_invar objs ?s0"
    using assms(2) g same_objs_view [of objs w1 "ms_world s"] by (simp add: operator_invar_def)
  have up: "UpdateStatus (main_nodeRepo vnodes env) (NewRegistrar tenants env) ?n ?s0 = (Inr (), s')"
    using assms(3,6,7)
    by (auto simp: main_vnodeReconciler_def VNodeReconciler_Reconcile_def onw_def main_nodeSvc_sel Let_def
        noRequeue_def split: prod.splits sum.splits if_splits)
  have "reg_Register (NewRegistrar tenants env) ?n (n_TenantRef ?n) ?s0 = (Inr (), s1)"
    using assms(5) by (simp add: NewRegistrar_def)
  from operator.heals [OF assms(1) inv assms(4) this up] key show ?thesis
    by (auto simp: IsReady_def)
qed

end
