(* ===== verification/Service_Frame.thy ===== *)
theory Service_Frame
  imports Node_Service Pool_Service
begin

text \<open>
  What the node and pool services leave alone: a view of the state that every operation of the
  repository and of the registrar keeps is kept by the services. The pool controller uses it
  for the pool objects, which the services never write.
\<close>

locale service_frame =
  fixes repo :: "'s NodeRepository"
    and reg :: "'s NodeRegistrar"
    and view :: "'s \<Rightarrow> 'v"
    and invar :: "'s \<Rightarrow> bool"
  assumes repo_frame:
      "invar s \<Longrightarrow> repo_ListByPool repo ns p s = (xs, s') \<Longrightarrow> invar s' \<and> view s' = view s"
      "invar s \<Longrightarrow> repo_Save repo n s = (r, s') \<Longrightarrow> invar s' \<and> view s' = view s"
      "invar s \<Longrightarrow> repo_Delete repo ns nm s = (r, s') \<Longrightarrow> invar s' \<and> view s' = view s"
    and reg_frame:
      "invar s \<Longrightarrow> reg_Register reg n t s = (r, s') \<Longrightarrow> invar s' \<and> view s' = view s"
      "invar s \<Longrightarrow> reg_Deregister reg n t s = (r, s') \<Longrightarrow> invar s' \<and> view s' = view s"
      "invar s \<Longrightarrow> reg_UpdateNodeStatus reg n t s = (r, s') \<Longrightarrow> invar s' \<and> view s' = view s"
begin

lemmas frame_laws = repo_frame reg_frame

lemma Provision_frame:
  assumes "invar s" and "Provision repo reg pool s = (r, s')"
  shows "invar s' \<and> view s' = view s"
proof -
  obtain l s1 where l: "repo_ListByPool repo (p_Namespace pool) (p_Name pool) s = (l, s1)" by fastforce
  note s1 = repo_frame(1) [OF assms(1) l]
  show ?thesis
  proof (cases l)
    case (Inl e)
    with assms l s1 show ?thesis by (simp add: Provision_def)
  next
    case (Inr xs)
    let ?n = "newNode pool (length xs)"
    obtain r2 s2 where sv: "repo_Save repo ?n s1 = (r2, s2)" by fastforce
    obtain r3 s3 where rg: "reg_Register reg ?n (p_TenantRef pool) s2 = (r3, s3)" by fastforce
    have s2: "invar s2 \<and> view s2 = view s" using repo_frame(2) [OF _ sv] s1 by simp
    have s3: "invar s3 \<and> view s3 = view s" using reg_frame(1) [OF _ rg] s2 by simp
    have "s' = s2 \<or> s' = s3 \<or> (\<exists>n r. repo_Save repo n s3 = (r, s'))"
      using assms(2) l Inr sv rg
      by (cases r2; cases r3) (auto simp: Provision_def Let_def split: prod.splits sum.splits if_splits)
    with s2 s3 repo_frame(2) [of s3] show ?thesis by metis
  qed
qed

lemma Deprovision_frame:
  assumes "invar s" and "Deprovision repo reg n s = (r, s')"
  shows "invar s' \<and> view s' = view s"
proof -
  let ?m = "terminatingNode n"
  obtain r1 s1 where sv: "repo_Save repo ?m s = (r1, s1)" by fastforce
  obtain r2 s2 where dr: "reg_Deregister reg ?m (n_TenantRef ?m) s1 = (r2, s2)" by fastforce
  obtain r3 s3 where dl: "repo_Delete repo (n_Namespace ?m) (n_Name ?m) s2 = (r3, s3)" by fastforce
  have s1: "invar s1 \<and> view s1 = view s" using repo_frame(2) [OF assms(1) sv] by simp
  have s2: "invar s2 \<and> view s2 = view s" using reg_frame(2) [OF _ dr] s1 by simp
  have s3: "invar s3 \<and> view s3 = view s" using repo_frame(3) [OF _ dl] s2 by simp
  have "s' = s1 \<or> s' = s2 \<or> s' = s3"
    using assms(2) sv dr dl
    by (cases r1; cases r3) (auto simp: Deprovision_def Let_def split: if_splits)
  with s1 s2 s3 show ?thesis by blast
qed

lemma UpdateStatus_frame:
  assumes "invar s" and "UpdateStatus repo reg n s = (r, s')"
  shows "invar s' \<and> view s' = view s"
proof -
  obtain r1 s1 where rg: "reg_Register reg n (n_TenantRef n) s = (r1, s1)" by fastforce
  obtain r2 s2 where up: "reg_UpdateNodeStatus reg n (n_TenantRef n) s = (r2, s2)" by fastforce
  have s1: "invar s1 \<and> view s1 = view s" by (rule reg_frame(1) [OF assms(1) rg])
  have s2: "invar s2 \<and> view s2 = view s" by (rule reg_frame(3) [OF assms(1) up])
  from UpdateStatus_cases [OF assms(2) rg up]
  show ?thesis using s1 s2 assms(1) by (elim disjE exE conjE insertE emptyE) (auto dest: repo_frame(2))
qed

lemma scale_frame:
  "invar s \<Longrightarrow> scaleUp (NodeService repo reg) pool w i k s = (r, s') \<Longrightarrow> invar s' \<and> view s' = view s"
  "invar s \<Longrightarrow> scaleDown (NodeService repo reg) pool w k s = (r, s') \<Longrightarrow> invar s' \<and> view s' = view s"
proof (induction k arbitrary: pool w i s)
  case (Suc k)
  {
    case 1
    obtain n e s1 where p: "Provision repo reg pool s = ((n, e), s1)" by (metis prod.exhaust)
    have "s' = s1 \<or> (\<exists>q w. scaleUp (NodeService repo reg) q w (i + 1) k s1 = (r, s'))"
      using 1(2) p by (cases e) auto
    with Suc.IH(1) Provision_frame [OF 1(1) p] show ?case by metis
  next
    case 2
    obtain e s1 where p: "Deprovision repo reg (last w) s = (e, s1)" by fastforce
    have "s' = s \<or> s' = s1 \<or> (\<exists>q w. scaleDown (NodeService repo reg) q w k s1 = (r, s'))"
      using 2(2) p by (cases e) (auto split: if_splits)
    with Suc.IH(2) Deprovision_frame [OF 2(1) p] 2(1) show ?case by metis
  }
qed simp_all

lemma Reconcile_frame:
  assumes "invar s" and "PoolService_Reconcile repo (NodeService repo reg) pool s = (r, s')"
  shows "invar s' \<and> view s' = view s"
proof -
  obtain l s1 where l: "repo_ListByPool repo (p_Namespace pool) (p_Name pool) s = (l, s1)" by fastforce
  note s1 = repo_frame(1) [OF assms(1) l]
  show ?thesis
  proof (cases l)
    case (Inl e)
    with assms l s1 show ?thesis by (simp add: PoolService_Reconcile_def)
  next
    case (Inr xs)
    obtain a d where ad: "DesiredScaleActions pool (len32 xs) = (a, d)" by fastforce
    obtain p2 w2 e2 s2 where up: "scaleUp (NodeService repo reg) pool xs 0 (nat (sint a)) s1 = ((p2, w2, e2), s2)"
      by (metis prod.exhaust)
    obtain p3 w3 e3 s3 where dn: "scaleDown (NodeService repo reg) p2 w2 (nat (sint d)) s2 = ((p3, w3, e3), s3)"
      by (metis prod.exhaust)
    have s2: "invar s2 \<and> view s2 = view s" using scale_frame(1) [OF _ up] s1 by simp
    have s3: "invar s3 \<and> view s3 = view s" using scale_frame(2) [OF _ dn] s2 by simp
    have "s' = s2 \<or> s' = s3"
      using assms(2) l Inr ad up dn
      by (cases e2; cases e3) (auto simp: PoolService_Reconcile_def Let_def)
    with s2 s3 show ?thesis by blast
  qed
qed

end

end
