(* ===== verification/VNodePool_Reconciler.thy ===== *)
theory VNodePool_Reconciler
  imports VNode_Reconciler Service_Frame
begin

text \<open>
  The VNodePool controller (\<open>internal/adapter/inbound/reconciler/vnodepool_reconciler.go\<close>): it
  validates a pool, has the pool service bring its nodes to the requested number, reports the
  outcome in the status of the pool, and holds a finalizer on the pool until its nodes are
  gone.

  The record \<open>poolapi\<close> holds the clients the controller uses. \<open>Status().Patch\<close> with
  \<open>MergeFrom(base)\<close> is an operation of its own (\<open>pa_patch base current\<close>), because it sends the
  difference of the two objects. \<open>reflect.DeepEqual\<close> on two statuses is equality. Watches are
  modelled by the predicate and the mapping they install. Logging is not modelled.

  The main results: an invalid pool changes no node and is reported as Failed; the finalizer
  goes only when no node of the pool is left; and the status conditions are updated in place.
\<close>

section \<open>Conversion\<close>

definition mapTaints :: "CoreTaint list \<Rightarrow> Taint list" where
  "mapTaints ts =
     map (\<lambda>t. \<lparr>taint_Key = ct_Key t, taint_Value = ct_Value t, taint_Effect = ct_Effect t\<rparr>) ts"

definition mapTolerations :: "CoreToleration list \<Rightarrow> Toleration list" where
  "mapTolerations ts =
     map (\<lambda>t. \<lparr>tol_Key = ctol_Key t, tol_Operator = ctol_Operator t, tol_Value = ctol_Value t,
               tol_Effect = ctol_Effect t, TolerationSeconds = ctol_TolerationSeconds t\<rparr>) ts"

abbreviation poolFinalizer :: string where "poolFinalizer \<equiv> ''vnode.kroderdev.io/pool-cleanup''"

definition crToPoolModel :: "VNodePoolCR \<Rightarrow> VNodePool" where
  "crToPoolModel cr =
     \<lparr>p_ID = om_UID (vp_Meta cr),
      p_Name = om_Name (vp_Meta cr),
      p_DisplayName = sp_DisplayName (vp_Spec cr),
      p_Namespace = om_Namespace (vp_Meta cr),
      p_TenantRef =
        \<lparr>VClusterName = tr_VClusterName (sp_TenantRef (vp_Spec cr)),
         VClusterNamespace = tr_VClusterNamespace (sp_TenantRef (vp_Spec cr)),
         KubeconfigSecret = tr_KubeconfigSecret (sp_TenantRef (vp_Spec cr))\<rparr>,
      p_Mode = sp_Mode (vp_Spec cr),
      p_IsolationBackend = sp_IsolationBackend (vp_Spec cr),
      p_RuntimeClassName = sp_RuntimeClassName (vp_Spec cr),
      p_NodeCount = sp_NodeCount (vp_Spec cr),
      p_PerNodeResources = resourcesToModel (sp_PerNodeResources (vp_Spec cr)),
      p_NodeSelector = sp_NodeSelector (vp_Spec cr),
      p_Taints = mapTaints (sp_Taints (vp_Spec cr)),
      p_Tolerations = mapTolerations (sp_Tolerations (vp_Spec cr)),
      p_Phase = st_Phase (vp_Status cr),
      p_ReadyNodes = st_ReadyNodes (vp_Status cr),
      p_Nodes = [],
      p_DeletionPending = (om_DeletionTimestamp (vp_Meta cr) \<noteq> None)\<rparr>"

section \<open>Status conditions\<close>

fun setStatusCondition ::
  "int \<Rightarrow> Condition list \<Rightarrow> string \<Rightarrow> string \<Rightarrow> string \<Rightarrow> string \<Rightarrow> Condition list"
where
  "setStatusCondition now [] ty status reason message =
     [\<lparr>mc_Type = ty, mc_Status = status, mc_Reason = reason, mc_Message = message,
       mc_LastTransitionTime = now\<rparr>]"
| "setStatusCondition now (c # cs) ty status reason message =
     (if mc_Type c \<noteq> ty then c # setStatusCondition now cs ty status reason message
      else if mc_Status c = status \<and> mc_Reason c = reason \<and> mc_Message c = message then c # cs
      else c\<lparr>mc_Status := status, mc_Reason := reason, mc_Message := message,
             mc_LastTransitionTime := now\<rparr> # cs)"

definition conditionStatus :: "bool \<Rightarrow> string" where
  "conditionStatus ok = (if ok then ConditionTrue else ConditionFalse)"

definition phaseReason :: "PoolPhase \<Rightarrow> string" where
  "phaseReason phase =
     (if phase = PoolPhaseReady then ''PoolReady''
      else if phase = PoolPhaseScaling then ''PoolScaling''
      else if phase = PoolPhaseDeleting then ''PoolDeleting''
      else if phase = PoolPhaseFailed then ''PoolFailed''
      else ''PoolPending'')"

definition failedStatus :: "string \<Rightarrow> goerr \<Rightarrow> int \<Rightarrow> VNodePoolStatus \<Rightarrow> VNodePoolStatus" where
  "failedStatus reason err now status =
     status\<lparr>st_Phase := PoolPhaseFailed,
            st_Conditions :=
              setStatusCondition now
                (setStatusCondition now (st_Conditions status) ''Ready'' ConditionFalse reason (error_string err))
                ''Degraded'' ConditionTrue reason (error_string err)\<rparr>"

definition resultStatus :: "VNodePool \<Rightarrow> int \<Rightarrow> VNodePoolStatus \<Rightarrow> VNodePoolStatus" where
  "resultStatus result now status =
     status\<lparr>st_Phase := p_Phase result,
            st_ReadyNodes := p_ReadyNodes result,
            st_TotalNodes := p_NodeCount result,
            st_Conditions :=
              setStatusCondition now
                (setStatusCondition now (st_Conditions status) ''Ready''
                   (conditionStatus (p_Phase result = PoolPhaseReady)) (phaseReason (p_Phase result))
                   (itoa_int (sint (p_ReadyNodes result)) @ ''/'' @
                    itoa_int (sint (p_NodeCount result)) @ '' virtual nodes ready''))
                ''Degraded'' (conditionStatus (p_Phase result = PoolPhaseFailed))
                (phaseReason (p_Phase result)) (''Pool phase is '' @ p_Phase result)\<rparr>"

definition deletingStatus :: "int \<Rightarrow> VNodePoolStatus \<Rightarrow> VNodePoolStatus" where
  "deletingStatus now status =
     status\<lparr>st_Phase := PoolPhaseDeleting,
            st_Conditions :=
              setStatusCondition now
                (setStatusCondition now (st_Conditions status) ''Ready'' ConditionFalse ''Deleting''
                   ''Pool is being deleted'')
                ''Degraded'' ConditionFalse ''Deleting'' ''Pool cleanup in progress''\<rparr>"

section \<open>Reconciliation\<close>

record 'w poolapi =
  pa_pools :: "(VNodePoolCR, 'w) objclient"
  pa_patch :: "VNodePoolCR \<Rightarrow> VNodePoolCR \<Rightarrow> 'w \<Rightarrow> unit res \<times> 'w"
  pa_vnodes :: "(VNodeCR, 'w) objclient"
  pa_retry :: "'w retrier"
  pa_now :: "'w \<Rightarrow> int"

definition tryPoolStatus ::
  "'w poolapi \<Rightarrow> objkey \<Rightarrow> (int \<Rightarrow> VNodePoolStatus \<Rightarrow> VNodePoolStatus) \<Rightarrow> 'w \<Rightarrow> unit res \<times> 'w"
where
  "tryPoolStatus api k mutate w =
     (case oc_Get (pa_pools api) k w of
        (Inl err, w) \<Rightarrow> (Inl err, w)
      | (Inr base, w) \<Rightarrow>
          (let current = base\<lparr>vp_Status := mutate (pa_now api w) (vp_Status base)\<rparr> in
           if vp_Status base = vp_Status current then (Inr (), w)
           else pa_patch api base current w))"

definition updatePoolStatus ::
  "'w poolapi \<Rightarrow> objkey \<Rightarrow> (int \<Rightarrow> VNodePoolStatus \<Rightarrow> VNodePoolStatus) \<Rightarrow> 'w \<Rightarrow> unit res \<times> 'w"
where
  "updatePoolStatus api k mutate = pa_retry api (tryPoolStatus api k mutate)"

definition tryRemoveFinalizer :: "'w poolapi \<Rightarrow> objkey \<Rightarrow> 'w \<Rightarrow> unit res \<times> 'w" where
  "tryRemoveFinalizer api k w =
     (case oc_Get (pa_pools api) k w of
        (Inl err, w) \<Rightarrow> (if IsNotFound err then Inr () else Inl err, w)
      | (Inr current, w) \<Rightarrow>
          oc_Update (pa_pools api)
            (current\<lparr>vp_Meta := (vp_Meta current)
               \<lparr>om_Finalizers := removeAll poolFinalizer (om_Finalizers (vp_Meta current))\<rparr>\<rparr>) w)"

definition handleDeletion ::
  "'w poolapi \<Rightarrow> ('q, 'w) mstate PoolManager \<Rightarrow> VNodePoolCR \<Rightarrow> ('q, 'w) mstate \<Rightarrow>
   Result res \<times> ('q, 'w) mstate"
where
  "handleDeletion api poolMgr cr s =
     (if poolFinalizer \<notin> set (om_Finalizers (vp_Meta cr)) then (Inr noRequeue, s)
      else
        (case onw (updatePoolStatus api (vp_key cr) deletingStatus) s of
           (_, s) \<Rightarrow>
             (let pool = (crToPoolModel cr)\<lparr>p_NodeCount := 0, p_DeletionPending := True\<rparr> in
              case pm_Reconcile poolMgr pool s of
                ((_, Some err), s) \<Rightarrow>
                  (Inl (Wrap (''cleaning up pool '' @ om_Name (vp_Meta cr)) err), s)
              | ((_, None), s) \<Rightarrow>
                  (case onw (oc_List (pa_vnodes api) (Some (om_Namespace (vp_Meta cr)))
                               (fmupd LabelVNodePool (om_Name (vp_Meta cr)) fmempty)) s of
                     (Inl err, s) \<Rightarrow>
                       (Inl (Wrap (''listing remaining VNodes for pool '' @ om_Name (vp_Meta cr)) err), s)
                   | (Inr remaining, s) \<Rightarrow>
                       if length remaining > 0 then (Inr \<lparr>RequeueAfter = Second\<rparr>, s)
                       else
                         (case onw (pa_retry api (tryRemoveFinalizer api (vp_key cr))) s of
                            (Inl err, s) \<Rightarrow> (Inl (Wrap ''removing finalizer'' err), s)
                          | (Inr _, s) \<Rightarrow> (Inr noRequeue, s))))))"

definition ensureFinalizer :: "'w poolapi \<Rightarrow> VNodePoolCR \<Rightarrow> 'w \<Rightarrow> VNodePoolCR res \<times> 'w" where
  "ensureFinalizer api cr w =
     (if poolFinalizer \<in> set (om_Finalizers (vp_Meta cr)) then (Inr cr, w)
      else
        (let cr' = cr\<lparr>vp_Meta := (vp_Meta cr)
                        \<lparr>om_Finalizers := om_Finalizers (vp_Meta cr) @ [poolFinalizer]\<rparr>\<rparr> in
         case oc_Update (pa_pools api) cr' w of
           (Inl err, w) \<Rightarrow> (Inl (Wrap ''adding finalizer'' err), w)
         | (Inr _, w) \<Rightarrow> (Inr cr', w)))"

text \<open>The part of \<open>Reconcile\<close> after the finalizer is in place.\<close>

definition reconcileMarked ::
  "'w poolapi \<Rightarrow> ('q, 'w) mstate PoolManager \<Rightarrow> VNodePoolCR \<Rightarrow> ('q, 'w) mstate \<Rightarrow>
   Result res \<times> ('q, 'w) mstate"
where
  "reconcileMarked api poolMgr cr s =
     (let pool = crToPoolModel cr in
      case Validate pool of
        Inl err \<Rightarrow>
          (case onw (updatePoolStatus api (vp_key cr) (failedStatus ''ValidationFailed'' err)) s of
             (_, s) \<Rightarrow> (Inr noRequeue, s))
      | Inr _ \<Rightarrow>
          (case pm_Reconcile poolMgr pool s of
             ((_, Some err), s) \<Rightarrow>
               if isPanic err then (Inl err, s)
               else
                 (case onw (updatePoolStatus api (vp_key cr) (failedStatus ''ReconcileFailed'' err)) s of
                    (_, s) \<Rightarrow> (Inl (Wrap (''reconciling pool '' @ p_Name pool) err), s))
           | ((result, None), s) \<Rightarrow>
               (case onw (updatePoolStatus api (vp_key cr) (resultStatus result)) s of
                  (Inl err, s) \<Rightarrow> (Inl (Wrap ''updating pool status'' err), s)
                | (Inr _, s) \<Rightarrow>
                    if om_DeletionTimestamp (vp_Meta cr) \<noteq> None \<and> p_Phase result \<noteq> PoolPhaseReady
                    then (Inr \<lparr>RequeueAfter = Second\<rparr>, s)
                    else (Inr noRequeue, s))))"

definition VNodePoolReconciler_Reconcile ::
  "'w poolapi \<Rightarrow> ('q, 'w) mstate PoolManager \<Rightarrow> objkey \<Rightarrow> ('q, 'w) mstate \<Rightarrow>
   Result res \<times> ('q, 'w) mstate"
where
  "VNodePoolReconciler_Reconcile api poolMgr req s =
     (case onw (oc_Get (pa_pools api) req) s of
        (Inl err, s) \<Rightarrow> (if IsNotFound err then Inr noRequeue else Inl err, s)
      | (Inr cr, s) \<Rightarrow>
          if om_DeletionTimestamp (vp_Meta cr) \<noteq> None then handleDeletion api poolMgr cr s
          else
            (case onw (ensureFinalizer api cr) s of
               (Inl err, s) \<Rightarrow> (Inl err, s)
             | (Inr cr, s) \<Rightarrow> reconcileMarked api poolMgr cr s))"

section \<open>Watches\<close>

datatype 'o objevent =
    CreateEvent 'o
  | DeleteEvent 'o
  | UpdateEvent 'o 'o
  | GenericEvent 'o

fun vnodePhaseChangedPredicate :: "VNodeCR objevent \<Rightarrow> bool" where
  "vnodePhaseChangedPredicate (CreateEvent v) = False"
| "vnodePhaseChangedPredicate (DeleteEvent v) = True"
| "vnodePhaseChangedPredicate (UpdateEvent old new) =
     (vs_Phase (vn_Status old) \<noteq> vs_Phase (vn_Status new))"
| "vnodePhaseChangedPredicate (GenericEvent v) = False"

definition vnodeToPool :: "VNodeCR \<Rightarrow> objkey list" where
  "vnodeToPool vnode =
     (let poolName = mget (om_Labels (vn_Meta vnode)) LabelVNodePool in
      if poolName = [] then [] else [ObjKey (om_Namespace (vn_Meta vnode)) poolName])"

definition main_poolapi ::
  "(VNodePoolCR, 'w) objclient \<Rightarrow> (VNodePoolCR \<Rightarrow> VNodePoolCR \<Rightarrow> 'w \<Rightarrow> unit res \<times> 'w) \<Rightarrow>
   (VNodeCR, 'w) objclient \<Rightarrow> ('q, 'w) sysenv \<Rightarrow> 'w poolapi"
where
  "main_poolapi pools patch vnodes env =
     \<lparr>pa_pools = pools, pa_patch = patch, pa_vnodes = vnodes, pa_retry = env_retry env,
      pa_now = env_now env\<rparr>"

definition main_poolReconciler ::
  "(VNodePoolCR, 'w) objclient \<Rightarrow> (VNodePoolCR \<Rightarrow> VNodePoolCR \<Rightarrow> 'w \<Rightarrow> unit res \<times> 'w) \<Rightarrow>
   (VNodeCR, 'w) objclient \<Rightarrow> ('c, 'q, 'w) TenantClientManager \<Rightarrow> ('q, 'w) sysenv \<Rightarrow>
   objkey \<Rightarrow> ('q, 'w) mstate \<Rightarrow> Result res \<times> ('q, 'w) mstate"
where
  "main_poolReconciler pools patch vnodes tenants env =
     VNodePoolReconciler_Reconcile (main_poolapi pools patch vnodes env)
       (main_poolSvc vnodes tenants env)"

section \<open>What the server stores for a pool\<close>

text \<open>
  A new pool starts with an empty status; an update keeps the status, the identity and the
  deletion mark, and removes the object when it takes the last finalizer off an object under
  deletion; a status update keeps the rest.
\<close>

definition pool_created :: "VNodePoolCR \<Rightarrow> VNodePoolCR \<Rightarrow> bool" where
  "pool_created x y \<longleftrightarrow>
     (\<exists>uid ts. y = x\<lparr>vp_Meta := (vp_Meta x)\<lparr>om_UID := uid, om_CreationTimestamp := ts, om_Generation := 1\<rparr>,
                     vp_Status := \<lparr>st_Phase = [], st_ReadyNodes = 0, st_TotalNodes = 0, st_Conditions = []\<rparr>\<rparr>)"

definition pool_upd :: "VNodePoolCR \<Rightarrow> VNodePoolCR \<Rightarrow> VNodePoolCR option" where
  "pool_upd old x =
     (if om_DeletionTimestamp (vp_Meta old) \<noteq> None \<and> om_Finalizers (vp_Meta x) = [] then None
      else Some (x\<lparr>vp_Meta := (vp_Meta x)
                     \<lparr>om_UID := om_UID (vp_Meta old),
                      om_CreationTimestamp := om_CreationTimestamp (vp_Meta old),
                      om_DeletionTimestamp := om_DeletionTimestamp (vp_Meta old),
                      om_Generation := om_Generation (vp_Meta old) + (if vp_Spec x = vp_Spec old then 0 else 1)\<rparr>,
                   vp_Status := vp_Status old\<rparr>))"

definition pool_upds :: "VNodePoolCR \<Rightarrow> VNodePoolCR \<Rightarrow> VNodePoolCR" where
  "pool_upds old x = old\<lparr>vp_Status := vp_Status x\<rparr>"

text \<open>The invariant of the controller: that of the operator, and clients that spare the pools.\<close>

definition controller_invar ::
  "('w \<Rightarrow> objkey \<Rightarrow> VNodeCR option) \<Rightarrow> ('w \<Rightarrow> objkey \<Rightarrow> VNodePoolCR option) \<Rightarrow> ('q, 'w) mstate \<Rightarrow> bool"
where
  "controller_invar objs pobjs s \<longleftrightarrow>
     operator_invar objs s \<and> cache_all (clientset_framed pobjs) (ms_clients s)"

definition holds_finalizer :: "VNodePoolCR option \<Rightarrow> bool" where
  "holds_finalizer ocr \<longleftrightarrow>
     (case ocr of None \<Rightarrow> False | Some cr \<Rightarrow> poolFinalizer \<in> set (om_Finalizers (vp_Meta cr)))"

text \<open>A status that says what went wrong: the phase and the two conditions.\<close>

definition condition_is :: "Condition list \<Rightarrow> string \<Rightarrow> string \<Rightarrow> string \<Rightarrow> string \<Rightarrow> bool" where
  "condition_is cs ty status reason message \<longleftrightarrow>
     (case find (\<lambda>c. mc_Type c = ty) cs of
        None \<Rightarrow> False
      | Some c \<Rightarrow> mc_Status c = status \<and> mc_Reason c = reason \<and> mc_Message c = message)"

definition reports_failure :: "string \<Rightarrow> string \<Rightarrow> VNodePoolStatus \<Rightarrow> bool" where
  "reports_failure reason message st \<longleftrightarrow>
     st_Phase st = ''Failed'' \<and>
     condition_is (st_Conditions st) ''Ready'' ''False'' reason message \<and>
     condition_is (st_Conditions st) ''Degraded'' ''True'' reason message"

section \<open>Conditions\<close>

lemma setStatusCondition_find:
  "find (\<lambda>c. mc_Type c = ty) (setStatusCondition now cs ty st rs msg) =
     Some (case find (\<lambda>c. mc_Type c = ty) cs of
             Some c \<Rightarrow> if mc_Status c = st \<and> mc_Reason c = rs \<and> mc_Message c = msg then c
               else c\<lparr>mc_Status := st, mc_Reason := rs, mc_Message := msg, mc_LastTransitionTime := now\<rparr>
           | None \<Rightarrow> \<lparr>mc_Type = ty, mc_Status = st, mc_Reason = rs, mc_Message = msg,
                       mc_LastTransitionTime = now\<rparr>)"
  by (induction cs) auto

lemma setStatusCondition_find_other:
  "ty' \<noteq> ty \<Longrightarrow>
   find (\<lambda>c. mc_Type c = ty') (setStatusCondition now cs ty st rs msg) = find (\<lambda>c. mc_Type c = ty') cs"
  by (induction cs) auto

lemma failedStatus_reports: "reports_failure reason (error_string e) (failedStatus reason e now st)"
  by (auto simp: reports_failure_def condition_is_def failedStatus_def setStatusCondition_find
      setStatusCondition_find_other split: option.split)

lemma setStatusCondition_others:
  "filter (\<lambda>c. mc_Type c \<noteq> ty) (setStatusCondition now cs ty st rs msg) = filter (\<lambda>c. mc_Type c \<noteq> ty) cs"
  by (induction cs) auto

lemma setStatusCondition_idem:
  "setStatusCondition later (setStatusCondition now cs ty st rs msg) ty st rs msg =
     setStatusCondition now cs ty st rs msg"
  by (induction cs) auto

text \<open>
  C34: setting a status condition is an upsert that keeps the transition time. Afterwards the
  first condition of the type has the given status, reason and message; its transition time
  changes only when one of them changed; the conditions of other types stay as they are and
  in order; and setting the same values again, at any later time, changes nothing, so an
  unchanged outcome never rewrites the status.
\<close>

theorem setStatusCondition_upsert:
  fixes now cs ty st rs msg
  defines "cs' \<equiv> setStatusCondition now cs ty st rs msg"
  shows "find (\<lambda>c. mc_Type c = ty) cs' =
           Some (case find (\<lambda>c. mc_Type c = ty) cs of
                   Some c \<Rightarrow> if mc_Status c = st \<and> mc_Reason c = rs \<and> mc_Message c = msg then c
                     else c\<lparr>mc_Status := st, mc_Reason := rs, mc_Message := msg, mc_LastTransitionTime := now\<rparr>
                 | None \<Rightarrow> \<lparr>mc_Type = ty, mc_Status = st, mc_Reason = rs, mc_Message = msg,
                             mc_LastTransitionTime = now\<rparr>) \<and>
         filter (\<lambda>c. mc_Type c \<noteq> ty) cs' = filter (\<lambda>c. mc_Type c \<noteq> ty) cs \<and>
         setStatusCondition later cs' ty st rs msg = cs'"
  unfolding cs'_def
  by (intro conjI setStatusCondition_find setStatusCondition_others setStatusCondition_idem)

section \<open>The controller in a documented world\<close>

sublocale operator \<subseteq> keep: service_frame "main_nodeRepo vnodes env" "NewRegistrar tenants env"
  "\<lambda>_. ()" "operator_invar objs"
proof (unfold_locales, goal_cases)
  case (1 s ns p xs s')
  then show ?case using ns.List_ok ns.List_err by (cases xs) blast+
next
  case (2 s n r s')
  then show ?case using ns.Save_touched by blast
next
  case (3 s a b r s')
  then show ?case using ns.Delete_ok ns.Delete_err by (cases r) blast+
qed (use ns.frames in blast)+

locale pool_controller =
  operator vnodes tenants env objs +
  pl: object_api pools pobjs "\<lambda>cr. om_key (vp_Meta cr)" "\<lambda>cr. om_Labels (vp_Meta cr)"
    pool_created pool_upd pool_upds pgone +
  pool_frame: client_frame pools objs +
  vnode_frame: client_frame vnodes pobjs +
  tcp: tenant_clients tenants "clientset_framed pobjs" pobjs
  for vnodes :: "(VNodeCR, 'w) objclient"
    and tenants :: "('c, 'q, 'w) TenantClientManager"
    and env :: "('q, 'w) sysenv"
    and objs :: "'w \<Rightarrow> objkey \<Rightarrow> VNodeCR option"
    and pools :: "(VNodePoolCR, 'w) objclient"
    and pobjs :: "'w \<Rightarrow> objkey \<Rightarrow> VNodePoolCR option"
    and pgone :: "VNodePoolCR \<Rightarrow> VNodePoolCR option" +
  fixes patch :: "VNodePoolCR \<Rightarrow> VNodePoolCR \<Rightarrow> 'w \<Rightarrow> unit res \<times> 'w"
  assumes Patch_ok: "pobjs w (om_key (vp_Meta x)) = Some base \<Longrightarrow> patch base x w = (Inr u, w') \<Longrightarrow>
      pobjs w' = (pobjs w)(om_key (vp_Meta x) \<mapsto> pool_upds base x)"
    and Patch_err: "patch base x w = (Inl e, w') \<Longrightarrow> pobjs w' = pobjs w"
    and Patch_frame: "patch base x w = (r, w') \<Longrightarrow> objs w' = objs w"
begin

abbreviation api :: "'w poolapi" where
  "api \<equiv> main_poolapi pools patch vnodes env"

lemma api_sel [simp]:
  "pa_pools api = pools" "pa_patch api = patch" "pa_vnodes api = vnodes"
  "pa_retry api = env_retry env" "pa_now api = env_now env"
  by (simp_all add: main_poolapi_def)

lemma tryPoolStatus_effect:
  assumes "tryPoolStatus api k mutate w = (r, w')"
  shows "objs w' = objs w \<and>
         (case r of
            Inl e \<Rightarrow> pobjs w' = pobjs w
          | Inr u \<Rightarrow> \<exists>cr t. pobjs w k = Some cr \<and>
              pobjs w' = (pobjs w)(k \<mapsto> cr\<lparr>vp_Status := mutate t (vp_Status cr)\<rparr>))"
proof (cases "oc_Get pools k w")
  case (Pair g w1)
  show ?thesis
  proof (cases g)
    case (Inl e)
    with assms Pair pl.Get_err [of k w e w1] pool_frame.Get_frame [OF Pair] show ?thesis
      by (auto simp: tryPoolStatus_def)
  next
    case (Inr cr)
    let ?x = "cr\<lparr>vp_Status := mutate (env_now env w1) (vp_Status cr)\<rparr>"
    have g: "pobjs w1 = pobjs w" "pobjs w k = Some cr" "om_key (vp_Meta cr) = k" "objs w1 = objs w"
      using pl.Get_ok [of k w cr w1] Pair Inr pl.objs_key pool_frame.Get_frame [OF Pair] by auto
    show ?thesis
    proof (cases "vp_Status cr = vp_Status ?x")
      case True
      then have "?x = cr" by simp
      moreover have "r = Inr ()" "w' = w1"
        using assms Pair Inr True by (auto simp: tryPoolStatus_def Let_def)
      moreover have "pobjs w = (pobjs w)(k \<mapsto> cr)" using g by auto
      ultimately show ?thesis using g by auto metis
    next
      case False
      then have p: "patch cr ?x w1 = (r, w')" using assms Pair Inr by (simp add: tryPoolStatus_def Let_def)
      show ?thesis
        using Patch_ok [of w1 ?x cr _ w'] Patch_err [of cr ?x w1 _ w'] Patch_frame [OF p] p g
        by (cases r) (auto simp: pool_upds_def)
    qed
  qed
qed

lemma updatePoolStatus_effect:
  assumes "updatePoolStatus api k mutate w = (r, w')"
  shows "objs w' = objs w \<and>
         (case r of
            Inl e \<Rightarrow> pobjs w' = pobjs w
          | Inr u \<Rightarrow> \<exists>cr t. pobjs w k = Some cr \<and>
              pobjs w' = (pobjs w)(k \<mapsto> cr\<lparr>vp_Status := mutate t (vp_Status cr)\<rparr>))"
proof -
  let ?f = "tryPoolStatus api k mutate"
  have err: "(pobjs v', objs v') = (pobjs v, objs v)" if "?f v = (Inl e, v')" for v e v'
    using tryPoolStatus_effect [OF that] by simp
  obtain v where v: "(pobjs v, objs v) = (pobjs w, objs w)" "env_retry env ?f w = ?f v"
    by (rule store.retry_view [of ?f "\<lambda>w. (pobjs w, objs w)" w, OF err])
  with assms have "?f v = (r, w')" by (simp add: updatePoolStatus_def)
  from tryPoolStatus_effect [OF this] v(1) show ?thesis by (cases r) simp_all
qed

lemma updatePoolStatus_finalizer:
  assumes "updatePoolStatus api k mutate w = (r, w')"
  shows "holds_finalizer (pobjs w' j) = holds_finalizer (pobjs w j)"
  using updatePoolStatus_effect [OF assms]
  by (cases r) (auto simp: holds_finalizer_def split: option.splits if_splits)

end

sublocale pool_controller \<subseteq> regp: registrar tenants env pobjs "\<lambda>_ _. None" "\<lambda>_. True"
  by unfold_locales auto

context vnode_store
begin

lemma repo_frames:
  assumes f: "client_frame cl view"
  shows "NodeRepository_Save cl retry now node w = (r, w') \<Longrightarrow> view w' = view w"
    and "NodeRepository_Delete cl ns nm w = (u, w') \<Longrightarrow> view w' = view w"
    and "NodeRepository_ListByPool cl ns p w = (xs, w') \<Longrightarrow> view w' = view w"
proof -
  note fr = client_frame.Get_frame [OF f] client_frame.List_frame [OF f] client_frame.Create_frame [OF f]
    client_frame.Update_frame [OF f] client_frame.UpdateStatus_frame [OF f] client_frame.Delete_frame [OF f]
  have tu: "\<And>v r v'. tryUpdateStatus cl now node v = (r, v') \<Longrightarrow> view v' = view v"
    by (auto simp: tryUpdateStatus_def split: prod.splits sum.splits if_splits dest!: fr)
  have ta: "\<And>v r v'. tryAnnotate cl node v = (r, v') \<Longrightarrow> view v' = view v"
    by (auto simp: tryAnnotate_def split: prod.splits sum.splits dest!: fr)
  have up: "\<And>v r v'. NodeRepository_updateStatus cl retry now node v = (r, v') \<Longrightarrow> view v' = view v"
    unfolding NodeRepository_updateStatus_def by (rule retry_frame [OF tu])
  have an: "\<And>v r v'. retry (tryAnnotate cl node) v = (r, v') \<Longrightarrow> view v' = view v"
    by (rule retry_frame [OF ta])
  show "NodeRepository_Save cl retry now node w = (r, w') \<Longrightarrow> view w' = view w"
    by (auto simp: NodeRepository_Save_def split: prod.splits sum.splits if_splits dest!: fr up an)
  show "NodeRepository_Delete cl ns nm w = (u, w') \<Longrightarrow> view w' = view w"
    by (auto simp: NodeRepository_Delete_def dest!: fr)
  show "NodeRepository_ListByPool cl ns p w = (xs, w') \<Longrightarrow> view w' = view w"
    by (auto simp: NodeRepository_ListByPool_def split: prod.splits sum.splits dest!: fr)
qed

end

sublocale pool_controller \<subseteq> pf: service_frame "main_nodeRepo vnodes env" "NewRegistrar tenants env"
  "\<lambda>s. pobjs (ms_world s)" "\<lambda>s. cache_all (clientset_framed pobjs) (ms_clients s)"
proof (unfold_locales, goal_cases)
  case (1 s ns p xs s')
  then show ?case
    using store.repo_frames(3) [OF vnode_frame.client_frame_axioms] by (auto simp: main_nodeRepo_def dest!: onw_D)
next
  case (2 s n r s')
  then show ?case
    using store.repo_frames(1) [OF vnode_frame.client_frame_axioms] by (auto simp: main_nodeRepo_def dest!: onw_D)
next
  case (3 s a b r s')
  then show ?case
    using store.repo_frames(2) [OF vnode_frame.client_frame_axioms] by (auto simp: main_nodeRepo_def dest!: onw_D)
next
  case (4 s n t r s')
  then show ?case using regp.Register_keeps [of s n t r s'] by (simp add: NewRegistrar_def)
next
  case (5 s n t r s')
  then show ?case using regp.Deregister_keeps [of s n t r s'] by (simp add: NewRegistrar_def)
next
  case (6 s n t r s')
  then show ?case using regp.UpdateNodeStatus_keeps [of s n t r s'] by (simp add: NewRegistrar_def)
qed

section \<open>The finalizer\<close>

context pool_controller
begin

abbreviation svc :: "('q, 'w) mstate PoolManager" where
  "svc \<equiv> main_poolSvc vnodes tenants env"

lemma same_world_views:
  assumes "objs (ms_world s') = objs (ms_world s)" and "ms_clients s' = ms_clients s"
  shows "controller_invar objs pobjs s' = controller_invar objs pobjs s \<and>
         cluster_nodes objs s' = cluster_nodes objs s"
  using same_objs_view [of objs "ms_world s'" "ms_world s"] assms
  by (simp add: controller_invar_def operator_invar_def cluster_nodes_def [abs_def])

lemma svc_keeps:
  assumes "controller_invar objs pobjs s" and "pm_Reconcile svc pool s = (r, s')"
  shows "controller_invar objs pobjs s' \<and> pobjs (ms_world s') = pobjs (ms_world s)"
  using keep.Reconcile_frame [of s pool r s'] pf.Reconcile_frame [of s pool r s'] assms
  by (simp add: controller_invar_def main_poolSvc_sel main_nodeSvc_def)

lemma status_keeps:
  assumes "controller_invar objs pobjs s" and "onw (updatePoolStatus api k mutate) s = (r, s')"
  shows "controller_invar objs pobjs s' \<and> cluster_nodes objs s' = cluster_nodes objs s \<and>
         holds_finalizer (pobjs (ms_world s') j) = holds_finalizer (pobjs (ms_world s) j)"
  using assms updatePoolStatus_effect [of k mutate "ms_world s" r "ms_world s'"]
    updatePoolStatus_finalizer [of k mutate "ms_world s" r "ms_world s'"] same_world_views [of s' s]
  by (auto dest!: onw_D)

lemma no_nodes_left:
  assumes "controller_invar objs pobjs s"
    and "onw (oc_List vnodes (Some ns) (fmupd LabelVNodePool p fmempty)) s = (Inr [], s')"
  shows "controller_invar objs pobjs s' \<and> pool_nodes (cluster_nodes objs s') ns p = {} \<and>
         pobjs (ms_world s') = pobjs (ms_world s)"
proof -
  have l: "oc_List vnodes (Some ns) (fmupd LabelVNodePool p fmempty) (ms_world s) = (Inr [], ms_world s')"
    and c: "ms_clients s' = ms_clients s" using onw_D [OF assms(2)] by auto
  have v: "objs (ms_world s') = objs (ms_world s)" using store.List_ok [OF l] by blast
  have "NodeRepository_ListByPool vnodes ns p (ms_world s) = (Inr [], ms_world s')"
    using l by (simp add: NodeRepository_ListByPool_def)
  moreover have "labels_agree objs (ms_world s)"
    using assms(1) by (simp add: controller_invar_def operator_invar_def)
  ultimately have "pool_nodes (cluster_nodes objs s) ns p = {}"
    using store.repository.List_keys [of "ms_world s" ns p "[]" "ms_world s'"]
    by (simp add: cluster_nodes_def [abs_def])
  with same_world_views [OF v c] assms(1) vnode_frame.List_frame [OF l] show ?thesis by simp
qed

lemma tryRemoveFinalizer_frame:
  assumes "tryRemoveFinalizer api k w = (r, w')"
  shows "objs w' = objs w"
  using assms
  by (auto simp: tryRemoveFinalizer_def split: prod.splits sum.splits
      dest!: pool_frame.Get_frame pool_frame.Update_frame)

lemma removeFinalizer_keeps:
  assumes "controller_invar objs pobjs s"
    and "onw (env_retry env (tryRemoveFinalizer api k)) s = (r, s')"
  shows "controller_invar objs pobjs s' \<and> cluster_nodes objs s' = cluster_nodes objs s"
proof -
  have r: "env_retry env (tryRemoveFinalizer api k) (ms_world s) = (r, ms_world s')"
    and c: "ms_clients s' = ms_clients s" using onw_D [OF assms(2)] by auto
  have "objs (ms_world s') = objs (ms_world s)"
    by (rule store.retry_frame [of "tryRemoveFinalizer api k" objs, OF tryRemoveFinalizer_frame r])
  with same_world_views [OF _ c] assms(1) show ?thesis by simp
qed

lemma handleDeletion_safe:
  assumes inv: "controller_invar objs pobjs s" and fin: "holds_finalizer (pobjs (ms_world s) (vp_key cr))"
    and run: "handleDeletion api svc cr s = (out, s')"
  shows "controller_invar objs pobjs s' \<and>
         (holds_finalizer (pobjs (ms_world s') (vp_key cr)) \<or>
          pool_nodes (cluster_nodes objs s') (om_Namespace (vp_Meta cr)) (om_Name (vp_Meta cr)) = {})"
proof (cases "poolFinalizer \<in> set (om_Finalizers (vp_Meta cr))")
  case False
  with run inv fin show ?thesis by (simp add: handleDeletion_def)
next
  case True
  let ?pool = "(crToPoolModel cr)\<lparr>p_NodeCount := 0, p_DeletionPending := True\<rparr>"
  obtain r1 s1 where st: "onw (updatePoolStatus api (vp_key cr) deletingStatus) s = (r1, s1)" by fastforce
  note s1 = status_keeps [OF inv st]
  obtain p e s2 where rc: "pm_Reconcile svc ?pool s1 = ((p, e), s2)" by (metis prod.exhaust)
  have s2: "controller_invar objs pobjs s2" "pobjs (ms_world s2) = pobjs (ms_world s1)"
    using svc_keeps [OF _ rc] s1 by auto
  obtain l s3 where ls: "onw (oc_List vnodes (Some (om_Namespace (vp_Meta cr)))
      (fmupd LabelVNodePool (om_Name (vp_Meta cr)) fmempty)) s2 = (l, s3)" by fastforce
  have s3: "controller_invar objs pobjs s3" "pobjs (ms_world s3) = pobjs (ms_world s2)"
  proof -
    have w: "objs (ms_world s3) = objs (ms_world s2)" "ms_clients s3 = ms_clients s2"
      using ls store.List_ok store.List_err by (cases l; fastforce dest!: onw_D)+
    show "controller_invar objs pobjs s3" using same_world_views [OF w] s2 by simp
    show "pobjs (ms_world s3) = pobjs (ms_world s2)" using ls vnode_frame.List_frame by (auto dest!: onw_D)
  qed
  obtain r4 s4 where rf: "onw (env_retry env (tryRemoveFinalizer api (vp_key cr))) s3 = (r4, s4)" by fastforce
  note s4 = removeFinalizer_keeps [OF s3(1) rf]
  have "s' = s2 \<or> s' = s3 \<or> l = Inr [] \<and> s' = s4"
    using run True st rc ls rf
    by (cases e; cases l; cases r4) (auto simp: handleDeletion_def Let_def split: if_splits)
  moreover have "holds_finalizer (pobjs (ms_world s3) (vp_key cr))" using fin s1 s2 s3 by simp
  moreover have "pool_nodes (cluster_nodes objs s4) (om_Namespace (vp_Meta cr)) (om_Name (vp_Meta cr)) = {}"
    if "l = Inr []" using no_nodes_left [OF s2(1)] ls that s4 by simp
  ultimately show ?thesis using s2 s3 s4 by metis
qed

end

context pool_controller
begin

lemma Get_pool:
  assumes "controller_invar objs pobjs s" and "onw (oc_Get pools req) s = (g, s1)"
  shows "controller_invar objs pobjs s1 \<and> cluster_nodes objs s1 = cluster_nodes objs s \<and>
         pobjs (ms_world s1) = pobjs (ms_world s) \<and>
         (\<forall>cr. g = Inr cr \<longrightarrow> pobjs (ms_world s) req = Some cr \<and> vp_key cr = req) \<and>
         (\<forall>e. g = Inl e \<longrightarrow> IsNotFound e \<longrightarrow> pobjs (ms_world s) req = None)"
proof -
  have g: "oc_Get pools req (ms_world s) = (g, ms_world s1)" and c: "ms_clients s1 = ms_clients s"
    using onw_D [OF assms(2)] by auto
  have "pobjs (ms_world s1) = pobjs (ms_world s) \<and>
      (\<forall>cr. g = Inr cr \<longrightarrow> pobjs (ms_world s) req = Some cr \<and> vp_key cr = req) \<and>
      (\<forall>e. g = Inl e \<longrightarrow> IsNotFound e \<longrightarrow> pobjs (ms_world s) req = None)"
    using pl.Get_ok [of req "ms_world s" _ "ms_world s1"] pl.Get_err [of req "ms_world s" _ "ms_world s1"]
      pl.objs_key g by (cases g) auto
  with same_world_views [OF pool_frame.Get_frame [OF g] c] assms(1) show ?thesis by simp
qed

lemma ensureFinalizer_effect:
  assumes inv: "controller_invar objs pobjs s" and live: "om_DeletionTimestamp (vp_Meta cr) = None"
    and old: "pobjs (ms_world s) (vp_key cr) = Some cr" and run: "onw (ensureFinalizer api cr) s = (r, s1)"
  shows "controller_invar objs pobjs s1 \<and> cluster_nodes objs s1 = cluster_nodes objs s \<and>
         (\<forall>j. j \<noteq> vp_key cr \<longrightarrow> pobjs (ms_world s1) j = pobjs (ms_world s) j) \<and>
         (case r of
            Inl e \<Rightarrow> pobjs (ms_world s1) = pobjs (ms_world s)
          | Inr cr' \<Rightarrow> vp_key cr' = vp_key cr \<and> vp_Spec cr' = vp_Spec cr \<and> vp_Status cr' = vp_Status cr \<and>
              crToPoolModel cr' = crToPoolModel cr \<and> om_DeletionTimestamp (vp_Meta cr') = None \<and>
              holds_finalizer (pobjs (ms_world s1) (vp_key cr)) \<and>
              map_option vp_Status (pobjs (ms_world s1) (vp_key cr)) = Some (vp_Status cr) \<and>
              map_option (\<lambda>c. om_DeletionTimestamp (vp_Meta c)) (pobjs (ms_world s1) (vp_key cr)) = Some None)"
proof -
  have e: "ensureFinalizer api cr (ms_world s) = (r, ms_world s1)" and c: "ms_clients s1 = ms_clients s"
    using onw_D [OF run] by auto
  show ?thesis
  proof (cases "poolFinalizer \<in> set (om_Finalizers (vp_Meta cr))")
    case True
    with e have "r = Inr cr" "ms_world s1 = ms_world s" by (simp_all add: ensureFinalizer_def)
    with c same_world_views [of s1 s] inv old live True show ?thesis by (simp add: holds_finalizer_def)
  next
    case False
    let ?x = "cr\<lparr>vp_Meta := (vp_Meta cr)\<lparr>om_Finalizers := om_Finalizers (vp_Meta cr) @ [poolFinalizer]\<rparr>\<rparr>"
    obtain u where u: "oc_Update pools ?x (ms_world s) = (u, ms_world s1)"
      and r: "r = (case u of Inl err \<Rightarrow> Inl (Wrap ''adding finalizer'' err) | Inr _ \<Rightarrow> Inr ?x)"
      using e False by (auto simp: ensureFinalizer_def Let_def split: prod.splits sum.splits)
    note v = same_world_views [OF pool_frame.Update_frame [OF u] c]
    show ?thesis
    proof (cases u)
      case (Inl err)
      with pl.Update_err [of ?x "ms_world s" err "ms_world s1"] u r v inv show ?thesis by simp
    next
      case (Inr z)
      have "pobjs (ms_world s1) = (pobjs (ms_world s))(vp_key cr := pool_upd cr ?x)"
        using pl.Update_ok [of ?x "ms_world s" z "ms_world s1"] u Inr old by auto
      with Inr r v inv live show ?thesis
        by (simp add: pool_upd_def holds_finalizer_def crToPoolModel_def)
    qed
  qed
qed

text \<open>The branches of a reconciliation of a pool that is not under deletion.\<close>

lemma marked_branches:
  assumes live: "om_DeletionTimestamp (vp_Meta cr) = None"
    and run: "reconcileMarked api svc cr s = (out, s')"
  obtains (invalid) e r where "Validate (crToPoolModel cr) = Inl e" "out = Inr noRequeue"
      "onw (updatePoolStatus api (vp_key cr) (failedStatus ''ValidationFailed'' e)) s = (r, s')"
  | (panicked) e q where "Validate (crToPoolModel cr) = Inr ()" "out = Inl e" "isPanic e"
      "pm_Reconcile svc (crToPoolModel cr) s = ((q, Some e), s')"
  | (failed) m e q s1 r where "Validate (crToPoolModel cr) = Inr ()" "out = Inl (Wrap m e)"
      "pm_Reconcile svc (crToPoolModel cr) s = ((q, Some e), s1)"
      "onw (updatePoolStatus api (vp_key cr) (failedStatus ''ReconcileFailed'' e)) s1 = (r, s')"
  | (finished) q s1 r where "Validate (crToPoolModel cr) = Inr ()"
      "out = (case r of Inl e \<Rightarrow> Inl (Wrap ''updating pool status'' e) | Inr _ \<Rightarrow> Inr noRequeue)"
      "pm_Reconcile svc (crToPoolModel cr) s = ((q, None), s1)"
      "onw (updatePoolStatus api (vp_key cr) (resultStatus q)) s1 = (r, s')"
proof (cases "Validate (crToPoolModel cr)")
  case (Inl e)
  with run invalid show ?thesis by (auto simp: reconcileMarked_def Let_def split: prod.splits)
next
  case (Inr u)
  obtain q e s1 where rc: "pm_Reconcile svc (crToPoolModel cr) s = ((q, e), s1)" by (metis prod.exhaust)
  show ?thesis
  proof (cases e)
    case None
    obtain r where st: "onw (updatePoolStatus api (vp_key cr) (resultStatus q)) s1 = (r, s')"
      and out: "out = (case r of Inl e \<Rightarrow> Inl (Wrap ''updating pool status'' e) | Inr _ \<Rightarrow> Inr noRequeue)"
      using run live Inr rc None by (auto simp: reconcileMarked_def Let_def split: prod.splits sum.splits)
    show ?thesis by (rule finished [OF _ out _ st]) (use Inr rc None in simp_all)
  next
    case (Some err)
    with run Inr rc panicked failed show ?thesis
      by (auto simp: reconcileMarked_def Let_def split: prod.splits if_splits)
  qed
qed

lemma marked_keeps:
  assumes inv: "controller_invar objs pobjs s" and fin: "holds_finalizer (pobjs (ms_world s) k)"
    and live: "om_DeletionTimestamp (vp_Meta cr) = None"
    and run: "reconcileMarked api svc cr s = (out, s')"
  shows "controller_invar objs pobjs s' \<and> holds_finalizer (pobjs (ms_world s') k)"
  using live run
proof (cases rule: marked_branches)
  case (invalid e r)
  then show ?thesis using status_keeps [OF inv invalid(3)] fin by simp
next
  case (panicked e q)
  then show ?thesis using svc_keeps [OF inv panicked(4)] fin by simp
next
  case (failed m e q s1 r)
  then show ?thesis using svc_keeps [OF inv failed(3)] status_keeps [OF _ failed(4)] fin by simp
next
  case (finished q s1 r)
  then show ?thesis using svc_keeps [OF inv finished(3)] status_keeps [OF _ finished(4)] fin by simp
qed

lemma Reconcile_branches:
  assumes run: "main_poolReconciler pools patch vnodes tenants env req s = (out, s')"
    and inv: "controller_invar objs pobjs s"
  obtains (unread) s1 where "s' = s1" "\<And>k. pobjs (ms_world s1) k = pobjs (ms_world s) k"
      "cluster_nodes objs s1 = cluster_nodes objs s" "controller_invar objs pobjs s1"
      "\<And>res. out = Inr res \<Longrightarrow> pobjs (ms_world s) req = None"
  | (deletion) cr s1 where "om_DeletionTimestamp (vp_Meta cr) \<noteq> None" "handleDeletion api svc cr s1 = (out, s')"
      "pobjs (ms_world s1) = pobjs (ms_world s)" "cluster_nodes objs s1 = cluster_nodes objs s"
      "controller_invar objs pobjs s1" "vp_key cr = req" "pobjs (ms_world s) req = Some cr"
  | (live) cr s1 cr' s2 where "onw (ensureFinalizer api cr) s1 = (Inr cr', s2)"
      "reconcileMarked api svc cr' s2 = (out, s')" "om_DeletionTimestamp (vp_Meta cr') = None"
      "vp_key cr' = req" "crToPoolModel cr' = crToPoolModel cr" "pobjs (ms_world s) req = Some cr"
      "cluster_nodes objs s2 = cluster_nodes objs s" "controller_invar objs pobjs s2"
      "holds_finalizer (pobjs (ms_world s2) req)"
      "map_option vp_Status (pobjs (ms_world s2) req) = Some (vp_Status cr)"
      "\<And>j. j \<noteq> req \<Longrightarrow> pobjs (ms_world s2) j = pobjs (ms_world s) j"
      "map_option (\<lambda>c. om_DeletionTimestamp (vp_Meta c)) (pobjs (ms_world s2) req) = Some None"
proof -
  obtain g s1 where g: "onw (oc_Get pools req) s = (g, s1)" by fastforce
  note s1 = Get_pool [OF inv g]
  note unf = main_poolReconciler_def VNodePoolReconciler_Reconcile_def
  show ?thesis
  proof (cases g)
    case (Inl e)
    with run g have "s' = s1" "\<And>res. out = Inr res \<Longrightarrow> IsNotFound e" by (auto simp: unf split: if_splits)
    with unread [of s1] s1 Inl show ?thesis by simp
  next
    case (Inr cr)
    show ?thesis
    proof (cases "om_DeletionTimestamp (vp_Meta cr)")
      case (Some t)
      with run g Inr have "handleDeletion api svc cr s1 = (out, s')" by (simp add: unf)
      with deletion [of cr s1] s1 Inr Some show ?thesis by simp
    next
      case None
      obtain f s2 where ef: "onw (ensureFinalizer api cr) s1 = (f, s2)" by fastforce
      have "pobjs (ms_world s1) (vp_key cr) = Some cr" using s1 Inr by simp
      note s2 = ensureFinalizer_effect [OF conjunct1 [OF s1] None this ef]
      show ?thesis
      proof (cases f)
        case f: (Inl e)
        with run g Inr None ef have "s' = s2" "out = Inl e" by (simp_all add: unf)
        with unread [of s2] s1 s2 f show ?thesis by simp
      next
        case f: (Inr cr')
        with run g Inr None ef have "reconcileMarked api svc cr' s2 = (out, s')" by (simp add: unf)
        with live [of cr s1 cr' s2] ef f s1 s2 Inr show ?thesis by simp
      qed
    qed
  qed
qed

text \<open>
  The invariant: a pool that has nodes holds the finalizer.
\<close>

lemma Reconcile_invariant:
  assumes inv: "controller_invar objs pobjs s"
    and held: "pool_nodes (cluster_nodes objs s) (key_ns req) (key_name req) \<noteq> {} \<Longrightarrow>
      holds_finalizer (pobjs (ms_world s) req)"
    and run: "main_poolReconciler pools patch vnodes tenants env req s = (out, s')"
  shows "controller_invar objs pobjs s' \<and>
         (pool_nodes (cluster_nodes objs s') (key_ns req) (key_name req) \<noteq> {} \<longrightarrow>
          holds_finalizer (pobjs (ms_world s') req))"
  using run inv
proof (cases rule: Reconcile_branches)
  case (unread s1)
  with held show ?thesis by simp
next
  case (deletion cr s1)
  have ns: "key_ns req = om_Namespace (vp_Meta cr)" "key_name req = om_Name (vp_Meta cr)"
    using deletion(6) by (auto simp: om_key_def)
  show ?thesis
  proof (cases "holds_finalizer (pobjs (ms_world s) req)")
    case True
    then show ?thesis using handleDeletion_safe [OF deletion(5) _ deletion(2)] deletion(3,6) ns by auto
  next
    case False
    with deletion(7) have "poolFinalizer \<notin> set (om_Finalizers (vp_Meta cr))" by (simp add: holds_finalizer_def)
    with deletion(2) have "s' = s1" by (simp add: handleDeletion_def)
    with deletion held show ?thesis by simp
  qed
next
  case (live cr s1 cr' s2)
  then show ?thesis using marked_keeps [OF live(8,9,3,2)] by simp
qed

end

context pool_controller
begin

lemma Reconcile_invalid:
  assumes inv: "controller_invar objs pobjs s" and old: "pobjs (ms_world s) req = Some cr"
    and live: "om_DeletionTimestamp (vp_Meta cr) = None" and bad: "Validate (crToPoolModel cr) = Inl e"
    and run: "main_poolReconciler pools patch vnodes tenants env req s = (out, s')"
  shows "cluster_nodes objs s' = cluster_nodes objs s \<and>
         (\<exists>cr'. pobjs (ms_world s') req = Some cr' \<and>
            (case out of
               Inl err \<Rightarrow> vp_Status cr' = vp_Status cr
             | Inr res \<Rightarrow> res = noRequeue \<and>
                 (reports_failure ''ValidationFailed'' (error_string e) (vp_Status cr') \<or>
                  vp_Status cr' = vp_Status cr \<and>
                  (\<exists>s1 err. onw (updatePoolStatus (main_poolapi pools patch vnodes env) req
                     (failedStatus ''ValidationFailed'' e)) s1 = (Inl err, s')))))"
  using run inv
proof (cases rule: Reconcile_branches)
  case (unread s1)
  with old show ?thesis by (cases out) auto
next
  case (deletion cr0 s1)
  with old live show ?thesis by simp
next
  case (live cr0 s1 cr' s2)
  with old bad have bad': "Validate (crToPoolModel cr') = Inl e" by simp
  show ?thesis
    using live(3,2)
  proof (cases rule: marked_branches)
    case (invalid e' r)
    with bad' have e: "e' = e" by simp
    have k: "vp_key cr' = req" by (rule live(4))
    obtain c where c: "pobjs (ms_world s') req = Some c"
      "case r of Inl _ \<Rightarrow> vp_Status c = vp_Status cr
       | Inr _ \<Rightarrow> reports_failure ''ValidationFailed'' (error_string e) (vp_Status c)"
      using updatePoolStatus_effect [OF conjunct1 [OF onw_D [OF invalid(3)]]] live(10) old live(6) e k
      by (cases r) (auto simp: failedStatus_reports)
    with invalid(2,3) status_keeps [OF live(8) invalid(3)] live(7) e k show ?thesis
      by (cases r) auto
  qed (use bad' in simp_all)
qed

lemma Reconcile_reports:
  assumes inv: "controller_invar objs pobjs s" and old: "pobjs (ms_world s) req = Some cr"
    and live: "om_DeletionTimestamp (vp_Meta cr) = None" and ok: "Validate (crToPoolModel cr) = Inr ()"
    and run: "main_poolReconciler pools patch vnodes tenants env req s = (Inr res, s')"
  shows "\<exists>q s1 s2 t cr'. pm_Reconcile svc (crToPoolModel cr) s1 = ((q, None), s2) \<and>
           controller_invar objs pobjs s1 \<and>
           cluster_nodes objs s1 = cluster_nodes objs s \<and> cluster_nodes objs s' = cluster_nodes objs s2 \<and>
           pobjs (ms_world s') req = Some cr' \<and> vp_Status cr' = resultStatus q t (vp_Status cr) \<and>
           res = noRequeue"
  using run inv
proof (cases rule: Reconcile_branches)
  case (unread s1)
  with old show ?thesis by simp
next
  case (deletion cr0 s1)
  with old live show ?thesis by simp
next
  case (live cr0 s1 cr' s2)
  with old ok have ok': "Validate (crToPoolModel cr') = Inr ()" "crToPoolModel cr' = crToPoolModel cr" by simp_all
  show ?thesis
    using live(3,2)
  proof (cases rule: marked_branches)
    case (finished q s3 r)
    have k: "vp_key cr' = req" by (rule live(4))
    from finished(2) obtain u where r: "r = Inr u" and res: "res = noRequeue" by (cases r) auto
    have p: "pobjs (ms_world s3) = pobjs (ms_world s2)" "controller_invar objs pobjs s3"
      using svc_keeps [OF live(8) finished(3)] by auto
    obtain c t where "pobjs (ms_world s') req = Some c" "vp_Status c = resultStatus q t (vp_Status cr)"
      using updatePoolStatus_effect [OF conjunct1 [OF onw_D [OF finished(4)]]] live(6,10) old k r p by auto
    with finished(3) ok'(2) live(7,8) status_keeps [OF p(2) finished(4)] res show ?thesis by metis
  qed (use ok' in simp_all)
qed

end

context pool_controller
begin

lemma svc_count:
  assumes inv: "controller_invar objs pobjs s" and ok: "Validate pool = Inr ()"
    and small: "pool_size (cluster_nodes objs s) pool < 2 ^ 31" and fresh: "fresh_names (cluster_nodes objs s) pool"
    and run: "pm_Reconcile svc pool s = ((q, None), s')"
  shows "pool_size (cluster_nodes objs s') pool = nat (sint (p_NodeCount pool)) \<and>
         (pool_size (cluster_nodes objs s) pool = nat (sint (p_NodeCount pool)) \<longrightarrow> cluster_nodes objs s' = cluster_nodes objs s) \<and>
         p_ReadyNodes q = word_of_nat (card (ready_nodes (cluster_nodes objs s') pool))"
proof (cases "pool_size (cluster_nodes objs s) pool < nat (sint (p_NodeCount pool))")
  case True
  then show ?thesis
    using scales_up [OF _ _ small True fresh run] counts_ready [OF _ _ small fresh run] inv ok
    by (simp add: controller_invar_def Validate_ok_iff)
next
  case False
  then show ?thesis
    using scales_down [OF _ _ small _ run] scales_not [OF _ _ small _ run] counts_ready [OF _ _ small fresh run] inv ok
    by (simp add: controller_invar_def Validate_ok_iff)
qed

lemma Reconcile_converges:
  assumes "controller_invar objs pobjs s" and "pobjs (ms_world s) req = Some cr"
    and "om_DeletionTimestamp (vp_Meta cr) = None" and "Validate (crToPoolModel cr) = Inr ()"
    and "pool_size (cluster_nodes objs s) (crToPoolModel cr) < 2 ^ 31"
    and "fresh_names (cluster_nodes objs s) (crToPoolModel cr)"
    and "main_poolReconciler pools patch vnodes tenants env req s = (Inr res, s')"
  shows "pool_size (cluster_nodes objs s') (crToPoolModel cr) = nat (sint (sp_NodeCount (vp_Spec cr))) \<and>
         (pool_size (cluster_nodes objs s) (crToPoolModel cr) = nat (sint (sp_NodeCount (vp_Spec cr))) \<longrightarrow>
            cluster_nodes objs s' = cluster_nodes objs s) \<and>
         res = noRequeue \<and>
         (\<exists>cr'. pobjs (ms_world s') req = Some cr' \<and>
            st_TotalNodes (vp_Status cr') = sp_NodeCount (vp_Spec cr) \<and>
            st_ReadyNodes (vp_Status cr') =
              word_of_nat (card (ready_nodes (cluster_nodes objs s') (crToPoolModel cr))) \<and>
            st_Phase (vp_Status cr') =
              (if st_ReadyNodes (vp_Status cr') = sp_NodeCount (vp_Spec cr) then PoolPhaseReady
               else PoolPhaseScaling))"
proof -
  let ?pool = "crToPoolModel cr"
  obtain q s1 s2 t cr' where rc: "pm_Reconcile (main_poolSvc vnodes tenants env) ?pool s1 = ((q, None), s2)"
    and s1: "controller_invar objs pobjs s1" "cluster_nodes objs s1 = cluster_nodes objs s"
      "cluster_nodes objs s' = cluster_nodes objs s2" "res = noRequeue"
    and cr': "pobjs (ms_world s') req = Some cr'" "vp_Status cr' = resultStatus q t (vp_Status cr)"
    using Reconcile_reports [OF assms(1-4,7)] by blast
  have "pool_size (cluster_nodes objs s2) ?pool = nat (sint (p_NodeCount ?pool)) \<and>
      (pool_size (cluster_nodes objs s) ?pool = nat (sint (p_NodeCount ?pool)) \<longrightarrow>
       cluster_nodes objs s2 = cluster_nodes objs s) \<and>
      p_ReadyNodes q = word_of_nat (card (ready_nodes (cluster_nodes objs s2) ?pool))"
    using svc_count [OF s1(1) assms(4) _ _ rc] assms(5,6) s1(2) by simp
  moreover have "p_NodeCount q = p_NodeCount ?pool \<and>
      p_Phase q = (if p_ReadyNodes q = p_NodeCount ?pool then PoolPhaseReady else PoolPhaseScaling)"
    using PoolService_result [OF rc [unfolded main_poolSvc_sel]] .
  ultimately show ?thesis
    using s1 cr' by (auto simp: resultStatus_def) (auto simp: crToPoolModel_def)
qed

end

section \<open>Properties\<close>

lemma pool_size_model:
  "pool_size f (crToPoolModel cr) = card (pool_nodes f (om_Namespace (vp_Meta cr)) (om_Name (vp_Meta cr)))"
  by (simp add: pool_size_def crToPoolModel_def)

text \<open>
  C4: nodes never outlive the finalizer of their pool. If the pool object holds the cleanup
  finalizer whenever it has stored nodes, then the same is true after a reconciliation of the
  pool, whatever errors occur in between: the controller adds the finalizer before the first
  node is provisioned and takes it off only after it saw that no node is left.
\<close>

theorem pool_finalizer_invariant:
  assumes "pool_controller vnodes tenants env objs pools pobjs pgone patch"
    and "controller_invar objs pobjs s"
    and "pool_nodes (cluster_nodes objs s) (key_ns req) (key_name req) \<noteq> {} \<Longrightarrow>
           holds_finalizer (pobjs (ms_world s) req)"
    and "main_poolReconciler pools patch vnodes tenants env req s = (out, s')"
  shows "controller_invar objs pobjs s' \<and>
         (pool_nodes (cluster_nodes objs s') (key_ns req) (key_name req) \<noteq> {} \<longrightarrow>
          holds_finalizer (pobjs (ms_world s') req))"
  using pool_controller.Reconcile_invariant [OF assms(1,2) _ assms(4)] assms(3) by blast

text \<open>
  C5: a reconciliation that succeeds converges and reports what it did, when the names are
  free. For a valid pool that is not under deletion, with free names for the nodes to add (the
  names may be taken, and then this fails), the number of stored nodes is afterwards the
  requested one, and no node is touched when it was so before; the status carries the requested
  count as the total, the number of stored nodes of the pool that are neither NotReady nor
  Terminating as the ready ones, and the phase Ready exactly when the two agree (Scaling
  otherwise); and nothing is requeued.
\<close>

theorem pool_reconcile_converges:
  assumes "pool_controller vnodes tenants env objs pools pobjs pgone patch"
    and "controller_invar objs pobjs s" and "pobjs (ms_world s) req = Some cr"
    and "om_DeletionTimestamp (vp_Meta cr) = None" and "Validate (crToPoolModel cr) = Inr ()"
    and "pool_size (cluster_nodes objs s) (crToPoolModel cr) < 2 ^ 31"
    and "fresh_names (cluster_nodes objs s) (crToPoolModel cr)"
    and "main_poolReconciler pools patch vnodes tenants env req s = (Inr res, s')"
  shows "pool_size (cluster_nodes objs s') (crToPoolModel cr) = nat (sint (sp_NodeCount (vp_Spec cr))) \<and>
         (pool_size (cluster_nodes objs s) (crToPoolModel cr) = nat (sint (sp_NodeCount (vp_Spec cr))) \<longrightarrow>
            cluster_nodes objs s' = cluster_nodes objs s) \<and>
         res = noRequeue \<and>
         (\<exists>cr'. pobjs (ms_world s') req = Some cr' \<and>
            st_TotalNodes (vp_Status cr') = sp_NodeCount (vp_Spec cr) \<and>
            st_ReadyNodes (vp_Status cr') =
              word_of_nat (card (ready_nodes (cluster_nodes objs s') (crToPoolModel cr))) \<and>
            st_Phase (vp_Status cr') =
              (if st_ReadyNodes (vp_Status cr') = sp_NodeCount (vp_Spec cr) then PoolPhaseReady
               else PoolPhaseScaling))"
  by (rule pool_controller.Reconcile_converges [OF assms])


text \<open>
  The events of a node reach its pool. For a stored VNode object whose pool label agrees
  with its pool reference, the watch enqueues exactly the pool of that name in the namespace
  of the node, and it does so for a deletion and for an update that changes the phase, but for
  no other event.
\<close>

lemma vnode_events_reach_pool:
  assumes "labels_agree objs w" and "objs w k = Some vnode" and "PoolRef (vn_Spec vnode) \<noteq> []"
  shows "vnodeToPool vnode = [ObjKey (om_Namespace (vn_Meta vnode)) (PoolRef (vn_Spec vnode))] \<and>
         vnodePhaseChangedPredicate (DeleteEvent vnode) \<and>
         (vnodePhaseChangedPredicate (UpdateEvent old vnode) \<longleftrightarrow>
            vs_Phase (vn_Status old) \<noteq> vs_Phase (vn_Status vnode)) \<and>
         \<not> vnodePhaseChangedPredicate (CreateEvent vnode)"
  using assms by (auto simp: vnodeToPool_def Let_def labels_agree_def mget_def)

end
