(* ===== verification/Pod_Client.thy ===== *)
theory Pod_Client
  imports Ports Core_Types Kube_API
begin

text \<open>
  The host pod adapter (\<open>internal/adapter/outbound/kubeclient/pod_client.go\<close>): pods, ConfigMaps
  and Secrets of the host cluster, and the conversions between the pods of the domain model and
  those of Kubernetes.

  A conversion to Kubernetes parses quantities with \<open>resource.MustParse\<close> and panics on
  malformed ones, so it returns a result. The main lemma is the round trip: a well-formed pod
  reads back from Kubernetes as it was written.
\<close>

section \<open>Conversions to Kubernetes\<close>

definition stringPtrOrNil :: "string \<Rightarrow> string option" where
  "stringPtrOrNil v = (if v = [] then None else Some v)"

definition envToK8s :: "EnvVar list \<Rightarrow> CoreEnvVar list" where
  "envToK8s env = map (\<lambda>item. \<lparr>kev_Name = ev_Name item, kev_Value = ev_Value item\<rparr>) env"

definition volumeMountsToK8s :: "VolumeMount list \<Rightarrow> CoreVolumeMount list" where
  "volumeMountsToK8s ms =
     map (\<lambda>m. \<lparr>kvm_Name = vm_Name m, kvm_MountPath = MountPath m, kvm_ReadOnly = ReadOnly m\<rparr>) ms"

definition resourceListToK8s :: "'q quantities \<Rightarrow> ResourceList \<Rightarrow> 'q CoreResources res" where
  "resourceListToK8s q r =
     (case addParsed q ResourceCPU (CPU r) fmempty of
        Inl p \<Rightarrow> Inl p
      | Inr out \<Rightarrow> addParsed q ResourceMemory (Memory r) out)"

definition emptyVolume :: "string \<Rightarrow> CoreVolume" where
  "emptyVolume name =
     \<lparr>kv_Name = name, kv_ConfigMap = None, kv_Secret = None, kv_PersistentVolumeClaim = None,
      kv_EmptyDir = False, kv_HostPath = None, kv_Projected = False, kv_OtherSource = False\<rparr>"

definition volumeToK8s :: "Volume \<Rightarrow> CoreVolume" where
  "volumeToK8s v =
     (let out = emptyVolume (v_Name v) in
      if v_Type v = VolumeTypeConfigMap then out\<lparr>kv_ConfigMap := Some (v_Source v)\<rparr>
      else if v_Type v = VolumeTypeSecret then out\<lparr>kv_Secret := Some (v_Source v)\<rparr>
      else if v_Type v = VolumeTypePVC then out\<lparr>kv_PersistentVolumeClaim := Some (v_Source v)\<rparr>
      else if v_Type v = VolumeTypeEmptyDir then out\<lparr>kv_EmptyDir := True\<rparr>
      else if v_Type v = VolumeTypeHostPath then out\<lparr>kv_HostPath := Some (v_Source v)\<rparr>
      else if v_Type v = VolumeTypeProjected then out\<lparr>kv_Projected := True\<rparr>
      else out)"

definition containerToK8s :: "'q quantities \<Rightarrow> Container \<Rightarrow> 'q CoreContainer res" where
  "containerToK8s q c =
     (case resourceListToK8s q (Requests (c_Resources c)) of
        Inl p \<Rightarrow> Inl p
      | Inr requests \<Rightarrow>
          (case resourceListToK8s q (Limits (c_Resources c)) of
             Inl p \<Rightarrow> Inl p
           | Inr limits \<Rightarrow>
               Inr \<lparr>kc_Name = c_Name c, kc_Image = c_Image c, kc_Command = c_Command c,
                    kc_Args = c_Args c, kc_Env = envToK8s (c_Env c),
                    kc_VolumeMounts = volumeMountsToK8s (c_VolumeMounts c),
                    kc_Requests = requests, kc_Limits = limits\<rparr>))"

definition podSpecToK8sPod :: "'q quantities \<Rightarrow> PodSpec \<Rightarrow> 'q CorePod res" where
  "podSpecToK8sPod q pod =
     (case mapRes (containerToK8s q) (pod_Containers pod) of
        Inl p \<Rightarrow> Inl p
      | Inr containers \<Rightarrow>
          Inr \<lparr>kp_Meta = emptyMeta\<lparr>om_Name := pod_Name pod, om_Namespace := pod_Namespace pod,
                                  om_Labels := pod_Labels pod\<rparr>,
               kp_NodeName = pod_NodeName pod,
               kp_ServiceAccountName = pod_ServiceAccountName pod,
               kp_AutomountServiceAccountToken = pod_AutomountServiceAccountToken pod,
               kp_RuntimeClassName = stringPtrOrNil (pod_RuntimeClassName pod),
               kp_NodeSelector = pod_NodeSelector pod,
               kp_Containers = containers,
               kp_Volumes = map volumeToK8s (pod_Volumes pod),
               kp_Status = emptyPodStatus\<rparr>)"

section \<open>Conversions from Kubernetes\<close>

definition envFromK8s :: "CoreEnvVar list \<Rightarrow> EnvVar list" where
  "envFromK8s env = map (\<lambda>item. \<lparr>ev_Name = kev_Name item, ev_Value = kev_Value item\<rparr>) env"

definition volumeMountsFromK8s :: "CoreVolumeMount list \<Rightarrow> VolumeMount list" where
  "volumeMountsFromK8s ms =
     map (\<lambda>m. \<lparr>vm_Name = kvm_Name m, MountPath = kvm_MountPath m, ReadOnly = kvm_ReadOnly m\<rparr>) ms"

definition resourceListFromK8s :: "'q quantities \<Rightarrow> 'q CoreResources \<Rightarrow> ResourceList" where
  "resourceListFromK8s q r =
     \<lparr>CPU = (case fmlookup r ResourceCPU of Some v \<Rightarrow> q_String q v | None \<Rightarrow> []),
      Memory = (case fmlookup r ResourceMemory of Some v \<Rightarrow> q_String q v | None \<Rightarrow> []),
      Pods = (case fmlookup r ResourcePods of Some v \<Rightarrow> word_of_int (q_Value q v) | None \<Rightarrow> 0)\<rparr>"

definition volumeFromK8s :: "CoreVolume \<Rightarrow> Volume" where
  "volumeFromK8s volume =
     (case kv_ConfigMap volume of
        Some n \<Rightarrow> \<lparr>v_Name = kv_Name volume, v_Type = VolumeTypeConfigMap, v_Source = n\<rparr>
      | None \<Rightarrow>
     (case kv_Secret volume of
        Some n \<Rightarrow> \<lparr>v_Name = kv_Name volume, v_Type = VolumeTypeSecret, v_Source = n\<rparr>
      | None \<Rightarrow>
     (case kv_PersistentVolumeClaim volume of
        Some n \<Rightarrow> \<lparr>v_Name = kv_Name volume, v_Type = VolumeTypePVC, v_Source = n\<rparr>
      | None \<Rightarrow>
     (if kv_EmptyDir volume
      then \<lparr>v_Name = kv_Name volume, v_Type = VolumeTypeEmptyDir, v_Source = []\<rparr>
      else
     (case kv_HostPath volume of
        Some n \<Rightarrow> \<lparr>v_Name = kv_Name volume, v_Type = VolumeTypeHostPath, v_Source = n\<rparr>
      | None \<Rightarrow>
     (if kv_Projected volume
      then \<lparr>v_Name = kv_Name volume, v_Type = VolumeTypeProjected, v_Source = []\<rparr>
      else \<lparr>v_Name = kv_Name volume, v_Type = VolumeTypeOther, v_Source = []\<rparr>))))))"

definition containerFromK8s :: "'q quantities \<Rightarrow> 'q CoreContainer \<Rightarrow> Container" where
  "containerFromK8s q c =
     \<lparr>c_Name = kc_Name c, c_Image = kc_Image c, c_Command = kc_Command c, c_Args = kc_Args c,
      c_Env = envFromK8s (kc_Env c), c_VolumeMounts = volumeMountsFromK8s (kc_VolumeMounts c),
      c_Resources = \<lparr>Requests = resourceListFromK8s q (kc_Requests c),
                     Limits = resourceListFromK8s q (kc_Limits c)\<rparr>\<rparr>"

definition podToSpec :: "'q quantities \<Rightarrow> 'q CorePod \<Rightarrow> PodSpec" where
  "podToSpec q pod =
     \<lparr>pod_Name = om_Name (kp_Meta pod),
      pod_Namespace = om_Namespace (kp_Meta pod),
      pod_Labels = om_Labels (kp_Meta pod),
      pod_NodeName = kp_NodeName pod,
      pod_Containers = map (containerFromK8s q) (kp_Containers pod),
      pod_Volumes = map volumeFromK8s (kp_Volumes pod),
      pod_ServiceAccountName = kp_ServiceAccountName pod,
      pod_AutomountServiceAccountToken = kp_AutomountServiceAccountToken pod,
      pod_RuntimeClassName = (case kp_RuntimeClassName pod of Some n \<Rightarrow> n | None \<Rightarrow> []),
      pod_NodeSelector = kp_NodeSelector pod,
      pod_Deleting = (om_DeletionTimestamp (kp_Meta pod) \<noteq> None)\<rparr>"

definition containerState :: "CoreContainerStatus \<Rightarrow> string" where
  "containerState cs =
     (if kcs_Running cs \<noteq> None then ''running''
      else if kcs_Waiting cs \<noteq> None then ''waiting''
      else if kcs_Terminated cs \<noteq> None then ''terminated''
      else [])"

definition podToStatus :: "'q CorePod \<Rightarrow> PodStatus" where
  "podToStatus pod =
     \<lparr>ps_Phase = kps_Phase (kp_Status pod),
      ps_PodIP = kps_PodIP (kp_Status pod),
      ps_ContainerStatuses =
        map (\<lambda>cs. \<lparr>cs_Name = kcs_Name cs, cs_Ready = kcs_Ready cs,
                   cs_RestartCount = kcs_RestartCount cs, cs_State = containerState cs\<rparr>)
          (kps_ContainerStatuses (kp_Status pod)),
      ps_Message = kps_Message (kp_Status pod),
      ps_Reason = kps_Reason (kp_Status pod)\<rparr>"

section \<open>Operations\<close>

record ('q, 'w) PodClusterClient =
  pc_q :: "'q quantities"
  pc_Pods :: "('q CorePod, 'w) objclient"
  pc_ConfigMaps :: "(ConfigMap, 'w) objclient"
  pc_Secrets :: "(Secret, 'w) objclient"

definition CreatePod :: "('q, 'w) PodClusterClient \<Rightarrow> PodSpec \<Rightarrow> 'w \<Rightarrow> unit res \<times> 'w" where
  "CreatePod c pod w =
     (case podSpecToK8sPod (pc_q c) pod of
        Inl p \<Rightarrow> (Inl p, w)
      | Inr k8sPod \<Rightarrow>
          (case oc_Create (pc_Pods c) k8sPod w of
             (Inl err, w) \<Rightarrow> (Inl err, w)
           | (Inr _, w) \<Rightarrow> (Inr (), w)))"

definition UpdatePod :: "('q, 'w) PodClusterClient \<Rightarrow> PodSpec \<Rightarrow> 'w \<Rightarrow> unit res \<times> 'w" where
  "UpdatePod c pod w =
     (case oc_Get (pc_Pods c) (ObjKey (pod_Namespace pod) (pod_Name pod)) w of
        (Inl err, w) \<Rightarrow> (Inl err, w)
      | (Inr current, w) \<Rightarrow>
          (case podSpecToK8sPod (pc_q c) pod of
             Inl p \<Rightarrow> (Inl p, w)
           | Inr desired \<Rightarrow>
               oc_Update (pc_Pods c)
                 (current\<lparr>kp_Meta := (kp_Meta current)\<lparr>om_Labels := om_Labels (kp_Meta desired)\<rparr>,
                          kp_ServiceAccountName := kp_ServiceAccountName desired,
                          kp_RuntimeClassName := kp_RuntimeClassName desired,
                          kp_NodeSelector := kp_NodeSelector desired,
                          kp_Containers := kp_Containers desired,
                          kp_Volumes := kp_Volumes desired\<rparr>) w))"

definition DeletePod :: "('q, 'w) PodClusterClient \<Rightarrow> string \<Rightarrow> string \<Rightarrow> 'w \<Rightarrow> unit res \<times> 'w" where
  "DeletePod c namespace name w =
     (case oc_Delete (pc_Pods c) (ObjKey namespace name) w of
        (Inl err, w) \<Rightarrow> (if IsNotFound err then Inr () else Inl err, w)
      | (Inr _, w) \<Rightarrow> (Inr (), w))"

definition GetPod :: "('q, 'w) PodClusterClient \<Rightarrow> string \<Rightarrow> string \<Rightarrow> 'w \<Rightarrow> PodSpec res \<times> 'w" where
  "GetPod c namespace name w =
     (case oc_Get (pc_Pods c) (ObjKey namespace name) w of
        (Inl err, w) \<Rightarrow> (Inl err, w)
      | (Inr pod, w) \<Rightarrow> (Inr (podToSpec (pc_q c) pod), w))"

definition GetPodStatus :: "('q, 'w) PodClusterClient \<Rightarrow> string \<Rightarrow> string \<Rightarrow> 'w \<Rightarrow> PodStatus res \<times> 'w" where
  "GetPodStatus c namespace name w =
     (case oc_Get (pc_Pods c) (ObjKey namespace name) w of
        (Inl err, w) \<Rightarrow> (Inl err, w)
      | (Inr pod, w) \<Rightarrow> (Inr (podToStatus pod), w))"

definition ListPodsByLabels ::
  "('q, 'w) PodClusterClient \<Rightarrow> string \<Rightarrow> smap \<Rightarrow> 'w \<Rightarrow> PodSpec list res \<times> 'w"
where
  "ListPodsByLabels c namespace labels w =
     (case oc_List (pc_Pods c) (if namespace \<noteq> [] then Some namespace else None) labels w of
        (Inl err, w) \<Rightarrow> (Inl err, w)
      | (Inr items, w) \<Rightarrow> (Inr (map (podToSpec (pc_q c)) items), w))"

definition EnsureConfigMap ::
  "('q, 'w) PodClusterClient \<Rightarrow> string \<Rightarrow> string \<Rightarrow> smap \<Rightarrow> (string, bytes) fmap \<Rightarrow> smap \<Rightarrow>
   'w \<Rightarrow> unit res \<times> 'w"
where
  "EnsureConfigMap c namespace name data binaryData labels w =
     (case oc_Get (pc_ConfigMaps c) (ObjKey namespace name) w of
        (Inl err, w) \<Rightarrow>
          if \<not> IsNotFound err then (Inl err, w)
          else
            (case oc_Create (pc_ConfigMaps c)
                    \<lparr>km_Meta = emptyMeta\<lparr>om_Name := name, om_Namespace := namespace, om_Labels := labels\<rparr>,
                     km_Data = data, km_BinaryData = binaryData\<rparr> w of
               (Inl err, w) \<Rightarrow> (Inl err, w)
             | (Inr _, w) \<Rightarrow> (Inr (), w))
      | (Inr existing, w) \<Rightarrow>
          oc_Update (pc_ConfigMaps c)
            (existing\<lparr>km_Meta := (km_Meta existing)\<lparr>om_Labels := labels\<rparr>,
                      km_Data := data, km_BinaryData := binaryData\<rparr>) w)"

definition EnsureSecret ::
  "('q, 'w) PodClusterClient \<Rightarrow> string \<Rightarrow> string \<Rightarrow> (string, bytes) fmap \<Rightarrow> smap \<Rightarrow>
   'w \<Rightarrow> unit res \<times> 'w"
where
  "EnsureSecret c namespace name data labels w =
     (case oc_Get (pc_Secrets c) (ObjKey namespace name) w of
        (Inl err, w) \<Rightarrow>
          if \<not> IsNotFound err then (Inl err, w)
          else
            (case oc_Create (pc_Secrets c)
                    \<lparr>ks_Meta = emptyMeta\<lparr>om_Name := name, om_Namespace := namespace, om_Labels := labels\<rparr>,
                     ks_Data = data\<rparr> w of
               (Inl err, w) \<Rightarrow> (Inl err, w)
             | (Inr _, w) \<Rightarrow> (Inr (), w))
      | (Inr existing, w) \<Rightarrow>
          oc_Update (pc_Secrets c)
            (existing\<lparr>ks_Meta := (ks_Meta existing)\<lparr>om_Labels := labels\<rparr>, ks_Data := data\<rparr>) w)"

definition NewPodClusterClient :: "('q, 'w) PodClusterClient \<Rightarrow> 'w ClusterClient" where
  "NewPodClusterClient c =
     \<lparr>cc_CreatePod = CreatePod c, cc_UpdatePod = UpdatePod c, cc_DeletePod = DeletePod c,
      cc_GetPod = GetPod c, cc_GetPodStatus = GetPodStatus c,
      cc_ListPodsByLabels = ListPodsByLabels c, cc_EnsureConfigMap = EnsureConfigMap c,
      cc_EnsureSecret = EnsureSecret c\<rparr>"

text \<open>
  Well-formed pods: volumes of a known type with a source only where the type has one,
  quantities in canonical form, and no pod count among the resources of a container.
\<close>

definition wf_volume :: "Volume \<Rightarrow> bool" where
  "wf_volume v \<longleftrightarrow>
     v_Type v \<in> {VolumeTypeConfigMap, VolumeTypeSecret, VolumeTypePVC, VolumeTypeHostPath} \<or>
     v_Type v \<in> {VolumeTypeEmptyDir, VolumeTypeProjected, VolumeTypeOther} \<and> v_Source v = []"

definition canonical :: "'q quantities \<Rightarrow> string \<Rightarrow> bool" where
  "canonical q s \<longleftrightarrow> s = [] \<or> (case q_Parse q s of None \<Rightarrow> False | Some v \<Rightarrow> q_String q v = s)"

definition wf_resources :: "'q quantities \<Rightarrow> ResourceList \<Rightarrow> bool" where
  "wf_resources q r \<longleftrightarrow> canonical q (CPU r) \<and> canonical q (Memory r) \<and> Pods r = 0"

definition wf_pod :: "'q quantities \<Rightarrow> PodSpec \<Rightarrow> bool" where
  "wf_pod q pod \<longleftrightarrow>
     \<not> pod_Deleting pod \<and> list_all wf_volume (pod_Volumes pod) \<and>
     list_all (\<lambda>c. wf_resources q (Requests (c_Resources c)) \<and> wf_resources q (Limits (c_Resources c)))
       (pod_Containers pod)"

section \<open>Round trip\<close>

lemma env_roundtrip [simp]: "envFromK8s (envToK8s env) = env"
  by (induction env) (simp_all add: envFromK8s_def envToK8s_def)

lemma mounts_roundtrip [simp]: "volumeMountsFromK8s (volumeMountsToK8s ms) = ms"
  by (induction ms) (simp_all add: volumeMountsFromK8s_def volumeMountsToK8s_def)

lemma volume_roundtrip: "wf_volume v \<Longrightarrow> volumeFromK8s (volumeToK8s v) = v"
  by (cases v) (auto simp: wf_volume_def volumeFromK8s_def volumeToK8s_def emptyVolume_def Let_def)

lemma addParsed_ok:
  "canonical q s \<Longrightarrow> \<exists>out'. addParsed q key s out = Inr out' \<and>
     (case fmlookup out' key of Some v \<Rightarrow> q_String q v | None \<Rightarrow> []) =
       (if s = [] then (case fmlookup out key of Some v \<Rightarrow> q_String q v | None \<Rightarrow> []) else s) \<and>
     (\<forall>k. k \<noteq> key \<longrightarrow> fmlookup out' k = fmlookup out k)"
  by (auto simp: addParsed_def MustParse_def canonical_def split: option.splits)

lemma resources_roundtrip_k8s:
  assumes "wf_resources q r"
  shows "\<exists>k. resourceListToK8s q r = Inr k \<and> resourceListFromK8s q k = r"
proof -
  obtain o1 where o1: "addParsed q ResourceCPU (CPU r) fmempty = Inr o1"
    "(case fmlookup o1 ResourceCPU of Some v \<Rightarrow> q_String q v | None \<Rightarrow> []) = CPU r"
    "\<And>k. k \<noteq> ResourceCPU \<Longrightarrow> fmlookup o1 k = None"
    using addParsed_ok [of q "CPU r" ResourceCPU fmempty] assms by (auto simp: wf_resources_def)
  obtain o2 where o2: "addParsed q ResourceMemory (Memory r) o1 = Inr o2"
    "(case fmlookup o2 ResourceMemory of Some v \<Rightarrow> q_String q v | None \<Rightarrow> []) = Memory r"
    "\<And>k. k \<noteq> ResourceMemory \<Longrightarrow> fmlookup o2 k = fmlookup o1 k"
    using addParsed_ok [of q "Memory r" ResourceMemory o1] assms o1(3) [of ResourceMemory]
    by (auto simp: wf_resources_def)
  have "resourceListFromK8s q o2 = r"
    using o1 o2 assms by (cases r) (simp add: resourceListFromK8s_def wf_resources_def)
  with o1 o2 show ?thesis by (simp add: resourceListToK8s_def)
qed

lemma container_roundtrip:
  assumes "wf_resources q (Requests (c_Resources c))" and "wf_resources q (Limits (c_Resources c))"
  shows "\<exists>k. containerToK8s q c = Inr k \<and> containerFromK8s q k = c"
  using resources_roundtrip_k8s [OF assms(1)] resources_roundtrip_k8s [OF assms(2)]
  by (auto simp: containerToK8s_def containerFromK8s_def)

lemma containers_roundtrip:
  assumes "list_all (\<lambda>c. wf_resources q (Requests (c_Resources c)) \<and> wf_resources q (Limits (c_Resources c))) cs"
  shows "\<exists>ks. mapRes (containerToK8s q) cs = Inr ks \<and> map (containerFromK8s q) ks = cs"
  using assms
proof (induction cs)
  case (Cons c cs)
  then obtain k ks where "containerToK8s q c = Inr k" "containerFromK8s q k = c"
    "mapRes (containerToK8s q) cs = Inr ks" "map (containerFromK8s q) ks = cs"
    using container_roundtrip [of q c] by auto
  then show ?case by (intro exI [of _ "k # ks"]) simp
qed simp

lemma pod_roundtrip:
  assumes "wf_pod q pod"
  shows "\<exists>k. podSpecToK8sPod q pod = Inr k \<and> podToSpec q k = pod"
proof -
  obtain ks where ks: "mapRes (containerToK8s q) (pod_Containers pod) = Inr ks"
    "map (containerFromK8s q) ks = pod_Containers pod"
    using containers_roundtrip [of q "pod_Containers pod"] assms by (auto simp: wf_pod_def)
  have "map volumeFromK8s (map volumeToK8s (pod_Volumes pod)) = pod_Volumes pod"
    using assms volume_roundtrip by (auto simp: wf_pod_def list_all_iff intro!: map_idI)
  with ks assms show ?thesis
    by (cases pod) (simp add: podSpecToK8sPod_def podToSpec_def stringPtrOrNil_def emptyMeta_def wf_pod_def)
qed

text \<open>
  C15: pods survive the round trip through Kubernetes. For every well-formed pod the conversion
  to a Kubernetes pod does not panic, and converting the result back gives the same pod.
\<close>

theorem podSpec_roundtrip:
  assumes "wf_pod q pod"
  shows "\<exists>k. podSpecToK8sPod q pod = Inr k \<and> podToSpec q k = pod"
  by (rule pod_roundtrip [OF assms])

end
