(* ===== verification/Pod_Service.thy ===== *)
theory Pod_Service
  imports Ports
begin

text \<open>
  The pod translator (\<open>internal/domain/service/pod_service.go\<close>) and the Kata runtime adapter
  (\<open>internal/adapter/outbound/runtime/kata.go\<close>). The translator picks the runtime class and
  the node selector of a host pod from the pool; the status passes through unchanged.
\<close>

definition KataAdapter :: "string \<Rightarrow> IsolationRuntime" where
  "KataAdapter runtimeClassName =
     \<lparr>rt_RuntimeClassName = runtimeClassName, rt_Validate = Inr ()\<rparr>"

definition translateOpts :: "IsolationRuntime \<Rightarrow> VNodePool \<Rightarrow> string \<Rightarrow> TranslateOpts" where
  "translateOpts runtime pool vnodeName =
     \<lparr>o_VNodeName = vnodeName,
      o_PoolName = p_Name pool,
      o_TargetNamespace = p_Namespace pool,
      o_RuntimeClass =
        (if p_RuntimeClassName pool \<noteq> [] then p_RuntimeClassName pool else rt_RuntimeClassName runtime),
      o_NodeSelector =
        (if p_Mode pool = PoolModeDedicated \<or> p_Mode pool = PoolModeBurstable
         then p_NodeSelector pool else fmempty)\<rparr>"

definition Translate :: "IsolationRuntime \<Rightarrow> PodSpec \<Rightarrow> VNodePool \<Rightarrow> string \<Rightarrow> PodTranslation res" where
  "Translate runtime pod pool vnodeName = Inr (TranslatePod pod (translateOpts runtime pool vnodeName))"

definition SyncStatus :: "PodStatus \<Rightarrow> PodStatus res" where
  "SyncStatus hostStatus = Inr hostStatus"

definition PodService :: "IsolationRuntime \<Rightarrow> PodTranslator" where
  "PodService runtime = \<lparr>tr_Translate = Translate runtime, tr_SyncStatus = SyncStatus\<rparr>"

text \<open>
  C32: host pods stay in the pool. For every pool the translation succeeds, the host pod lies in
  the namespace of the pool and carries the name of the pool as a label; its runtime class is
  the one of the pool, or the configured default when the pool has none; and a valid pool in
  dedicated mode pins it with a selector that is not empty, while a shared pool never selects
  host nodes.
\<close>

theorem Translate_placement:
  assumes "Validate pool = Inr ()"
  shows "\<exists>t. Translate (KataAdapter dflt) pod pool vnodeName = Inr t \<and>
           pod_Namespace (TargetPod t) = p_Namespace pool \<and>
           fmlookup (pod_Labels (TargetPod t)) LabelVNodePool = Some (p_Name pool) \<and>
           pod_RuntimeClassName (TargetPod t) =
             (if p_RuntimeClassName pool = [] then dflt else p_RuntimeClassName pool) \<and>
           (p_Mode pool = PoolModeDedicated \<longrightarrow>
              pod_NodeSelector (TargetPod t) = p_NodeSelector pool \<and> p_NodeSelector pool \<noteq> fmempty) \<and>
           (p_Mode pool = PoolModeShared \<longrightarrow> pod_NodeSelector (TargetPod t) = fmempty)"
proof -
  have "LabelVNodePool |\<in>| fmdom (trackingLabels pod opts)" for opts
    by (simp add: trackingLabels_def)
  with assms show ?thesis
    by (simp add: Translate_def translateOpts_def KataAdapter_def TranslatePod_def trackingLabels_lookup
        Validate_ok_iff)
qed

end
