(* ===== verification/Execution_Service.thy ===== *)
theory Execution_Service
  imports Pod_Client Pod_Service Tenant_Clients
begin

text \<open>
  The pod execution service (\<open>internal/domain/service/execution_service.go\<close>): it mirrors the
  pods that a tenant scheduled on the ready virtual nodes of a pool to host pods, copies the
  ConfigMaps and Secrets they mount, brings their status back, and removes host pods that no
  longer have a source.

  A Go int counter is a natural number. The body of the loop over the source pods returns a
  \<open>flow\<close>: go on with this pod, skip to the next one, or return from the method with an error
  or without (a context error is dropped). The set of desired keys is a set of strings.

  After the definitions come the contract of the server for created pods, the exact meaning of
  the comparison, when a created host pod is left alone, and how a status is converted. What the
  service does to a cluster is shown in \<open>Execution_Hosts\<close>.
\<close>

section \<open>Conversions from the tenant cluster\<close>

definition envVarsFromCore :: "CoreEnvVar list \<Rightarrow> EnvVar list" where
  "envVarsFromCore env = map (\<lambda>e. \<lparr>ev_Name = kev_Name e, ev_Value = kev_Value e\<rparr>) env"

definition volumeMountsFromCore :: "CoreVolumeMount list \<Rightarrow> VolumeMount list" where
  "volumeMountsFromCore ms =
     map (\<lambda>m. \<lparr>vm_Name = kvm_Name m, MountPath = kvm_MountPath m, ReadOnly = kvm_ReadOnly m\<rparr>) ms"

definition resourceListFromCore :: "'q quantities \<Rightarrow> 'q CoreResources \<Rightarrow> ResourceList" where
  "resourceListFromCore q r =
     \<lparr>CPU = (case fmlookup r ResourceCPU of Some v \<Rightarrow> q_String q v | None \<Rightarrow> []),
      Memory = (case fmlookup r ResourceMemory of Some v \<Rightarrow> q_String q v | None \<Rightarrow> []),
      Pods = (case fmlookup r ResourcePods of Some v \<Rightarrow> word_of_int (q_Value q v) | None \<Rightarrow> 0)\<rparr>"

definition volumeFromCore :: "CoreVolume \<Rightarrow> Volume" where
  "volumeFromCore volume =
     (let out = \<lparr>v_Name = kv_Name volume, v_Type = VolumeTypeOther, v_Source = []\<rparr> in
      if kv_ConfigMap volume \<noteq> None
      then out\<lparr>v_Type := VolumeTypeConfigMap, v_Source := the (kv_ConfigMap volume)\<rparr>
      else if kv_Secret volume \<noteq> None
      then out\<lparr>v_Type := VolumeTypeSecret, v_Source := the (kv_Secret volume)\<rparr>
      else if kv_PersistentVolumeClaim volume \<noteq> None
      then out\<lparr>v_Type := VolumeTypePVC, v_Source := the (kv_PersistentVolumeClaim volume)\<rparr>
      else if kv_EmptyDir volume then out\<lparr>v_Type := VolumeTypeEmptyDir\<rparr>
      else if kv_HostPath volume \<noteq> None
      then out\<lparr>v_Type := VolumeTypeHostPath, v_Source := the (kv_HostPath volume)\<rparr>
      else if kv_Projected volume then out\<lparr>v_Type := VolumeTypeProjected\<rparr>
      else out)"

definition podFromCore :: "'q quantities \<Rightarrow> 'q CorePod \<Rightarrow> PodSpec" where
  "podFromCore q pod =
     \<lparr>pod_Name = om_Name (kp_Meta pod),
      pod_Namespace = om_Namespace (kp_Meta pod),
      pod_Labels = om_Labels (kp_Meta pod),
      pod_NodeName = kp_NodeName pod,
      pod_Containers =
        map (\<lambda>c. \<lparr>c_Name = kc_Name c, c_Image = kc_Image c, c_Command = kc_Command c,
                  c_Args = kc_Args c, c_Env = envVarsFromCore (kc_Env c),
                  c_VolumeMounts = volumeMountsFromCore (kc_VolumeMounts c),
                  c_Resources = \<lparr>Requests = resourceListFromCore q (kc_Requests c),
                                 Limits = resourceListFromCore q (kc_Limits c)\<rparr>\<rparr>)
          (kp_Containers pod),
      pod_Volumes = map volumeFromCore (kp_Volumes pod),
      pod_ServiceAccountName = kp_ServiceAccountName pod,
      pod_AutomountServiceAccountToken = None,
      pod_RuntimeClassName = [],
      pod_NodeSelector = fmempty,
      pod_Deleting = False\<rparr>"

definition keyForPod :: "string \<Rightarrow> string \<Rightarrow> string" where
  "keyForPod namespace name = namespace @ ''/'' @ name"

definition isTerminalPod :: "'q CorePod \<Rightarrow> bool" where
  "isTerminalPod pod \<longleftrightarrow>
     kps_Phase (kp_Status pod) = ''Succeeded'' \<or> kps_Phase (kp_Status pod) = ''Failed''"

definition isIgnorableShutdownError :: "goerr \<Rightarrow> bool" where
  "isIgnorableShutdownError err \<longleftrightarrow> errors_Is err Canceled \<or> errors_Is err DeadlineExceeded"

section \<open>Comparison of pods\<close>

fun boolPtrEqual :: "bool option \<Rightarrow> bool option \<Rightarrow> bool" where
  "boolPtrEqual None None = True"
| "boolPtrEqual (Some a) (Some b) = (a = b)"
| "boolPtrEqual _ _ = False"

definition normalizeServiceAccount :: "string \<Rightarrow> string" where
  "normalizeServiceAccount name = (if name = [] then ''default'' else name)"

definition stringMapEqual :: "smap \<Rightarrow> smap \<Rightarrow> bool" where
  "stringMapEqual a b =
     (if mlen a = 0 \<and> mlen b = 0 then True
      else if mlen a \<noteq> mlen b then False
      else fmpred (\<lambda>key value. mget b key = value) a)"

fun sliceEqual :: "'a list \<Rightarrow> 'a list \<Rightarrow> bool" where
  "sliceEqual [] [] = True"
| "sliceEqual (x # xs) (y # ys) = (if x \<noteq> y then False else sliceEqual xs ys)"
| "sliceEqual _ _ = False"

fun containersEqual :: "Container list \<Rightarrow> Container list \<Rightarrow> bool" where
  "containersEqual [] [] = True"
| "containersEqual (a # as) (b # bs) =
     (if c_Name a \<noteq> c_Name b \<or> c_Image a \<noteq> c_Image b then False
      else if \<not> sliceEqual (c_Command a) (c_Command b) \<or> \<not> sliceEqual (c_Args a) (c_Args b) then False
      else if \<not> sliceEqual (c_Env a) (c_Env b) \<or> \<not> sliceEqual (c_VolumeMounts a) (c_VolumeMounts b) then False
      else if c_Resources a \<noteq> c_Resources b then False
      else containersEqual as bs)"
| "containersEqual _ _ = False"

definition podSpecsEqual :: "PodSpec \<Rightarrow> PodSpec \<Rightarrow> bool" where
  "podSpecsEqual a b \<longleftrightarrow>
     pod_Name a = pod_Name b \<and>
     pod_Namespace a = pod_Namespace b \<and>
     normalizeServiceAccount (pod_ServiceAccountName a) = normalizeServiceAccount (pod_ServiceAccountName b) \<and>
     boolPtrEqual (pod_AutomountServiceAccountToken a) (pod_AutomountServiceAccountToken b) \<and>
     pod_RuntimeClassName a = pod_RuntimeClassName b \<and>
     stringMapEqual (pod_Labels a) (pod_Labels b) \<and>
     stringMapEqual (pod_NodeSelector a) (pod_NodeSelector b) \<and>
     containersEqual (pod_Containers a) (pod_Containers b) \<and>
     sliceEqual (pod_Volumes a) (pod_Volumes b)"

section \<open>Host pods\<close>

definition ensureHostPod ::
  "'w ClusterClient \<Rightarrow> PodSpec \<Rightarrow> 'w \<Rightarrow> (bool \<times> bool \<times> goerr option) \<times> 'w"
where
  "ensureHostPod host pod w =
     (case cc_GetPod host (pod_Namespace pod) (pod_Name pod) w of
        (Inl err, w) \<Rightarrow>
          if IsNotFound err
          then (case cc_CreatePod host pod w of
                  (Inl e, w) \<Rightarrow> ((True, False, Some e), w)
                | (Inr _, w) \<Rightarrow> ((True, False, None), w))
          else ((False, False, Some err), w)
      | (Inr current, w) \<Rightarrow>
          if pod_Deleting current then ((False, False, Some PodTerminating), w)
          else if podSpecsEqual current pod then ((False, False, None), w)
          else
            (case cc_DeletePod host (pod_Namespace pod) (pod_Name pod) w of
               (Inl err, w) \<Rightarrow> ((False, False, Some err), w)
             | (Inr _, w) \<Rightarrow> ((False, True, Some PodTerminating), w)))"

text \<open>
  The status that is written: five fields of the current status of the tenant pod are
  replaced, and every container status is built anew, with an empty state struct.
\<close>

definition containerStatusToCore :: "ContainerStatus \<Rightarrow> CoreContainerStatus" where
  "containerStatusToCore cs =
     \<lparr>kcs_Name = cs_Name cs, kcs_Ready = cs_Ready cs, kcs_RestartCount = cs_RestartCount cs,
      kcs_Running = (if cs_State cs = ''running'' then Some zeroRunning else None),
      kcs_Waiting = (if cs_State cs = ''waiting'' then Some zeroWaiting else None),
      kcs_Terminated = (if cs_State cs = ''terminated'' then Some zeroTerminated else None),
      kcs_LastTerminated = None, kcs_Image = [], kcs_ContainerID = []\<rparr>"

definition statusToCore :: "PodStatus \<Rightarrow> CorePodStatus \<Rightarrow> CorePodStatus" where
  "statusToCore status current =
     current\<lparr>kps_Phase := ps_Phase status, kps_PodIP := ps_PodIP status,
             kps_Message := ps_Message status, kps_Reason := ps_Reason status,
             kps_ContainerStatuses := map containerStatusToCore (ps_ContainerStatuses status)\<rparr>"

definition updateTenantPodStatus ::
  "('q, 'w) clientset \<Rightarrow> string \<Rightarrow> string \<Rightarrow> PodStatus \<Rightarrow> 'w \<Rightarrow> unit res \<times> 'w"
where
  "updateTenantPodStatus cs namespace name status w =
     (case oc_Get (ks_Pods cs) (ObjKey namespace name) w of
        (Inl err, w) \<Rightarrow> (Inl err, w)
      | (Inr current, w) \<Rightarrow>
          oc_UpdateStatus (ks_Pods cs) (current\<lparr>kp_Status := statusToCore status (kp_Status current)\<rparr>) w)"

definition isSourcePod :: "(string, VNode) fmap \<Rightarrow> 'q CorePod \<Rightarrow> bool" where
  "isSourcePod ready pod \<longleftrightarrow>
     \<not> mget (om_Labels (kp_Meta pod)) LabelManagedBy = LabelManagedByValue \<and>
     om_DeletionTimestamp (kp_Meta pod) = None \<and>
     fmlookup ready (kp_NodeName pod) \<noteq> None"

definition listTenantPodsForNodes ::
  "('q, 'w) clientset \<Rightarrow> (string, VNode) fmap \<Rightarrow> 'w \<Rightarrow> 'q CorePod list res \<times> 'w"
where
  "listTenantPodsForNodes cs ready w =
     (if mlen ready = 0 then (Inr [], w)
      else
        (case oc_List (ks_Pods cs) None fmempty w of
           (Inl err, w) \<Rightarrow> (Inl (Wrap ''listing tenant pods'' err), w)
         | (Inr items, w) \<Rightarrow> (Inr (filter (isSourcePod ready) items), w)))"

definition poolLabels :: "VNodePool \<Rightarrow> smap" where
  "poolLabels pool =
     fmap_of_list [(LabelManagedBy, LabelManagedByValue), (LabelVNodePool, p_Name pool)]"

fun syncRefs ::
  "('q, 'w) clientset \<Rightarrow> 'w ClusterClient \<Rightarrow> VNodePool \<Rightarrow> VolumeResourceRef list \<Rightarrow> 'w \<Rightarrow> unit res \<times> 'w"
where
  "syncRefs cs host pool [] w = (Inr (), w)"
| "syncRefs cs host pool (ref # refs) w =
     (if ref_Type ref = VolumeTypeConfigMap then
        (case oc_Get (ks_ConfigMaps cs) (ObjKey (ref_SourceNamespace ref) (ref_SourceName ref)) w of
           (Inl err, w) \<Rightarrow>
             if IsNotFound err then syncRefs cs host pool refs w
             else (Inl (Wrap (''getting tenant ConfigMap '' @ ref_SourceNamespace ref @ ''/'' @
                              ref_SourceName ref) err), w)
         | (Inr cm, w) \<Rightarrow>
             (case cc_EnsureConfigMap host (p_Namespace pool) (ref_TargetName ref) (km_Data cm)
                     (km_BinaryData cm) (poolLabels pool) w of
                (Inl err, w) \<Rightarrow>
                  (Inl (Wrap (''ensuring host ConfigMap '' @ p_Namespace pool @ ''/'' @ ref_TargetName ref) err), w)
              | (Inr _, w) \<Rightarrow> syncRefs cs host pool refs w))
      else if ref_Type ref = VolumeTypeSecret then
        (case oc_Get (ks_Secrets cs) (ObjKey (ref_SourceNamespace ref) (ref_SourceName ref)) w of
           (Inl err, w) \<Rightarrow>
             if IsNotFound err then syncRefs cs host pool refs w
             else (Inl (Wrap (''getting tenant Secret '' @ ref_SourceNamespace ref @ ''/'' @
                              ref_SourceName ref) err), w)
         | (Inr secret, w) \<Rightarrow>
             (case cc_EnsureSecret host (p_Namespace pool) (ref_TargetName ref) (ks_Data secret)
                     (poolLabels pool) w of
                (Inl err, w) \<Rightarrow>
                  (Inl (Wrap (''ensuring host Secret '' @ p_Namespace pool @ ''/'' @ ref_TargetName ref) err), w)
              | (Inr _, w) \<Rightarrow> syncRefs cs host pool refs w))
      else syncRefs cs host pool refs w)"

definition syncPodResources ::
  "('q, 'w) clientset \<Rightarrow> 'w ClusterClient \<Rightarrow> PodTranslation \<Rightarrow> VNodePool \<Rightarrow> 'w \<Rightarrow> unit res \<times> 'w"
where
  "syncPodResources cs host translation pool w = syncRefs cs host pool (ResourceRefs translation) w"

section \<open>Reconciliation of a pool\<close>

record PodExecutionResult =
  SourcePods :: nat
  CreatedHostPods :: nat
  DeletedHostPods :: nat
  SyncedStatuses :: nat

definition zeroResult :: PodExecutionResult where
  "zeroResult = \<lparr>SourcePods = 0, CreatedHostPods = 0, DeletedHostPods = 0, SyncedStatuses = 0\<rparr>"

datatype flow = GoOn | NextPod | Return "goerr option"

definition failWith :: "string \<Rightarrow> goerr \<Rightarrow> flow" where
  "failWith msg err = (if isIgnorableShutdownError err then Return None else Return (Some (Wrap msg err)))"

definition podName :: "'q CorePod \<Rightarrow> string" where
  "podName pod = om_Namespace (kp_Meta pod) @ ''/'' @ om_Name (kp_Meta pod)"

definition ensureStep ::
  "'w ClusterClient \<Rightarrow> 'q CorePod \<Rightarrow> PodSpec \<Rightarrow> PodExecutionResult \<Rightarrow> 'w \<Rightarrow>
   (flow \<times> PodExecutionResult) \<times> 'w"
where
  "ensureStep host sourcePod target result w =
     (if isTerminalPod sourcePod then ((GoOn, result), w)
      else
        (case ensureHostPod host target w of
           ((created, deleted, Some err), w) \<Rightarrow>
             if errors_Is err PodTerminating
             then ((NextPod, if deleted then result\<lparr>DeletedHostPods := DeletedHostPods result + 1\<rparr> else result), w)
             else ((failWith (''ensuring host pod for '' @ podName sourcePod) err, result), w)
         | ((created, deleted, None), w) \<Rightarrow>
             ((GoOn, result\<lparr>CreatedHostPods := CreatedHostPods result + of_bool created,
                            DeletedHostPods := DeletedHostPods result + of_bool deleted\<rparr>), w)))"

definition statusStep ::
  "'w ClusterClient \<Rightarrow> PodTranslator \<Rightarrow> ('q, 'w) clientset \<Rightarrow> 'q CorePod \<Rightarrow> PodSpec \<Rightarrow>
   PodExecutionResult \<Rightarrow> 'w \<Rightarrow> (flow \<times> PodExecutionResult) \<times> 'w"
where
  "statusStep host tr cs sourcePod target result w =
     (case cc_GetPodStatus host (pod_Namespace target) (pod_Name target) w of
        (Inl err, w) \<Rightarrow>
          if \<not> IsNotFound err
          then ((failWith (''getting host pod status for '' @ pod_Namespace target @ ''/'' @ pod_Name target) err,
                 result), w)
          else ((GoOn, result), w)
      | (Inr hostStatus, w) \<Rightarrow>
          (case tr_SyncStatus tr hostStatus of
             Inl err \<Rightarrow> ((failWith (''syncing host status for '' @ podName sourcePod) err, result), w)
           | Inr synced \<Rightarrow>
               (case updateTenantPodStatus cs (om_Namespace (kp_Meta sourcePod)) (om_Name (kp_Meta sourcePod))
                       synced w of
                  (Inl err, w) \<Rightarrow>
                    ((failWith (''updating tenant pod status for '' @ podName sourcePod) err, result), w)
                | (Inr _, w) \<Rightarrow> ((GoOn, result\<lparr>SyncedStatuses := SyncedStatuses result + 1\<rparr>), w))))"

definition terminalStep ::
  "'w ClusterClient \<Rightarrow> 'q CorePod \<Rightarrow> PodSpec \<Rightarrow> PodExecutionResult \<Rightarrow> 'w \<Rightarrow>
   (flow \<times> PodExecutionResult) \<times> 'w"
where
  "terminalStep host sourcePod target result w =
     (if \<not> isTerminalPod sourcePod then ((GoOn, result), w)
      else
        (case cc_DeletePod host (pod_Namespace target) (pod_Name target) w of
           (Inl err, w) \<Rightarrow>
             ((failWith (''deleting host pod for terminal source pod '' @ podName sourcePod) err, result), w)
         | (Inr _, w) \<Rightarrow> ((GoOn, result\<lparr>DeletedHostPods := DeletedHostPods result + 1\<rparr>), w)))"

definition executePod ::
  "'w ClusterClient \<Rightarrow> PodTranslator \<Rightarrow> ('q, 'w) clientset \<Rightarrow> VNodePool \<Rightarrow> 'q CorePod \<Rightarrow>
   PodTranslation \<Rightarrow> PodExecutionResult \<Rightarrow> 'w \<Rightarrow> (flow \<times> PodExecutionResult) \<times> 'w"
where
  "executePod host tr cs pool sourcePod translation result w =
     (case syncPodResources cs host translation pool w of
        (Inl err, w) \<Rightarrow> ((failWith (''syncing resources for pod '' @ podName sourcePod) err, result), w)
      | (Inr _, w) \<Rightarrow>
          (case ensureStep host sourcePod (TargetPod translation) result w of
             ((GoOn, result), w) \<Rightarrow>
               (case statusStep host tr cs sourcePod (TargetPod translation) result w of
                  ((GoOn, result), w) \<Rightarrow> terminalStep host sourcePod (TargetPod translation) result w
                | out \<Rightarrow> out)
           | out \<Rightarrow> out))"

fun executePods ::
  "'q quantities \<Rightarrow> 'w ClusterClient \<Rightarrow> PodTranslator \<Rightarrow> ('q, 'w) clientset \<Rightarrow> VNodePool \<Rightarrow>
   'q CorePod list \<Rightarrow> string set \<Rightarrow> PodExecutionResult \<Rightarrow> 'w \<Rightarrow>
   (flow \<times> string set \<times> PodExecutionResult) \<times> 'w"
where
  "executePods q host tr cs pool [] desired result w = ((GoOn, desired, result), w)"
| "executePods q host tr cs pool (sourcePod # pods) desired result w =
     (case tr_Translate tr (podFromCore q sourcePod) pool (kp_NodeName sourcePod) of
        Inl err \<Rightarrow>
          ((Return (Some (Wrap (''translating pod '' @ podName sourcePod) err)), desired, result), w)
      | Inr translation \<Rightarrow>
          (let target = TargetPod translation;
               desired = insert (keyForPod (pod_Namespace target) (pod_Name target)) desired
           in case executePod host tr cs pool sourcePod translation result w of
                ((Return e, result), w) \<Rightarrow> ((Return e, desired, result), w)
              | ((_, result), w) \<Rightarrow> executePods q host tr cs pool pods desired result w))"

fun deleteOrphans ::
  "'w ClusterClient \<Rightarrow> string set \<Rightarrow> PodSpec list \<Rightarrow> PodExecutionResult \<Rightarrow> 'w \<Rightarrow>
   (PodExecutionResult \<times> goerr option) \<times> 'w"
where
  "deleteOrphans host desired [] result w = ((result, None), w)"
| "deleteOrphans host desired (hostPod # pods) result w =
     (if keyForPod (pod_Namespace hostPod) (pod_Name hostPod) \<in> desired
      then deleteOrphans host desired pods result w
      else
        (case cc_DeletePod host (pod_Namespace hostPod) (pod_Name hostPod) w of
           (Inl err, w) \<Rightarrow>
             if isIgnorableShutdownError err then ((result, None), w)
             else ((result, Some (Wrap (''deleting orphaned host pod '' @ pod_Namespace hostPod @ ''/'' @
                                        pod_Name hostPod) err)), w)
         | (Inr _, w) \<Rightarrow>
             deleteOrphans host desired pods (result\<lparr>DeletedHostPods := DeletedHostPods result + 1\<rparr>) w))"

definition readyNodes :: "VNode list \<Rightarrow> (string, VNode) fmap" where
  "readyNodes nodes = foldl (\<lambda>ready node. if IsReady node then fmupd (n_Name node) node ready else ready) fmempty nodes"

definition reconcilePods ::
  "'q quantities \<Rightarrow> 'w ClusterClient \<Rightarrow> PodTranslator \<Rightarrow> ('q, 'w) clientset \<Rightarrow> VNodePool \<Rightarrow>
   VNode list \<Rightarrow> 'w \<Rightarrow> (PodExecutionResult \<times> goerr option) \<times> 'w"
where
  "reconcilePods q host tr cs pool nodes w =
     (case listTenantPodsForNodes cs (readyNodes nodes) w of
        (Inl err, w) \<Rightarrow> ((zeroResult, if isIgnorableShutdownError err then None else Some err), w)
      | (Inr sourcePods, w) \<Rightarrow>
          (case executePods q host tr cs pool sourcePods {}
                  (zeroResult\<lparr>SourcePods := length sourcePods\<rparr>) w of
             ((Return e, desired, result), w) \<Rightarrow> ((result, e), w)
           | ((_, desired, result), w) \<Rightarrow>
               (case cc_ListPodsByLabels host (p_Namespace pool) (poolLabels pool) w of
                  (Inl err, w) \<Rightarrow>
                    ((result, if isIgnorableShutdownError err then None
                              else Some (Wrap ''listing host pods for cleanup'' err)), w)
                | (Inr hostPods, w) \<Rightarrow> deleteOrphans host desired hostPods result w)))"

record ('c, 'q, 'w) PodExecutionService =
  pe_q :: "'q quantities"
  pe_nodeRepo :: "('q, 'w) mstate NodeRepository"
  pe_hostPods :: "'w ClusterClient"
  pe_translator :: PodTranslator
  pe_tenants :: "('c, 'q, 'w) TenantClientManager"

definition NewPodExecutionService ::
  "'q quantities \<Rightarrow> ('q, 'w) mstate NodeRepository \<Rightarrow> 'w ClusterClient \<Rightarrow> PodTranslator \<Rightarrow>
   ('c, 'q, 'w) TenantClientManager \<Rightarrow> ('c, 'q, 'w) PodExecutionService"
where
  "NewPodExecutionService q nodeRepo hostPods translator tenants =
     \<lparr>pe_q = q, pe_nodeRepo = nodeRepo, pe_hostPods = hostPods, pe_translator = translator,
      pe_tenants = tenants\<rparr>"

definition HostClient :: "('c, 'q, 'w) PodExecutionService \<Rightarrow> 'w ClusterClient" where
  "HostClient svc = pe_hostPods svc"

definition ReconcilePool ::
  "('c, 'q, 'w) PodExecutionService \<Rightarrow> VNodePool \<Rightarrow> ('q, 'w) mstate \<Rightarrow>
   (PodExecutionResult \<times> goerr option) \<times> ('q, 'w) mstate"
where
  "ReconcilePool svc pool s =
     (case TenantClients_Get (pe_tenants svc) (p_TenantRef pool) s of
        (Inl err, s) \<Rightarrow> ((zeroResult, if isIgnorableShutdownError err then None else Some err), s)
      | (Inr cs, s) \<Rightarrow>
          (case repo_ListByPool (pe_nodeRepo svc) (p_Namespace pool) (p_Name pool) s of
             (Inl err, s) \<Rightarrow>
               ((zeroResult, if isIgnorableShutdownError err then None
                             else Some (Wrap ''listing pool nodes'' err)), s)
           | (Inr nodes, s) \<Rightarrow>
               onw (reconcilePods (pe_q svc) (pe_hostPods svc) (pe_translator svc) cs pool nodes) s))"

fun cleanupPods :: "'w ClusterClient \<Rightarrow> PodSpec list \<Rightarrow> nat \<Rightarrow> 'w \<Rightarrow> (nat \<times> goerr option) \<times> 'w" where
  "cleanupPods host [] deleted w = ((deleted, None), w)"
| "cleanupPods host (pod # pods) deleted w =
     (case cc_DeletePod host (pod_Namespace pod) (pod_Name pod) w of
        (Inl err, w) \<Rightarrow> ((deleted, if isIgnorableShutdownError err then None else Some err), w)
      | (Inr _, w) \<Rightarrow> cleanupPods host pods (deleted + 1) w)"

definition CleanupPoolPods :: "'w ClusterClient \<Rightarrow> VNodePool \<Rightarrow> 'w \<Rightarrow> (nat \<times> goerr option) \<times> 'w" where
  "CleanupPoolPods host pool w =
     (case cc_ListPodsByLabels host (p_Namespace pool) (poolLabels pool) w of
        (Inl err, w) \<Rightarrow> ((0, if isIgnorableShutdownError err then None else Some err), w)
      | (Inr pods, w) \<Rightarrow> cleanupPods host pods 0 w)"

text \<open>The translation of a source pod.\<close>

definition hostTarget :: "'q quantities \<Rightarrow> IsolationRuntime \<Rightarrow> VNodePool \<Rightarrow> 'q CorePod \<Rightarrow> PodSpec" where
  "hostTarget q runtime pool src =
     TargetPod (TranslatePod (podFromCore q src) (translateOpts runtime pool (kp_NodeName src)))"

text \<open>
  What the server may do to a pod on creation and admission, in a namespace without a
  LimitRange and without webhooks: it chooses the identity, the host node and the status, fills
  in the default service account, makes a volume without a source an emptyDir volume, defaults
  the requests of a container to its limits, and adds the node selector of the runtime class
  when the pod names one.
\<close>

definition defaultVolume :: "CoreVolume \<Rightarrow> CoreVolume" where
  "defaultVolume v =
     (if kv_ConfigMap v = None \<and> kv_Secret v = None \<and> kv_PersistentVolumeClaim v = None \<and>
         \<not> kv_EmptyDir v \<and> kv_HostPath v = None \<and> \<not> kv_Projected v \<and> \<not> kv_OtherSource v
      then v\<lparr>kv_EmptyDir := True\<rparr> else v)"

definition defaultRequests :: "'q CoreContainer \<Rightarrow> 'q CoreContainer" where
  "defaultRequests c = c\<lparr>kc_Requests := fmadd (kc_Limits c) (kc_Requests c)\<rparr>"

definition pod_created :: "'q CorePod \<Rightarrow> 'q CorePod \<Rightarrow> bool" where
  "pod_created x y \<longleftrightarrow>
     (\<exists>uid ts node classSelector status.
        (kp_RuntimeClassName x = None \<longrightarrow> classSelector = fmempty) \<and>
        y = x\<lparr>kp_Meta := (kp_Meta x)\<lparr>om_UID := uid, om_CreationTimestamp := ts\<rparr>,
              kp_NodeName := node,
              kp_ServiceAccountName := normalizeServiceAccount (kp_ServiceAccountName x),
              kp_NodeSelector := fmadd classSelector (kp_NodeSelector x),
              kp_Containers := map defaultRequests (kp_Containers x),
              kp_Volumes := map defaultVolume (kp_Volumes x),
              kp_Status := status\<rparr>)"

text \<open>A container that requests something of every resource that it limits.\<close>

definition requests_cover :: "Container \<Rightarrow> bool" where
  "requests_cover c \<longleftrightarrow>
     (CPU (Limits (c_Resources c)) \<noteq> [] \<longrightarrow> CPU (Requests (c_Resources c)) \<noteq> []) \<and>
     (Memory (Limits (c_Resources c)) \<noteq> [] \<longrightarrow> Memory (Requests (c_Resources c)) \<noteq> [])"

text \<open>
  A host pod that was made for a translated pod: it compares as equal to the translation, or it
  is what the server stored when the translation was created.
\<close>

definition host_pod_of :: "'q quantities \<Rightarrow> PodSpec \<Rightarrow> 'q CorePod \<Rightarrow> bool" where
  "host_pod_of q target x \<longleftrightarrow>
     podSpecsEqual (podToSpec q x) target \<or>
     (\<exists>k. podSpecToK8sPod q target = Inr k \<and> pod_created k x)"

definition pods_counted :: "'q CorePod \<Rightarrow> bool" where
  "pods_counted pod \<longleftrightarrow>
     list_ex (\<lambda>c. fmlookup (kc_Requests c) ResourcePods \<noteq> None \<or> fmlookup (kc_Limits c) ResourcePods \<noteq> None)
       (kp_Containers pod)"

text \<open>The quantities of a pod print in canonical form.\<close>

definition canonical_quantities :: "'q quantities \<Rightarrow> 'q CorePod \<Rightarrow> bool" where
  "canonical_quantities q pod \<longleftrightarrow>
     list_all (\<lambda>c. fmpred (\<lambda>_ v. canonical q (q_String q v)) (kc_Requests c) \<and>
                   fmpred (\<lambda>_ v. canonical q (q_String q v)) (kc_Limits c)) (kp_Containers pod)"

text \<open>The pods outside a namespace.\<close>

definition outside :: "string \<Rightarrow> (objkey \<Rightarrow> 'o option) \<Rightarrow> objkey \<Rightarrow> 'o option" where
  "outside ns f k = (if key_ns k = ns then None else f k)"

text \<open>The pods that are not under deletion, and those of them that carry the labels of a pool.\<close>

definition live_pods :: "(objkey \<Rightarrow> 'q CorePod option) \<Rightarrow> (objkey \<times> 'q CorePod) set" where
  "live_pods f = {(k, x). f k = Some x \<and> om_DeletionTimestamp (kp_Meta x) = None}"

definition live_pool_pods :: "VNodePool \<Rightarrow> (objkey \<Rightarrow> 'q CorePod option) \<Rightarrow> objkey set" where
  "live_pool_pods pool f =
     {k. \<exists>x. (k, x) \<in> live_pods f \<and>
        selected (Some (p_Namespace pool)) (poolLabels pool) k (om_Labels (kp_Meta x))}"

text \<open>A container is in at most one state, as the API requires.\<close>

definition one_state :: "CoreContainerStatus \<Rightarrow> bool" where
  "one_state cs \<longleftrightarrow>
     (kcs_Running cs = None \<or> kcs_Waiting cs = None) \<and> (kcs_Running cs = None \<or> kcs_Terminated cs = None) \<and>
     (kcs_Waiting cs = None \<or> kcs_Terminated cs = None)"

text \<open>
  What a tenant is shown of the status of a container: its name, readiness, restarts and which
  of the three states it is in. Nothing else is kept, neither exit code nor reason nor image.
\<close>

definition shown_container :: "CoreContainerStatus \<Rightarrow> CoreContainerStatus" where
  "shown_container cs =
     \<lparr>kcs_Name = kcs_Name cs, kcs_Ready = kcs_Ready cs, kcs_RestartCount = kcs_RestartCount cs,
      kcs_Running = map_option (\<lambda>_. \<lparr>kru_StartedAt = None\<rparr>) (kcs_Running cs),
      kcs_Waiting = map_option (\<lambda>_. \<lparr>kwa_Reason = [], kwa_Message = []\<rparr>) (kcs_Waiting cs),
      kcs_Terminated =
        map_option (\<lambda>_. \<lparr>kte_ExitCode = 0, kte_Reason = [], kte_Message = [], kte_StartedAt = None,
                         kte_FinishedAt = None\<rparr>) (kcs_Terminated cs),
      kcs_LastTerminated = None, kcs_Image = [], kcs_ContainerID = []\<rparr>"

text \<open>The tenant pods of a world that ask for a host pod.\<close>

definition wanted_sources ::
  "VNode list \<Rightarrow> (objkey \<Rightarrow> 'q CorePod option) \<Rightarrow> 'q CorePod set"
where
  "wanted_sources nodes tpods =
     {src. (\<exists>k. tpods k = Some src) \<and> isSourcePod (readyNodes nodes) src \<and> \<not> isTerminalPod src}"

section \<open>Comparison of pods\<close>

lemma isIgnorableShutdownError_iff [simp]: "isIgnorableShutdownError e \<longleftrightarrow> isContextError e"
  by (simp add: isIgnorableShutdownError_def isContextError_def)

lemma sliceEqual_iff [simp]: "sliceEqual xs ys \<longleftrightarrow> xs = ys"
  by (induction xs ys rule: sliceEqual.induct) auto

lemma containersEqual_iff [simp]: "containersEqual as bs \<longleftrightarrow> as = bs"
  by (induction as bs rule: containersEqual.induct) auto

lemma boolPtrEqual_iff [simp]: "boolPtrEqual a b \<longleftrightarrow> a = b"
  by (cases a; cases b) auto

lemma stringMapEqual_refl [simp]: "stringMapEqual m m"
  by (auto simp: stringMapEqual_def fmpred_iff mget_def)

lemma stringMapEqual_iff:
  assumes "\<And>k. fmlookup a k \<noteq> Some []"
  shows "stringMapEqual a b \<longleftrightarrow> a = b"
proof
  assume eq: "stringMapEqual a b"
  show "a = b"
  proof (cases "mlen a = 0 \<and> mlen b = 0")
    case False
    with eq have len: "fcard (fmdom a) = fcard (fmdom b)" and all: "fmpred (\<lambda>k v. mget b k = v) a"
      by (auto simp: stringMapEqual_def mlen_def split: if_splits)
    have look: "fmlookup b k = Some v" if "fmlookup a k = Some v" for k v
      using all that assms [of k] by (auto simp: fmpred_iff mget_def split: option.splits)
    then have "fmdom a |\<subseteq>| fmdom b" by (auto simp: fmlookup_dom_iff)
    with len have "fmdom a = fmdom b" by (metis fcard_seteq order_refl)
    with look show ?thesis by (metis fmap_ext fmdom_notD fmdom_notI not_None_eq)
  qed simp
qed simp

text \<open>
  C24: the comparison of pods is exact up to the service-account default. For a current pod
  whose labels and node selector have no empty value, \<open>podSpecsEqual\<close> holds exactly when the
  two pods agree in name, namespace, service account (an absent one counting as default),
  token automounting, runtime class, labels, node selector, containers and volumes; the node
  and the deletion mark are ignored.
\<close>

theorem podSpecsEqual_exact:
  assumes "\<And>k. fmlookup (pod_Labels a) k \<noteq> Some []" and "\<And>k. fmlookup (pod_NodeSelector a) k \<noteq> Some []"
  shows "podSpecsEqual a b \<longleftrightarrow>
         a\<lparr>pod_NodeName := pod_NodeName b, pod_Deleting := pod_Deleting b,
           pod_ServiceAccountName := normalizeServiceAccount (pod_ServiceAccountName a)\<rparr> =
         b\<lparr>pod_ServiceAccountName := normalizeServiceAccount (pod_ServiceAccountName b)\<rparr>"
  using stringMapEqual_iff [OF assms(1)] stringMapEqual_iff [OF assms(2)]
  by (cases a; cases b) (auto simp: podSpecsEqual_def)

text \<open>
  With an empty value the comparison of maps misses a difference. A missing key reads as
  the empty string, so for any two distinct keys a map with an empty value under the first
  counts as equal to the map with an arbitrary value under the second, while the comparison
  in the other direction notices a non-empty value.
\<close>

lemma stringMapEqual_misses:
  fixes k1 k2 v :: string
  assumes "k1 \<noteq> k2" and "v \<noteq> []"
  shows "stringMapEqual (fmupd k1 [] fmempty) (fmupd k2 v fmempty) \<and>
         \<not> stringMapEqual (fmupd k2 v fmempty) (fmupd k1 [] fmempty) \<and>
         fmupd k1 [] fmempty \<noteq> fmupd k2 v fmempty"
proof -
  have "fmlookup (fmupd k1 [] fmempty) k1 \<noteq> fmlookup (fmupd k2 v fmempty) k1" using assms by simp
  then have "fmupd k1 [] fmempty \<noteq> fmupd k2 v fmempty" by metis
  moreover have "mlen (fmupd k x fmempty) = 1" for k x :: string
    by (simp add: mlen_def fcard_finsert_if)
  ultimately show ?thesis using assms by (auto simp: stringMapEqual_def fmpred_iff)
qed

section \<open>A host pod is left alone once it is there\<close>

lemma volumeFromCore_wf: "wf_volume (volumeFromCore v)"
  by (simp add: volumeFromCore_def wf_volume_def Let_def)

lemma filterVolumes_wf: "list_all wf_volume vs \<Longrightarrow> list_all wf_volume (filterVolumes vs ns)"
  by (induction vs) (auto simp: wf_volume_def)

lemma resourceListFromCore_wf:
  assumes "fmpred (\<lambda>_ v. canonical q (q_String q v)) r" and "fmlookup r ResourcePods = None"
  shows "wf_resources q (resourceListFromCore q r)"
proof -
  have "canonical q (case fmlookup r k of Some v \<Rightarrow> q_String q v | None \<Rightarrow> [])" for k
    using assms(1) by (cases "fmlookup r k") (auto simp: fmpred_iff, simp add: canonical_def)
  with assms(2) show ?thesis by (simp add: wf_resources_def resourceListFromCore_def)
qed

lemma translated_wf:
  assumes "canonical_quantities q src" and "\<not> pods_counted src"
  shows "wf_pod q (TargetPod (TranslatePod (podFromCore q src) opts))"
proof -
  have "list_all wf_volume (map volumeFromCore (kp_Volumes src))"
    by (simp add: list_all_iff volumeFromCore_wf)
  then have "list_all wf_volume (pod_Volumes (TargetPod (TranslatePod (podFromCore q src) opts)))"
    by (simp add: TranslatePod_def podFromCore_def filterVolumes_wf)
  moreover have "wf_resources q (resourceListFromCore q (kc_Requests c)) \<and>
      wf_resources q (resourceListFromCore q (kc_Limits c))" if "c \<in> set (kp_Containers src)" for c
    using assms that
    by (auto simp: pods_counted_def canonical_quantities_def list_ex_iff list_all_iff intro: resourceListFromCore_wf)
  ultimately show ?thesis
    by (auto simp: wf_pod_def TranslatePod_def podFromCore_def translateContainers_map list_all_iff)
qed

text \<open>What the defaults of the server change in the pod that is read back.\<close>

lemma stringMapEqual_fmadd: "stringMapEqual (fmadd e m) m \<longleftrightarrow> fmadd e m = m"
proof
  assume eq: "stringMapEqual (fmadd e m) m"
  have sub: "fmdom m |\<subseteq>| fmdom (fmadd e m)" by auto
  from eq have "fcard (fmdom (fmadd e m)) = fcard (fmdom m)"
    by (auto simp: stringMapEqual_def mlen_def split: if_splits)
  with sub have "fmdom (fmadd e m) = fmdom m" by (metis fcard_seteq order_refl)
  then have "fmlookup (fmadd e m) k = fmlookup m k" for k
    by (cases "k |\<in>| fmdom m") (simp, metis fmdom_notD)
  then show "fmadd e m = m" by (rule fmap_ext)
qed simp

lemma defaultVolume_known:
  assumes "v_Type v \<in> {VolumeTypeConfigMap, VolumeTypeSecret, VolumeTypePVC, VolumeTypeEmptyDir,
    VolumeTypeHostPath, VolumeTypeProjected}"
  shows "defaultVolume (volumeToK8s v) = volumeToK8s v"
  using assms
  by (elim insertE emptyE) (simp_all add: defaultVolume_def volumeToK8s_def Let_def)

lemma defaultVolume_other:
  assumes "v_Type v = VolumeTypeOther"
  shows "v_Type (volumeFromK8s (defaultVolume (volumeToK8s v))) = VolumeTypeEmptyDir"
  using assms by (simp add: defaultVolume_def volumeToK8s_def Let_def emptyVolume_def volumeFromK8s_def)

lemma defaultVolume_read:
  assumes "wf_volume v"
  shows "volumeFromK8s (defaultVolume (volumeToK8s v)) = v \<longleftrightarrow> v_Type v \<noteq> VolumeTypeOther"
proof (cases "v_Type v = VolumeTypeOther")
  case True
  with defaultVolume_other [OF True] show ?thesis by auto
next
  case False
  with assms have "v_Type v \<in> {VolumeTypeConfigMap, VolumeTypeSecret, VolumeTypePVC, VolumeTypeEmptyDir,
    VolumeTypeHostPath, VolumeTypeProjected}" unfolding wf_volume_def by blast
  with defaultVolume_known [OF this] volume_roundtrip [OF assms] False show ?thesis by simp
qed

lemma defaultRequests_read:
  assumes "wf_resources q (Requests (c_Resources c))" and "wf_resources q (Limits (c_Resources c))"
    and "containerToK8s q c = Inr k"
  shows "containerFromK8s q (defaultRequests k) = c \<longleftrightarrow> requests_cover c"
proof -
  have one: "addParsed q key s m = Inr m' \<Longrightarrow> canonical q s \<Longrightarrow>
      (\<forall>j. fmlookup m' j = (if j = key \<and> s \<noteq> [] then q_Parse q s else fmlookup m j)) \<and>
      (s \<noteq> [] \<longrightarrow> (\<exists>v. q_Parse q s = Some v \<and> q_String q v = s))" for key s m m'
    by (auto simp: addParsed_def MustParse_def canonical_def split: option.splits if_splits)
  have two: "resourceListToK8s q r = Inr m \<Longrightarrow> wf_resources q r \<Longrightarrow>
      (\<forall>j. fmlookup m j = (if j = ResourceCPU \<and> CPU r \<noteq> [] then q_Parse q (CPU r)
         else if j = ResourceMemory \<and> Memory r \<noteq> [] then q_Parse q (Memory r) else None)) \<and>
      (CPU r \<noteq> [] \<longrightarrow> (\<exists>v. q_Parse q (CPU r) = Some v \<and> q_String q v = CPU r)) \<and>
      (Memory r \<noteq> [] \<longrightarrow> (\<exists>v. q_Parse q (Memory r) = Some v \<and> q_String q v = Memory r)) \<and>
      resourceListFromK8s q m = r" for r m
    by (cases r) (auto simp: resourceListToK8s_def wf_resources_def resourceListFromK8s_def split: sum.splits dest!: one)
  obtain rq lm where k: "k = \<lparr>kc_Name = c_Name c, kc_Image = c_Image c, kc_Command = c_Command c,
      kc_Args = c_Args c, kc_Env = envToK8s (c_Env c), kc_VolumeMounts = volumeMountsToK8s (c_VolumeMounts c),
      kc_Requests = rq, kc_Limits = lm\<rparr>"
    and rq: "resourceListToK8s q (Requests (c_Resources c)) = Inr rq"
    and lm: "resourceListToK8s q (Limits (c_Resources c)) = Inr lm"
    using assms(3) by (auto simp: containerToK8s_def split: sum.splits)
  note r = two [OF rq assms(1)] and l = two [OF lm assms(2)]
  have pods: "Pods (Requests (c_Resources c)) = 0" using assms(1) by (simp add: wf_resources_def)
  have "resourceListFromK8s q (fmadd lm rq) = Requests (c_Resources c) \<longleftrightarrow> requests_cover c"
    using r l pods
    by (cases "Requests (c_Resources c)"; cases "CPU (Requests (c_Resources c)) = []";
        cases "Memory (Requests (c_Resources c)) = []"; cases "CPU (Limits (c_Resources c)) = []";
        cases "Memory (Limits (c_Resources c)) = []")
      (auto simp: resourceListFromK8s_def requests_cover_def fmlookup_dom_iff)
  then show ?thesis
    using l by (cases c; cases "c_Resources c") (auto simp: k containerFromK8s_def defaultRequests_def)
qed

lemma containers_read:
  assumes "list_all (\<lambda>c. wf_resources q (Requests (c_Resources c)) \<and> wf_resources q (Limits (c_Resources c))) cs"
    and "mapRes (containerToK8s q) cs = Inr ks"
  shows "map (containerFromK8s q) (map defaultRequests ks) = cs \<longleftrightarrow> list_all requests_cover cs"
  using assms
proof (induction cs arbitrary: ks)
  case (Cons c cs)
  from Cons.prems(2) obtain k ks' where "containerToK8s q c = Inr k" "mapRes (containerToK8s q) cs = Inr ks'"
    "ks = k # ks'" by (auto split: sum.splits)
  with Cons.IH [of ks'] Cons.prems(1) defaultRequests_read [of q c k] show ?case by auto
qed simp

lemma volumes_read:
  assumes "list_all wf_volume vs"
  shows "map volumeFromK8s (map defaultVolume (map volumeToK8s vs)) = vs \<longleftrightarrow>
         list_all (\<lambda>v. v_Type v \<noteq> VolumeTypeOther) vs"
  using assms by (induction vs) (auto simp: defaultVolume_read)

lemma created_equal_iff:
  assumes wf: "wf_pod q pod" and k: "podSpecToK8sPod q pod = Inr k" and y: "pod_created k y"
  shows "podSpecsEqual (podToSpec q y) pod \<longleftrightarrow>
         list_all (\<lambda>v. v_Type v \<noteq> VolumeTypeOther) (pod_Volumes pod) \<and>
         list_all requests_cover (pod_Containers pod) \<and> kp_NodeSelector y = pod_NodeSelector pod"
proof -
  obtain ks where ks: "mapRes (containerToK8s q) (pod_Containers pod) = Inr ks" and kp: "kp_Containers k = ks"
    "kp_Volumes k = map volumeToK8s (pod_Volumes pod)" "kp_NodeSelector k = pod_NodeSelector pod"
    using k by (auto simp: podSpecToK8sPod_def split: sum.splits)
  have "podToSpec q k = pod" using pod_roundtrip [OF wf] k by auto
  then have same: "om_Name (kp_Meta k) = pod_Name pod" "om_Namespace (kp_Meta k) = pod_Namespace pod"
    "om_Labels (kp_Meta k) = pod_Labels pod" "kp_ServiceAccountName k = pod_ServiceAccountName pod"
    "kp_AutomountServiceAccountToken k = pod_AutomountServiceAccountToken pod"
    "(case kp_RuntimeClassName k of Some n \<Rightarrow> n | None \<Rightarrow> []) = pod_RuntimeClassName pod"
    by (auto simp: podToSpec_def)
  have wfs: "list_all wf_volume (pod_Volumes pod)"
    "list_all (\<lambda>c. wf_resources q (Requests (c_Resources c)) \<and> wf_resources q (Limits (c_Resources c)))
       (pod_Containers pod)" using wf by (simp_all add: wf_pod_def)
  obtain uid ts node e status where "y = k\<lparr>kp_Meta := (kp_Meta k)\<lparr>om_UID := uid, om_CreationTimestamp := ts\<rparr>,
      kp_NodeName := node, kp_ServiceAccountName := normalizeServiceAccount (kp_ServiceAccountName k),
      kp_NodeSelector := fmadd e (kp_NodeSelector k), kp_Containers := map defaultRequests (kp_Containers k),
      kp_Volumes := map defaultVolume (kp_Volumes k), kp_Status := status\<rparr>"
    using y unfolding pod_created_def by blast
  with kp have y': "om_Name (kp_Meta y) = om_Name (kp_Meta k)" "om_Namespace (kp_Meta y) = om_Namespace (kp_Meta k)"
    "om_Labels (kp_Meta y) = om_Labels (kp_Meta k)" "kp_RuntimeClassName y = kp_RuntimeClassName k"
    "kp_AutomountServiceAccountToken y = kp_AutomountServiceAccountToken k"
    "kp_ServiceAccountName y = normalizeServiceAccount (kp_ServiceAccountName k)"
    "kp_NodeSelector y = fmadd e (pod_NodeSelector pod)" "kp_Containers y = map defaultRequests ks"
    "kp_Volumes y = map defaultVolume (map volumeToK8s (pod_Volumes pod))"
    by simp_all
  have sel: "stringMapEqual (kp_NodeSelector y) (pod_NodeSelector pod) \<longleftrightarrow> kp_NodeSelector y = pod_NodeSelector pod"
    unfolding y' by (rule stringMapEqual_fmadd)
  have "normalizeServiceAccount (kp_ServiceAccountName y) = normalizeServiceAccount (pod_ServiceAccountName pod)"
    using y' same by (simp add: normalizeServiceAccount_def)
  with y' same sel volumes_read [OF wfs(1)] containers_read [OF wfs(2) ks] show ?thesis
    by (auto simp: podSpecsEqual_def podToSpec_def)
qed

text \<open>
  C14: when a host pod is left alone. Take the pod that the operator creates for a tenant pod
  (whose quantities print in canonical form and which requests no pod count), stored with the
  defaults of the server. The next reconciliation neither creates nor deletes anything exactly
  when no volume of the pod has lost its source in the translation, every limit has a
  request, and the runtime class added nothing to the node selector. In every other case the
  pod that was just created is deleted again, and so in every round.
\<close>

theorem ensureHostPod_stable:
  assumes "canonical_quantities (pc_q c) src" and "\<not> pods_counted src"
    and "Translate runtime (podFromCore (pc_q c) src) pool vnodeName = Inr t"
    and "podSpecToK8sPod (pc_q c) (TargetPod t) = Inr k" and "pod_created k y"
    and "oc_Get (pc_Pods c) (ObjKey (pod_Namespace (TargetPod t)) (pod_Name (TargetPod t))) w = (Inr y, w')"
  shows "ensureHostPod (NewPodClusterClient c) (TargetPod t) w =
    (if list_all (\<lambda>v. v_Type v \<noteq> VolumeTypeOther) (pod_Volumes (TargetPod t)) \<and>
        list_all requests_cover (pod_Containers (TargetPod t)) \<and>
        kp_NodeSelector y = pod_NodeSelector (TargetPod t)
     then ((False, False, None), w')
     else
       (case DeletePod c (pod_Namespace (TargetPod t)) (pod_Name (TargetPod t)) w' of
          (Inl err, w'') \<Rightarrow> ((False, False, Some err), w'')
        | (Inr _, w'') \<Rightarrow> ((False, True, Some PodTerminating), w'')))"
proof -
  have t: "t = TranslatePod (podFromCore (pc_q c) src) (translateOpts runtime pool vnodeName)"
    using assms(3) by (simp add: Translate_def)
  have wf: "wf_pod (pc_q c) (TargetPod t)" unfolding t by (rule translated_wf [OF assms(1,2)])
  have "om_DeletionTimestamp (kp_Meta y) = None"
    using assms(4,5) by (auto simp: pod_created_def podSpecToK8sPod_def emptyMeta_def split: sum.splits)
  then have "\<not> pod_Deleting (podToSpec (pc_q c) y)" by (simp add: podToSpec_def)
  with assms(6) created_equal_iff [OF wf assms(4,5)] show ?thesis
    by (simp add: ensureHostPod_def NewPodClusterClient_def GetPod_def)
qed

section \<open>The status of a pod\<close>

lemma container_shown:
  assumes "one_state cs"
  shows "containerStatusToCore \<lparr>cs_Name = kcs_Name cs, cs_Ready = kcs_Ready cs,
           cs_RestartCount = kcs_RestartCount cs, cs_State = containerState cs\<rparr> = shown_container cs"
  using assms
  by (auto simp: containerStatusToCore_def shown_container_def containerState_def one_state_def
      zeroRunning_def zeroWaiting_def zeroTerminated_def)

lemma status_shown:
  assumes "list_all one_state (kps_ContainerStatuses (kp_Status pod))"
  shows "statusToCore (podToStatus pod) current =
    current\<lparr>kps_Phase := kps_Phase (kp_Status pod), kps_PodIP := kps_PodIP (kp_Status pod),
            kps_Message := kps_Message (kp_Status pod), kps_Reason := kps_Reason (kp_Status pod),
            kps_ContainerStatuses := map shown_container (kps_ContainerStatuses (kp_Status pod))\<rparr>"
  using assms container_shown by (auto simp: statusToCore_def podToStatus_def list_all_iff)

end
