(* ===== verification/Execution_Hosts.thy ===== *)
theory Execution_Hosts
  imports Execution_Service
begin

text \<open>
  What pod execution does to the pods of a host cluster that behaves as documented. The locale
  \<open>host_pods\<close> is the host side alone, enough for the cleanup of a pool; \<open>pod_host\<close> adds one
  tenant cluster; \<open>pod_execution\<close> is the whole service, with a store of tenant pods for every
  clientset, so that any number of tenant clusters can be served.

  The lemmas show that the service stays in the namespace of the pool, that a successful
  reconciliation leaves only host pods that belong to a current tenant pod and match its
  translation, what of a host status reaches the tenant, and that errors of a cancelled
  context are swallowed.
\<close>

section \<open>A host cluster that behaves as documented\<close>

lemma NewPodClusterClient_sel [simp]:
  "cc_CreatePod (NewPodClusterClient c) = CreatePod c"
  "cc_DeletePod (NewPodClusterClient c) = DeletePod c"
  "cc_GetPod (NewPodClusterClient c) = GetPod c"
  "cc_GetPodStatus (NewPodClusterClient c) = GetPodStatus c"
  "cc_ListPodsByLabels (NewPodClusterClient c) = ListPodsByLabels c"
  "cc_EnsureConfigMap (NewPodClusterClient c) = EnsureConfigMap c"
  "cc_EnsureSecret (NewPodClusterClient c) = EnsureSecret c"
  by (simp_all add: NewPodClusterClient_def)

lemma PodService_sel [simp]:
  "tr_Translate (PodService runtime) = Translate runtime" "tr_SyncStatus (PodService runtime) = SyncStatus"
  by (simp_all add: PodService_def)

lemma outside_upd: "key_ns k = ns \<Longrightarrow> outside ns (f(k := x)) = outside ns f"
  by (auto simp: outside_def fun_eq_iff)

lemma translate_target:
  assumes "Translate runtime pod pool name = Inr t"
  shows "pod_Namespace (TargetPod t) = p_Namespace pool"
  using assms by (auto simp: Translate_def TranslatePod_def translateOpts_def)

text \<open>
  The host cluster. A pod whose deletion was requested is gone or marked. The last two laws say
  that the sentinel error of the execution service, which its package keeps to itself, is not
  among the errors of a client.
\<close>

locale host_pods =
  hp: object_api "pc_Pods c" pods "\<lambda>p. om_key (kp_Meta p)" "\<lambda>p. om_Labels (kp_Meta p)"
    pod_created pupd pupds pgone
  for c :: "('q, 'w) PodClusterClient"
    and pods :: "'w \<Rightarrow> objkey \<Rightarrow> 'q CorePod option"
    and pupd :: "'q CorePod \<Rightarrow> 'q CorePod \<Rightarrow> 'q CorePod option"
    and pupds :: "'q CorePod \<Rightarrow> 'q CorePod \<Rightarrow> 'q CorePod"
    and pgone :: "'q CorePod \<Rightarrow> 'q CorePod option" +
  assumes gone_marked: "pgone x = Some y \<Longrightarrow> om_DeletionTimestamp (kp_Meta y) \<noteq> None"
    and Get_sentinel: "oc_Get (pc_Pods c) k w = (Inl e, w') \<Longrightarrow> \<not> errors_Is e PodTerminating"
    and Delete_sentinel: "oc_Delete (pc_Pods c) k w = (Inl e, w') \<Longrightarrow> \<not> errors_Is e PodTerminating"
begin

abbreviation host :: "'w ClusterClient" where
  "host \<equiv> NewPodClusterClient c"

lemma DeletePod_effect:
  assumes "DeletePod c ns name w = (r, w')"
  shows "(\<exists>ox. pods w' = (pods w)(ObjKey ns name := ox)) \<and> (\<forall>e. r = Inl e \<longrightarrow> \<not> isContextError e)"
proof (cases "oc_Delete (pc_Pods c) (ObjKey ns name) w")
  case (Pair d w1)
  show ?thesis
  proof (cases d)
    case (Inl e)
    with assms Pair hp.Delete_err [of "ObjKey ns name" w e w1] show ?thesis
      by (auto simp: DeletePod_def split: if_splits intro: fun_upd_triv [symmetric])
  next
    case (Inr u)
    then obtain old where "pods w1 = (pods w)(ObjKey ns name := pgone old)"
      using hp.Delete_ok [of "ObjKey ns name" w u w1] Pair by auto
    with assms Pair Inr gone_marked show ?thesis by (auto simp: DeletePod_def)
  qed
qed

lemma pod_key_ns:
  assumes "ListPodsByLabels c ns labels w = (Inr ps, w')" and "ns \<noteq> []"
  shows "pods w' = pods w \<and>
         (\<forall>p \<in> set ps. pod_Namespace p = ns) \<and>
         (\<forall>k pod. pods w k = Some pod \<longrightarrow> selected (Some ns) labels k (om_Labels (kp_Meta pod)) \<longrightarrow>
            (\<exists>p \<in> set ps. k = ObjKey (pod_Namespace p) (pod_Name p)))"
proof -
  obtain items where l: "oc_List (pc_Pods c) (Some ns) labels w = (Inr items, w')"
    and ps: "ps = map (podToSpec (pc_q c)) items"
    using assms by (auto simp: ListPodsByLabels_def split: prod.splits sum.splits)
  note lk = hp.List_ok [OF l]
  have "pod_Namespace p = ns" if "p \<in> set ps" for p
    using that ps lk by (auto simp: podToSpec_def selected_def om_key_def)
  moreover have "\<exists>p \<in> set ps. k = ObjKey (pod_Namespace p) (pod_Name p)"
    if "pods w k = Some pod" "selected (Some ns) labels k (om_Labels (kp_Meta pod))" for k pod
  proof -
    have k: "om_key (kp_Meta pod) = k" using hp.objs_key that(1) by blast
    then have "pod \<in> set items" using lk that by auto
    then show ?thesis using ps k by (intro bexI [of _ "podToSpec (pc_q c) pod"]) (auto simp: podToSpec_def om_key_def)
  qed
  ultimately show ?thesis using lk by blast
qed

lemma DeletePod_live:
  assumes "DeletePod c ns name w = (r, w')"
  shows "live_pods (pods w') \<subseteq> live_pods (pods w) \<and>
         (r = Inr () \<longrightarrow> ObjKey ns name \<notin> fst ` live_pods (pods w'))"
proof (cases "oc_Delete (pc_Pods c) (ObjKey ns name) w")
  case (Pair d w1)
  show ?thesis
  proof (cases d)
    case (Inl e)
    with assms Pair hp.Delete_err [of "ObjKey ns name" w e w1] show ?thesis
      by (auto simp: DeletePod_def live_pods_def split: if_splits)
  next
    case (Inr u)
    then obtain old where "pods w1 = (pods w)(ObjKey ns name := pgone old)"
      using hp.Delete_ok [of "ObjKey ns name" w u w1] Pair by auto
    then have "live_pods (pods w1) = live_pods ((pods w)(ObjKey ns name := None))"
      using gone_marked [of old] by (cases "pgone old") (auto simp: live_pods_def)
    with assms Pair Inr show ?thesis
      by (auto simp: DeletePod_def live_pods_def split: if_splits)
  qed
qed

lemma list_alive: "ListPodsByLabels c ns labels w = (Inl e, w') \<Longrightarrow> \<not> isContextError e"
  by (auto simp: ListPodsByLabels_def split: prod.splits sum.splits dest: hp.List_err)

lemma cleanupPods_effect:
  assumes "\<forall>p \<in> set ps. pod_Namespace p = ns" and "cleanupPods host ps n w = ((m, e), w')"
  shows "outside ns (pods w') = outside ns (pods w) \<and> live_pods (pods w') \<subseteq> live_pods (pods w) \<and>
         (e = None \<longrightarrow> (\<forall>p \<in> set ps. ObjKey (pod_Namespace p) (pod_Name p) \<notin> fst ` live_pods (pods w')))"
  using assms
proof (induction ps arbitrary: n w)
  case (Cons p ps)
  obtain d w1 where d: "DeletePod c (pod_Namespace p) (pod_Name p) w = (d, w1)" by fastforce
  note live = DeletePod_live [OF d]
  have out: "outside ns (pods w1) = outside ns (pods w)"
    using DeletePod_effect [OF d] Cons.prems(1) by (auto simp: outside_upd)
  show ?case
  proof (cases d)
    case (Inl err)
    with Cons.prems(2) d DeletePod_effect [OF d] have "w' = w1" "e \<noteq> None" by (auto split: if_splits)
    with out live show ?thesis by auto
  next
    case (Inr u)
    then have "cleanupPods host ps (n + 1) w1 = ((m, e), w')" using Cons.prems(2) d by simp
    note IH = Cons.IH [OF _ this]
    have sub: "live_pods (pods w') \<subseteq> live_pods (pods w1)" using IH Cons.prems(1) by simp
    moreover have "ObjKey (pod_Namespace p) (pod_Name p) \<notin> fst ` live_pods (pods w')"
      using sub live Inr by auto
    ultimately show ?thesis using IH out live Cons.prems(1) by auto
  qed
qed simp

lemma CleanupPoolPods_outside:
  assumes ns: "p_Namespace pool \<noteq> []" and run: "CleanupPoolPods host pool w = ((n, e), w')"
  shows "outside (p_Namespace pool) (pods w') = outside (p_Namespace pool) (pods w)"
proof -
  obtain hl w1 where hl: "ListPodsByLabels c (p_Namespace pool) (poolLabels pool) w = (hl, w1)" by fastforce
  show ?thesis
  proof (cases hl)
    case (Inl err)
    with hl hp.List_err have "pods w1 = pods w"
      by (auto simp: ListPodsByLabels_def split: prod.splits sum.splits)
    with run hl Inl show ?thesis by (auto simp: CleanupPoolPods_def)
  next
    case (Inr ps)
    note p = pod_key_ns [OF hl [unfolded Inr] ns]
    have "cleanupPods host ps 0 w1 = ((n, e), w')" using run hl Inr by (simp add: CleanupPoolPods_def)
    from cleanupPods_effect [OF _ this] p show ?thesis by simp
  qed
qed

lemma CleanupPoolPods_effect:
  assumes ns: "p_Namespace pool \<noteq> []" and run: "CleanupPoolPods host pool w = ((n, None), w')"
  shows "live_pool_pods pool (pods w') = {} \<and>
         outside (p_Namespace pool) (pods w') = outside (p_Namespace pool) (pods w)"
proof -
  obtain hl w1 where hl: "ListPodsByLabels c (p_Namespace pool) (poolLabels pool) w = (hl, w1)" by fastforce
  obtain ps where ps: "hl = Inr ps" "cleanupPods host ps 0 w1 = ((n, None), w')"
    using run hl list_alive by (cases hl) (auto simp: CleanupPoolPods_def split: if_splits)
  note p = pod_key_ns [OF hl [unfolded ps(1)] ns]
  note cl = cleanupPods_effect [OF conjunct1 [OF conjunct2 [OF p]] ps(2)]
  have "k \<notin> live_pool_pods pool (pods w')" for k
  proof
    assume "k \<in> live_pool_pods pool (pods w')"
    then obtain x where x: "(k, x) \<in> live_pods (pods w')"
      "selected (Some (p_Namespace pool)) (poolLabels pool) k (om_Labels (kp_Meta x))"
      by (auto simp: live_pool_pods_def)
    then have "pods w k = Some x" using cl p by (auto simp: live_pods_def)
    then obtain y where "y \<in> set ps" "k = ObjKey (pod_Namespace y) (pod_Name y)" using p x(2) by blast
    with cl x(1) show False by force
  qed
  with cl p show ?thesis by auto
qed

end

text \<open>
  A host cluster and one tenant cluster, with stores of their own.
\<close>

locale pod_host =
  host_pods c pods pupd pupds pgone +
  cm: client_frame "pc_ConfigMaps c" pods + se: client_frame "pc_Secrets c" pods +
  tp: client_frame "ks_Pods cs" pods + tcm: client_frame "ks_ConfigMaps cs" pods +
  tse: client_frame "ks_Secrets cs" pods +
  cma: client_alive "pc_ConfigMaps c" + sea: client_alive "pc_Secrets c" +
  tpo: object_api "ks_Pods cs" tpods "\<lambda>p. om_key (kp_Meta p)" "\<lambda>p. om_Labels (kp_Meta p)"
    pod_created pupd pupds pgone + tcma: client_alive "ks_ConfigMaps cs" +
  tsea: client_alive "ks_Secrets cs"
  for c :: "('q, 'w) PodClusterClient"
    and cs :: "('q, 'w) clientset"
    and pods :: "'w \<Rightarrow> objkey \<Rightarrow> 'q CorePod option"
    and tpods :: "'w \<Rightarrow> objkey \<Rightarrow> 'q CorePod option"
    and pupd :: "'q CorePod \<Rightarrow> 'q CorePod \<Rightarrow> 'q CorePod option"
    and pupds :: "'q CorePod \<Rightarrow> 'q CorePod \<Rightarrow> 'q CorePod"
    and pgone :: "'q CorePod \<Rightarrow> 'q CorePod option"
begin

lemma ensure_frames:
  "EnsureConfigMap c ns name data bin labels w = (r, w') \<Longrightarrow> pods w' = pods w"
  "EnsureSecret c ns name data' labels w = (r, w') \<Longrightarrow> pods w' = pods w"
  by (auto simp: EnsureConfigMap_def EnsureSecret_def split: prod.splits sum.splits if_splits
      dest!: cm.Get_frame cm.Create_frame cm.Update_frame se.Get_frame se.Create_frame se.Update_frame)

lemma syncRefs_frame: "syncRefs cs host pool refs w = (r, w') \<Longrightarrow> pods w' = pods w"
proof (induction refs arbitrary: w)
  case (Cons ref refs)
  from Cons.prems show ?case
    by (auto split: if_splits prod.splits sum.splits
        dest!: Cons.IH tcm.Get_frame tse.Get_frame ensure_frames)
qed simp

lemma read_frames:
  "GetPod c ns name w = (r, w') \<Longrightarrow> pods w' = pods w"
  "GetPodStatus c ns name w = (r', w') \<Longrightarrow> pods w' = pods w"
  by (auto simp: GetPod_def GetPodStatus_def split: prod.splits sum.splits dest!: hp.Get_ok hp.Get_err)

lemma tenant_status_frame: "updateTenantPodStatus cs ns name status w = (r, w') \<Longrightarrow> pods w' = pods w"
  by (auto simp: updateTenantPodStatus_def split: prod.splits sum.splits
      dest!: tp.Get_frame tp.UpdateStatus_frame)

lemma CreatePod_effect:
  assumes "CreatePod c pod w = (r, w')"
  shows "\<exists>ox. pods w' = (pods w)(ObjKey (pod_Namespace pod) (pod_Name pod) := ox)"
proof (cases "podSpecToK8sPod (pc_q c) pod")
  case (Inl p)
  with assms show ?thesis by (auto simp: CreatePod_def intro!: exI [of _ "pods w' _"])
next
  case (Inr k)
  then have key: "om_key (kp_Meta k) = ObjKey (pod_Namespace pod) (pod_Name pod)"
    by (auto simp: podSpecToK8sPod_def om_key_def emptyMeta_def split: sum.splits)
  obtain u w1 where cr: "oc_Create (pc_Pods c) k w = (u, w1)" by fastforce
  with assms Inr have "w' = w1" by (auto simp: CreatePod_def split: sum.splits)
  with cr key hp.Create_ok [of k w _ w1] hp.Create_err [of k w _ w1] show ?thesis
    by (cases u) (auto intro: fun_upd_triv [symmetric])
qed

lemma ensureHostPod_outside:
  assumes "pod_Namespace pod = ns" and "ensureHostPod host pod w = (r, w')"
  shows "outside ns (pods w') = outside ns (pods w)"
proof -
  obtain g w1 where g: "GetPod c (pod_Namespace pod) (pod_Name pod) w = (g, w1)" by fastforce
  note w1 = read_frames(1) [OF g]
  have "w' = w1 \<or> (\<exists>r. CreatePod c pod w1 = (r, w')) \<or>
        (\<exists>r. DeletePod c (pod_Namespace pod) (pod_Name pod) w1 = (r, w'))"
    using assms(2) g by (auto simp: ensureHostPod_def split: prod.splits sum.splits if_splits)
  then show ?thesis
    using w1 assms(1) CreatePod_effect [of pod w1 _ w']
      DeletePod_effect [of "pod_Namespace pod" "pod_Name pod" w1 _ w']
    by (auto simp: outside_upd)
qed

lemma executePod_outside:
  assumes ns: "pod_Namespace (TargetPod t) = ns"
    and run: "executePod host (PodService runtime) cs pool src t result w = (r, w')"
  shows "outside ns (pods w') = outside ns (pods w)"
proof -
  let ?tg = "TargetPod t"
  obtain r1 w1 where sy: "syncPodResources cs host t pool w = (r1, w1)" by fastforce
  obtain f2 res2 w2 where en: "ensureStep host src ?tg result w1 = ((f2, res2), w2)" by (metis prod.exhaust)
  obtain f3 res3 w3 where st: "statusStep host (PodService runtime) cs src ?tg res2 w2 = ((f3, res3), w3)"
    by (metis prod.exhaust)
  obtain r4 w4 where te: "terminalStep host src ?tg res3 w3 = (r4, w4)" by fastforce
  have "pods w1 = pods w" using sy by (auto simp: syncPodResources_def dest!: syncRefs_frame)
  moreover have "outside ns (pods w2) = outside ns (pods w1)"
    using en ensureHostPod_outside [OF ns] by (auto simp: ensureStep_def split: if_splits prod.splits option.splits)
  moreover have "pods w3 = pods w2"
    using st by (auto simp: statusStep_def SyncStatus_def split: prod.splits sum.splits if_splits
        dest!: read_frames tenant_status_frame)
  moreover have "outside ns (pods w4) = outside ns (pods w3)"
    using te ns DeletePod_effect [of "pod_Namespace ?tg" "pod_Name ?tg" w3]
    by (auto simp: terminalStep_def outside_upd split: if_splits prod.splits sum.splits)
  moreover have "w' = w1 \<or> w' = w2 \<or> w' = w3 \<or> w' = w4"
    using run sy en st te
    by (auto simp: executePod_def split: sum.splits flow.splits)
  ultimately show ?thesis by metis
qed

lemma executePods_outside:
  "executePods q host (PodService runtime) cs pool srcs desired result w = (r, w') \<Longrightarrow>
   outside (p_Namespace pool) (pods w') = outside (p_Namespace pool) (pods w)"
proof (induction srcs arbitrary: desired result w)
  case (Cons src srcs)
  obtain t where t: "Translate runtime (podFromCore q src) pool (kp_NodeName src) = Inr t"
    by (simp add: Translate_def)
  obtain f res1 w1 where ex: "executePod host (PodService runtime) cs pool src t result w = ((f, res1), w1)"
    by (metis prod.exhaust)
  have "outside (p_Namespace pool) (pods w1) = outside (p_Namespace pool) (pods w)"
    by (rule executePod_outside [OF translate_target [OF t] ex])
  moreover have "w' = w1 \<or> (\<exists>d. executePods q host (PodService runtime) cs pool srcs d res1 w1 = (r, w'))"
    using Cons.prems t ex by (cases f) (auto simp: Let_def)
  ultimately show ?case using Cons.IH by metis
qed simp

lemma deleteOrphans_effect:
  assumes "\<forall>p \<in> set ps. pod_Namespace p = ns"
    and "deleteOrphans host desired ps result w = ((res, e), w')"
  shows "outside ns (pods w') = outside ns (pods w) \<and> live_pods (pods w') \<subseteq> live_pods (pods w) \<and>
         (\<forall>p \<in> set ps. e = None \<longrightarrow> keyForPod (pod_Namespace p) (pod_Name p) \<notin> desired \<longrightarrow>
            ObjKey (pod_Namespace p) (pod_Name p) \<notin> fst ` live_pods (pods w'))"
  using assms
proof (induction ps arbitrary: result w)
  case (Cons p ps)
  show ?case
  proof (cases "keyForPod (pod_Namespace p) (pod_Name p) \<in> desired")
    case True
    with Cons.IH [of result w] Cons.prems show ?thesis by simp
  next
    case False
    obtain d w1 where d: "DeletePod c (pod_Namespace p) (pod_Name p) w = (d, w1)" by fastforce
    note live = DeletePod_live [OF d]
    have out: "outside ns (pods w1) = outside ns (pods w)"
      using DeletePod_effect [OF d] Cons.prems(1) by (auto simp: outside_upd)
    show ?thesis
    proof (cases d)
      case (Inl err)
      with Cons.prems(2) False d DeletePod_effect [OF d] have "w' = w1" "e \<noteq> None"
        by (auto split: if_splits)
      with out live show ?thesis by auto
    next
      case (Inr u)
      then have "deleteOrphans host desired ps (result\<lparr>DeletedHostPods := DeletedHostPods result + 1\<rparr>) w1 =
          ((res, e), w')"
        using Cons.prems(2) False d by simp
      note IH = Cons.IH [OF _ this]
      have sub: "live_pods (pods w') \<subseteq> live_pods (pods w1)" using IH Cons.prems(1) by simp
      moreover have "ObjKey (pod_Namespace p) (pod_Name p) \<notin> fst ` live_pods (pods w')"
        using sub live Inr by auto
      ultimately show ?thesis using IH out live Cons.prems(1) by auto
    qed
  qed
qed simp

text \<open>After its turn, a source pod has no live host pod but one made for it.\<close>

lemma Deleting_iff: "pod_Deleting (podToSpec q x) \<longleftrightarrow> om_DeletionTimestamp (kp_Meta x) \<noteq> None"
  by (simp add: podToSpec_def)

lemma CreatePod_stores:
  assumes "CreatePod c tg w = (Inr u, w')"
  shows "\<exists>x. pods w' = (pods w)(ObjKey (pod_Namespace tg) (pod_Name tg) \<mapsto> x) \<and> host_pod_of (pc_q c) tg x"
proof -
  obtain k where k: "podSpecToK8sPod (pc_q c) tg = Inr k"
    using assms by (auto simp: CreatePod_def split: sum.splits)
  then have key: "om_key (kp_Meta k) = ObjKey (pod_Namespace tg) (pod_Name tg)"
    by (auto simp: podSpecToK8sPod_def om_key_def emptyMeta_def split: sum.splits)
  obtain x where "oc_Create (pc_Pods c) k w = (Inr x, w')"
    using assms k by (auto simp: CreatePod_def split: prod.splits sum.splits)
  from hp.Create_ok [OF this] k key show ?thesis by (auto simp: host_pod_of_def)
qed

lemma CreatePod_fails: "CreatePod c tg w = (Inl e, w') \<Longrightarrow> pods w' = pods w"
  by (auto simp: CreatePod_def split: prod.splits sum.splits dest: hp.Create_err)

lemma DeletePod_sentinel: "DeletePod c ns name w = (Inl e, w') \<Longrightarrow> \<not> errors_Is e PodTerminating"
  by (auto simp: DeletePod_def split: prod.splits sum.splits if_splits dest: Delete_sentinel)

lemma ensureHostPod_settles:
  assumes run: "ensureHostPod host tg w = ((cr, del, e), w')"
    and e: "\<And>err. e = Some err \<Longrightarrow> errors_Is err PodTerminating"
  shows "\<exists>ox. pods w' = (pods w)(ObjKey (pod_Namespace tg) (pod_Name tg) := ox) \<and>
           (\<forall>x. ox = Some x \<longrightarrow> om_DeletionTimestamp (kp_Meta x) = None \<longrightarrow> host_pod_of (pc_q c) tg x)"
proof -
  let ?k = "ObjKey (pod_Namespace tg) (pod_Name tg)"
  have keep: ?thesis if "pods w' = pods w"
    "\<And>x. pods w ?k = Some x \<Longrightarrow> om_DeletionTimestamp (kp_Meta x) = None \<Longrightarrow> host_pod_of (pc_q c) tg x"
    using that by (intro exI [of _ "pods w ?k"]) simp
  obtain g w1 where g: "oc_Get (pc_Pods c) ?k w = (g, w1)" by fastforce
  show ?thesis
  proof (cases g)
    case (Inl err)
    note w1 = hp.Get_err [OF g [unfolded Inl]]
    have nf: "IsNotFound err" using run e g Inl Get_sentinel [OF g [unfolded Inl]]
      by (auto simp: ensureHostPod_def GetPod_def split: if_splits)
    then obtain u where "CreatePod c tg w1 = (u, w')"
      using run g Inl by (auto simp: ensureHostPod_def GetPod_def split: prod.splits sum.splits)
    with CreatePod_stores [of tg w1 _ w'] CreatePod_fails [of tg w1 _ w'] w1 nf keep show ?thesis
      by (cases u) auto
  next
    case (Inr x)
    note w1 = hp.Get_ok [OF g [unfolded Inr]]
    consider "pod_Deleting (podToSpec (pc_q c) x)" "w' = w1" | "podSpecsEqual (podToSpec (pc_q c) x) tg" "w' = w1"
      | u where "DeletePod c (pod_Namespace tg) (pod_Name tg) w1 = (Inr u, w')"
      using run e g Inr DeletePod_sentinel
      by (auto simp: ensureHostPod_def GetPod_def split: prod.splits sum.splits if_splits)
    then show ?thesis
    proof cases
      case (3 u)
      obtain ox where "pods w' = (pods w1)(?k := ox)" using DeletePod_effect [OF 3] by auto
      with DeletePod_live [OF 3] w1 show ?thesis by (intro exI [of _ ox]) (force simp: live_pods_def)
    qed (use keep w1 in \<open>auto simp: Deleting_iff host_pod_of_def\<close>)
  qed
qed

lemma executePod_settles:
  assumes run: "executePod host (PodService runtime) cs pool src t result w = ((f, res), w')"
    and f: "\<nexists>e. f = Return e"
  shows "\<exists>ox. pods w' = (pods w)(ObjKey (pod_Namespace (TargetPod t)) (pod_Name (TargetPod t)) := ox) \<and>
           (\<forall>x. ox = Some x \<longrightarrow> om_DeletionTimestamp (kp_Meta x) = None \<longrightarrow>
              \<not> isTerminalPod src \<and> host_pod_of (pc_q c) (TargetPod t) x)"
proof -
  let ?tg = "TargetPod t" and ?k = "ObjKey (pod_Namespace (TargetPod t)) (pod_Name (TargetPod t))"
  obtain r1 w1 where sy: "syncPodResources cs host t pool w = (r1, w1)" by fastforce
  obtain f2 res2 w2 where en: "ensureStep host src ?tg result w1 = ((f2, res2), w2)" by (metis prod.exhaust)
  obtain f3 res3 w3 where st: "statusStep host (PodService runtime) cs src ?tg res2 w2 = ((f3, res3), w3)"
    by (metis prod.exhaust)
  obtain f4 res4 w4 where te: "terminalStep host src ?tg res3 w3 = ((f4, res4), w4)" by (metis prod.exhaust)
  have p1: "pods w1 = pods w" using sy by (auto simp: syncPodResources_def dest!: syncRefs_frame)
  have p3: "pods w3 = pods w2"
    using st by (auto simp: statusStep_def SyncStatus_def split: prod.splits sum.splits if_splits
        dest!: read_frames tenant_status_frame)
  have ends: "f2 = GoOn \<and> f3 = GoOn \<and> f4 = f \<and> w' = w4 \<or> f2 \<noteq> GoOn \<and> f = f2 \<and> w' = w2"
    using run sy en st te f
    by (auto simp: executePod_def failWith_def statusStep_def split: sum.splits flow.splits if_splits prod.splits)
  show ?thesis
  proof (cases "isTerminalPod src")
    case True
    then have "f2 = GoOn" "w2 = w1" using en by (auto simp: ensureStep_def)
    moreover have "f4 = Return e \<or> DeletePod c (pod_Namespace ?tg) (pod_Name ?tg) w3 = (Inr (), w4)"
      if "f4 = f" for e
      using te True f that by (auto simp: terminalStep_def failWith_def split: prod.splits sum.splits if_splits)
    ultimately have d: "DeletePod c (pod_Namespace ?tg) (pod_Name ?tg) w3 = (Inr (), w')" using ends f by auto
    obtain ox where "pods w' = (pods w3)(?k := ox)" using DeletePod_effect [OF d] by auto
    with DeletePod_live [OF d] p1 p3 \<open>w2 = w1\<close> show ?thesis
      by (intro exI [of _ ox]) (force simp: live_pods_def)
  next
    case False
    then have "w4 = w3" using te by (simp add: terminalStep_def)
    obtain a b e where eh: "ensureHostPod host ?tg w1 = ((a, b, e), w2)"
      using en False by (auto simp: ensureStep_def split: prod.splits option.splits if_splits)
    have "errors_Is err PodTerminating" if "e = Some err" for err
      using en eh False ends f that by (auto simp: ensureStep_def failWith_def split: if_splits)
    from ensureHostPod_settles [OF eh this] p1 p3 ends False \<open>w4 = w3\<close> show ?thesis by auto
  qed
qed

abbreviation settled ::
  "'q quantities \<Rightarrow> IsolationRuntime \<Rightarrow> VNodePool \<Rightarrow> 'q CorePod set \<Rightarrow> objkey \<Rightarrow> 'w \<Rightarrow> bool"
where
  "settled q runtime pool S k w \<equiv>
     \<forall>x. (k, x) \<in> live_pods (pods w) \<longrightarrow>
       (\<exists>src \<in> S. \<not> isTerminalPod src \<and> k = ObjKey (p_Namespace pool) (pod_Name (hostTarget q runtime pool src)) \<and>
          host_pod_of (pc_q c) (hostTarget q runtime pool src) x)"

lemma executePods_settles:
  assumes "executePods q host (PodService runtime) cs pool srcs desired result w = ((f, desired', res), w')"
    and "\<nexists>e. f = Return e"
    and "\<And>s. s \<in> S \<Longrightarrow> settled q runtime pool S (ObjKey (p_Namespace pool) (pod_Name (hostTarget q runtime pool s))) w"
    and "s \<in> S \<union> set srcs"
  shows "settled q runtime pool (S \<union> set srcs) (ObjKey (p_Namespace pool) (pod_Name (hostTarget q runtime pool s))) w'"
  using assms
proof (induction srcs arbitrary: desired result w S)
  case (Cons src srcs)
  let ?t = "TranslatePod (podFromCore q src) (translateOpts runtime pool (kp_NodeName src))"
  have t: "Translate runtime (podFromCore q src) pool (kp_NodeName src) = Inr ?t" by (simp add: Translate_def)
  have tg: "TargetPod ?t = hostTarget q runtime pool src"
    "pod_Namespace (hostTarget q runtime pool src) = p_Namespace pool"
    using translate_target [OF t] by (simp_all add: hostTarget_def)
  obtain g res1 w1 where ex: "executePod host (PodService runtime) cs pool src ?t result w = ((g, res1), w1)"
    by (metis prod.exhaust)
  have g: "\<nexists>e. g = Return e" and
    rest: "executePods q host (PodService runtime) cs pool srcs
      (insert (keyForPod (pod_Namespace (TargetPod ?t)) (pod_Name (TargetPod ?t))) desired) res1 w1 = ((f, desired', res), w')"
    using Cons.prems(1,2) t ex by (cases g; auto simp: Let_def)+
  obtain ox where ox: "pods w1 = (pods w)(ObjKey (p_Namespace pool) (pod_Name (hostTarget q runtime pool src)) := ox)"
    "\<And>x. ox = Some x \<Longrightarrow> om_DeletionTimestamp (kp_Meta x) = None \<Longrightarrow>
       \<not> isTerminalPod src \<and> host_pod_of (pc_q c) (hostTarget q runtime pool src) x"
    using executePod_settles [OF ex g] unfolding tg by blast
  have "settled q runtime pool (insert src S) (ObjKey (p_Namespace pool) (pod_Name (hostTarget q runtime pool s))) w1"
    if "s \<in> insert src S" for s
    using that Cons.prems(3) [of s] ox by (auto simp: live_pods_def split: if_splits)
  from Cons.IH [OF rest Cons.prems(2) this] Cons.prems(4) show ?case by simp
qed auto

text \<open>No call reports a cancelled context, so the reconciliation never stops silently.\<close>

lemma ensure_alive:
  "EnsureConfigMap c ns name data bin labels w = (Inl e, w') \<Longrightarrow> \<not> isContextError e"
  "EnsureSecret c ns name data' labels w = (Inl e, w') \<Longrightarrow> \<not> isContextError e"
  by (auto simp: EnsureConfigMap_def EnsureSecret_def split: prod.splits sum.splits if_splits
      dest: cma.Get_alive cma.Create_alive cma.Update_alive sea.Get_alive sea.Create_alive sea.Update_alive)

lemma syncRefs_alive: "syncRefs cs host pool refs w = (Inl e, w') \<Longrightarrow> \<not> isContextError e"
proof (induction refs arbitrary: w)
  case (Cons ref refs)
  from Cons.prems show ?case
    by (auto split: if_splits prod.splits sum.splits
        dest: Cons.IH tcma.Get_alive tsea.Get_alive ensure_alive)
qed simp

lemma toK8s_panics: "podSpecToK8sPod q pod = Inl e \<Longrightarrow> isPanic e"
proof -
  have c: "containerToK8s q x = Inl e \<Longrightarrow> isPanic e" for x e
    by (auto simp: containerToK8s_def resourceListToK8s_def addParsed_def MustParse_def
        split: sum.splits option.splits if_splits)
  have "mapRes (containerToK8s q) xs = Inl e \<Longrightarrow> isPanic e" for xs e
    by (induction xs) (auto split: sum.splits dest: c)
  then show "podSpecToK8sPod q pod = Inl e \<Longrightarrow> isPanic e"
    by (auto simp: podSpecToK8sPod_def split: sum.splits)
qed

lemma pod_ops_alive:
  "CreatePod c pod w = (Inl e, w') \<Longrightarrow> \<not> isContextError e"
  "GetPod c ns name w = (Inl e, w') \<Longrightarrow> \<not> isContextError e"
  "GetPodStatus c ns name w = (Inl e, w') \<Longrightarrow> \<not> isContextError e"
  "DeletePod c ns name w = (Inl e, w') \<Longrightarrow> \<not> isContextError e"
  "ListPodsByLabels c ns labels w = (Inl e, w') \<Longrightarrow> \<not> isContextError e"
  "updateTenantPodStatus cs ns name st w = (Inl e, w') \<Longrightarrow> \<not> isContextError e"
  using DeletePod_effect [of ns name w "Inl e" w'] panic_not_status [of e]
  by (auto simp: CreatePod_def GetPod_def GetPodStatus_def ListPodsByLabels_def updateTenantPodStatus_def
      split: prod.splits sum.splits
      dest: hp.Get_err hp.Create_err hp.List_err tpo.Get_err tpo.UpdateStatus_err toK8s_panics)

lemma ensureHostPod_alive:
  "ensureHostPod host pod w = ((a, b, Some e), w') \<Longrightarrow> \<not> isContextError e"
  by (auto simp: ensureHostPod_def split: prod.splits sum.splits if_splits dest: pod_ops_alive)

lemma steps_alive:
  "ensureStep host src tg result w = ((f, res), w') \<Longrightarrow> f \<noteq> Return None"
  "statusStep host (PodService runtime) cs src tg result w = ((f, res), w') \<Longrightarrow> f \<noteq> Return None"
  "terminalStep host src tg result w = ((f, res), w') \<Longrightarrow> f \<noteq> Return None"
  by (auto simp: ensureStep_def statusStep_def terminalStep_def failWith_def SyncStatus_def
      split: prod.splits sum.splits option.splits if_splits dest: pod_ops_alive ensureHostPod_alive)

lemma executePod_alive:
  assumes "executePod host (PodService runtime) cs pool src t result w = ((f, res), w')"
  shows "f \<noteq> Return None"
  using assms
  by (auto simp: executePod_def failWith_def syncPodResources_def
      split: prod.splits sum.splits flow.splits if_splits dest: syncRefs_alive steps_alive)

lemma executePods_result:
  "executePods q host (PodService runtime) cs pool srcs desired result w = ((f, desired', res), w') \<Longrightarrow>
   f \<noteq> Return None \<and>
   ((\<nexists>e. f = Return e) \<longrightarrow>
     desired' = desired \<union> (\<lambda>src. keyForPod (p_Namespace pool) (pod_Name (hostTarget q runtime pool src))) ` set srcs)"
proof (induction srcs arbitrary: desired result w)
  case (Cons src srcs)
  let ?t = "TranslatePod (podFromCore q src) (translateOpts runtime pool (kp_NodeName src))"
  have t: "Translate runtime (podFromCore q src) pool (kp_NodeName src) = Inr ?t" by (simp add: Translate_def)
  let ?d = "insert (keyForPod (p_Namespace pool) (pod_Name (hostTarget q runtime pool src))) desired"
  obtain g res1 w1 where ex: "executePod host (PodService runtime) cs pool src ?t result w = ((g, res1), w1)"
    by (metis prod.exhaust)
  have d: "keyForPod (pod_Namespace (TargetPod ?t)) (pod_Name (TargetPod ?t)) =
      keyForPod (p_Namespace pool) (pod_Name (hostTarget q runtime pool src))"
    using translate_target [OF t] by (simp add: hostTarget_def)
  have "(\<exists>e. g = Return e \<and> f = Return e) \<or>
      executePods q host (PodService runtime) cs pool srcs ?d res1 w1 = ((f, desired', res), w')"
    using Cons.prems t ex d by (cases g) (auto simp: Let_def)
  then show ?case using executePod_alive [OF ex] Cons.IH [of ?d res1 w1] by auto
qed simp

lemma reconcilePods_outside:
  assumes "p_Namespace pool \<noteq> []"
    and "reconcilePods q host (PodService runtime) cs pool nodes w = ((res, e), w')"
  shows "outside (p_Namespace pool) (pods w') = outside (p_Namespace pool) (pods w)"
proof -
  let ?ns = "p_Namespace pool"
  obtain l w1 where l: "listTenantPodsForNodes cs (readyNodes nodes) w = (l, w1)" by fastforce
  have w1: "pods w1 = pods w"
    using l tp.List_frame by (auto simp: listTenantPodsForNodes_def split: if_splits prod.splits sum.splits)
  show ?thesis
  proof (cases l)
    case (Inl err)
    with assms(2) l w1 show ?thesis by (simp add: reconcilePods_def)
  next
    case (Inr srcs)
    obtain f d res2 w2 where ex: "executePods q host (PodService runtime) cs pool srcs {}
        (zeroResult\<lparr>SourcePods := length srcs\<rparr>) w1 = ((f, d, res2), w2)" by (metis prod.exhaust)
    note w2 = executePods_outside [OF ex]
    obtain hl w3 where hl: "ListPodsByLabels c ?ns (poolLabels pool) w2 = (hl, w3)" by fastforce
    consider "w' = w2" | "w' = w3" "\<exists>e. hl = Inl e"
      | ps where "hl = Inr ps" "deleteOrphans host d ps res2 w3 = ((res, e), w')"
      using assms(2) l Inr ex hl
      by (cases f; cases hl) (auto simp: reconcilePods_def)
    then show ?thesis
    proof cases
      case 2
      then have "pods w3 = pods w2"
        using hl hp.List_err by (auto simp: ListPodsByLabels_def split: prod.splits sum.splits)
      with 2 w1 w2 show ?thesis by simp
    next
      case (3 ps)
      note p = pod_key_ns [OF hl [unfolded 3(1)] assms(1)]
      with deleteOrphans_effect [OF _ 3(2)] w1 w2 show ?thesis by simp
    qed (use w1 w2 in simp)
  qed
qed

lemma reconcilePods_orphans:
  assumes ns: "p_Namespace pool \<noteq> []"
    and l: "listTenantPodsForNodes cs (readyNodes nodes) w = (Inr srcs, w1)"
    and run: "reconcilePods q host (PodService runtime) cs pool nodes w = ((res, None), w')"
    and x: "(k, x) \<in> live_pods (pods w')" "selected (Some (p_Namespace pool)) (poolLabels pool) k (om_Labels (kp_Meta x))"
  shows "\<exists>src \<in> set srcs. \<not> isTerminalPod src \<and>
           k = ObjKey (p_Namespace pool) (pod_Name (hostTarget q runtime pool src)) \<and>
           host_pod_of (pc_q c) (hostTarget q runtime pool src) x"
proof -
  let ?ns = "p_Namespace pool"
  obtain f d res2 w2 where ex: "executePods q host (PodService runtime) cs pool srcs {}
      (zeroResult\<lparr>SourcePods := length srcs\<rparr>) w1 = ((f, d, res2), w2)" by (metis prod.exhaust)
  note ex' = executePods_result [OF ex]
  obtain hl w3 where hl: "ListPodsByLabels c ?ns (poolLabels pool) w2 = (hl, w3)" by fastforce
  have f: "\<nexists>e. f = Return e" using run l ex ex' by (cases f) (auto simp: reconcilePods_def)
  with ex' have d: "d = (\<lambda>src. keyForPod ?ns (pod_Name (hostTarget q runtime pool src))) ` set srcs" by auto
  obtain ps where ps: "hl = Inr ps" "deleteOrphans host d ps res2 w3 = ((res, None), w')"
    using run l ex hl f pod_ops_alive(5)
    by (cases f; cases hl) (auto simp: reconcilePods_def split: if_splits)
  note p = pod_key_ns [OF hl [unfolded ps(1)] ns]
  note del = deleteOrphans_effect [OF conjunct1 [OF conjunct2 [OF p]] ps(2)]
  have live: "(k, x) \<in> live_pods (pods w2)" using del p x(1) by auto
  then obtain y where y: "y \<in> set ps" "k = ObjKey (pod_Namespace y) (pod_Name y)"
    using p x(2) by (force simp: live_pods_def)
  have "keyForPod (pod_Namespace y) (pod_Name y) \<in> d" using del y x(1) by force
  then obtain s where "s \<in> set srcs" "k = ObjKey ?ns (pod_Name (hostTarget q runtime pool s))"
    using d y p by (auto simp: keyForPod_def)
  with executePods_settles [OF ex f, of "{}" s] live show ?thesis by simp
qed

lemma statusStep_mirrors:
  assumes stored: "pods w (ObjKey (pod_Namespace tg) (pod_Name tg)) = Some hpod"
    and one: "list_all one_state (kps_ContainerStatuses (kp_Status hpod))"
    and run: "statusStep host (PodService runtime) cs src tg result w = ((GoOn, res), w')"
  shows "SyncedStatuses res = SyncedStatuses result + 1 \<and>
    (\<exists>w1 w2 old. oc_Get (ks_Pods cs) (om_key (kp_Meta src)) w1 = (Inr old, w2) \<and>
       tpods w' = (tpods w2)(om_key (kp_Meta src) \<mapsto>
         pupds old (old\<lparr>kp_Status := (kp_Status old)
           \<lparr>kps_Phase := kps_Phase (kp_Status hpod), kps_PodIP := kps_PodIP (kp_Status hpod),
            kps_Message := kps_Message (kp_Status hpod), kps_Reason := kps_Reason (kp_Status hpod),
            kps_ContainerStatuses := map shown_container (kps_ContainerStatuses (kp_Status hpod))\<rparr>\<rparr>)))"
proof -
  let ?k = "om_key (kp_Meta src)"
  obtain g w1 where g: "oc_Get (pc_Pods c) (ObjKey (pod_Namespace tg) (pod_Name tg)) w = (g, w1)" by fastforce
  have "g = Inr hpod"
  proof (cases g)
    case (Inl e)
    then have "\<not> IsNotFound e" using hp.Get_err g stored by fastforce
    with run g Inl show ?thesis
      by (auto simp: statusStep_def GetPodStatus_def failWith_def split: if_splits)
  next
    case (Inr x)
    then show ?thesis using hp.Get_ok g stored by fastforce
  qed
  with run g obtain w2 old
    where old: "oc_Get (ks_Pods cs) ?k w1 = (Inr old, w2)"
      and upd: "oc_UpdateStatus (ks_Pods cs) (old\<lparr>kp_Status := statusToCore (podToStatus hpod) (kp_Status old)\<rparr>) w2 = (Inr (), w')"
      and res: "res = result\<lparr>SyncedStatuses := SyncedStatuses result + 1\<rparr>"
    by (auto simp: statusStep_def GetPodStatus_def SyncStatus_def updateTenantPodStatus_def failWith_def
        om_key_def split: prod.splits sum.splits if_splits)
  have "tpods w2 ?k = Some old" "om_key (kp_Meta old) = ?k"
    using tpo.Get_ok [OF old] tpo.objs_key by auto
  with tpo.UpdateStatus_ok [OF upd] old res status_shown [OF one] show ?thesis by auto
qed

lemma source_pods:
  assumes "listTenantPodsForNodes cs ready w = (Inr srcs, w')"
  shows "set srcs \<subseteq> {src. (\<exists>k. tpods w k = Some src) \<and> isSourcePod ready src}"
  using assms
  by (auto simp: listTenantPodsForNodes_def split: if_splits prod.splits sum.splits dest!: tpo.List_ok)

lemma reconcilePods_wanted:
  assumes ns: "p_Namespace pool \<noteq> []"
    and run: "reconcilePods q host (PodService runtime) cs pool nodes w = ((res, None), w')"
    and x: "(k, x) \<in> live_pods (pods w')" "selected (Some (p_Namespace pool)) (poolLabels pool) k (om_Labels (kp_Meta x))"
  shows "\<exists>src \<in> wanted_sources nodes (tpods w).
           k = ObjKey (p_Namespace pool) (pod_Name (hostTarget q runtime pool src)) \<and>
           host_pod_of (pc_q c) (hostTarget q runtime pool src) x"
proof -
  obtain l w1 where l: "listTenantPodsForNodes cs (readyNodes nodes) w = (l, w1)" by fastforce
  have alive: "l = Inl e \<Longrightarrow> \<not> isContextError e" for e
    using l by (auto simp: listTenantPodsForNodes_def split: if_splits prod.splits sum.splits dest: tpo.List_err)
  obtain srcs where srcs: "l = Inr srcs"
    using run l alive by (cases l) (auto simp: reconcilePods_def)
  show ?thesis
    using reconcilePods_orphans [OF ns l [unfolded srcs] run x] source_pods [OF l [unfolded srcs]]
    by (fastforce simp: wanted_sources_def)
qed

end

section \<open>Context errors are swallowed\<close>

lemma failWith_no_context: "failWith msg err = Return (Some e) \<Longrightarrow> \<not> isContextError e"
  by (auto simp: failWith_def split: if_splits)

lemma executePod_no_context:
  "executePod host tr cs pool src t result w = ((Return (Some e), res), w') \<Longrightarrow> \<not> isContextError e"
  by (auto simp: executePod_def ensureStep_def statusStep_def terminalStep_def dest!: failWith_no_context
      split: prod.splits sum.splits flow.splits if_splits option.splits)

lemma executePods_no_context:
  "executePods q host (PodService runtime) cs pool srcs desired result w = ((Return (Some e), d, res), w') \<Longrightarrow>
   \<not> isContextError e"
proof (induction srcs arbitrary: desired result w)
  case (Cons src srcs)
  obtain t where t: "Translate runtime (podFromCore q src) pool (kp_NodeName src) = Inr t"
    by (simp add: Translate_def)
  obtain f res1 w1 where ex: "executePod host (PodService runtime) cs pool src t result w = ((f, res1), w1)"
    by (metis prod.exhaust)
  with Cons t show ?case by (cases f) (auto simp: Let_def dest: executePod_no_context)
qed simp

lemma deleteOrphans_no_context:
  "deleteOrphans host desired ps result w = ((res, Some e), w') \<Longrightarrow> \<not> isContextError e"
  by (induction ps arbitrary: result w) (auto split: if_splits prod.splits sum.splits)

lemma reconcilePods_no_context:
  assumes "reconcilePods q host (PodService runtime) cs pool nodes w = ((res, Some e), w')"
  shows "\<not> isContextError e"
  using assms
  by (auto simp: reconcilePods_def split: prod.splits sum.splits flow.splits if_splits
      dest: executePods_no_context deleteOrphans_no_context)

lemma ReconcilePool_no_context:
  assumes "pe_translator svc = PodService runtime" and "ReconcilePool svc pool s = ((res, Some e), s')"
  shows "\<not> isContextError e"
  using assms
  by (auto simp: ReconcilePool_def split: prod.splits sum.splits if_splits
      dest!: onw_D dest: reconcilePods_no_context)

section \<open>The execution of a pool\<close>

text \<open>
  A repository that reads nodes without touching pods, and tenant clients that all behave as
  documented: what \<open>ReconcilePool\<close> relies on. Every clientset has a store of tenant pods of its
  own, \<open>tpods cs\<close>; clientsets of different tenants read and write different stores.
\<close>

locale pod_execution =
  tenant_clients tenants "\<lambda>cs. pod_host c cs pods (tpods cs) pupd pupds pgone" pods
  for tenants :: "('c, 'q, 'w) TenantClientManager"
    and c :: "('q, 'w) PodClusterClient"
    and pods :: "'w \<Rightarrow> objkey \<Rightarrow> 'q CorePod option"
    and tpods :: "('q, 'w) clientset \<Rightarrow> 'w \<Rightarrow> objkey \<Rightarrow> 'q CorePod option"
    and pupd :: "'q CorePod \<Rightarrow> 'q CorePod \<Rightarrow> 'q CorePod option"
    and pupds :: "'q CorePod \<Rightarrow> 'q CorePod \<Rightarrow> 'q CorePod"
    and pgone :: "'q CorePod \<Rightarrow> 'q CorePod option" +
  fixes repo :: "('q, 'w) mstate NodeRepository"
  assumes ListByPool_frame: "repo_ListByPool repo ns p s = (r, s') \<Longrightarrow>
      pods (ms_world s') = pods (ms_world s) \<and> ms_clients s' = ms_clients s"
begin

abbreviation cached_hosts :: "('q, 'w) mstate \<Rightarrow> bool" where
  "cached_hosts s \<equiv> cache_all (\<lambda>cs. pod_host c cs pods (tpods cs) pupd pupds pgone) (ms_clients s)"

abbreviation exec :: "'q quantities \<Rightarrow> IsolationRuntime \<Rightarrow> ('c, 'q, 'w) PodExecutionService" where
  "exec q runtime \<equiv> NewPodExecutionService q repo (NewPodClusterClient c) (PodService runtime) tenants"

lemma ReconcilePool_isolated:
  assumes inv: "cached_hosts s" and ns: "p_Namespace pool \<noteq> []"
    and run: "ReconcilePool (exec q runtime) pool s = (out, s')"
  shows "cached_hosts s' \<and>
         outside (p_Namespace pool) (pods (ms_world s')) = outside (p_Namespace pool) (pods (ms_world s))"
proof -
  obtain g s1 where g: "TenantClients_Get tenants (p_TenantRef pool) s = (g, s1)" by fastforce
  note s1 = Get_cache [OF inv g]
  show ?thesis
  proof (cases g)
    case (Inl e)
    with run g s1 show ?thesis by (simp add: ReconcilePool_def NewPodExecutionService_def)
  next
    case (Inr cs)
    obtain l s2 where l: "repo_ListByPool repo (p_Namespace pool) (p_Name pool) s1 = (l, s2)" by fastforce
    note s2 = ListByPool_frame [OF l]
    show ?thesis
    proof (cases l)
      case (Inl e)
      with run g l \<open>g = Inr cs\<close> s1 s2 show ?thesis by (simp add: ReconcilePool_def NewPodExecutionService_def)
    next
      case (Inr nodes)
      have host: "pod_host c cs pods (tpods cs) pupd pupds pgone" using s1 \<open>g = Inr cs\<close> by blast
      have "onw (reconcilePods q (NewPodClusterClient c) (PodService runtime) cs pool nodes) s2 = (out, s')"
        using run g l \<open>g = Inr cs\<close> Inr by (simp add: ReconcilePool_def NewPodExecutionService_def)
      then have "reconcilePods q (NewPodClusterClient c) (PodService runtime) cs pool nodes (ms_world s2) =
          ((fst out, snd out), ms_world s')" and "ms_clients s' = ms_clients s2"
        by (auto dest: onw_D)
      with pod_host.reconcilePods_outside [OF host ns this(1)] s1 s2 show ?thesis by simp
    qed
  qed
qed

lemma ReconcilePool_wanted:
  assumes inv: "cached_hosts s" and ns: "p_Namespace pool \<noteq> []"
    and g: "TenantClients_Get tenants (p_TenantRef pool) s = (Inr cs, s1)"
    and l: "repo_ListByPool repo (p_Namespace pool) (p_Name pool) s1 = (Inr nodes, s2)"
    and run: "ReconcilePool (exec q runtime) pool s = ((res, None), s')"
    and x: "(k, x) \<in> live_pods (pods (ms_world s'))"
      "selected (Some (p_Namespace pool)) (poolLabels pool) k (om_Labels (kp_Meta x))"
  shows "\<exists>src \<in> wanted_sources nodes (tpods cs (ms_world s2)).
           k = ObjKey (p_Namespace pool) (pod_Name (hostTarget q runtime pool src)) \<and>
           host_pod_of (pc_q c) (hostTarget q runtime pool src) x"
proof -
  have host: "pod_host c cs pods (tpods cs) pupd pupds pgone" using Get_cache [OF inv g] by blast
  have "onw (reconcilePods q (NewPodClusterClient c) (PodService runtime) cs pool nodes) s2 = ((res, None), s')"
    using run g l by (simp add: ReconcilePool_def NewPodExecutionService_def)
  then have "reconcilePods q (NewPodClusterClient c) (PodService runtime) cs pool nodes (ms_world s2) =
      ((res, None), ms_world s')"
    by (auto dest: onw_D)
  from pod_host.reconcilePods_wanted [OF host ns this x] show ?thesis .
qed

end

text \<open>
  C11: after a reconciliation without an error (and without a cancelled context) the host pods
  of the pool are those that the tenant asks for, with the right content. Every host pod that
  carries the labels of the pool in its namespace and is not under deletion has the name of the
  translation of a tenant pod that is stored in the cluster of the tenant of the pool, is
  neither under deletion nor finished nor itself managed by the operator, and is bound to a
  ready virtual node of the pool; and it compares as equal to that translation (in labels,
  containers, volumes, runtime class, node selector and service account), or it is what the
  server stored when that translation was created in this run.
\<close>

theorem ReconcilePool_no_orphans:
  assumes "pod_execution tenants c pods tpods pupd pupds pgone repo"
    and "cache_all (\<lambda>cs. pod_host c cs pods (tpods cs) pupd pupds pgone) (ms_clients s)"
    and "p_Namespace pool \<noteq> []"
    and "TenantClients_Get tenants (p_TenantRef pool) s = (Inr cs, s1)"
    and "repo_ListByPool repo (p_Namespace pool) (p_Name pool) s1 = (Inr nodes, s2)"
    and "ReconcilePool (NewPodExecutionService q repo (NewPodClusterClient c) (PodService runtime) tenants)
           pool s = ((res, None), s')"
    and "(k, x) \<in> live_pods (pods (ms_world s'))"
    and "selected (Some (p_Namespace pool)) (poolLabels pool) k (om_Labels (kp_Meta x))"
  shows "\<exists>src j. tpods cs (ms_world s2) j = Some src \<and> isSourcePod (readyNodes nodes) src \<and> \<not> isTerminalPod src \<and>
           k = ObjKey (p_Namespace pool) (pod_Name (hostTarget q runtime pool src)) \<and>
           (podSpecsEqual (podToSpec (pc_q c) x) (hostTarget q runtime pool src) \<or>
            (\<exists>k8s. podSpecToK8sPod (pc_q c) (hostTarget q runtime pool src) = Inr k8s \<and> pod_created k8s x))"
  using pod_execution.ReconcilePool_wanted [OF assms] by (auto simp: wanted_sources_def host_pod_of_def)

text \<open>
  C19: what the tenant sees of the status of its pod. When the host pod exists and the status
  step goes on, the stored status of the tenant pod is the one that was read, with exactly five
  fields replaced: phase, address, message and reason of the host pod, and its containers with
  name, readiness, restarts and the kind of state each. The details of a container state (exit
  code, reason, message, times), its last termination, image and identity are not passed on but
  cleared, and the conditions, the host address and the start time stay those of the tenant
  pod. It is assumed that the server stores the status it is sent and that a container is in at
  most one state.
\<close>

theorem statusStep_shows_host_status:
  assumes "pod_host c cs pods tpods pupd pupds pgone"
    and "\<And>old x. kp_Status (pupds old x) = kp_Status x"
    and "pods w (ObjKey (pod_Namespace tg) (pod_Name tg)) = Some hpod"
    and "list_all one_state (kps_ContainerStatuses (kp_Status hpod))"
    and "statusStep (NewPodClusterClient c) (PodService runtime) cs src tg result w = ((GoOn, res), w')"
  shows "SyncedStatuses res = SyncedStatuses result + 1 \<and>
         (\<exists>old t w1 w2. oc_Get (ks_Pods cs) (om_key (kp_Meta src)) w1 = (Inr old, w2) \<and>
            tpods w' (om_key (kp_Meta src)) = Some t \<and>
            kp_Status t = (kp_Status old)
              \<lparr>kps_Phase := kps_Phase (kp_Status hpod), kps_PodIP := kps_PodIP (kp_Status hpod),
               kps_Message := kps_Message (kp_Status hpod), kps_Reason := kps_Reason (kp_Status hpod),
               kps_ContainerStatuses := map shown_container (kps_ContainerStatuses (kp_Status hpod))\<rparr>)"
  using pod_host.statusStep_mirrors [OF assms(1,3,4,5)] assms(2) by fastforce

end
