(* ===== verification/PodSync_Reconciler.thy ===== *)
theory PodSync_Reconciler
  imports VNodePool_Reconciler Execution_Hosts
begin

text \<open>
  The pod synchronisation controller
  (\<open>internal/adapter/inbound/reconciler/podsync_reconciler.go\<close>): for every pool it runs the pod
  execution service, or the cleanup of the host pods when the pool is being deleted, and keeps
  the conditions PodExecutionReady and Degraded of the pool. The recorded events and the
  metrics have no effect on the control flow; they are added in \<open>Observability\<close>.

  The lemmas show that the controller changes host pods in the namespace of the pool only,
  that it keeps polling whatever goes wrong, and that a deleted pool loses its host pods.
\<close>

section \<open>Conditions\<close>

fun setPodSyncCondition ::
  "int \<Rightarrow> Condition list \<Rightarrow> string \<Rightarrow> string \<Rightarrow> string \<Rightarrow> string \<Rightarrow> Condition list"
where
  "setPodSyncCondition now [] conditionType status reason message =
     [\<lparr>mc_Type = conditionType, mc_Status = status, mc_Reason = reason, mc_Message = message,
       mc_LastTransitionTime = now\<rparr>]"
| "setPodSyncCondition now (c # cs) conditionType status reason message =
     (if mc_Type c \<noteq> conditionType then c # setPodSyncCondition now cs conditionType status reason message
      else if mc_Status c = status \<and> mc_Reason c = reason \<and> mc_Message c = message then c # cs
      else c\<lparr>mc_Status := status, mc_Reason := reason, mc_Message := message,
             mc_LastTransitionTime := now\<rparr> # cs)"

definition isIgnorablePodSyncError :: "goerr \<Rightarrow> bool" where
  "isIgnorablePodSyncError err \<longleftrightarrow> errors_Is err Canceled \<or> errors_Is err DeadlineExceeded"

definition executionStatus ::
  "string \<Rightarrow> string \<Rightarrow> string \<Rightarrow> string \<Rightarrow> int \<Rightarrow> VNodePoolStatus \<Rightarrow> VNodePoolStatus"
where
  "executionStatus podExecutionReady degraded reason message now status =
     status\<lparr>st_Conditions :=
       setPodSyncCondition now
         (setPodSyncCondition now (st_Conditions status) ''PodExecutionReady'' podExecutionReady reason message)
         ''Degraded'' degraded reason message\<rparr>"

definition tryExecutionConditions ::
  "'w poolapi \<Rightarrow> objkey \<Rightarrow> string \<Rightarrow> string \<Rightarrow> string \<Rightarrow> string \<Rightarrow> 'w \<Rightarrow> unit res \<times> 'w"
where
  "tryExecutionConditions api k podExecutionReady degraded reason message w =
     (case oc_Get (pa_pools api) k w of
        (Inl err, w) \<Rightarrow> (if isIgnorablePodSyncError err then Inr () else Inl err, w)
      | (Inr base, w) \<Rightarrow>
          (let current = base\<lparr>vp_Status :=
                 executionStatus podExecutionReady degraded reason message (pa_now api w) (vp_Status base)\<rparr> in
           if vp_Status base = vp_Status current then (Inr (), w)
           else
             (case pa_patch api base current w of
                (Inl err, w) \<Rightarrow> (if isIgnorablePodSyncError err then Inr () else Inl err, w)
              | (Inr _, w) \<Rightarrow> (Inr (), w))))"

definition updateExecutionConditions ::
  "'w poolapi \<Rightarrow> objkey \<Rightarrow> string \<Rightarrow> string \<Rightarrow> string \<Rightarrow> string \<Rightarrow> 'w \<Rightarrow> unit res \<times> 'w"
where
  "updateExecutionConditions api k podExecutionReady degraded reason message =
     pa_retry api (tryExecutionConditions api k podExecutionReady degraded reason message)"

section \<open>Reconciliation\<close>

definition PodSyncReconciler_Reconcile ::
  "'w poolapi \<Rightarrow> ('c, 'q, 'w) PodExecutionService \<Rightarrow> objkey \<Rightarrow> ('q, 'w) mstate \<Rightarrow>
   Result res \<times> ('q, 'w) mstate"
where
  "PodSyncReconciler_Reconcile api executor req s =
     (case onw (oc_Get (pa_pools api) req) s of
        (Inl err, s) \<Rightarrow> (if IsNotFound err then Inr noRequeue else Inl err, s)
      | (Inr cr, s) \<Rightarrow>
          (let pool = crToPoolModel cr in
           case Validate pool of
             Inl _ \<Rightarrow> (Inr noRequeue, s)
           | Inr _ \<Rightarrow>
               if om_DeletionTimestamp (vp_Meta cr) \<noteq> None then
                 (case onw (CleanupPoolPods (HostClient executor) pool) s of
                    ((deleted, Some err), s) \<Rightarrow>
                      (Inl (Wrap (''cleaning host pods for pool '' @ p_Name pool) err), s)
                  | ((deleted, None), s) \<Rightarrow> (Inr noRequeue, s))
               else if p_Phase pool = PoolPhaseFailed then (Inr \<lparr>RequeueAfter = 3 * Second\<rparr>, s)
               else
                 (case ReconcilePool executor pool s of
                    ((result, Some err), s) \<Rightarrow>
                      if isPanic err then (Inl err, s)
                      else if isIgnorablePodSyncError err then (Inr noRequeue, s)
                      else
                        (case onw (updateExecutionConditions api (vp_key cr) ConditionFalse ConditionTrue
                                     ''PodExecutionFailed'' (error_string err)) s of
                           (_, s) \<Rightarrow> (Inr \<lparr>RequeueAfter = 2 * Second\<rparr>, s))
                  | ((result, None), s) \<Rightarrow>
                      (case onw (updateExecutionConditions api (vp_key cr) ConditionTrue ConditionFalse
                                   ''PodExecutionReady''
                                   (''Processed '' @ itoa (SourcePods result) @ '' tenant pods'')) s of
                         (_, s) \<Rightarrow> (Inr \<lparr>RequeueAfter = 2 * Second\<rparr>, s)))))"

definition main_podExecSvc ::
  "(VNodeCR, 'w) objclient \<Rightarrow> ('q, 'w) PodClusterClient \<Rightarrow> string \<Rightarrow>
   ('c, 'q, 'w) TenantClientManager \<Rightarrow> ('q, 'w) sysenv \<Rightarrow> ('c, 'q, 'w) PodExecutionService"
where
  "main_podExecSvc vnodes hostPods defaultRuntimeClass tenants env =
     NewPodExecutionService (env_q env) (main_nodeRepo vnodes env) (NewPodClusterClient hostPods)
       (PodService (KataAdapter defaultRuntimeClass)) tenants"

definition main_podSyncReconciler ::
  "(VNodePoolCR, 'w) objclient \<Rightarrow> (VNodePoolCR \<Rightarrow> VNodePoolCR \<Rightarrow> 'w \<Rightarrow> unit res \<times> 'w) \<Rightarrow>
   (VNodeCR, 'w) objclient \<Rightarrow> ('q, 'w) PodClusterClient \<Rightarrow> string \<Rightarrow>
   ('c, 'q, 'w) TenantClientManager \<Rightarrow> ('q, 'w) sysenv \<Rightarrow>
   objkey \<Rightarrow> ('q, 'w) mstate \<Rightarrow> Result res \<times> ('q, 'w) mstate"
where
  "main_podSyncReconciler pools patch vnodes hostPods defaultRuntimeClass tenants env =
     PodSyncReconciler_Reconcile (main_poolapi pools patch vnodes env)
       (main_podExecSvc vnodes hostPods defaultRuntimeClass tenants env)"

section \<open>Branches of the reconciliation\<close>

lemma setPodSyncCondition_eq: "setPodSyncCondition now cs ty st rs msg = setStatusCondition now cs ty st rs msg"
  by (induction cs) auto

lemma isIgnorablePodSyncError_iff [simp]: "isIgnorablePodSyncError e \<longleftrightarrow> isContextError e"
  by (simp add: isIgnorablePodSyncError_def isContextError_def)

lemma podsync_cases:
  assumes "PodSyncReconciler_Reconcile api executor req s = (out, s')"
  obtains (stopped) r where "onw (oc_Get (pa_pools api) req) s = (r, s')" "\<forall>cr. r = Inr cr \<longrightarrow>
      (\<exists>e. Validate (crToPoolModel cr) = Inl e) \<or>
      om_DeletionTimestamp (vp_Meta cr) = None \<and> st_Phase (vp_Status cr) = PoolPhaseFailed"
  | (cleanup) cr s1 n e where "onw (oc_Get (pa_pools api) req) s = (Inr cr, s1)"
      "om_DeletionTimestamp (vp_Meta cr) \<noteq> None" "Validate (crToPoolModel cr) = Inr ()"
      "onw (CleanupPoolPods (HostClient executor) (crToPoolModel cr)) s1 = ((n, e), s')"
      "out = (case e of Some err \<Rightarrow> Inl (Wrap (''cleaning host pods for pool '' @ om_Name (vp_Meta cr)) err)
                      | None \<Rightarrow> Inr noRequeue)"
  | (executed) cr s1 res e s2 where "onw (oc_Get (pa_pools api) req) s = (Inr cr, s1)"
      "om_DeletionTimestamp (vp_Meta cr) = None" "Validate (crToPoolModel cr) = Inr ()"
      "ReconcilePool executor (crToPoolModel cr) s1 = ((res, e), s2)"
      "(e \<noteq> None \<and> isPanic (the e) \<and> out = Inl (the e) \<and> s' = s2) \<or>
       (e \<noteq> None \<and> isContextError (the e) \<and> s' = s2) \<or>
       (out = Inr \<lparr>RequeueAfter = 2 * Second\<rparr> \<and> (\<exists>a b rs msg r.
         onw (updateExecutionConditions api (vp_key cr) a b rs msg) s2 = (r, s')))"
proof -
  obtain r s1 where r: "onw (oc_Get (pa_pools api) req) s = (r, s1)" by fastforce
  show thesis
  proof (cases r)
    case (Inl e)
    with assms r stopped show thesis by (auto simp: PodSyncReconciler_Reconcile_def)
  next
    case (Inr cr)
    obtain n e1 s2 where cl: "onw (CleanupPoolPods (HostClient executor) (crToPoolModel cr)) s1 = ((n, e1), s2)"
      by (metis prod.exhaust)
    obtain res e s3 where ex: "ReconcilePool executor (crToPoolModel cr) s1 = ((res, e), s3)"
      by (metis prod.exhaust)
    have nm: "p_Name (crToPoolModel cr) = om_Name (vp_Meta cr)" "p_Phase (crToPoolModel cr) = st_Phase (vp_Status cr)"
      by (simp_all add: crToPoolModel_def)
    consider (bad) e where "Validate (crToPoolModel cr) = Inl e"
      | (del) "Validate (crToPoolModel cr) = Inr ()" "om_DeletionTimestamp (vp_Meta cr) \<noteq> None"
      | (failed) "om_DeletionTimestamp (vp_Meta cr) = None" "st_Phase (vp_Status cr) = PoolPhaseFailed"
      | (live) "Validate (crToPoolModel cr) = Inr ()" "om_DeletionTimestamp (vp_Meta cr) = None"
          "st_Phase (vp_Status cr) \<noteq> PoolPhaseFailed"
      by (cases "Validate (crToPoolModel cr)") auto
    then show thesis
    proof cases
      case bad
      with assms r Inr stopped [of r] show thesis by (auto simp: PodSyncReconciler_Reconcile_def)
    next
      case del
      with assms r Inr cl nm cleanup [of cr s1 n e1] show thesis
        by (auto simp: PodSyncReconciler_Reconcile_def split: option.splits)
    next
      case failed
      with assms r Inr nm stopped [of r] show thesis
        by (auto simp: PodSyncReconciler_Reconcile_def Let_def split: sum.splits)
    next
      case live
      then have "(e \<noteq> None \<and> isPanic (the e) \<and> out = Inl (the e) \<and> s' = s3) \<or>
          (e \<noteq> None \<and> isContextError (the e) \<and> s' = s3) \<or>
          (out = Inr \<lparr>RequeueAfter = 2 * Second\<rparr> \<and> (\<exists>a b rs msg r.
            onw (updateExecutionConditions api (vp_key cr) a b rs msg) s3 = (r, s')))"
        using assms r Inr ex nm
        by (cases e) (simp_all add: PodSyncReconciler_Reconcile_def split: prod.splits if_splits, blast+)
      with live r Inr ex show thesis by (intro executed) simp_all
    qed
  qed
qed

text \<open>
  C27: pod synchronisation keeps polling. For a valid pool that is neither under deletion nor in
  the failed phase, every outcome of the pod execution except a panic, errors of any kind
  included, is followed by another look after two seconds.
\<close>

theorem PodSync_keeps_polling:
  assumes "oc_Get pools req (ms_world s) = (Inr cr, w1)"
    and "om_DeletionTimestamp (vp_Meta cr) = None" and "Validate (crToPoolModel cr) = Inr ()"
    and "st_Phase (vp_Status cr) \<noteq> PoolPhaseFailed"
    and "main_podSyncReconciler pools patch vnodes hostPods rc tenants env req s = (out, s')"
  shows "out = Inr \<lparr>RequeueAfter = 2 * Second\<rparr> \<or> (\<exists>e. out = Inl e \<and> isPanic e)"
proof -
  have get: "onw (oc_Get (pa_pools (main_poolapi pools patch vnodes env)) req) s =
      (Inr cr, s\<lparr>ms_world := w1\<rparr>)"
    using assms(1) by (simp add: onw_def main_poolapi_def)
  have tr: "pe_translator (main_podExecSvc vnodes hostPods rc tenants env) = PodService (KataAdapter rc)"
    by (simp add: main_podExecSvc_def NewPodExecutionService_def)
  from assms(5) [unfolded main_podSyncReconciler_def] show ?thesis
  proof (cases rule: podsync_cases)
    case (executed cr' s1 res e s2)
    then show ?thesis using ReconcilePool_no_context [OF tr, of "crToPoolModel cr'" s1 res _ s2] by auto
  qed (use get assms in auto)
qed

section \<open>The controller in a documented world\<close>

text \<open>
  What the controller relies on: pod execution over any number of tenant clusters, each with a
  pod store of its own, a host cluster, and pools that live apart from the host pods.
\<close>

locale pod_sync =
  pod_execution tenants c pods tpods pupd pupds pgone "main_nodeRepo vnodes env" +
  host_pods c pods pupd pupds pgone +
  pool_frame: client_frame pools pods + retry_on_conflict "env_retry env"
  for tenants :: "('c, 'q, 'w) TenantClientManager"
    and c :: "('q, 'w) PodClusterClient"
    and pods :: "'w \<Rightarrow> objkey \<Rightarrow> 'q CorePod option"
    and tpods :: "('q, 'w) clientset \<Rightarrow> 'w \<Rightarrow> objkey \<Rightarrow> 'q CorePod option"
    and pupd :: "'q CorePod \<Rightarrow> 'q CorePod \<Rightarrow> 'q CorePod option"
    and pupds :: "'q CorePod \<Rightarrow> 'q CorePod \<Rightarrow> 'q CorePod"
    and pgone :: "'q CorePod \<Rightarrow> 'q CorePod option"
    and vnodes :: "(VNodeCR, 'w) objclient"
    and env :: "('q, 'w) sysenv"
    and pools :: "(VNodePoolCR, 'w) objclient" +
  fixes patch :: "VNodePoolCR \<Rightarrow> VNodePoolCR \<Rightarrow> 'w \<Rightarrow> unit res \<times> 'w"
  assumes Get_key: "oc_Get pools k w = (Inr cr, w') \<Longrightarrow> om_key (vp_Meta cr) = k"
    and Patch_frame: "patch base x w = (r, w') \<Longrightarrow> pods w' = pods w"
begin

abbreviation papi :: "'w poolapi" where
  "papi \<equiv> main_poolapi pools patch vnodes env"

lemma papi_sel [simp]:
  "pa_pools papi = pools" "pa_patch papi = patch" "pa_retry papi = env_retry env"
  by (simp_all add: main_poolapi_def)

lemma conditions_frame:
  assumes "updateExecutionConditions papi k a b rs msg w = (r, w')"
  shows "pods w' = pods w"
proof -
  have "pods v' = pods v" if "tryExecutionConditions papi k a b rs msg v = (r, v')" for v r v'
    using that by (auto simp: tryExecutionConditions_def Let_def split: prod.splits sum.splits if_splits
        dest!: pool_frame.Get_frame Patch_frame)
  from retry_frame [of _ pods, OF this] assms show ?thesis by (simp add: updateExecutionConditions_def)
qed

lemma got_pool:
  assumes "onw (oc_Get (pa_pools papi) req) s = (Inr cr, s1)"
  shows "p_Namespace (crToPoolModel cr) = key_ns req" and "pods (ms_world s1) = pods (ms_world s)"
    and "ms_clients s1 = ms_clients s"
  using Get_key [of req "ms_world s" cr "ms_world s1"] pool_frame.Get_frame onw_D [OF assms]
  by (auto simp: crToPoolModel_def om_key_def)

lemma Reconcile_isolated:
  assumes inv: "cached_hosts s" and ns: "key_ns req \<noteq> []"
    and run: "main_podSyncReconciler pools patch vnodes c rc tenants env req s = (out, s')"
  shows "cached_hosts s' \<and> outside (key_ns req) (pods (ms_world s')) = outside (key_ns req) (pods (ms_world s))"
  using run [unfolded main_podSyncReconciler_def]
proof (cases rule: podsync_cases)
  case (stopped r)
  then show ?thesis using inv pool_frame.Get_frame by (auto dest!: onw_D)
next
  case (cleanup cr s1 n e)
  note g = got_pool [OF cleanup(1)]
  have "CleanupPoolPods (NewPodClusterClient c) (crToPoolModel cr) (ms_world s1) = ((n, e), ms_world s')"
    "ms_clients s' = ms_clients s1"
    using onw_D [OF cleanup(4)]
    by (simp_all add: HostClient_def main_podExecSvc_def NewPodExecutionService_def)
  with CleanupPoolPods_outside [OF _ this(1)] g ns inv show ?thesis by simp
next
  case (executed cr s1 res e s2)
  note g = got_pool [OF executed(1)]
  have "cached_hosts s2 \<and>
      outside (p_Namespace (crToPoolModel cr)) (pods (ms_world s2)) =
      outside (p_Namespace (crToPoolModel cr)) (pods (ms_world s1))"
    using executed(4) inv g ns
    by (intro ReconcilePool_isolated) (auto simp: main_podExecSvc_def)
  moreover have "pods (ms_world s') = pods (ms_world s2) \<and> ms_clients s' = ms_clients s2"
    using executed(5) conditions_frame by (auto dest!: onw_D)
  ultimately show ?thesis using g by simp
qed

end

context host_pods
begin

lemma Reconcile_cleans:
  assumes ns: "om_Namespace (vp_Meta cr) \<noteq> []" and get: "oc_Get pools req (ms_world s) = (Inr cr, w1)"
    and del: "om_DeletionTimestamp (vp_Meta cr) \<noteq> None"
    and run: "main_podSyncReconciler pools patch vnodes c rc tenants env req s = (Inr res, s')"
  shows "res = noRequeue \<and>
         (case Validate (crToPoolModel cr) of
            Inr _ \<Rightarrow> live_pool_pods (crToPoolModel cr) (pods (ms_world s')) = {} \<and>
                     outside (om_Namespace (vp_Meta cr)) (pods (ms_world s')) =
                     outside (om_Namespace (vp_Meta cr)) (pods w1)
          | Inl _ \<Rightarrow> s' = s\<lparr>ms_world := w1\<rparr>)"
proof (cases "Validate (crToPoolModel cr)")
  case (Inl e)
  with run get show ?thesis
    by (simp add: main_podSyncReconciler_def PodSyncReconciler_Reconcile_def main_poolapi_def onw_def)
next
  case (Inr u)
  have g: "onw (oc_Get (pa_pools (main_poolapi pools patch vnodes env)) req) s = (Inr cr, s\<lparr>ms_world := w1\<rparr>)"
    using get by (simp add: onw_def main_poolapi_def)
  have n: "p_Namespace (crToPoolModel cr) = om_Namespace (vp_Meta cr)" by (simp add: crToPoolModel_def)
  from run [unfolded main_podSyncReconciler_def] show ?thesis
  proof (cases rule: podsync_cases)
    case (cleanup cr' s1 m e)
    have "e = None" "cr' = cr" "s1 = s\<lparr>ms_world := w1\<rparr>" "res = noRequeue"
      using cleanup g by (auto split: option.splits)
    moreover have "CleanupPoolPods host (crToPoolModel cr') (ms_world s1) = ((m, e), ms_world s')"
      using onw_D [OF cleanup(4)]
      by (simp add: HostClient_def main_podExecSvc_def NewPodExecutionService_def)
    ultimately show ?thesis
      using CleanupPoolPods_effect [of "crToPoolModel cr"] ns n Inr by auto
  qed (use g del Inr in auto)
qed

end

section \<open>Properties\<close>

text \<open>
  C10: pod synchronisation is confined to the namespace of the pool. Whatever the tenants run,
  however many tenant clusters there are and whatever fails, a reconciliation of the pods of a
  pool, its cleanup included, changes no host pod outside the namespace of the pool, and the
  cached tenant clients stay well behaved. Each clientset has a store of tenant pods of its own,
  \<open>tpods cs\<close>, which is not the store of host pods.
\<close>

theorem PodSync_namespace_isolation:
  assumes "pod_sync tenants c pods tpods pupd pupds pgone vnodes env pools patch"
    and "cache_all (\<lambda>cs. pod_host c cs pods (tpods cs) pupd pupds pgone) (ms_clients s)"
    and "key_ns req \<noteq> []" and "key_ns k \<noteq> key_ns req"
    and "main_podSyncReconciler pools patch vnodes c rc tenants env req s = (out, s')"
  shows "pods (ms_world s') k = pods (ms_world s) k \<and>
         cache_all (\<lambda>cs. pod_host c cs pods (tpods cs) pupd pupds pgone) (ms_clients s')"
  using pod_sync.Reconcile_isolated [OF assms(1,2,3,5)] assms(4) by (metis outside_def)

text \<open>
  C20: what a reconciliation without an error does for a pool under deletion. When the pool is
  valid, no host pod with the labels of the pool is left in its namespace that is not already
  under deletion itself, and no host pod of another namespace has changed. When the pool is
  invalid, nothing is cleaned up: the reconciliation returns success right after reading the
  pool. Only the host cluster has to behave as documented; its calls report no cancelled
  context, which the cleanup would take for success.
\<close>

theorem PodSync_cleans_up:
  assumes "host_pods c pods pupd pupds pgone"
    and "om_Namespace (vp_Meta cr) \<noteq> []" and "oc_Get pools req (ms_world s) = (Inr cr, w1)"
    and "om_DeletionTimestamp (vp_Meta cr) \<noteq> None"
    and "main_podSyncReconciler pools patch vnodes c rc tenants env req s = (Inr res, s')"
  shows "res = noRequeue \<and>
         (case Validate (crToPoolModel cr) of
            Inr _ \<Rightarrow> live_pool_pods (crToPoolModel cr) (pods (ms_world s')) = {} \<and>
                     outside (om_Namespace (vp_Meta cr)) (pods (ms_world s')) =
                     outside (om_Namespace (vp_Meta cr)) (pods w1)
          | Inl _ \<Rightarrow> s' = s\<lparr>ms_world := w1\<rparr>)"
  by (rule host_pods.Reconcile_cleans [OF assms])

end
