(* ===== verification/Pool_Isolation.thy ===== *)
theory Pool_Isolation
  imports VNodePool_Reconciler VNode_Reconciler
begin

text \<open>
  What pools do to each other: whatever happens in a reconciliation of one pool, errors included,
  the nodes of every other pool stay stored and stay in their pool, the other pool objects are
  not written, and a node of another pool is rewritten only when it has a name of the form that
  the reconciled pool gives to its own nodes. The VNode controller moves no node between pools
  and writes no pool object.
\<close>

text \<open>The nodes of all pools but one are the same ones.\<close>

definition other_pools_kept ::
  "string \<Rightarrow> string \<Rightarrow> (objkey \<Rightarrow> VNode option) \<Rightarrow> (objkey \<Rightarrow> VNode option) \<Rightarrow> bool"
where
  "other_pools_kept ns p f f' \<longleftrightarrow>
     (\<forall>ns' p'. (ns', p') \<noteq> (ns, p) \<longrightarrow> pool_nodes f' ns' p' = pool_nodes f ns' p')"

text \<open>
  The nodes of other pools are unchanged, but for those with a name that the pool uses itself.
\<close>

definition other_nodes_kept :: "VNodePool \<Rightarrow> (objkey \<Rightarrow> VNode option) \<Rightarrow> (objkey \<Rightarrow> VNode option) \<Rightarrow> bool" where
  "other_nodes_kept pool f f' \<longleftrightarrow>
     (\<forall>k v. f k = Some v \<longrightarrow> (key_ns k, n_PoolName v) \<noteq> (p_Namespace pool, p_Name pool) \<longrightarrow>
        (\<forall>i. k \<noteq> ObjKey (p_Namespace pool) (nodeName pool i)) \<longrightarrow> f' k = Some v)"

definition others_kept :: "VNodePool \<Rightarrow> (objkey \<Rightarrow> VNode option) \<Rightarrow> (objkey \<Rightarrow> VNode option) \<Rightarrow> bool" where
  "others_kept pool f f' \<longleftrightarrow> other_pools_kept (p_Namespace pool) (p_Name pool) f f' \<and> other_nodes_kept pool f f'"

text \<open>A node of the given pool whose stored form, if any, is in the pool, too.\<close>

definition in_pool :: "(objkey \<Rightarrow> VNode option) \<Rightarrow> string \<Rightarrow> string \<Rightarrow> VNode \<Rightarrow> bool" where
  "in_pool f ns p n \<longleftrightarrow>
     n_Namespace n = ns \<and> n_PoolName n = p \<and> (\<forall>v. f (nkey n) = Some v \<longrightarrow> n_PoolName v = p)"

section \<open>The services\<close>

lemma others_refl [simp]: "others_kept pool f f"
  by (simp add: others_kept_def other_pools_kept_def other_nodes_kept_def)

lemma others_trans: "others_kept pool f g \<Longrightarrow> others_kept pool g h \<Longrightarrow> others_kept pool f h"
  by (simp add: others_kept_def other_pools_kept_def other_nodes_kept_def)

lemma others_pool [simp]:
  "others_kept (pool\<lparr>p_Nodes := xs\<rparr>) f g = others_kept pool f g"
  "others_kept (pool\<lparr>p_NodeCount := c\<rparr>) f g = others_kept pool f g"
  "others_kept (pool\<lparr>p_DeletionPending := d\<rparr>) f g = others_kept pool f g"
  by (simp_all add: others_kept_def other_nodes_kept_def nodeName_def)

lemma touched_keeps_others:
  assumes "touched_node (f k) m ov" and "n_PoolName m = p_Name pool" and "k = ObjKey (p_Namespace pool) (nodeName pool i)"
  shows "others_kept pool f (f(k := ov))"
  using assms
  by (auto simp: others_kept_def other_pools_kept_def other_nodes_kept_def pool_nodes_def touched_node_def
      split: option.splits)

lemma saved_is_touched: "saved_node old n v \<Longrightarrow> touched_node old n (Some v)"
  by (auto simp: saved_node_def touched_node_def split: option.splits)

lemma own_keeps_others:
  assumes "\<And>v. f k = Some v \<Longrightarrow> n_PoolName v = p_Name pool" and "\<And>v. ov = Some v \<Longrightarrow> n_PoolName v = p_Name pool"
    and "key_ns k = p_Namespace pool"
  shows "others_kept pool f (f(k := ov))"
  using assms by (auto simp: others_kept_def other_pools_kept_def other_nodes_kept_def pool_nodes_def)

context pool_service
begin

lemma Provision_others:
  assumes "invar s" and "lc_Provision svc pool s = ((n, e), s')"
  shows "invar s' \<and> others_kept pool (nodes s) (nodes s')"
proof (cases e)
  case None
  then obtain v where v: "invar s'" "n_PoolName n = p_Name pool"
    "nkey n = ObjKey (p_Namespace pool) (nodeName pool (pool_size (nodes s) pool + 1))"
    "nodes s' = (nodes s)(nkey n \<mapsto> v)" "saved_node (nodes s (nkey n)) n v"
    using Provision_ok [OF assms(1)] assms(2) by blast
  from touched_keeps_others [of "nodes s" "nkey n", OF saved_is_touched [OF v(5)] v(2,3)] v show ?thesis by simp
next
  case (Some err)
  then consider "invar s'" "nodes s' = nodes s"
    | m ov where "invar s'" "n_PoolName m = p_Name pool"
      "nkey m = ObjKey (p_Namespace pool) (nodeName pool (pool_size (nodes s) pool + 1))"
      "nodes s' = (nodes s)(nkey m := ov)" "touched_node (nodes s (nkey m)) m ov"
    using Provision_err [OF assms(1), of pool n err s'] assms(2) by blast
  then show ?thesis
  proof cases
    case (2 m ov)
    from touched_keeps_others [of "nodes s" "nkey m", OF 2(5,2,3)] 2 show ?thesis by simp
  qed simp
qed

lemma Deprovision_others:
  assumes "invar s" and own: "in_pool (nodes s) (p_Namespace pool) (p_Name pool) n"
    and "lc_Deprovision svc n s = (r, s')"
  shows "invar s' \<and> others_kept pool (nodes s) (nodes s') \<and>
         (\<forall>m. in_pool (nodes s) (p_Namespace pool) (p_Name pool) m \<longrightarrow> in_pool (nodes s') (p_Namespace pool) (p_Name pool) m)"
proof -
  have k: "key_ns (nkey n) = p_Namespace pool" "n_PoolName n = p_Name pool"
    "\<And>v. nodes s (nkey n) = Some v \<Longrightarrow> n_PoolName v = p_Name pool"
    using own by (auto simp: in_pool_def nkey_def)
  obtain ov where s': "invar s'" "nodes s' = (nodes s)(nkey n := ov)" and t: "ov = None \<or> touched_node (nodes s (nkey n)) n ov"
    using Deprovision_ok [OF assms(1)] Deprovision_err [OF assms(1)] assms(3) by (cases r) blast+
  have ov: "\<And>v. ov = Some v \<Longrightarrow> n_PoolName v = p_Name pool"
    using t k by (auto simp: touched_node_def split: option.splits)
  from own_keeps_others [of "nodes s" "nkey n" pool ov, OF k(3) ov k(1)] s' ov show ?thesis
    by (auto simp: in_pool_def)
qed

lemma scaleUp_others:
  "invar s \<Longrightarrow> scaleUp svc pool w i k s = (r, s') \<Longrightarrow> invar s' \<and> others_kept pool (nodes s) (nodes s')"
proof (induction k arbitrary: pool w i s)
  case (Suc k)
  obtain n e s1 where pr: "lc_Provision svc pool s = ((n, e), s1)" by (metis prod.exhaust)
  note p = Provision_others [OF Suc.prems(1) pr]
  have "s' = s1 \<or> (\<exists>w i. scaleUp svc (pool\<lparr>p_Nodes := p_Nodes pool @ [n_Name n]\<rparr>) w i k s1 = (r, s'))"
    using Suc.prems(2) pr by (cases e) auto
  with Suc.IH [of s1 "pool\<lparr>p_Nodes := p_Nodes pool @ [n_Name n]\<rparr>"] p show ?case
    by (auto intro: others_trans)
qed simp

lemma scaleDown_others:
  "invar s \<Longrightarrow> \<forall>n \<in> set w. in_pool (nodes s) (p_Namespace pool) (p_Name pool) n \<Longrightarrow> scaleDown svc q w k s = (r, s') \<Longrightarrow>
   invar s' \<and> others_kept pool (nodes s) (nodes s')"
proof (induction k arbitrary: w s)
  case (Suc k)
  show ?case
  proof (cases "w = []")
    case False
    obtain e s1 where dp: "lc_Deprovision svc (last w) s = (e, s1)" by fastforce
    note d = Deprovision_others [OF Suc.prems(1) _ dp, of pool]
    have l: "in_pool (nodes s) (p_Namespace pool) (p_Name pool) (last w)" using Suc.prems(2) False by simp
    have "s' = s1 \<or> scaleDown svc q (butlast w) k s1 = (r, s')"
      using Suc.prems(3) dp False by (cases e) (auto split: if_splits)
    moreover have "\<forall>n \<in> set (butlast w). in_pool (nodes s1) (p_Namespace pool) (p_Name pool) n"
      using d [OF l] Suc.prems(2) by (auto dest: in_set_butlastD)
    ultimately show ?thesis using Suc.IH [of s1 "butlast w"] d [OF l] by (auto intro: others_trans)
  qed (use Suc.prems in auto)
qed simp

lemma Reconcile_others:
  assumes "invar s" and "PoolService_Reconcile repo svc pool s = (r, s')"
  shows "invar s' \<and> others_kept pool (nodes s) (nodes s')"
proof -
  let ?ns = "p_Namespace pool" and ?p = "p_Name pool"
  obtain l s1 where l: "repo_ListByPool repo ?ns ?p s = (l, s1)" by fastforce
  show ?thesis
  proof (cases l)
    case (Inl e)
    with assms l List_err [OF assms(1)] show ?thesis by (auto simp: PoolService_Reconcile_def)
  next
    case (Inr xs)
    note ls = List_ok [OF assms(1) l [unfolded Inr]]
    have in1: "\<forall>n \<in> set xs. in_pool (nodes s1) ?ns ?p n" using ls by (auto simp: in_pool_def)
    obtain a d where ad: "DesiredScaleActions pool (len32 xs) = (a, d)" by fastforce
    then have zero: "a = 0 \<or> d = 0" by (auto simp: DesiredScaleActions_def split: if_splits)
    obtain p2 w2 e2 s2 where up: "scaleUp svc pool xs 0 (nat (sint a)) s1 = ((p2, w2, e2), s2)"
      by (metis prod.exhaust)
    obtain p3 w3 e3 s3 where dn: "scaleDown svc p2 w2 (nat (sint d)) s2 = ((p3, w3, e3), s3)"
      by (metis prod.exhaust)
    have s2: "invar s2 \<and> others_kept pool (nodes s) (nodes s2)" using scaleUp_others [OF _ up] ls by simp
    have s3: "invar s3 \<and> others_kept pool (nodes s) (nodes s3)"
    proof (cases "a = 0")
      case True
      with up have "w2 = xs" "s2 = s1" by auto
      with scaleDown_others [OF _ _ dn, of pool] in1 ls show ?thesis by auto
    next
      case False
      with zero dn have "s3 = s2" by simp
      with s2 show ?thesis by simp
    qed
    have "s' = s2 \<or> s' = s3"
      using assms(2) l Inr ad up dn by (cases e2; cases e3) (auto simp: PoolService_Reconcile_def Let_def)
    with s2 s3 show ?thesis by blast
  qed
qed

end

section \<open>The VNode controller\<close>

context node_service
begin

lemma Save_same_pools:
  assumes "invar s" and "nodes s (nkey n) \<noteq> None" and "repo_Save repo n s = (r, s')"
  shows "invar s' \<and> (\<forall>ns p. pool_nodes (nodes s') ns p = pool_nodes (nodes s) ns p)"
proof -
  obtain v ov where v: "nodes s (nkey n) = Some v" and i: "invar s'"
    and ov: "nodes s' = (nodes s)(nkey n := ov)" "touched_node (nodes s (nkey n)) n ov"
    using Save_touched [OF assms(1,3)] assms(2) by auto
  then obtain v' where "ov = Some v'" "n_PoolName v' = n_PoolName v"
    by (auto simp: touched_node_def split: option.splits)
  with i v ov(1) show ?thesis by (auto simp: pool_nodes_def split: if_splits)
qed

lemma UpdateStatus_same_pools:
  assumes inv: "invar s" and st: "nodes s (nkey n) \<noteq> None" and run: "UpdateStatus repo reg n s = (r, s')"
  shows "invar s' \<and> (\<forall>ns p. pool_nodes (nodes s') ns p = pool_nodes (nodes s) ns p)"
proof -
  obtain r1 s1 where rg: "reg_Register reg n (n_TenantRef n) s = (r1, s1)" by fastforce
  obtain r2 s2 where up: "reg_UpdateNodeStatus reg n (n_TenantRef n) s = (r2, s2)" by fastforce
  have t: "invar t \<and> nodes t = nodes s" if "t \<in> {s1, s2}" for t
    using that Register_frame [OF inv rg] UpdateNodeStatus_frame [OF inv up] by auto
  consider "s' = s \<or> s' = s1 \<or> s' = s2"
    | m rs t where "nkey m = nkey n" "t \<in> {s1, s2}" "repo_Save repo m t = (rs, s')"
    using UpdateStatus_cases [OF run rg up] by blast
  then show ?thesis
  proof cases
    case 1
    then show ?thesis using t inv by auto
  next
    case 2
    then show ?thesis using Save_same_pools [OF _ _ 2(3)] t [OF 2(2)] st by auto
  qed
qed

end

context pool_controller
begin

lemma vnode_Reconcile_keeps:
  assumes inv: "controller_invar objs pobjs s"
    and run: "main_vnodeReconciler vnodes tenants env req s = (out, s')"
  shows "controller_invar objs pobjs s' \<and> pobjs (ms_world s') = pobjs (ms_world s) \<and>
         (\<forall>ns p. pool_nodes (cluster_nodes objs s') ns p = pool_nodes (cluster_nodes objs s) ns p)"
proof -
  obtain g s1 where g: "onw (oc_Get vnodes req) s = (g, s1)" by fastforce
  then have gw: "oc_Get vnodes req (ms_world s) = (g, ms_world s1)" and c: "ms_clients s1 = ms_clients s"
    by (auto dest: onw_D)
  have o: "objs (ms_world s1) = objs (ms_world s)"
    using store.Get_ok [of req "ms_world s"] store.Get_err [of req "ms_world s"] gw by (cases g) auto
  note v = same_world_views [OF o c]
  have p: "pobjs (ms_world s1) = pobjs (ms_world s)" using vnode_frame.Get_frame [OF gw] .
  show ?thesis
  proof (cases g)
    case (Inl e)
    with run g have "s' = s1" by (simp add: main_vnodeReconciler_def VNodeReconciler_Reconcile_def)
    with v p inv show ?thesis by simp
  next
    case (Inr cr)
    obtain r s2 where up: "UpdateStatus (main_nodeRepo vnodes env) (NewRegistrar tenants env) (crToVNode cr) s1 = (r, s2)"
      by fastforce
    have s': "s' = s2"
      using run g Inr up
      by (auto simp: main_vnodeReconciler_def VNodeReconciler_Reconcile_def main_nodeSvc_sel Let_def
          split: sum.splits if_splits)
    have "objs (ms_world s1) req = Some cr" "om_key (vn_Meta cr) = req"
      using store.Get_ok [of req "ms_world s"] gw Inr o store.objs_key by auto
    moreover have "nkey (crToVNode cr) = om_key (vn_Meta cr)" by (simp add: crToVNode_def nkey_def om_key_def)
    ultimately have st: "cluster_nodes objs s1 (nkey (crToVNode cr)) \<noteq> None"
      by (simp add: cluster_nodes_def stored_nodes_def)
    have i: "operator_invar objs s1" "cache_all (clientset_framed pobjs) (ms_clients s1)"
      using inv v by (auto simp: controller_invar_def)
    show ?thesis
      using ns.UpdateStatus_same_pools [OF i(1) st up] pf.UpdateStatus_frame [OF i(2) up] v p s'
      by (simp add: controller_invar_def)
  qed
qed

section \<open>The pool controller\<close>

lemma pool_stored_key: "pobjs w k = Some cr \<Longrightarrow> vp_key cr = k"
  by (rule pl.objs_key)

lemma svc_others:
  assumes "controller_invar objs pobjs s" and "pm_Reconcile svc pool s = (r, s')"
  shows "others_kept pool (cluster_nodes objs s) (cluster_nodes objs s')"
  using ps.Reconcile_others [of s pool r s'] assms by (simp add: controller_invar_def main_poolSvc_sel)

lemma status_others:
  assumes "onw (updatePoolStatus api k mutate) s = (r, s')" and "j \<noteq> k"
  shows "pobjs (ms_world s') j = pobjs (ms_world s) j"
  using updatePoolStatus_effect [OF conjunct1 [OF onw_D [OF assms(1)]]] assms(2) by (cases r) auto

lemma removeFinalizer_others:
  assumes "onw (env_retry env (tryRemoveFinalizer api k)) s = (r, s')" and "j \<noteq> k"
  shows "pobjs (ms_world s') j = pobjs (ms_world s) j"
proof -
  have once: "pobjs w' j = pobjs w j" if run: "tryRemoveFinalizer api k w = (r, w')" for w r w'
  proof -
    obtain g w1 where g: "oc_Get pools k w = (g, w1)" by fastforce
    have w1: "pobjs w1 = pobjs w" "\<And>cr. g = Inr cr \<Longrightarrow> om_key (vp_Meta cr) = k"
      using pl.Get_ok [of k w _ w1] pl.Get_err [of k w _ w1] pl.objs_key g by (cases g; fastforce)+
    show ?thesis
    proof (cases g)
      case (Inl e)
      with run g w1 show ?thesis by (simp add: tryRemoveFinalizer_def split: if_splits)
    next
      case (Inr cr)
      let ?x = "cr\<lparr>vp_Meta := (vp_Meta cr)\<lparr>om_Finalizers := removeAll poolFinalizer (om_Finalizers (vp_Meta cr))\<rparr>\<rparr>"
      have u: "oc_Update pools ?x w1 = (r, w')" using run g Inr by (simp add: tryRemoveFinalizer_def)
      show ?thesis
        using pl.Update_ok [of ?x w1 _ w'] pl.Update_err [of ?x w1 _ w'] u w1 Inr assms(2) by (cases r) auto
    qed
  qed
  show ?thesis
    by (rule store.retry_frame [of "tryRemoveFinalizer api k" "\<lambda>w. pobjs w j"])
      (use once onw_D [OF assms(1)] in blast)+
qed

lemma handleDeletion_others:
  assumes inv: "controller_invar objs pobjs s" and run: "handleDeletion api svc cr s = (out, s')"
    and j: "j \<noteq> vp_key cr"
  shows "pobjs (ms_world s') j = pobjs (ms_world s) j \<and>
         others_kept (crToPoolModel cr) (cluster_nodes objs s) (cluster_nodes objs s')"
proof (cases "poolFinalizer \<in> set (om_Finalizers (vp_Meta cr))")
  case False
  with run show ?thesis by (simp add: handleDeletion_def)
next
  case True
  let ?pool = "(crToPoolModel cr)\<lparr>p_NodeCount := 0, p_DeletionPending := True\<rparr>"
  let ?kept = "\<lambda>t. controller_invar objs pobjs t \<and> pobjs (ms_world t) j = pobjs (ms_world s) j \<and>
    others_kept (crToPoolModel cr) (cluster_nodes objs s) (cluster_nodes objs t)"
  obtain r1 s1 where st: "onw (updatePoolStatus api (vp_key cr) deletingStatus) s = (r1, s1)" by fastforce
  obtain p e s2 where rc: "pm_Reconcile svc ?pool s1 = ((p, e), s2)" by (metis prod.exhaust)
  obtain l s3 where ls: "onw (oc_List vnodes (Some (om_Namespace (vp_Meta cr)))
      (fmupd LabelVNodePool (om_Name (vp_Meta cr)) fmempty)) s2 = (l, s3)" by fastforce
  obtain r4 s4 where rf: "onw (env_retry env (tryRemoveFinalizer api (vp_key cr))) s3 = (r4, s4)" by fastforce
  have k1: "?kept s1" using status_keeps [OF inv st] status_others [OF st j] by simp
  have k2: "?kept s2"
    using svc_keeps [OF conjunct1 [OF k1] rc] svc_others [OF conjunct1 [OF k1] rc] k1
    by (auto intro: others_trans)
  have w: "objs (ms_world s3) = objs (ms_world s2)" "ms_clients s3 = ms_clients s2" "pobjs (ms_world s3) = pobjs (ms_world s2)"
    using ls store.List_ok store.List_err vnode_frame.List_frame by (cases l; fastforce dest!: onw_D)+
  have k3: "?kept s3" using same_world_views [OF w(1,2)] w(3) k2 by simp
  have k4: "?kept s4"
    using removeFinalizer_keeps [OF conjunct1 [OF k3] rf] removeFinalizer_others [OF rf j] k3 by simp
  have "s' = s2 \<or> s' = s3 \<or> s' = s4"
    using run True st rc ls rf
    by (cases e; cases l; cases r4) (auto simp: handleDeletion_def Let_def split: if_splits)
  with k2 k3 k4 show ?thesis by metis
qed

lemma marked_others:
  assumes inv: "controller_invar objs pobjs s" and run: "reconcileMarked api svc cr s = (out, s')"
    and live: "om_DeletionTimestamp (vp_Meta cr) = None" and j: "j \<noteq> vp_key cr"
  shows "pobjs (ms_world s') j = pobjs (ms_world s) j \<and>
         others_kept (crToPoolModel cr) (cluster_nodes objs s) (cluster_nodes objs s')"
proof -
  have svc: "controller_invar objs pobjs t \<and> pobjs (ms_world t) = pobjs (ms_world s) \<and>
      others_kept (crToPoolModel cr) (cluster_nodes objs s) (cluster_nodes objs t)"
    if "pm_Reconcile svc (crToPoolModel cr) s = (r, t)" for r t
    using svc_keeps [OF inv that] svc_others [OF inv that] by simp
  show ?thesis
    using live run
  proof (cases rule: marked_branches)
    case (invalid e r)
    then show ?thesis using status_keeps [OF inv invalid(3)] status_others [OF invalid(3) j] by simp
  next
    case (panicked e q)
    then show ?thesis using svc [OF panicked(4)] by simp
  next
    case (failed m e q s1 r)
    then show ?thesis using svc [OF failed(3)] status_keeps [OF _ failed(4)] status_others [OF failed(4) j] by simp
  next
    case (finished q s1 r)
    then show ?thesis using svc [OF finished(3)] status_keeps [OF _ finished(4)] status_others [OF finished(4) j] by simp
  qed
qed

lemma pool_Reconcile_others:
  assumes inv: "controller_invar objs pobjs s"
    and run: "main_poolReconciler pools patch vnodes tenants env req s = (out, s')" and j: "j \<noteq> req"
  shows "pobjs (ms_world s') j = pobjs (ms_world s) j \<and>
         other_pools_kept (key_ns req) (key_name req) (cluster_nodes objs s) (cluster_nodes objs s') \<and>
         (case pobjs (ms_world s) req of
            None \<Rightarrow> cluster_nodes objs s' = cluster_nodes objs s
          | Some cr \<Rightarrow> other_nodes_kept (crToPoolModel cr) (cluster_nodes objs s) (cluster_nodes objs s'))"
proof -
  have ns: "p_Namespace (crToPoolModel cr) = key_ns req" "p_Name (crToPoolModel cr) = key_name req" if "vp_key cr = req" for cr
    using that by (auto simp: crToPoolModel_def om_key_def)
  from run inv show ?thesis
  proof (cases rule: Reconcile_branches)
    case (unread s1)
    then show ?thesis
      by (simp add: other_pools_kept_def other_nodes_kept_def split: option.split)
  next
    case (deletion cr s1)
    then show ?thesis
      using handleDeletion_others [OF deletion(5,2), of j] j ns [OF deletion(6)] by (simp add: others_kept_def)
  next
    case (live cr s1 cr' s2)
    then show ?thesis
      using marked_others [OF live(8,2,3), of j] j ns [OF live(4)] by (simp add: others_kept_def)
  qed
qed

end

section \<open>Properties\<close>

text \<open>
  C9: pools leave each other alone, up to node names. A reconciliation of a pool, whatever its
  outcome, leaves the nodes of every other pool stored and in their pool, also those of a pool
  of the same name in another namespace, and writes no other pool object. A node of another pool
  is not changed at all, unless it lies in the namespace of the pool and has a name that the
  pool gives to its own nodes (the display name of the pool need not be unique).
\<close>

theorem pool_reconcile_isolated:
  assumes "pool_controller vnodes tenants env objs pools pobjs pgone patch"
    and "controller_invar objs pobjs s"
    and "main_poolReconciler pools patch vnodes tenants env req s = (out, s')"
    and "ObjKey ns p \<noteq> req"
  shows "pool_nodes (cluster_nodes objs s') ns p = pool_nodes (cluster_nodes objs s) ns p \<and>
         pobjs (ms_world s') (ObjKey ns p) = pobjs (ms_world s) (ObjKey ns p) \<and>
         (\<forall>k \<in> pool_nodes (cluster_nodes objs s) ns p.
            (\<forall>cr i. pobjs (ms_world s) req = Some cr \<longrightarrow> k \<noteq> ObjKey (key_ns req) (nodeName (crToPoolModel cr) i)) \<longrightarrow>
            cluster_nodes objs s' k = cluster_nodes objs s k)"
proof -
  note o = pool_controller.pool_Reconcile_others [OF assms]
  have "cluster_nodes objs s' k = cluster_nodes objs s k"
    if k: "k \<in> pool_nodes (cluster_nodes objs s) ns p"
      and free: "\<forall>cr i. pobjs (ms_world s) req = Some cr \<longrightarrow> k \<noteq> ObjKey (key_ns req) (nodeName (crToPoolModel cr) i)" for k
  proof (cases "pobjs (ms_world s) req")
    case (Some cr)
    have "vp_key cr = req" using pool_controller.pool_stored_key [OF assms(1) Some] .
    then have ns: "p_Namespace (crToPoolModel cr) = key_ns req" "p_Name (crToPoolModel cr) = key_name req"
      by (auto simp: crToPoolModel_def om_key_def)
    with k free o Some assms(4) show ?thesis
      by (cases req) (auto simp: other_nodes_kept_def pool_nodes_def)
  qed (use o in simp)
  with o assms(4) show ?thesis by (cases req) (auto simp: other_pools_kept_def)
qed

end
