(* ===== verification/Execution_Frame.thy ===== *)
theory Execution_Frame
  imports Execution_Hosts Registrar
begin

text \<open>
  What pod execution leaves alone: a view of the world that every operation of the host pod
  client and of the tenant's pod, ConfigMap and Secret clients keeps is kept by the whole pod
  execution service. The operator's step relation uses it for the VNode and the pool objects.
\<close>

locale host_frame =
  fixes host :: "'w ClusterClient"
    and view :: "'w \<Rightarrow> 'v"
  assumes host_frame:
      "cc_CreatePod host pod w = (r, w') \<Longrightarrow> view w' = view w"
      "cc_DeletePod host ns name w = (r, w') \<Longrightarrow> view w' = view w"
      "cc_GetPod host ns name w = (p, w') \<Longrightarrow> view w' = view w"
      "cc_GetPodStatus host ns name w = (st, w') \<Longrightarrow> view w' = view w"
      "cc_ListPodsByLabels host ns labels w = (ps, w') \<Longrightarrow> view w' = view w"
      "cc_EnsureConfigMap host ns name data bin labels w = (r, w') \<Longrightarrow> view w' = view w"
      "cc_EnsureSecret host ns name bytes labels w = (r, w') \<Longrightarrow> view w' = view w"
begin

lemma cleanupPods_view: "cleanupPods host ps n w = (r, w') \<Longrightarrow> view w' = view w"
proof (induction ps arbitrary: n w)
  case (Cons p ps)
  from Cons.prems show ?case by (auto split: prod.splits sum.splits dest!: Cons.IH host_frame)
qed simp

lemma CleanupPoolPods_view: "CleanupPoolPods host pool w = (r, w') \<Longrightarrow> view w' = view w"
  by (auto simp: CleanupPoolPods_def split: prod.splits sum.splits dest!: cleanupPods_view host_frame)

end

locale execution_frame = host_frame host view
  for host :: "'w ClusterClient" and view :: "'w \<Rightarrow> 'v" +
  fixes cs :: "('q, 'w) clientset"
  assumes tenant_frame: "client_frame (ks_Pods cs) view" "client_frame (ks_ConfigMaps cs) view"
      "client_frame (ks_Secrets cs) view"
begin

lemmas tenant_frames =
  client_frame.Get_frame [OF tenant_frame(1)] client_frame.List_frame [OF tenant_frame(1)]
  client_frame.UpdateStatus_frame [OF tenant_frame(1)]
  client_frame.Get_frame [OF tenant_frame(2)] client_frame.Get_frame [OF tenant_frame(3)]

lemma syncRefs_view: "syncRefs cs host pool refs w = (r, w') \<Longrightarrow> view w' = view w"
proof (induction refs arbitrary: w)
  case (Cons ref refs)
  from Cons.prems show ?case
    by (auto split: if_splits prod.splits sum.splits dest!: Cons.IH tenant_frames host_frame)
qed simp

lemma ensureHostPod_view: "ensureHostPod host pod w = (r, w') \<Longrightarrow> view w' = view w"
  by (auto simp: ensureHostPod_def split: prod.splits sum.splits if_splits dest!: host_frame)

lemma steps_view:
  "ensureStep host src tg result w = (r, w') \<Longrightarrow> view w' = view w"
  "statusStep host tr cs src tg result w = (r, w') \<Longrightarrow> view w' = view w"
  "terminalStep host src tg result w = (r, w') \<Longrightarrow> view w' = view w"
  by (auto simp: ensureStep_def statusStep_def terminalStep_def updateTenantPodStatus_def
      split: prod.splits sum.splits option.splits if_splits
      dest!: host_frame tenant_frames ensureHostPod_view)

lemma executePod_view: "executePod host tr cs pool src t result w = (r, w') \<Longrightarrow> view w' = view w"
  by (auto simp: executePod_def syncPodResources_def split: prod.splits sum.splits flow.splits
      dest!: syncRefs_view steps_view)

lemma executePods_view: "executePods q host tr cs pool srcs desired result w = (r, w') \<Longrightarrow> view w' = view w"
proof (induction srcs arbitrary: desired result w)
  case (Cons src srcs)
  from Cons.prems show ?case
    by (auto simp: Let_def split: sum.splits prod.splits flow.splits dest!: Cons.IH executePod_view)
qed simp

lemma deleteOrphans_view: "deleteOrphans host desired ps result w = (r, w') \<Longrightarrow> view w' = view w"
proof (induction ps arbitrary: result w)
  case (Cons p ps)
  from Cons.prems show ?case by (auto split: if_splits prod.splits sum.splits dest!: Cons.IH host_frame)
qed simp

lemma reconcilePods_view: "reconcilePods q host tr cs pool nodes w = (r, w') \<Longrightarrow> view w' = view w"
  by (auto simp: reconcilePods_def listTenantPodsForNodes_def
      split: prod.splits sum.splits flow.splits if_splits
      dest!: executePods_view deleteOrphans_view host_frame tenant_frames)

end

section \<open>The host pod client\<close>

definition host_framed :: "('w \<Rightarrow> 'v) \<Rightarrow> ('q, 'w) PodClusterClient \<Rightarrow> bool" where
  "host_framed view c \<longleftrightarrow>
     client_frame (pc_Pods c) view \<and> client_frame (pc_ConfigMaps c) view \<and> client_frame (pc_Secrets c) view"

lemma pod_client_host_frame:
  assumes "host_framed view c"
  shows "host_frame (NewPodClusterClient c) view"
proof -
  have p: "client_frame (pc_Pods c) view" and m: "client_frame (pc_ConfigMaps c) view"
    and s: "client_frame (pc_Secrets c) view"
    using assms by (simp_all add: host_framed_def)
  have "CreatePod c pod w = (r, w') \<Longrightarrow> view w' = view w" for pod w r w'
    by (auto simp: CreatePod_def split: prod.splits sum.splits dest!: client_frame.Create_frame [OF p])
  moreover have "DeletePod c ns name w = (r, w') \<Longrightarrow> view w' = view w" for ns name w r w'
    by (auto simp: DeletePod_def split: prod.splits sum.splits dest!: client_frame.Delete_frame [OF p])
  moreover have "GetPod c ns name w = (r, w') \<Longrightarrow> view w' = view w" for ns name w r w'
    by (auto simp: GetPod_def split: prod.splits sum.splits dest!: client_frame.Get_frame [OF p])
  moreover have "GetPodStatus c ns name w = (r, w') \<Longrightarrow> view w' = view w" for ns name w r w'
    by (auto simp: GetPodStatus_def split: prod.splits sum.splits dest!: client_frame.Get_frame [OF p])
  moreover have "ListPodsByLabels c ns labels w = (r, w') \<Longrightarrow> view w' = view w" for ns labels w r w'
    by (auto simp: ListPodsByLabels_def split: prod.splits sum.splits dest!: client_frame.List_frame [OF p])
  moreover have "EnsureConfigMap c ns name data bin labels w = (r, w') \<Longrightarrow> view w' = view w"
    for ns name data bin labels w r w'
    by (auto simp: EnsureConfigMap_def split: prod.splits sum.splits if_splits
        dest!: client_frame.Get_frame [OF m] client_frame.Create_frame [OF m] client_frame.Update_frame [OF m])
  moreover have "EnsureSecret c ns name data labels w = (r, w') \<Longrightarrow> view w' = view w"
    for ns name data labels w r w'
    by (auto simp: EnsureSecret_def split: prod.splits sum.splits if_splits
        dest!: client_frame.Get_frame [OF s] client_frame.Create_frame [OF s] client_frame.Update_frame [OF s])
  ultimately show ?thesis
    by (auto simp: host_frame_def)
qed

lemma pod_client_execution_frame:
  assumes "host_framed view c" and "clientset_framed view cs"
  shows "execution_frame (NewPodClusterClient c) view cs"
  using pod_client_host_frame [OF assms(1)] assms(2)
  by (simp add: execution_frame_def execution_frame_axioms_def clientset_framed_def)

end
