(* ===== verification/Operator_Steps.thy ===== *)
theory Operator_Steps
  imports Pool_Isolation Execution_Frame PodSync_Reconciler
begin

text \<open>
  The running operator as a state machine. A step is a reconciliation of one of the three
  controllers that \<open>cmd/vnode/main.go\<close> starts, for any object and with any outcome, a restart of
  the process, which loses the cached tenant clients, or a change made by somebody else. A
  reconciliation is one step here, while the process runs its controllers concurrently: API
  calls of two reconciliations do not interleave in this relation. That limit matters. The VNode
  controller writes a node that it read earlier, and the write creates the node when it is gone
  by then; \<open>late_write_strands_node\<close> shows that a write that comes after the deletion of the
  pool leaves a node without a pool.

  Others may create, change, mark and delete pools and remove or change VNodes; they leave the
  cleanup finalizer of a pool in place and neither create VNodes nor move them to another pool.
  A deletion mark, once set, stays (the API server does not take it back).
\<close>

section \<open>The step relation\<close>

definition others_write ::
  "('w \<Rightarrow> objkey \<Rightarrow> VNodeCR option) \<Rightarrow> ('w \<Rightarrow> objkey \<Rightarrow> VNodePoolCR option) \<Rightarrow> 'w \<Rightarrow> 'w \<Rightarrow> bool"
where
  "others_write objs pobjs w w' \<longleftrightarrow>
     (\<forall>k v'. objs w' k = Some v' \<longrightarrow>
        (\<exists>v. objs w k = Some v \<and> PoolRef (vn_Spec v') = PoolRef (vn_Spec v) \<and>
           fmlookup (om_Labels (vn_Meta v')) LabelVNodePool = fmlookup (om_Labels (vn_Meta v)) LabelVNodePool)) \<and>
     (\<forall>k. holds_finalizer (pobjs w k) \<longrightarrow> holds_finalizer (pobjs w' k)) \<and>
     (\<forall>k cr. pobjs w k = Some cr \<longrightarrow> holds_finalizer (Some cr) \<longrightarrow> om_DeletionTimestamp (vp_Meta cr) \<noteq> None \<longrightarrow>
        (\<exists>cr'. pobjs w' k = Some cr' \<and> om_DeletionTimestamp (vp_Meta cr') \<noteq> None))"

inductive operator_step ::
  "('w \<Rightarrow> objkey \<Rightarrow> VNodeCR option) \<Rightarrow> ('w \<Rightarrow> objkey \<Rightarrow> VNodePoolCR option) \<Rightarrow>
   (VNodePoolCR, 'w) objclient \<Rightarrow> (VNodePoolCR \<Rightarrow> VNodePoolCR \<Rightarrow> 'w \<Rightarrow> unit res \<times> 'w) \<Rightarrow>
   (VNodeCR, 'w) objclient \<Rightarrow> ('q, 'w) PodClusterClient \<Rightarrow> string \<Rightarrow>
   ('c, 'q, 'w) TenantClientManager \<Rightarrow> ('q, 'w) sysenv \<Rightarrow>
   ('q, 'w) mstate \<Rightarrow> ('q, 'w) mstate \<Rightarrow> bool"
  for objs pobjs pools patch vnodes c rc tenants env
where
  pool_reconciled:
    "main_poolReconciler pools patch vnodes tenants env req s = (out, s') \<Longrightarrow>
     operator_step objs pobjs pools patch vnodes c rc tenants env s s'"
| vnode_reconciled:
    "main_vnodeReconciler vnodes tenants env req s = (out, s') \<Longrightarrow>
     operator_step objs pobjs pools patch vnodes c rc tenants env s s'"
| pods_synchronised:
    "main_podSyncReconciler pools patch vnodes c rc tenants env req s = (out, s') \<Longrightarrow>
     operator_step objs pobjs pools patch vnodes c rc tenants env s s'"
| restarted:
    "operator_step objs pobjs pools patch vnodes c rc tenants env s (s\<lparr>ms_clients := fmempty\<rparr>)"
| others_wrote:
    "others_write objs pobjs (ms_world s) w' \<Longrightarrow>
     operator_step objs pobjs pools patch vnodes c rc tenants env s (s\<lparr>ms_world := w'\<rparr>)"

definition operator_initial :: "('w \<Rightarrow> objkey \<Rightarrow> VNodeCR option) \<Rightarrow> ('q, 'w) mstate \<Rightarrow> bool" where
  "operator_initial objs s \<longleftrightarrow> ms_clients s = fmempty \<and> (\<forall>k. objs (ms_world s) k = None)"

text \<open>No pool has nodes without holding the finalizer.\<close>

definition nodes_held ::
  "('w \<Rightarrow> objkey \<Rightarrow> VNodeCR option) \<Rightarrow> ('w \<Rightarrow> objkey \<Rightarrow> VNodePoolCR option) \<Rightarrow> ('q, 'w) mstate \<Rightarrow> bool"
where
  "nodes_held objs pobjs s \<longleftrightarrow>
     (\<forall>ns p. pool_nodes (cluster_nodes objs s) ns p \<noteq> {} \<longrightarrow>
        holds_finalizer (pobjs (ms_world s) (ObjKey ns p)))"

lemma same_meta_finalizer:
  "map_option vp_Meta a = map_option vp_Meta b \<Longrightarrow> holds_finalizer a = holds_finalizer b"
  by (cases a; cases b) (simp_all add: holds_finalizer_def)

lemma nodes_held_keeps:
  assumes "nodes_held objs pobjs s"
    and "\<And>ns p. pool_nodes (cluster_nodes objs s') ns p \<subseteq> pool_nodes (cluster_nodes objs s) ns p"
    and "\<And>k. holds_finalizer (pobjs (ms_world s) k) \<Longrightarrow> holds_finalizer (pobjs (ms_world s') k)"
  shows "nodes_held objs pobjs s'"
  using assms by (fastforce simp: nodes_held_def)

section \<open>Every step keeps the invariant\<close>

locale whole_operator =
  pool_controller vnodes tenants env objs pools pobjs pgone patch
  for vnodes :: "(VNodeCR, 'w) objclient"
    and tenants :: "('c, 'q, 'w) TenantClientManager"
    and env :: "('q, 'w) sysenv"
    and objs :: "'w \<Rightarrow> objkey \<Rightarrow> VNodeCR option"
    and pools :: "(VNodePoolCR, 'w) objclient"
    and pobjs :: "'w \<Rightarrow> objkey \<Rightarrow> VNodePoolCR option"
    and pgone :: "VNodePoolCR \<Rightarrow> VNodePoolCR option"
    and patch :: "VNodePoolCR \<Rightarrow> VNodePoolCR \<Rightarrow> 'w \<Rightarrow> unit res \<times> 'w" +
  fixes c :: "('q, 'w) PodClusterClient"
  assumes host_objs: "host_framed objs c" and host_pobjs: "host_framed pobjs c"
begin

lemma tryConditions_effect:
  assumes "tryExecutionConditions api k a b rs msg w = (r, w')"
  shows "objs w' = objs w \<and> map_option vp_Meta (pobjs w' j) = map_option vp_Meta (pobjs w j)"
proof (cases "oc_Get pools k w")
  case (Pair g w1)
  show ?thesis
  proof (cases g)
    case (Inl e)
    with assms Pair pl.Get_err [of k w e w1] pool_frame.Get_frame [OF Pair] show ?thesis
      by (auto simp: tryExecutionConditions_def split: if_splits)
  next
    case (Inr cr)
    let ?x = "cr\<lparr>vp_Status := executionStatus a b rs msg (env_now env w1) (vp_Status cr)\<rparr>"
    have g: "pobjs w1 = pobjs w" "pobjs w k = Some cr" "om_key (vp_Meta cr) = k" "objs w1 = objs w"
      using pl.Get_ok [of k w cr w1] Pair Inr pl.objs_key pool_frame.Get_frame [OF Pair] by auto
    obtain u w2 where u: "patch cr ?x w1 = (u, w2)" by fastforce
    have w2: "pobjs w2 = pobjs w \<or> pobjs w2 = (pobjs w)(k \<mapsto> ?x)" "objs w2 = objs w"
      using Patch_ok [of w1 ?x cr _ w2] Patch_err [of cr ?x w1 _ w2] Patch_frame [OF u] u g
      by (cases u; auto simp: pool_upds_def)+
    have "w' = w1 \<or> w' = w2"
      using assms Pair Inr u
      by (auto simp: tryExecutionConditions_def Let_def split: if_splits sum.splits prod.splits)
    with w2 g show ?thesis by (auto simp: holds_finalizer_def split: if_splits)
  qed
qed

lemma conditions_effect:
  assumes "updateExecutionConditions api k a b rs msg w = (r, w')"
  shows "objs w' = objs w \<and> map_option vp_Meta (pobjs w' j) = map_option vp_Meta (pobjs w j)"
proof -
  let ?view = "\<lambda>w. (objs w, map_option vp_Meta (pobjs w j))"
  have "?view w' = ?view w"
    by (rule store.retry_frame [of "tryExecutionConditions api k a b rs msg" ?view])
      (use tryConditions_effect assms in \<open>auto simp: updateExecutionConditions_def\<close>)
  then show ?thesis by simp
qed

lemma ReconcilePool_keeps:
  assumes inv: "controller_invar objs pobjs s"
    and run: "ReconcilePool (main_podExecSvc vnodes c rc tenants env) pool s = (out, s')"
  shows "controller_invar objs pobjs s' \<and> objs (ms_world s') = objs (ms_world s) \<and>
         pobjs (ms_world s') = pobjs (ms_world s)"
proof -
  let ?same = "\<lambda>t. controller_invar objs pobjs t \<and> objs (ms_world t) = objs (ms_world s) \<and>
    pobjs (ms_world t) = pobjs (ms_world s)"
  obtain g s1 where g: "TenantClients_Get tenants (p_TenantRef pool) s = (g, s1)" by fastforce
  have c: "cache_all (clientset_framed objs) (ms_clients s)" "cache_all (clientset_framed pobjs) (ms_clients s)"
    using inv by (simp_all add: controller_invar_def operator_invar_def)
  note g1 = tc.Get_cache [OF c(1) g] and g2 = tcp.Get_cache [OF c(2) g]
  have s1: "?same s1"
    using g1 g2 inv same_objs_view [of objs "ms_world s1" "ms_world s"]
    by (simp add: controller_invar_def operator_invar_def)
  obtain l s2 where l: "repo_ListByPool (main_nodeRepo vnodes env) (p_Namespace pool) (p_Name pool) s1 = (l, s2)"
    by fastforce
  have "NodeRepository_ListByPool vnodes (p_Namespace pool) (p_Name pool) (ms_world s1) = (l, ms_world s2)"
    "ms_clients s2 = ms_clients s1"
    using l onw_D [of "NodeRepository_ListByPool vnodes (p_Namespace pool) (p_Name pool)" s1 l s2]
    by (simp_all add: main_nodeRepo_def)
  then have v: "objs (ms_world s2) = objs (ms_world s1)" "pobjs (ms_world s2) = pobjs (ms_world s1)"
    "ms_clients s2 = ms_clients s1"
    using store.List_ok store.List_err vnode_frame.List_frame
    by (auto simp: NodeRepository_ListByPool_def split: prod.splits sum.splits)
  have s2: "?same s2" using same_world_views [OF v(1,3)] v s1 by simp
  show ?thesis
  proof (cases "g = Inl (projl g) \<or> l = Inl (projl l)")
    case True
    with run g l s1 s2 show ?thesis
      by (cases g; cases l) (auto simp: ReconcilePool_def main_podExecSvc_def NewPodExecutionService_def)
  next
    case False
    then obtain cs nodes where cs: "g = Inr cs" "l = Inr nodes" by (metis sum.collapse)
    then have fr: "clientset_framed objs cs" "clientset_framed pobjs cs" using g1 g2 by auto
    note e = execution_frame.reconcilePods_view [OF pod_client_execution_frame [OF host_objs fr(1)]]
      execution_frame.reconcilePods_view [OF pod_client_execution_frame [OF host_pobjs fr(2)]]
    have "onw (reconcilePods (env_q env) (NewPodClusterClient c) (PodService (KataAdapter rc)) cs pool nodes) s2 = (out, s')"
      using run g l cs by (simp add: ReconcilePool_def main_podExecSvc_def NewPodExecutionService_def)
    from onw_D [OF this] e have "objs (ms_world s') = objs (ms_world s2)" "pobjs (ms_world s') = pobjs (ms_world s2)"
      "ms_clients s' = ms_clients s2" by blast+
    with same_world_views [of s' s2] s2 show ?thesis by simp
  qed
qed

lemma podSync_keeps:
  assumes inv: "controller_invar objs pobjs s"
    and run: "main_podSyncReconciler pools patch vnodes c rc tenants env req s = (out, s')"
  shows "controller_invar objs pobjs s' \<and> cluster_nodes objs s' = cluster_nodes objs s \<and>
         map_option vp_Meta (pobjs (ms_world s') j) = map_option vp_Meta (pobjs (ms_world s) j)"
proof -
  let ?same = "\<lambda>t. controller_invar objs pobjs t \<and> cluster_nodes objs t = cluster_nodes objs s \<and>
    map_option vp_Meta (pobjs (ms_world t) j) = map_option vp_Meta (pobjs (ms_world s) j)"
  have got: "?same t" if "onw (oc_Get (pa_pools api) req) s = (g, t)" for g t
    using that Get_pool [OF inv, of req g t] by simp
  show "?same s'"
    using run [unfolded main_podSyncReconciler_def]
  proof (cases rule: podsync_cases)
    case (stopped r)
    then show ?thesis using got by blast
  next
    case (cleanup cr s1 n e)
    have w: "CleanupPoolPods (NewPodClusterClient c) (crToPoolModel cr) (ms_world s1) = ((n, e), ms_world s')"
      "ms_clients s' = ms_clients s1"
      using onw_D [OF cleanup(4)] by (simp_all add: HostClient_def main_podExecSvc_def NewPodExecutionService_def)
    have "objs (ms_world s') = objs (ms_world s1)" "pobjs (ms_world s') = pobjs (ms_world s1)"
      using host_frame.CleanupPoolPods_view [OF pod_client_host_frame [OF host_objs] w(1)]
        host_frame.CleanupPoolPods_view [OF pod_client_host_frame [OF host_pobjs] w(1)] by simp_all
    with got [OF cleanup(1)] same_world_views [of s' s1] w(2) show ?thesis by simp
  next
    case (executed cr s1 res e s2)
    have s1: "?same s1" by (rule got [OF executed(1)])
    note k = ReconcilePool_keeps [OF conjunct1 [OF s1] executed(4)]
    then have s2: "?same s2" using s1 by (simp add: cluster_nodes_def [abs_def] stored_nodes_def [abs_def])
    show ?thesis
    proof (cases "s' = s2")
      case False
      then obtain a b rs msg r where "onw (updateExecutionConditions api (vp_key cr) a b rs msg) s2 = (r, s')"
        using executed(5) by blast
      note u = onw_D [OF this]
      with conditions_effect [OF conjunct1 [OF u]] same_world_views [of s' s2] s2 show ?thesis by simp
    qed (use s2 in simp)
  qed
qed

abbreviation steps_to :: "string \<Rightarrow> ('q, 'w) mstate \<Rightarrow> ('q, 'w) mstate \<Rightarrow> bool" where
  "steps_to rc \<equiv> operator_step objs pobjs pools patch vnodes c rc tenants env"

lemma step_invariant:
  assumes "steps_to rc s s'" and "controller_invar objs pobjs s \<and> nodes_held objs pobjs s"
  shows "controller_invar objs pobjs s' \<and> nodes_held objs pobjs s'"
  using assms
proof (induction rule: operator_step.induct)
  case (pool_reconciled req s out s')
  have inv: "controller_invar objs pobjs s" and held: "nodes_held objs pobjs s"
    using pool_reconciled(2) by simp_all
  have mine: "controller_invar objs pobjs s' \<and>
      (pool_nodes (cluster_nodes objs s') (key_ns req) (key_name req) \<noteq> {} \<longrightarrow>
       holds_finalizer (pobjs (ms_world s') req))"
    using Reconcile_invariant [OF inv _ pool_reconciled(1)] held by (cases req) (simp add: nodes_held_def)
  have "holds_finalizer (pobjs (ms_world s') (ObjKey ns p))"
    if ne: "pool_nodes (cluster_nodes objs s') ns p \<noteq> {}" for ns p
  proof (cases "ObjKey ns p = req")
    case True
    with mine ne show ?thesis by (cases req) simp
  next
    case other: False
    with pool_Reconcile_others [OF inv pool_reconciled(1) other] held ne show ?thesis
      by (cases req) (auto simp: other_pools_kept_def nodes_held_def)
  qed
  with mine show ?case by (simp add: nodes_held_def)
next
  case (vnode_reconciled req s out s')
  then show ?case
    using vnode_Reconcile_keeps [of s req out s'] by (auto simp: nodes_held_def)
next
  case (pods_synchronised req s out s')
  have k: "controller_invar objs pobjs s' \<and> cluster_nodes objs s' = cluster_nodes objs s \<and>
      map_option vp_Meta (pobjs (ms_world s') j) = map_option vp_Meta (pobjs (ms_world s) j)" for j
    using podSync_keeps [of s rc req out s' j] pods_synchronised by blast
  then have "holds_finalizer (pobjs (ms_world s') j) = holds_finalizer (pobjs (ms_world s) j)" for j
    using same_meta_finalizer by blast
  with k pods_synchronised show ?case by (simp add: nodes_held_def)
next
  case (restarted s)
  then show ?case
    by (simp add: controller_invar_def operator_invar_def cache_all_def nodes_held_def cluster_nodes_def [abs_def])
next
  case (others_wrote s w')
  have "labels_agree objs w'"
    using others_wrote by (fastforce simp: controller_invar_def operator_invar_def labels_agree_def others_write_def)
  moreover have "nodes_held objs pobjs (s\<lparr>ms_world := w'\<rparr>)"
    by (rule nodes_held_keeps [of objs pobjs s])
      (use others_wrote in \<open>fastforce simp: pool_nodes_def cluster_nodes_def stored_nodes_def others_write_def crToNode_def\<close>)+
  ultimately show ?case using others_wrote by (simp add: controller_invar_def operator_invar_def)
qed

text \<open>
  A status reconciliation of a node that was read earlier, in a state in which the node and its
  pool are gone: the save creates the node again and the pool does not come back.
\<close>

lemma UpdateStatus_pobjs:
  assumes inv: "controller_invar objs pobjs s"
    and run: "UpdateStatus (main_nodeRepo vnodes env) (NewRegistrar tenants env) node s = (r, s')"
  shows "pobjs (ms_world s') = pobjs (ms_world s)"
  using pf.UpdateStatus_frame [OF _ run] inv by (simp add: controller_invar_def)

lemma late_write:
  assumes inv: "controller_invar objs pobjs s" and retry: "shouldRetryRegistration node"
    and gone: "cluster_nodes objs s (nkey node) = None"
    and reg: "Register tenants env node (n_TenantRef node) s = (Inr (), s1)"
    and run: "UpdateStatus (main_nodeRepo vnodes env) (NewRegistrar tenants env) node s = (Inr u, s')"
  shows "\<exists>v. cluster_nodes objs s' (nkey node) = Some v \<and> n_PoolName v = n_PoolName node"
proof -
  have o: "operator_invar objs s" using inv by (simp add: controller_invar_def)
  have "reg_Register (NewRegistrar tenants env) node (n_TenantRef node) s = (Inr (), s1)"
    using reg by (simp add: NewRegistrar_def)
  note s1 = ns.Register_frame [OF o this] this
  have "\<not> (n_Phase node = [] \<and> n_Conditions node = [])"
    using retry by (auto simp: shouldRetryRegistration_def split: if_splits)
  then have "saveReady (main_nodeRepo vnodes env) node s1 = (Inr u, s')"
    using retry s1 run by (auto simp: UpdateStatus_def retryRegistration_def split: if_splits)
  then have "repo_Save (main_nodeRepo vnodes env) (readyNode node) s1 = (Inr (), s')"
    using store.Save_no_context
    by (auto simp: saveReady_def main_nodeRepo_def split: prod.splits sum.splits if_splits dest!: onw_D)
  from ns.Save_ok [OF _ this] s1 gone show ?thesis by (auto simp: saved_node_def)
qed

lemma initial_invariant:
  "operator_initial objs s \<Longrightarrow> controller_invar objs pobjs s \<and> nodes_held objs pobjs s"
  by (simp add: operator_initial_def controller_invar_def operator_invar_def labels_agree_def cache_all_def
      nodes_held_def pool_nodes_def cluster_nodes_def stored_nodes_def)

lemma reachable_invariant:
  assumes "(steps_to rc)\<^sup>*\<^sup>* s0 s" and "operator_initial objs s0"
  shows "controller_invar objs pobjs s \<and> nodes_held objs pobjs s"
  using assms(1)
proof (induction rule: rtranclp_induct)
  case base
  show ?case by (rule initial_invariant [OF assms(2)])
next
  case (step t u)
  show ?case by (rule step_invariant [OF step(2,3)])
qed

end

section \<open>Properties\<close>

text \<open>
  The limit of one reconciliation at a time. The VNode controller has read \<open>node\<close>, which is not
  registered yet, and before its status reconciliation runs the node and its pool are deleted.
  When the registration and the save that follow succeed, the node is stored again while its
  pool does not exist: the invariant of the atomic steps is broken.
\<close>

lemma late_write_strands_node:
  assumes "whole_operator vnodes tenants env objs pools pobjs pgone patch c"
    and "controller_invar objs pobjs s" and "shouldRetryRegistration node"
    and "cluster_nodes objs s (nkey node) = None"
    and "pobjs (ms_world s) (ObjKey (n_Namespace node) (n_PoolName node)) = None"
    and "Register tenants env node (n_TenantRef node) s = (Inr (), s1)"
    and "UpdateStatus (main_nodeRepo vnodes env) (NewRegistrar tenants env) node s = (Inr u, s')"
  shows "\<exists>v. cluster_nodes objs s' (nkey node) = Some v \<and>
           pobjs (ms_world s') (ObjKey (key_ns (nkey node)) (n_PoolName v)) = None"
  using whole_operator.late_write [OF assms(1-4,6,7)] whole_operator.UpdateStatus_pobjs [OF assms(1,2,7)] assms(5)
  by (auto simp: nkey_def)

text \<open>
  C3: with one reconciliation at a time, no node is ever stranded. Consider the states that the
  running operator can reach from a cluster without VNodes through any sequence of whole
  reconciliations of the three controllers (failed ones included), restarts and changes made by
  others, where others neither create VNodes, nor move them to another pool, nor take the
  cleanup finalizer away. In all of them the pool object of every stored node exists and holds
  the cleanup finalizer, so that the deletion of the pool will pass through the cleanup. Two
  reconciliations whose API calls interleave are not covered.
\<close>

theorem no_stranded_nodes:
  assumes "whole_operator vnodes tenants env objs pools pobjs pgone patch c"
    and "operator_initial objs s0"
    and "(operator_step objs pobjs pools patch vnodes c rc tenants env)\<^sup>*\<^sup>* s0 s"
    and "cluster_nodes objs s k = Some n"
  shows "\<exists>cr. pobjs (ms_world s) (ObjKey (key_ns k) (n_PoolName n)) = Some cr \<and>
           poolFinalizer \<in> set (om_Finalizers (vp_Meta cr))"
proof -
  have "k \<in> pool_nodes (cluster_nodes objs s) (key_ns k) (n_PoolName n)"
    using assms(4) by (simp add: pool_nodes_def)
  then have "holds_finalizer (pobjs (ms_world s) (ObjKey (key_ns k) (n_PoolName n)))"
    using whole_operator.reachable_invariant [OF assms(1,3,2)] by (auto simp: nodes_held_def)
  then show ?thesis by (simp add: holds_finalizer_def split: option.splits)
qed

end
