(* ===== verification/Reference_World.thy ===== *)
theory Reference_World
  imports Reference_Cluster PodSync_Reconciler VNode_Reconciler Operator_Steps
begin

text \<open>
  A reference world: one host cluster and two tenant clusters, each kind of object served by
  the in-memory client of \<open>Reference_Cluster\<close>, with a common fault schedule and a clock that
  advances with every request. The kubeconfig of a tenant decides which of the two clusters its
  clientset talks to. The server of this world adds the not-ready taint to a new node and
  defaults new pods the way \<open>pod_created\<close> says. The interpretations show that the wired operator, running on
  this world, meets every assumption of the development; the witnesses evaluate on it.
\<close>

section \<open>The world\<close>

record refcluster =
  rc_nodes :: "string CoreNode list"
  rc_leases :: "Lease list"
  rc_namespaces :: "Namespace list"
  rc_pods :: "string CorePod list"
  rc_configmaps :: "ConfigMap list"
  rc_secrets :: "Secret list"

definition emptyCluster :: refcluster where
  "emptyCluster =
     \<lparr>rc_nodes = [], rc_leases = [], rc_namespaces = [], rc_pods = [], rc_configmaps = [], rc_secrets = []\<rparr>"

record refworld =
  rw_vnodes :: "VNodeCR list"
  rw_pools :: "VNodePoolCR list"
  rw_secrets :: "Secret list"
  rw_configmaps :: "ConfigMap list"
  rw_pods :: "string CorePod list"
  rw_tnodes :: "string CoreNode list"
  rw_tleases :: "Lease list"
  rw_tnamespaces :: "Namespace list"
  rw_tpods :: "string CorePod list"
  rw_tconfigmaps :: "ConfigMap list"
  rw_tsecrets :: "Secret list"
  rw_other :: refcluster
  rw_faults :: "injected list"
  rw_clock :: int

definition emptyWorld :: refworld where
  "emptyWorld =
     \<lparr>rw_vnodes = [], rw_pools = [], rw_secrets = [], rw_configmaps = [], rw_pods = [],
      rw_tnodes = [], rw_tleases = [], rw_tnamespaces = [], rw_tpods = [], rw_tconfigmaps = [],
      rw_tsecrets = [], rw_other = emptyCluster, rw_faults = [], rw_clock = 0\<rparr>"

definition rw_tick :: "refworld \<Rightarrow> injected \<times> refworld" where
  "rw_tick w =
     (case rw_faults w of
        [] \<Rightarrow> (Pass, w\<lparr>rw_clock := rw_clock w + 1\<rparr>)
      | f # fs \<Rightarrow> (f, w\<lparr>rw_faults := fs, rw_clock := rw_clock w + 1\<rparr>))"

definition born :: "refworld \<Rightarrow> ObjectMeta \<Rightarrow> ObjectMeta" where
  "born w m = m\<lparr>om_UID := ''uid-'' @ itoa_int (rw_clock w), om_CreationTimestamp := rw_clock w\<rparr>"

definition vnode_st :: "(VNodeCR, refworld) store" where
  "vnode_st =
     \<lparr>st_get = rw_vnodes, st_put = (\<lambda>xs w. w\<lparr>rw_vnodes := xs\<rparr>), st_tick = rw_tick,
      st_key = (\<lambda>cr. om_key (vn_Meta cr)), st_labels = (\<lambda>cr. om_Labels (vn_Meta cr)),
      st_mk = (\<lambda>w x. x\<lparr>vn_Meta := born w (vn_Meta x), vn_Status := \<lparr>vs_Phase = [], vs_Conditions = []\<rparr>\<rparr>),
      st_upd = (\<lambda>old x. Some (vnode_upd old x)), st_upds = vnode_upds, st_gone = vnode_gone\<rparr>"

definition secret_st :: "(Secret, refworld) store" where
  "secret_st =
     \<lparr>st_get = rw_secrets, st_put = (\<lambda>xs w. w\<lparr>rw_secrets := xs\<rparr>), st_tick = rw_tick,
      st_key = (\<lambda>x. om_key (ks_Meta x)), st_labels = (\<lambda>x. om_Labels (ks_Meta x)),
      st_mk = (\<lambda>w x. x\<lparr>ks_Meta := born w (ks_Meta x)\<rparr>),
      st_upd = (\<lambda>old x. Some x), st_upds = (\<lambda>old x. x), st_gone = (\<lambda>x. None)\<rparr>"

definition notReadyTaint :: CoreTaint where
  "notReadyTaint = \<lparr>ct_Key = ''node.kubernetes.io/not-ready'', ct_Value = [], ct_Effect = ''NoSchedule''\<rparr>"

definition tnode_st :: "(string CoreNode, refworld) store" where
  "tnode_st =
     \<lparr>st_get = rw_tnodes, st_put = (\<lambda>xs w. w\<lparr>rw_tnodes := xs\<rparr>), st_tick = rw_tick,
      st_key = (\<lambda>x. om_key (kn_Meta x)), st_labels = (\<lambda>x. om_Labels (kn_Meta x)),
      st_mk = (\<lambda>w x. x\<lparr>kn_Meta := born w (kn_Meta x), kn_Taints := kn_Taints x @ [notReadyTaint]\<rparr>),
      st_upd = (\<lambda>old x. Some (node_upd old x)), st_upds = node_upds, st_gone = (\<lambda>x. None)\<rparr>"

definition tlease_st :: "(Lease, refworld) store" where
  "tlease_st =
     \<lparr>st_get = rw_tleases, st_put = (\<lambda>xs w. w\<lparr>rw_tleases := xs\<rparr>), st_tick = rw_tick,
      st_key = (\<lambda>x. om_key (kl_Meta x)), st_labels = (\<lambda>x. om_Labels (kl_Meta x)),
      st_mk = (\<lambda>w x. x\<lparr>kl_Meta := born w (kl_Meta x)\<rparr>),
      st_upd = (\<lambda>old x. Some x), st_upds = (\<lambda>old x. x), st_gone = (\<lambda>x. None)\<rparr>"

definition tnamespace_st :: "(Namespace, refworld) store" where
  "tnamespace_st =
     \<lparr>st_get = rw_tnamespaces, st_put = (\<lambda>xs w. w\<lparr>rw_tnamespaces := xs\<rparr>), st_tick = rw_tick,
      st_key = (\<lambda>x. om_key (kns_Meta x)), st_labels = (\<lambda>x. om_Labels (kns_Meta x)),
      st_mk = (\<lambda>w x. x\<lparr>kns_Meta := born w (kns_Meta x)\<rparr>),
      st_upd = (\<lambda>old x. Some x), st_upds = (\<lambda>old x. x), st_gone = (\<lambda>x. None)\<rparr>"

definition tsecret_st :: "(Secret, refworld) store" where
  "tsecret_st = secret_st\<lparr>st_get := rw_tsecrets, st_put := (\<lambda>xs w. w\<lparr>rw_tsecrets := xs\<rparr>)\<rparr>"

definition configmap_st :: "(ConfigMap, refworld) store" where
  "configmap_st =
     \<lparr>st_get = rw_configmaps, st_put = (\<lambda>xs w. w\<lparr>rw_configmaps := xs\<rparr>), st_tick = rw_tick,
      st_key = (\<lambda>x. om_key (km_Meta x)), st_labels = (\<lambda>x. om_Labels (km_Meta x)),
      st_mk = (\<lambda>w x. x\<lparr>km_Meta := born w (km_Meta x)\<rparr>),
      st_upd = (\<lambda>old x. Some x), st_upds = (\<lambda>old x. x), st_gone = (\<lambda>x. None)\<rparr>"

definition tconfigmap_st :: "(ConfigMap, refworld) store" where
  "tconfigmap_st = configmap_st\<lparr>st_get := rw_tconfigmaps, st_put := (\<lambda>xs w. w\<lparr>rw_tconfigmaps := xs\<rparr>)\<rparr>"

text \<open>
  The deletion of a pod that runs on a node marks it first; a pod without a node goes at once.
  A pool goes at once when it has no finalizer.
\<close>

definition pod_gone :: "string CorePod \<Rightarrow> string CorePod option" where
  "pod_gone x =
     (if kp_NodeName x = [] then None
      else Some (x\<lparr>kp_Meta := (kp_Meta x)\<lparr>om_DeletionTimestamp := Some 0\<rparr>\<rparr>))"

definition pool_gone :: "VNodePoolCR \<Rightarrow> VNodePoolCR option" where
  "pool_gone x =
     (if om_Finalizers (vp_Meta x) = [] then None
      else Some (x\<lparr>vp_Meta := (vp_Meta x)\<lparr>om_DeletionTimestamp := Some 0\<rparr>\<rparr>))"

definition pod_st :: "(string CorePod, refworld) store" where
  "pod_st =
     \<lparr>st_get = rw_pods, st_put = (\<lambda>xs w. w\<lparr>rw_pods := xs\<rparr>), st_tick = rw_tick,
      st_key = (\<lambda>x. om_key (kp_Meta x)), st_labels = (\<lambda>x. om_Labels (kp_Meta x)),
      st_mk = (\<lambda>w x. x\<lparr>kp_Meta := born w (kp_Meta x),
                       kp_ServiceAccountName := normalizeServiceAccount (kp_ServiceAccountName x),
                       kp_Containers := map defaultRequests (kp_Containers x),
                       kp_Volumes := map defaultVolume (kp_Volumes x),
                       kp_Status := emptyPodStatus\<rparr>),
      st_upd = (\<lambda>old x. Some (x\<lparr>kp_Status := kp_Status old\<rparr>)),
      st_upds = (\<lambda>old x. old\<lparr>kp_Status := kp_Status x\<rparr>), st_gone = pod_gone\<rparr>"

definition pool_st :: "(VNodePoolCR, refworld) store" where
  "pool_st =
     \<lparr>st_get = rw_pools, st_put = (\<lambda>xs w. w\<lparr>rw_pools := xs\<rparr>), st_tick = rw_tick,
      st_key = (\<lambda>x. om_key (vp_Meta x)), st_labels = (\<lambda>x. om_Labels (vp_Meta x)),
      st_mk = (\<lambda>w x. x\<lparr>vp_Meta := (born w (vp_Meta x))\<lparr>om_Generation := 1\<rparr>,
                       vp_Status := \<lparr>st_Phase = [], st_ReadyNodes = 0, st_TotalNodes = 0, st_Conditions = []\<rparr>\<rparr>),
      st_upd = pool_upd, st_upds = pool_upds, st_gone = pool_gone\<rparr>"

definition tpod_st :: "(string CorePod, refworld) store" where
  "tpod_st = pod_st\<lparr>st_get := rw_tpods, st_put := (\<lambda>xs w. w\<lparr>rw_tpods := xs\<rparr>)\<rparr>"

definition ref_clientset :: "(string, refworld) clientset" where
  "ref_clientset =
     \<lparr>ks_Nodes = mem_client tnode_st, ks_Leases = mem_client tlease_st,
      ks_Namespaces = mem_client tnamespace_st, ks_Pods = mem_client tpod_st,
      ks_ConfigMaps = mem_client tconfigmap_st, ks_Secrets = mem_client tsecret_st\<rparr>"

text \<open>The other tenant cluster: the same servers over stores of its own.\<close>

definition onode_st :: "(string CoreNode, refworld) store" where
  "onode_st = tnode_st\<lparr>st_get := (\<lambda>w. rc_nodes (rw_other w)),
     st_put := (\<lambda>xs w. w\<lparr>rw_other := (rw_other w)\<lparr>rc_nodes := xs\<rparr>\<rparr>)\<rparr>"

definition olease_st :: "(Lease, refworld) store" where
  "olease_st = tlease_st\<lparr>st_get := (\<lambda>w. rc_leases (rw_other w)),
     st_put := (\<lambda>xs w. w\<lparr>rw_other := (rw_other w)\<lparr>rc_leases := xs\<rparr>\<rparr>)\<rparr>"

definition onamespace_st :: "(Namespace, refworld) store" where
  "onamespace_st = tnamespace_st\<lparr>st_get := (\<lambda>w. rc_namespaces (rw_other w)),
     st_put := (\<lambda>xs w. w\<lparr>rw_other := (rw_other w)\<lparr>rc_namespaces := xs\<rparr>\<rparr>)\<rparr>"

definition opod_st :: "(string CorePod, refworld) store" where
  "opod_st = pod_st\<lparr>st_get := (\<lambda>w. rc_pods (rw_other w)),
     st_put := (\<lambda>xs w. w\<lparr>rw_other := (rw_other w)\<lparr>rc_pods := xs\<rparr>\<rparr>)\<rparr>"

definition oconfigmap_st :: "(ConfigMap, refworld) store" where
  "oconfigmap_st = configmap_st\<lparr>st_get := (\<lambda>w. rc_configmaps (rw_other w)),
     st_put := (\<lambda>xs w. w\<lparr>rw_other := (rw_other w)\<lparr>rc_configmaps := xs\<rparr>\<rparr>)\<rparr>"

definition osecret_st :: "(Secret, refworld) store" where
  "osecret_st = secret_st\<lparr>st_get := (\<lambda>w. rc_secrets (rw_other w)),
     st_put := (\<lambda>xs w. w\<lparr>rw_other := (rw_other w)\<lparr>rc_secrets := xs\<rparr>\<rparr>)\<rparr>"

definition ref_other :: "(string, refworld) clientset" where
  "ref_other =
     \<lparr>ks_Nodes = mem_client onode_st, ks_Leases = mem_client olease_st,
      ks_Namespaces = mem_client onamespace_st, ks_Pods = mem_client opod_st,
      ks_ConfigMaps = mem_client oconfigmap_st, ks_Secrets = mem_client osecret_st\<rparr>"

text \<open>The stores that a clientset talks to.\<close>

definition ref_tnodes :: "(string, refworld) clientset \<Rightarrow> refworld \<Rightarrow> objkey \<Rightarrow> string CoreNode option" where
  "ref_tnodes cs = stored_objs (if cs = ref_clientset then tnode_st else onode_st)"

definition ref_tleases :: "(string, refworld) clientset \<Rightarrow> refworld \<Rightarrow> objkey \<Rightarrow> Lease option" where
  "ref_tleases cs = stored_objs (if cs = ref_clientset then tlease_st else olease_st)"

definition ref_tnamespaces :: "(string, refworld) clientset \<Rightarrow> refworld \<Rightarrow> objkey \<Rightarrow> Namespace option" where
  "ref_tnamespaces cs = stored_objs (if cs = ref_clientset then tnamespace_st else onamespace_st)"

definition ref_tpods :: "(string, refworld) clientset \<Rightarrow> refworld \<Rightarrow> objkey \<Rightarrow> string CorePod option" where
  "ref_tpods cs = stored_objs (if cs = ref_clientset then tpod_st else opod_st)"

text \<open>
  Quantities are kept as their text, a non-empty sequence of digits and unit letters.
\<close>

definition ref_quantities :: "string quantities" where
  "ref_quantities =
     \<lparr>q_Parse = (\<lambda>s. if s \<noteq> [] \<and> list_all (\<lambda>c. c \<in> set ''0123456789mkMGi'') s then Some s else None),
      q_New = itoa_int, q_String = (\<lambda>s. s), q_Value = (\<lambda>s. int (atoi s))\<rparr>"

definition ref_env :: "(string, refworld) sysenv" where
  "ref_env =
     \<lparr>env_q = ref_quantities, env_now = rw_clock, env_retry = retry_times 4, env_version = ''dev''\<rparr>"

text \<open>A kubeconfig is a list of bytes; \<open>[2]\<close> is the one of the other tenant cluster.\<close>

definition ref_factory :: "bool \<Rightarrow> (string, refworld) clientset res" where
  "ref_factory other = Inr (if other then ref_other else ref_clientset)"

definition ref_tenants :: "(bool, string, refworld) TenantClientManager" where
  "ref_tenants =
     main_tenantClients (mem_client secret_st)
       (\<lambda>b. if b = [0] then Inl (Errorf ''invalid kubeconfig'') else Inr (b = [2])) ref_factory"

definition ref_patch :: "VNodePoolCR \<Rightarrow> VNodePoolCR \<Rightarrow> refworld \<Rightarrow> unit res \<times> refworld" where
  "ref_patch base x = oc_UpdateStatus (mem_client pool_st) x"

definition ref_hostPods :: "(string, refworld) PodClusterClient" where
  "ref_hostPods =
     \<lparr>pc_q = ref_quantities, pc_Pods = mem_client pod_st, pc_ConfigMaps = mem_client configmap_st,
      pc_Secrets = mem_client secret_st\<rparr>"

abbreviation ref_vnodes :: "(VNodeCR, refworld) objclient" where
  "ref_vnodes \<equiv> mem_client vnode_st"

definition ref_secret :: Secret where
  "ref_secret =
     \<lparr>ks_Meta = emptyMeta\<lparr>om_Name := ''kc'', om_Namespace := ''tenants''\<rparr>,
      ks_Data = fmap_of_list [(''config'', [1])]\<rparr>"

definition ref_other_secret :: Secret where
  "ref_other_secret =
     \<lparr>ks_Meta = emptyMeta\<lparr>om_Name := ''kc2'', om_Namespace := ''tenants''\<rparr>,
      ks_Data = fmap_of_list [(''config'', [2])]\<rparr>"

definition ref_start :: "(string, refworld) mstate" where
  "ref_start = \<lparr>ms_clients = fmempty, ms_world = emptyWorld\<lparr>rw_secrets := [ref_secret]\<rparr>\<rparr>"

definition ref_pool :: VNodePool where
  "ref_pool =
     \<lparr>p_ID = ''uid-p'', p_Name = ''pool'', p_DisplayName = [], p_Namespace = ''ns'',
      p_TenantRef = \<lparr>VClusterName = ''vc'', VClusterNamespace = ''tenants'', KubeconfigSecret = ''kc''\<rparr>,
      p_Mode = PoolModeShared, p_IsolationBackend = ''kata'', p_RuntimeClassName = [], p_NodeCount = 2,
      p_PerNodeResources = \<lparr>CPU = ''4'', Memory = ''16Gi'', Pods = 110\<rparr>,
      p_NodeSelector = fmempty, p_Taints = [], p_Tolerations = [], p_Phase = [], p_ReadyNodes = 0,
      p_Nodes = [], p_DeletionPending = False\<rparr>"

text \<open>A reconciliation of a pool on the reference world.\<close>

definition ref_reconcile ::
  "VNodePool \<Rightarrow> (string, refworld) mstate \<Rightarrow> (VNodePool \<times> goerr option) \<times> (string, refworld) mstate"
where
  "ref_reconcile = pm_Reconcile (main_poolSvc ref_vnodes ref_tenants ref_env)"

text \<open>The world with two provisioned nodes.\<close>

definition ref_two :: "(string, refworld) mstate" where
  "ref_two = snd (ref_reconcile ref_pool ref_start)"

definition vnodes_of :: "string \<Rightarrow> string \<Rightarrow> VNodeCR list \<Rightarrow> VNodeCR list" where
  "vnodes_of ns p crs =
     filter (\<lambda>cr. lookupObj (\<lambda>cr. om_key (vn_Meta cr)) crs (om_key (vn_Meta cr)) = Some cr \<and>
       key_ns (om_key (vn_Meta cr)) = ns \<and> PoolRef (vn_Spec cr) = p) crs"

definition vnode_count :: "VNodePool \<Rightarrow> VNodeCR list \<Rightarrow> nat" where
  "vnode_count pool crs = card (set (map vn_key (vnodes_of (p_Namespace pool) (p_Name pool) crs)))"

section \<open>The stores are well formed\<close>

lemmas ref_store_defs = vnode_st_def secret_st_def tnode_st_def tlease_st_def tnamespace_st_def
  tsecret_st_def configmap_st_def tconfigmap_st_def pod_st_def tpod_st_def pool_st_def
  onode_st_def olease_st_def onamespace_st_def opod_st_def oconfigmap_st_def osecret_st_def

lemma rw_tick_frame [simp]:
  "rw_vnodes (snd (rw_tick w)) = rw_vnodes w" "rw_pools (snd (rw_tick w)) = rw_pools w"
  "rw_secrets (snd (rw_tick w)) = rw_secrets w" "rw_configmaps (snd (rw_tick w)) = rw_configmaps w"
  "rw_pods (snd (rw_tick w)) = rw_pods w" "rw_tnodes (snd (rw_tick w)) = rw_tnodes w"
  "rw_tleases (snd (rw_tick w)) = rw_tleases w" "rw_tnamespaces (snd (rw_tick w)) = rw_tnamespaces w"
  "rw_tpods (snd (rw_tick w)) = rw_tpods w" "rw_tconfigmaps (snd (rw_tick w)) = rw_tconfigmaps w"
  "rw_tsecrets (snd (rw_tick w)) = rw_tsecrets w" "rw_other (snd (rw_tick w)) = rw_other w"
  by (simp_all add: rw_tick_def split: list.split)

lemma born_key [simp]: "om_key (born w m) = om_key m"
  by (simp add: born_def om_key_def)

lemma ref_wf: "well_formed_store vnode_st" "well_formed_store tnode_st" "well_formed_store tlease_st"
  "well_formed_store pool_st" "well_formed_store pod_st" "well_formed_store tpod_st"
  "well_formed_store configmap_st" "well_formed_store secret_st" "well_formed_store tconfigmap_st"
  "well_formed_store tsecret_st"
  "well_formed_store onode_st" "well_formed_store olease_st" "well_formed_store opod_st"
  "well_formed_store oconfigmap_st" "well_formed_store osecret_st"
  by (auto simp: well_formed_store_def ref_store_defs vnode_upd_def vnode_upds_def vnode_gone_def
      node_upd_def node_upds_def pool_upd_def pool_upds_def pod_gone_def pool_gone_def om_key_def born_def
      split: if_splits)

lemma ref_created:
  "vnode_created x (st_mk vnode_st w x)" "node_created n (st_mk tnode_st w n)"
  "lease_created l (st_mk tlease_st w l)" "pool_created p (st_mk pool_st w p)"
  "node_created n (st_mk onode_st w n)" "lease_created l (st_mk olease_st w l)"
  by (auto simp: vnode_created_def node_created_def lease_created_def pool_created_def
      ref_store_defs born_def)

lemma ref_pod_created: "pod_created d (st_mk pod_st w d)" "pod_created d (st_mk tpod_st w d)"
  "pod_created d (st_mk opod_st w d)"
  unfolding pod_created_def
  by (rule exI [of _ "''uid-'' @ itoa_int (rw_clock w)"], rule exI [of _ "rw_clock w"],
      rule exI [of _ "kp_NodeName d"], rule exI [of _ fmempty], rule exI [of _ emptyPodStatus],
      simp add: ref_store_defs born_def)+

lemma ref_vnode_frames:
  "client_frame (mem_client secret_st) (stored_objs vnode_st)"
  "client_frame (mem_client tnode_st) (stored_objs vnode_st)"
  "client_frame (mem_client tlease_st) (stored_objs vnode_st)"
  "client_frame (mem_client tnamespace_st) (stored_objs vnode_st)"
  "client_frame (mem_client pool_st) (stored_objs vnode_st)"
  "client_frame (mem_client tpod_st) (stored_objs vnode_st)"
  "client_frame (mem_client tsecret_st) (stored_objs vnode_st)"
  "client_frame (mem_client tconfigmap_st) (stored_objs vnode_st)"
  "client_frame (mem_client pod_st) (stored_objs vnode_st)"
  "client_frame (mem_client configmap_st) (stored_objs vnode_st)"
  "client_frame (mem_client onode_st) (stored_objs vnode_st)" "client_frame (mem_client olease_st) (stored_objs vnode_st)"
  "client_frame (mem_client onamespace_st) (stored_objs vnode_st)" "client_frame (mem_client opod_st) (stored_objs vnode_st)"
  "client_frame (mem_client oconfigmap_st) (stored_objs vnode_st)" "client_frame (mem_client osecret_st) (stored_objs vnode_st)"
  by (rule mem_client_frame; simp add: stored_objs_def ref_store_defs)+

lemma ref_tenant_frames:
  "client_frame (mem_client tnamespace_st) (stored_objs tnode_st)"
  "client_frame (mem_client tlease_st) (stored_objs tnode_st)"
  "client_frame (mem_client tnode_st) (stored_objs tlease_st)"
  "client_frame (mem_client onamespace_st) (stored_objs onode_st)"
  "client_frame (mem_client olease_st) (stored_objs onode_st)"
  "client_frame (mem_client onode_st) (stored_objs olease_st)"
  by (rule mem_client_frame; simp add: stored_objs_def ref_store_defs)+

lemma ref_pool_frames:
  "client_frame (mem_client vnode_st) (stored_objs pool_st)"
  "client_frame (mem_client secret_st) (stored_objs pool_st)"
  "client_frame (mem_client tnode_st) (stored_objs pool_st)"
  "client_frame (mem_client tlease_st) (stored_objs pool_st)"
  "client_frame (mem_client tnamespace_st) (stored_objs pool_st)"
  "client_frame (mem_client tpod_st) (stored_objs pool_st)"
  "client_frame (mem_client tsecret_st) (stored_objs pool_st)"
  "client_frame (mem_client tconfigmap_st) (stored_objs pool_st)"
  "client_frame (mem_client pod_st) (stored_objs pool_st)"
  "client_frame (mem_client configmap_st) (stored_objs pool_st)"
  "client_frame (mem_client onode_st) (stored_objs pool_st)" "client_frame (mem_client olease_st) (stored_objs pool_st)"
  "client_frame (mem_client onamespace_st) (stored_objs pool_st)" "client_frame (mem_client opod_st) (stored_objs pool_st)"
  "client_frame (mem_client oconfigmap_st) (stored_objs pool_st)" "client_frame (mem_client osecret_st) (stored_objs pool_st)"
  by (rule mem_client_frame; simp add: stored_objs_def ref_store_defs)+

lemma ref_pod_frames:
  "client_frame (mem_client vnode_st) (stored_objs pod_st)"
  "client_frame (mem_client pool_st) (stored_objs pod_st)"
  "client_frame (mem_client secret_st) (stored_objs pod_st)"
  "client_frame (mem_client configmap_st) (stored_objs pod_st)"
  "client_frame (mem_client tpod_st) (stored_objs pod_st)"
  "client_frame (mem_client tsecret_st) (stored_objs pod_st)"
  "client_frame (mem_client tconfigmap_st) (stored_objs pod_st)"
  "client_frame (mem_client opod_st) (stored_objs pod_st)" "client_frame (mem_client osecret_st) (stored_objs pod_st)"
  "client_frame (mem_client oconfigmap_st) (stored_objs pod_st)"
  by (rule mem_client_frame; simp add: stored_objs_def ref_store_defs)+

lemma ref_alive:
  assumes "well_formed_store st" shows "client_alive (mem_client st)"
  using object_api.alive_lemmas [OF mem_client_api [OF assms, of "\<lambda>_ _. True"]] by simp

lemma Resolve_frame:
  assumes "client_frame cl view" and "Resolve cl ns name w = (r, w')"
  shows "view w' = view w"
  using assms(2)
  by (auto simp: Resolve_def split: prod.splits sum.splits option.splits
      dest!: client_frame.Get_frame [OF assms(1)])

section \<open>Interpretations\<close>

lemma ref_clientsets_differ: "ref_other \<noteq> ref_clientset"
proof
  assume eq: "ref_other = ref_clientset"
  let ?w = "emptyWorld\<lparr>rw_tnamespaces := [\<lparr>kns_Meta = emptyMeta\<rparr>]\<rparr>"
  have "isl (fst (oc_Get (ks_Namespaces ref_other) (ObjKey [] []) ?w))" by code_simp
  moreover have "\<not> isl (fst (oc_Get (ks_Namespaces ref_clientset) (ObjKey [] []) ?w))" by code_simp
  ultimately show False using eq by simp
qed

lemma ref_views [simp]:
  "ref_tnodes ref_clientset = stored_objs tnode_st" "ref_tnodes ref_other = stored_objs onode_st"
  "ref_tleases ref_clientset = stored_objs tlease_st" "ref_tleases ref_other = stored_objs olease_st"
  "ref_tnamespaces ref_clientset = stored_objs tnamespace_st" "ref_tnamespaces ref_other = stored_objs onamespace_st"
  "ref_tpods ref_clientset = stored_objs tpod_st" "ref_tpods ref_other = stored_objs opod_st"
  by (simp_all add: ref_tnodes_def ref_tleases_def ref_tnamespaces_def ref_tpods_def ref_clientsets_differ)

lemma ref_factory_iff: "ref_factory b = Inr cs \<longleftrightarrow> cs = (if b then ref_other else ref_clientset)"
  by (auto simp: ref_factory_def)

lemma ref_tenants_sel:
  "tm_factory ref_tenants = ref_factory"
  "tm_RESTConfig ref_tenants = (\<lambda>b. if b = [0] then Inl (Errorf ''invalid kubeconfig'') else Inr (b = [2]))"
  "kr_Resolve (tm_resolver ref_tenants) = Resolve (mem_client secret_st)"
  by (simp_all add: ref_tenants_def main_tenantClients_def SecretKubeconfigResolver_def)

lemma ref_tenant_clients:
  assumes "P ref_clientset" and "P ref_other" and "client_frame (mem_client secret_st) view"
  shows "tenant_clients ref_tenants P view"
  using assms(1,2) Resolve_frame [OF assms(3)]
  by (auto simp: tenant_clients_def ref_tenants_sel ref_factory_iff)

lemma ref_Get_client:
  assumes "fmlookup (ms_clients s) (cacheKey t) = None"
    and "fst (Resolve (mem_client secret_st) (VClusterNamespace t) (KubeconfigSecret t) (ms_world s)) = Inr b" and "b \<noteq> [0]"
  shows "TenantClients_Get ref_tenants t s =
    (Inr (if b = [2] then ref_other else ref_clientset), snd (TenantClients_Get ref_tenants t s))"
  using assms by (auto simp: TenantClients_Get_def ref_tenants_sel ref_factory_def onw_def split: prod.splits)

lemma node_store_api:
  assumes "well_formed_store st" and "\<And>w n. node_created n (st_mk st w n)"
    and "st_key st = (\<lambda>n. om_key (kn_Meta n))" "st_labels st = (\<lambda>n. om_Labels (kn_Meta n))"
    "st_upd st = (\<lambda>old x. Some (node_upd old x))" "st_upds st = node_upds" "st_gone st = (\<lambda>x. None)"
  shows "object_api (mem_client st) (stored_objs st) (\<lambda>n. om_key (kn_Meta n))
      (\<lambda>n. om_Labels (kn_Meta n)) node_created (\<lambda>old x. Some (node_upd old x)) node_upds (\<lambda>n. None)"
  using mem_client_api [OF assms(1), of node_created] assms(2) unfolding assms(3-7) by simp

lemma lease_store_api:
  assumes "well_formed_store st" and "\<And>w n. lease_created n (st_mk st w n)"
    and "st_key st = (\<lambda>n. om_key (kl_Meta n))" "st_labels st = (\<lambda>n. om_Labels (kl_Meta n))"
    "st_upd st = (\<lambda>old x. Some x)" "st_upds st = (\<lambda>old x. x)" "st_gone st = (\<lambda>x. None)"
  shows "object_api (mem_client st) (stored_objs st) (\<lambda>n. om_key (kl_Meta n))
      (\<lambda>n. om_Labels (kl_Meta n)) lease_created (\<lambda>old x. Some x) (\<lambda>old x. x) (\<lambda>n. None)"
  using mem_client_api [OF assms(1), of lease_created] assms(2) unfolding assms(3-7) by simp

lemma ref_tenant_api:
  "object_api (mem_client tnode_st) (stored_objs tnode_st) (\<lambda>n. om_key (kn_Meta n)) (\<lambda>n. om_Labels (kn_Meta n))
      node_created (\<lambda>old x. Some (node_upd old x)) node_upds (\<lambda>n. None)"
  "object_api (mem_client onode_st) (stored_objs onode_st) (\<lambda>n. om_key (kn_Meta n)) (\<lambda>n. om_Labels (kn_Meta n))
      node_created (\<lambda>old x. Some (node_upd old x)) node_upds (\<lambda>n. None)"
  "object_api (mem_client tlease_st) (stored_objs tlease_st) (\<lambda>n. om_key (kl_Meta n)) (\<lambda>n. om_Labels (kl_Meta n))
      lease_created (\<lambda>old x. Some x) (\<lambda>old x. x) (\<lambda>n. None)"
  "object_api (mem_client olease_st) (stored_objs olease_st) (\<lambda>n. om_key (kl_Meta n)) (\<lambda>n. om_Labels (kl_Meta n))
      lease_created (\<lambda>old x. Some x) (\<lambda>old x. x) (\<lambda>n. None)"
  by (rule node_store_api [OF ref_wf(2) ref_created(2)] node_store_api [OF ref_wf(11) ref_created(5)]
      lease_store_api [OF ref_wf(3) ref_created(3)] lease_store_api [OF ref_wf(12) ref_created(6)];
      simp add: ref_store_defs)+

interpretation ref_tenant: tenant_cluster ref_clientset ref_env "stored_objs tnode_st" "stored_objs tlease_st"
  unfolding tenant_cluster_def ref_clientset_def ref_env_def
  by (simp add: ref_tenant_api ref_tenant_frames retry_times_api)

interpretation ref_tenant2: tenant_cluster ref_other ref_env "stored_objs onode_st" "stored_objs olease_st"
  unfolding tenant_cluster_def ref_other_def ref_env_def
  by (simp add: ref_tenant_api ref_tenant_frames retry_times_api)

interpretation ref_operator: operator ref_vnodes ref_tenants ref_env "stored_objs vnode_st"
proof -
  have v: "object_api (mem_client vnode_st) (stored_objs vnode_st) (\<lambda>cr. om_key (vn_Meta cr))
      (\<lambda>cr. om_Labels (vn_Meta cr)) vnode_created (\<lambda>old x. Some (vnode_upd old x)) vnode_upds vnode_gone"
    using mem_client_api [OF ref_wf(1), of vnode_created] ref_created(1)
    by (simp add: vnode_st_def)
  have t: "tenant_clients ref_tenants (clientset_framed (stored_objs vnode_st)) (stored_objs vnode_st)"
    by (rule ref_tenant_clients) (simp_all add: clientset_framed_def ref_clientset_def ref_other_def ref_vnode_frames)
  show "operator ref_vnodes ref_tenants ref_env (stored_objs vnode_st)"
    unfolding operator_def vnode_store_def by (simp add: v t ref_env_def retry_times_api)
qed

lemma ref_operator_axioms: "operator ref_vnodes ref_tenants ref_env (stored_objs vnode_st)"
  by (rule ref_operator.operator_axioms)

lemma ref_pool_api: "object_api (mem_client pool_st) (stored_objs pool_st) (\<lambda>cr. om_key (vp_Meta cr))
    (\<lambda>cr. om_Labels (vp_Meta cr)) pool_created pool_upd pool_upds pool_gone"
  using mem_client_api [OF ref_wf(4), of pool_created] ref_created(4)
  by (simp add: pool_st_def)

interpretation ref_controller: pool_controller ref_vnodes ref_tenants ref_env "stored_objs vnode_st"
  "mem_client pool_st" "stored_objs pool_st" pool_gone ref_patch
proof -
  note p = ref_pool_api
  have t: "tenant_clients ref_tenants (clientset_framed (stored_objs pool_st)) (stored_objs pool_st)"
    by (rule ref_tenant_clients) (simp_all add: clientset_framed_def ref_clientset_def ref_other_def ref_pool_frames)
  have "pool_controller_axioms (stored_objs vnode_st) (stored_objs pool_st) ref_patch"
    using object_api.UpdateStatus_ok [OF p] object_api.UpdateStatus_err [OF p]
      client_frame.UpdateStatus_frame [OF ref_vnode_frames(5)]
    by unfold_locales (fastforce simp: ref_patch_def)+
  then show "pool_controller ref_vnodes ref_tenants ref_env (stored_objs vnode_st)
      (mem_client pool_st) (stored_objs pool_st) pool_gone ref_patch"
    unfolding pool_controller_def
    by (simp add: p t ref_operator_axioms ref_vnode_frames ref_pool_frames)
qed

abbreviation pod_update :: "string CorePod \<Rightarrow> string CorePod \<Rightarrow> string CorePod option" where
  "pod_update \<equiv> \<lambda>old x. Some (x\<lparr>kp_Status := kp_Status old\<rparr>)"

abbreviation pod_update_status :: "string CorePod \<Rightarrow> string CorePod \<Rightarrow> string CorePod" where
  "pod_update_status \<equiv> \<lambda>old x. old\<lparr>kp_Status := kp_Status x\<rparr>"

lemma pod_store_api:
  assumes "well_formed_store st" and "\<And>w d. pod_created d (st_mk st w d)"
    and "st_key st = (\<lambda>p. om_key (kp_Meta p))" "st_labels st = (\<lambda>p. om_Labels (kp_Meta p))"
    "st_upd st = pod_update" "st_upds st = pod_update_status" "st_gone st = pod_gone"
  shows "object_api (mem_client st) (stored_objs st) (\<lambda>p. om_key (kp_Meta p)) (\<lambda>p. om_Labels (kp_Meta p))
      pod_created pod_update pod_update_status pod_gone"
  using mem_client_api [OF assms(1), of pod_created] assms(2) unfolding assms(3-7) by simp

lemma ref_pod_api:
  "object_api (mem_client pod_st) (stored_objs pod_st) (\<lambda>p. om_key (kp_Meta p)) (\<lambda>p. om_Labels (kp_Meta p))
      pod_created pod_update pod_update_status pod_gone"
  "object_api (mem_client tpod_st) (stored_objs tpod_st) (\<lambda>p. om_key (kp_Meta p)) (\<lambda>p. om_Labels (kp_Meta p))
      pod_created pod_update pod_update_status pod_gone"
  "object_api (mem_client opod_st) (stored_objs opod_st) (\<lambda>p. om_key (kp_Meta p)) (\<lambda>p. om_Labels (kp_Meta p))
      pod_created pod_update pod_update_status pod_gone"
  by (rule pod_store_api [OF ref_wf(5) ref_pod_created(1)] pod_store_api [OF ref_wf(6) ref_pod_created(2)]
      pod_store_api [OF ref_wf(13) ref_pod_created(3)]; simp add: ref_store_defs)+

lemma ref_sentinel:
  "oc_Get (mem_client pod_st) k w = (Inl e, w') \<Longrightarrow> \<not> errors_Is e PodTerminating"
  "oc_Delete (mem_client pod_st) k w = (Inl e, w') \<Longrightarrow> \<not> errors_Is e PodTerminating"
  by (auto simp: mem_client_def guarded_def replaceObj_def notFound_def
      split: prod.splits option.splits if_splits elim!: injected_error.elims)

interpretation ref_pods: host_pods ref_hostPods "stored_objs pod_st" pod_update pod_update_status pod_gone
  unfolding host_pods_def host_pods_axioms_def
  using ref_sentinel by (auto simp: ref_hostPods_def ref_pod_api pod_gone_def split: if_splits)

interpretation ref_host: pod_host ref_hostPods ref_clientset "stored_objs pod_st" "stored_objs tpod_st"
  pod_update pod_update_status pod_gone
  unfolding pod_host_def
  by (simp add: ref_pods.host_pods_axioms)
    (simp add: ref_hostPods_def ref_clientset_def ref_pod_api ref_pod_frames ref_alive ref_wf)

interpretation ref_host2: pod_host ref_hostPods ref_other "stored_objs pod_st" "stored_objs opod_st"
  pod_update pod_update_status pod_gone
  unfolding pod_host_def
  by (simp add: ref_pods.host_pods_axioms)
    (simp add: ref_hostPods_def ref_other_def ref_pod_api ref_pod_frames ref_alive ref_wf)

interpretation ref_sync: pod_sync ref_tenants ref_hostPods "stored_objs pod_st" ref_tpods
  pod_update pod_update_status pod_gone ref_vnodes ref_env "mem_client pool_st" ref_patch
proof -
  let ?host = "\<lambda>cs. pod_host ref_hostPods cs (stored_objs pod_st) (ref_tpods cs)
      pod_update pod_update_status pod_gone"
  have t: "tenant_clients ref_tenants ?host (stored_objs pod_st)"
    by (rule ref_tenant_clients) (simp_all add: ref_host.pod_host_axioms ref_host2.pod_host_axioms ref_pod_frames)
  have l: "stored_objs pod_st (ms_world s') = stored_objs pod_st (ms_world s) \<and> ms_clients s' = ms_clients s"
    if "repo_ListByPool (main_nodeRepo ref_vnodes ref_env) ns p s = (r, s')" for ns p r s s'
    using that client_frame.List_frame [OF ref_pod_frames(1)]
    by (auto simp: main_nodeRepo_def NewNodeRepository_def NodeRepository_ListByPool_def
        split: prod.splits sum.splits dest!: onw_D)
  have k: "om_key (vp_Meta cr) = k" if "oc_Get (mem_client pool_st) k w = (Inr cr, w')" for k w cr w'
    using object_api.Get_ok [OF ref_pool_api that] object_api.objs_key [OF ref_pool_api] by blast
  show "pod_sync ref_tenants ref_hostPods (stored_objs pod_st) ref_tpods
      pod_update pod_update_status pod_gone ref_vnodes ref_env (mem_client pool_st) ref_patch"
    unfolding pod_sync_def pod_execution_def pod_execution_axioms_def pod_sync_axioms_def
    using t l k client_frame.UpdateStatus_frame [OF ref_pod_frames(2)] ref_pods.host_pods_axioms
    by (auto simp: ref_patch_def ref_pod_frames ref_env_def retry_times_api)
qed

lemma ref_host_framed: "host_framed (stored_objs vnode_st) ref_hostPods" "host_framed (stored_objs pool_st) ref_hostPods"
  by (simp_all add: host_framed_def ref_hostPods_def ref_vnode_frames ref_pool_frames)

interpretation ref_exec: execution_frame "NewPodClusterClient ref_hostPods" "stored_objs pool_st" ref_clientset
  by (rule pod_client_execution_frame [OF ref_host_framed(2)])
    (simp add: clientset_framed_def ref_clientset_def ref_pool_frames)

interpretation ref_whole: whole_operator ref_vnodes ref_tenants ref_env "stored_objs vnode_st"
  "mem_client pool_st" "stored_objs pool_st" pool_gone ref_patch ref_hostPods
  by (simp add: whole_operator_def whole_operator_axioms_def ref_host_framed ref_controller.pool_controller_axioms)

section \<open>Evaluation on the reference world\<close>

abbreviation ref_objs :: "refworld \<Rightarrow> objkey \<Rightarrow> VNodeCR option" where
  "ref_objs \<equiv> stored_objs vnode_st"

lemma ref_stored [code_unfold]:
  "cluster_nodes ref_objs s k =
     map_option crToNode (lookupObj (\<lambda>cr. om_key (vn_Meta cr)) (rw_vnodes (ms_world s)) k)"
  by (simp add: cluster_nodes_def stored_nodes_def stored_objs_def vnode_st_def)

lemma ref_pool_nodes:
  "pool_nodes (cluster_nodes ref_objs s) ns p = set (map vn_key (vnodes_of ns p (rw_vnodes (ms_world s))))"
  by (auto simp: vnodes_of_def pool_nodes_def ref_stored image_iff dest: lookup_key) (metis lookup_key)

lemma ref_pool_size:
  "pool_size (cluster_nodes ref_objs s) pool = vnode_count pool (rw_vnodes (ms_world s))"
  by (simp only: pool_size_def ref_pool_nodes vnode_count_def)

lemma ref_labels_agree:
  "list_all (\<lambda>cr. fmlookup (om_Labels (vn_Meta cr)) LabelVNodePool = Some (PoolRef (vn_Spec cr)))
     (rw_vnodes w) \<Longrightarrow> labels_agree ref_objs w"
  by (auto simp: labels_agree_def stored_objs_def vnode_st_def list_all_iff dest!: lookup_key)

lemma ref_start_invar: "operator_invar ref_objs ref_start"
  by (simp add: operator_invar_def ref_start_def emptyWorld_def ref_labels_agree cache_all_def)

lemma ref_start_size: "pool_size (cluster_nodes ref_objs ref_start) pool = 0"
  by (simp add: ref_pool_size vnode_count_def vnodes_of_def ref_start_def emptyWorld_def)

lemma ref_start_fresh: "fresh_names (cluster_nodes ref_objs ref_start) pool"
  by (simp add: fresh_names_def ref_stored ref_start_def emptyWorld_def lookupObj_def)

lemma ref_two_run: "snd (fst (ref_reconcile ref_pool ref_start)) = None"
  by code_simp

lemma ref_two_invar: "operator_invar ref_objs ref_two"
  using ref_operator.scales_up [OF ref_start_invar, of ref_pool "fst (fst (ref_reconcile ref_pool ref_start))" ref_two]
    ref_two_run
  by (simp add: ref_start_size ref_start_fresh ref_pool_def ref_two_def ref_reconcile_def prod_eq_iff)

lemma ref_two_size: "pool_size (cluster_nodes ref_objs ref_two) ref_pool = 2"
  unfolding ref_pool_size by code_simp

end
