(* ===== verification/Node_Witnesses.thy ===== *)
theory Node_Witnesses
  imports Reference_World
begin

text \<open>
  Instances of the properties on the reference world and on concrete data: each theorem here
  applies a property at an input where its hypotheses hold.
\<close>

section \<open>Data\<close>

definition wit_mount :: "string \<Rightarrow> VolumeMount" where
  "wit_mount path = \<lparr>vm_Name = ''v'', MountPath = path, ReadOnly = True\<rparr>"

definition wit_container :: Container where
  "wit_container =
     \<lparr>c_Name = ''app'', c_Image = ''nginx'', c_Command = [], c_Args = [''-q''],
      c_Env = [\<lparr>ev_Name = ''A'', ev_Value = ''1''\<rparr>],
      c_VolumeMounts = [wit_mount ''/data'', wit_mount ''/var/run/secrets/kubernetes.io/serviceaccount''],
      c_Resources = \<lparr>Requests = \<lparr>CPU = ''100m'', Memory = [], Pods = 0\<rparr>,
                     Limits = \<lparr>CPU = [], Memory = ''1Gi'', Pods = 0\<rparr>\<rparr>\<rparr>"

definition wit_pod :: PodSpec where
  "wit_pod =
     \<lparr>pod_Name = ''web'', pod_Namespace = ''prod'', pod_Labels = fmap_of_list [(''app'', ''web'')],
      pod_NodeName = [], pod_Containers = [wit_container],
      pod_Volumes = [\<lparr>v_Name = ''v'', v_Type = VolumeTypeSecret, v_Source = ''s''\<rparr>],
      pod_ServiceAccountName = [], pod_AutomountServiceAccountToken = Some False,
      pod_RuntimeClassName = ''kata'', pod_NodeSelector = fmempty, pod_Deleting = False\<rparr>"

definition wit_opts :: TranslateOpts where
  "wit_opts = translateOpts (KataAdapter ''kata'') ref_pool ''vnode-pool-1''"

definition wit_node :: "NodePhase \<Rightarrow> string \<Rightarrow> VNode" where
  "wit_node phase secret =
     \<lparr>n_ID = ''uid-n'', n_Name = ''vnode-pool-1'', n_Namespace = ''ns'', n_PoolName = ''pool'',
      n_TenantRef = (p_TenantRef ref_pool)\<lparr>KubeconfigSecret := secret\<rparr>,
      n_Taints = [], n_Phase = phase, n_Capacity = p_PerNodeResources ref_pool,
      n_Allocatable = p_PerNodeResources ref_pool, n_Conditions = []\<rparr>"

abbreviation ref_repo :: "(string, refworld) mstate NodeRepository" where
  "ref_repo \<equiv> main_nodeRepo ref_vnodes ref_env"

abbreviation ref_reg :: "(string, refworld) mstate NodeRegistrar" where
  "ref_reg \<equiv> NewRegistrar ref_tenants ref_env"

abbreviation wit_key :: objkey where
  "wit_key \<equiv> ObjKey ''ns'' ''vnode-pool-1''"

text \<open>Nodes whose registration failed because the kubeconfig Secret is missing, and the Secret added.\<close>

definition setSecrets :: "Secret list \<Rightarrow> (string, refworld) mstate \<Rightarrow> (string, refworld) mstate" where
  "setSecrets xs s = s\<lparr>ms_world := (ms_world s)\<lparr>rw_secrets := xs\<rparr>\<rparr>"

definition ref_orphan :: "(string, refworld) mstate" where
  "ref_orphan = snd (ref_reconcile ref_pool (setSecrets [] ref_start))"

definition ref_repaired :: "(string, refworld) mstate" where
  "ref_repaired = setSecrets [ref_secret] ref_orphan"

text \<open>The world with two nodes after a restart of the operator: no client is cached.\<close>

definition ref_cold :: "(string, refworld) mstate" where
  "ref_cold = ref_two\<lparr>ms_clients := fmempty\<rparr>"

text \<open>The VNode controller and the lookup of the node on the reference world.\<close>

definition ref_vnodeReconcile :: "(string, refworld) mstate \<Rightarrow> Result res \<times> (string, refworld) mstate" where
  "ref_vnodeReconcile = main_vnodeReconciler ref_vnodes ref_tenants ref_env wit_key"

definition ref_getNode :: "(string, refworld) mstate \<Rightarrow> VNodeCR res \<times> (string, refworld) mstate" where
  "ref_getNode = oc_Get (liftClient ref_vnodes) wit_key"

definition ref_cr :: "(string, refworld) mstate \<Rightarrow> VNodeCR" where
  "ref_cr s = projr (fst (ref_getNode s))"

section \<open>Domain\<close>

theorem DesiredScaleActions_exact_witness:
  "DesiredScaleActions ref_pool 5 = (0, 3) \<and> sint (snd (DesiredScaleActions ref_pool 5)) = 3"
proof -
  have "Validate ref_pool = Inr ()" by code_simp
  from DesiredScaleActions_exact [OF this, of 5] have "sint (snd (DesiredScaleActions ref_pool 5)) = 3"
    by (simp add: split_beta ref_pool_def)
  moreover have "DesiredScaleActions ref_pool 5 = (0, 3)" by code_simp
  ultimately show ?thesis by simp
qed

theorem TranslatePod_name_inject_witness:
  "pod_Namespace wit_pod = pod_Namespace (wit_pod\<lparr>pod_Labels := fmempty\<rparr>) \<and> pod_Name wit_pod = ''web''"
proof -
  have "CHR ''-'' \<notin> set (pod_Namespace wit_pod)" by (simp add: wit_pod_def)
  moreover have "pod_Name (TargetPod (TranslatePod wit_pod wit_opts)) =
      pod_Name (TargetPod (TranslatePod (wit_pod\<lparr>pod_Labels := fmempty\<rparr>) wit_opts))" by code_simp
  ultimately show ?thesis
    using TranslatePod_name_inject [of wit_pod "wit_pod\<lparr>pod_Labels := fmempty\<rparr>" wit_opts]
    by (simp add: wit_pod_def)
qed

theorem Translate_placement_witness:
  "\<exists>t. Translate (KataAdapter ''kata'') wit_pod ref_pool ''vnode-pool-1'' = Inr t \<and>
       pod_Namespace (TargetPod t) = ''ns'' \<and> pod_RuntimeClassName (TargetPod t) = ''kata'' \<and>
       pod_NodeSelector (TargetPod t) = fmempty"
proof -
  have "Validate ref_pool = Inr ()" by code_simp
  from Translate_placement [OF this, of "''kata''" wit_pod "''vnode-pool-1''"] show ?thesis
    by (auto simp: ref_pool_def)
qed

section \<open>Node service\<close>

theorem UpdateStatus_no_context_error_witness:
  "case fst (UpdateStatus ref_repo ref_reg (wit_node NodePhasePending ''nope'') ref_start) of
     Inl e \<Rightarrow> \<not> isContextError e | Inr _ \<Rightarrow> False"
proof -
  let ?run = "UpdateStatus ref_repo ref_reg (wit_node NodePhasePending ''nope'') ref_start"
  have "isl (fst ?run)" by code_simp
  then obtain e s' where "?run = (Inl e, s')" by (metis isl_def prod.collapse)
  with UpdateStatus_no_context_error [OF this] show ?thesis by simp
qed

theorem UpdateStatus_ready_no_write_witness:
  "UpdateStatus ref_repo ref_reg (wit_node NodePhaseReady ''kc'') ref_two =
   (Inr (), snd (reg_UpdateNodeStatus ref_reg (wit_node NodePhaseReady ''kc'')
      (n_TenantRef (wit_node NodePhaseReady ''kc'')) ref_two))"
proof (rule UpdateStatus_ready_no_write)
  show "n_Phase (wit_node NodePhaseReady ''kc'') = NodePhaseReady" by (simp add: wit_node_def)
  have "fst (reg_UpdateNodeStatus ref_reg (wit_node NodePhaseReady ''kc'')
      (n_TenantRef (wit_node NodePhaseReady ''kc'')) ref_two) = Inr ()" by code_simp
  then show "reg_UpdateNodeStatus ref_reg (wit_node NodePhaseReady ''kc'')
      (n_TenantRef (wit_node NodePhaseReady ''kc'')) ref_two =
    (Inr (), snd (reg_UpdateNodeStatus ref_reg (wit_node NodePhaseReady ''kc'')
      (n_TenantRef (wit_node NodePhaseReady ''kc'')) ref_two))" by (simp add: prod_eq_iff)
qed

theorem UpdateStatus_failing_no_rewrite_witness:
  "case reg_Register ref_reg (registrationFailedNode (Errorf ''x'') (wit_node NodePhaseReady ''nope''))
       (n_TenantRef (wit_node NodePhaseReady ''nope'')) ref_start of
     (Inl err2, s1) \<Rightarrow>
       UpdateStatus ref_repo ref_reg (registrationFailedNode (Errorf ''x'') (wit_node NodePhaseReady ''nope'')) ref_start =
       (Inl (Wrap (''retrying tenant node registration for '' @ n_Name (wit_node NodePhaseReady ''nope'')) err2), s1)
   | (Inr _, s1) \<Rightarrow> False"
proof -
  let ?node = "wit_node NodePhaseReady ''nope''"
  let ?run = "reg_Register ref_reg (registrationFailedNode (Errorf ''x'') ?node) (n_TenantRef ?node) ref_start"
  have "case fst ?run of Inl e \<Rightarrow> \<not> isContextError e \<and> \<not> isPanic e | Inr _ \<Rightarrow> False" by code_simp
  then obtain e s1 where run: "?run = (Inl e, s1)" and e: "\<not> isContextError e" "\<not> isPanic e"
    by (cases ?run) (auto split: sum.splits)
  from UpdateStatus_failing_no_rewrite [OF run e, of ref_repo] run show ?thesis by simp
qed

section \<open>Registrar and repository\<close>

lemma ref_first_client:
  assumes "ms_clients s = fmempty" and "rw_faults (ms_world s) = []" and "rw_secrets (ms_world s) = [ref_secret]"
  shows "TenantClients_Get ref_tenants (p_TenantRef ref_pool) s =
    (Inr ref_clientset, snd (TenantClients_Get ref_tenants (p_TenantRef ref_pool) s))"
proof -
  have "fst (Resolve (mem_client secret_st) ''tenants'' ''kc'' (ms_world s)) = Inr [1]"
    using assms(2,3)
    by (simp add: Resolve_def mem_client_def guarded_def secret_st_def rw_tick_def lookupObj_def ref_secret_def om_key_def
        emptyMeta_def fmlookup_of_list)
  with ref_Get_client [of s "p_TenantRef ref_pool" "[1]"] assms(1) show ?thesis by (simp add: ref_pool_def)
qed


text \<open>
  A deregistration with a client built for the occasion removes the Node that was there; one for
  a tenant without a kubeconfig Secret does nothing.
\<close>

theorem Deregister_removes_node_witness:
  "stored_objs tnode_st (ms_world ref_cold) (ObjKey [] ''vnode-pool-1'') \<noteq> None \<and>
   stored_objs tnode_st (ms_world (snd (Deregister ref_tenants (wit_node NodePhaseReady ''kc'')
     (p_TenantRef ref_pool) ref_cold))) (ObjKey [] ''vnode-pool-1'') = None \<and>
   snd (Deregister ref_tenants (wit_node NodePhaseReady []) (n_TenantRef (wit_node NodePhaseReady [])) ref_cold) = ref_cold"
proof -
  let ?run = "Deregister ref_tenants (wit_node NodePhaseReady ''kc'') (p_TenantRef ref_pool) ref_cold"
  let ?none = "Deregister ref_tenants (wit_node NodePhaseReady []) (n_TenantRef (wit_node NodePhaseReady [])) ref_cold"
  have "fst ?run = Inr ()" "fst ?none = Inr ()" by code_simp+
  then have run: "?run = (Inr (), snd ?run)" "?none = (Inr (), snd ?none)" by (simp_all add: prod_eq_iff)
  have "lookupObj (\<lambda>x. om_key (kn_Meta x)) (rw_tnodes (ms_world ref_cold)) (ObjKey [] ''vnode-pool-1'') \<noteq> None" by code_simp
  then have there: "stored_objs tnode_st (ms_world ref_cold) (ObjKey [] ''vnode-pool-1'') \<noteq> None"
    by (simp add: stored_objs_def tnode_st_def)
  have "rw_faults (ms_world ref_cold) = []" by code_simp
  moreover have "rw_secrets (ms_world ref_cold) = [ref_secret]" by code_simp
  ultimately have got: "TenantClients_Get ref_tenants (p_TenantRef ref_pool) ref_cold =
      (Inr ref_clientset, snd (TenantClients_Get ref_tenants (p_TenantRef ref_pool) ref_cold))"
    by (intro ref_first_client) (simp_all add: ref_cold_def)
  have n: "n_Name (wit_node NodePhaseReady ''kc'') = ''vnode-pool-1''" "KubeconfigSecret (p_TenantRef ref_pool) \<noteq> []"
    "KubeconfigSecret (n_TenantRef (wit_node NodePhaseReady [])) = []" by (simp_all add: wit_node_def ref_pool_def)
  have "tenant_cluster ref_clientset ref_env (stored_objs tnode_st) (stored_objs tlease_st) \<longrightarrow>
      stored_objs tnode_st (ms_world (snd ?run)) (ObjKey [] ''vnode-pool-1'') = None"
    using Deregister_removes_node [OF run(1)] n got by (metis (no_types) Pair_inject fun_upd_same sum.inject(2))
  then have "stored_objs tnode_st (ms_world (snd ?run)) (ObjKey [] ''vnode-pool-1'') = None"
    using ref_tenant.tenant_cluster_axioms by blast
  with there Deregister_removes_node [OF run(2)] n(3) show ?thesis by simp
qed

theorem Save_Get_roundtrip_witness:
  "case fst (NodeRepository_Get ref_vnodes ''ns'' ''vnode-pool-1'' (snd (NodeRepository_Save ref_vnodes
      (retry_times 4) rw_clock (wit_node NodePhaseReady ''kc'') (ms_world ref_start)))) of
     Inl _ \<Rightarrow> False
   | Inr v \<Rightarrow> saved_node None (wit_node NodePhaseReady ''kc'') v"
proof -
  let ?node = "wit_node NodePhaseReady ''kc''"
  let ?save = "NodeRepository_Save ref_vnodes (retry_times 4) rw_clock ?node (ms_world ref_start)"
  let ?get = "NodeRepository_Get ref_vnodes ''ns'' ''vnode-pool-1'' (snd ?save)"
  have store: "vnode_store ref_vnodes ref_objs (retry_times 4)"
    using ref_operator.store.vnode_store_axioms by (simp add: ref_env_def)
  have inv: "labels_agree ref_objs (ms_world ref_start)" using ref_start_invar by (simp add: operator_invar_def)
  have "fst ?save = Inr ()" by code_simp
  then have save: "?save = (Inr (), snd ?save)" by (simp add: prod_eq_iff)
  have "\<not> isl (fst ?get)" by code_simp
  then obtain v w'' where get: "?get = (Inr v, w'')" by (metis prod.collapse sum.collapse(2))
  have n: "n_Namespace ?node = ''ns''" "n_Name ?node = ''vnode-pool-1''" by (simp_all add: wit_node_def)
  have "stored_nodes ref_objs (ms_world ref_start) (nkey ?node) = None"
    by (simp add: stored_nodes_def stored_objs_def vnode_st_def ref_start_def emptyWorld_def lookupObj_def)
  with Save_Get_roundtrip [OF store inv save, unfolded n, OF get] get show ?thesis by simp
qed

section \<open>VNode controller\<close>

lemma ref_getNode_ok: "isl (fst (ref_getNode s)) = False \<Longrightarrow> ref_getNode s = (Inr (ref_cr s), snd (ref_getNode s))"
  by (simp add: ref_cr_def prod_eq_iff)

theorem VNodeReconciler_requeues_witness:
  "case fst (ref_vnodeReconcile ref_two) of
     Inl _ \<Rightarrow> False
   | Inr res \<Rightarrow> RequeueAfter res = 0 \<and> vs_Phase (vn_Status (ref_cr ref_two)) \<notin> {NodePhasePending, NodePhaseNotReady}"
proof -
  let ?svc = "main_nodeSvc ref_vnodes ref_tenants ref_env"
  let ?upd = "lc_UpdateStatus ?svc (crToVNode (ref_cr ref_two)) (snd (ref_getNode ref_two))"
  have get: "ref_getNode ref_two = (Inr (ref_cr ref_two), snd (ref_getNode ref_two))"
    by (rule ref_getNode_ok) code_simp
  have upd: "fst ?upd = Inr ()" by code_simp
  have out: "case fst (ref_vnodeReconcile ref_two) of Inl _ \<Rightarrow> False | Inr res \<Rightarrow> RequeueAfter res = 0" by code_simp
  have "?upd = (Inr (), snd ?upd)" using upd by (simp add: prod_eq_iff)
  from VNodeReconciler_requeues [OF get [unfolded ref_getNode_def] this [unfolded ref_getNode_def],
      of _ "fst (ref_vnodeReconcile ref_two)" "snd (ref_vnodeReconcile ref_two)"] out
  show ?thesis
    by (auto simp: ref_vnodeReconcile_def main_vnodeReconciler_def split: sum.splits)
qed

theorem VNodeReconciler_missing_secret_witness:
  "fst (ref_vnodeReconcile ref_orphan) = Inr noRequeue"
proof -
  let ?cr = "ref_cr ref_orphan"
  let ?w = "ms_world ref_orphan"
  let ?get = "oc_Get ref_vnodes wit_key ?w"
  let ?sec = "oc_Get (mem_client secret_st) (ObjKey (VClusterNamespace (n_TenantRef (crToNode ?cr)))
      (KubeconfigSecret (n_TenantRef (crToNode ?cr)))) (snd ?get)"
  have "ref_getNode ref_orphan = (Inr ?cr, snd (ref_getNode ref_orphan))"
    by (rule ref_getNode_ok) code_simp
  then have get: "?get = (Inr ?cr, snd ?get)"
    by (simp add: ref_getNode_def onw_def split: prod.splits)
  have p: "vs_Phase (vn_Status ?cr) = NodePhaseNotReady" by code_simp
  have r: "hasRegisteredCondition (crToNode ?cr)" "registeredConditionFalse (n_Conditions (crToNode ?cr))"
    by code_simp+
  have "Option.is_none (fmlookup (ms_clients ref_orphan) (cacheKey (n_TenantRef (crToNode ?cr))))" by code_simp
  then have c: "fmlookup (ms_clients ref_orphan) (cacheKey (n_TenantRef (crToNode ?cr))) = None"
    by (simp add: Option.is_none_def)
  have "case fst ?sec of Inl e \<Rightarrow> IsNotFound e | Inr _ \<Rightarrow> False" by code_simp
  then obtain e w2 where sec: "?sec = (Inl e, w2)" "IsNotFound e" by (cases ?sec) (auto split: sum.splits)
  have "tm_resolver ref_tenants = SecretKubeconfigResolver (mem_client secret_st)"
    by (simp add: ref_tenants_def main_tenantClients_def)
  from VNodeReconciler_missing_secret [OF this get p r c sec, of ref_env]
  show ?thesis by (simp add: ref_vnodeReconcile_def)
qed

theorem VNodeReconciler_heals_witness:
  "\<exists>v. cluster_nodes ref_objs (snd (ref_vnodeReconcile ref_repaired)) wit_key = Some v \<and> IsReady v"
proof -
  let ?s = ref_repaired and ?cr = "ref_cr ref_repaired"
  let ?reg = "Register ref_tenants ref_env (crToVNode ?cr) (n_TenantRef (crToVNode ?cr)) (snd (ref_getNode ?s))"
  have g: "ref_getNode ?s = (Inr ?cr, snd (ref_getNode ?s))"
    by (rule ref_getNode_ok) code_simp
  then have get: "oc_Get ref_vnodes wit_key (ms_world ?s) = (Inr ?cr, ms_world (snd (ref_getNode ?s)))"
    and s1: "?s\<lparr>ms_world := ms_world (snd (ref_getNode ?s))\<rparr> = snd (ref_getNode ?s)"
    by (auto simp: ref_getNode_def onw_def split: prod.splits)
  have "fst ?reg = Inr ()" by code_simp
  then have reg: "Register ref_tenants ref_env (crToVNode ?cr) (n_TenantRef (crToVNode ?cr))
      (?s\<lparr>ms_world := ms_world (snd (ref_getNode ?s))\<rparr>) = (Inr (), snd ?reg)"
    unfolding s1 by (simp add: prod_eq_iff)
  have retry: "shouldRetryRegistration (crToVNode ?cr)" by code_simp
  have "case fst (ref_vnodeReconcile ?s) of Inl _ \<Rightarrow> False | Inr res \<Rightarrow> RequeueAfter res \<noteq> 0" by code_simp
  then obtain res where run: "ref_vnodeReconcile ?s = (Inr res, snd (ref_vnodeReconcile ?s))"
    and res: "RequeueAfter res \<noteq> 0"
    by (cases "ref_vnodeReconcile ?s") (auto split: sum.splits)
  have "list_all (\<lambda>cr. fmlookup (om_Labels (vn_Meta cr)) LabelVNodePool = Some (PoolRef (vn_Spec cr)))
      (rw_vnodes (ms_world ?s))" by code_simp
  moreover have "fmdom (ms_clients ?s) = {||}" by code_simp
  ultimately have inv: "operator_invar ref_objs ?s"
    by (simp add: operator_invar_def ref_labels_agree cache_all_def fmpred_iff fmlookup_dom_iff) (metis fmdomI fempty_iff)
  from VNodeReconciler_heals [OF ref_operator.operator_axioms inv get retry reg
      run [unfolded ref_vnodeReconcile_def] res]
  show ?thesis by (auto simp: ref_vnodeReconcile_def)
qed

end
