(* ===== verification/Controller_Witnesses.thy ===== *)
theory Controller_Witnesses
  imports Reference_World
begin

text \<open>
  Instances of the properties of the pool controller, of the pod synchronisation and of the
  pod conversions, on the reference world and on concrete data.
\<close>

section \<open>Data\<close>

definition ref_pool_cr :: VNodePoolCR where
  "ref_pool_cr =
     \<lparr>vp_Meta = emptyMeta\<lparr>om_Name := ''pool'', om_Namespace := ''ns'', om_UID := ''uid-p''\<rparr>,
      vp_Spec =
        \<lparr>sp_TenantRef = \<lparr>tr_VClusterName = ''vc'', tr_VClusterNamespace = ''tenants'', tr_KubeconfigSecret = ''kc''\<rparr>,
         sp_NodeCount = 1,
         sp_PerNodeResources = \<lparr>nr_CPU = ''4'', nr_Memory = ''16Gi'', nr_Pods = 110\<rparr>,
         sp_Mode = PoolModeShared, sp_IsolationBackend = ''kata'', sp_RuntimeClassName = [],
         sp_NodeSelector = fmempty, sp_Taints = [], sp_Tolerations = [], sp_DisplayName = []\<rparr>,
      vp_Status = \<lparr>st_Phase = [], st_ReadyNodes = 0, st_TotalNodes = 0, st_Conditions = []\<rparr>\<rparr>"

abbreviation wit_req :: objkey where
  "wit_req \<equiv> ObjKey ''ns'' ''pool''"

definition ref_vnode_cr :: VNodeCR where
  "ref_vnode_cr =
     \<lparr>vn_Meta = emptyMeta\<lparr>om_Name := ''vnode-pool-1'', om_Namespace := ''ns'',
        om_Labels := fmap_of_list [(LabelVNodePool, ''pool'')]\<rparr>,
      vn_Spec = \<lparr>PoolRef = ''pool'', Capacity = \<lparr>nr_CPU = ''4'', nr_Memory = ''16Gi'', nr_Pods = 110\<rparr>\<rparr>,
      vn_Status = \<lparr>vs_Phase = NodePhaseReady, vs_Conditions = []\<rparr>\<rparr>"

definition wit_src :: "string CorePod" where
  "wit_src =
     \<lparr>kp_Meta = emptyMeta\<lparr>om_Name := ''web'', om_Namespace := ''prod'', om_Labels := fmap_of_list [(''app'', ''web'')]\<rparr>,
      kp_NodeName = ''vnode-pool-1'', kp_ServiceAccountName = ''sa'', kp_AutomountServiceAccountToken = None,
      kp_RuntimeClassName = None, kp_NodeSelector = fmempty,
      kp_Containers =
        [\<lparr>kc_Name = ''app'', kc_Image = ''nginx'', kc_Command = [], kc_Args = [], kc_Env = [],
          kc_VolumeMounts = [], kc_Requests = fmap_of_list [(ResourceCPU, ''100m'')], kc_Limits = fmempty\<rparr>],
      kp_Volumes = [], kp_Status = emptyPodStatus\<rparr>"

definition wit_status :: CorePodStatus where
  "wit_status =
     \<lparr>kps_Phase = ''Failed'', kps_PodIP = ''10.0.0.1'', kps_Message = ''evicted'', kps_Reason = ''Evicted'',
      kps_ContainerStatuses =
        [\<lparr>kcs_Name = ''app'', kcs_Ready = False, kcs_RestartCount = 1, kcs_Running = None, kcs_Waiting = None,
          kcs_Terminated = Some \<lparr>kte_ExitCode = 137, kte_Reason = ''OOMKilled'', kte_Message = [],
            kte_StartedAt = Some 1, kte_FinishedAt = Some 2\<rparr>,
          kcs_LastTerminated = None, kcs_Image = ''nginx'', kcs_ContainerID = ''c1''\<rparr>],
      kps_Conditions = [], kps_HostIP = ''10.0.0.2'', kps_StartTime = Some 1\<rparr>"

text \<open>The translation of the source pod, its Kubernetes form, and the pod the server stores.\<close>

definition wit_translation :: PodTranslation where
  "wit_translation =
     TranslatePod (podFromCore ref_quantities wit_src)
       (translateOpts (KataAdapter ''kata'') (crToPoolModel ref_pool_cr) ''vnode-pool-1'')"

definition wit_k8s :: "string CorePod" where
  "wit_k8s = projr (podSpecToK8sPod ref_quantities (TargetPod wit_translation))"

definition wit_stored :: "string CorePod" where
  "wit_stored = st_mk pod_st emptyWorld wit_k8s"

text \<open>A host pod of the pool without a source, and a pod in another namespace.\<close>

definition wit_orphan :: "string CorePod" where
  "wit_orphan = wit_src\<lparr>kp_Meta := emptyMeta\<lparr>om_Name := ''old'', om_Namespace := ''ns'',
     om_Labels := fmap_of_list [(LabelManagedBy, LabelManagedByValue), (LabelVNodePool, ''pool'')]\<rparr>\<rparr>"

definition wit_foreign :: "string CorePod" where
  "wit_foreign = wit_src\<lparr>kp_Meta := emptyMeta\<lparr>om_Name := ''old'', om_Namespace := ''other'',
     om_Labels := fmap_of_list [(LabelManagedBy, LabelManagedByValue), (LabelVNodePool, ''pool'')]\<rparr>\<rparr>"

definition ref_world_of ::
  "VNodePoolCR list \<Rightarrow> VNodeCR list \<Rightarrow> string CorePod list \<Rightarrow> string CorePod list \<Rightarrow> (string, refworld) mstate"
where
  "ref_world_of pools vnodes pods tpods =
     \<lparr>ms_clients = fmempty,
      ms_world = emptyWorld\<lparr>rw_secrets := [ref_secret, ref_other_secret], rw_pools := pools, rw_vnodes := vnodes,
                            rw_pods := pods, rw_tpods := tpods\<rparr>\<rparr>"

definition ref_ctl_start :: "(string, refworld) mstate" where
  "ref_ctl_start = ref_world_of [ref_pool_cr] [] [] []"

definition ref_sync_start :: "(string, refworld) mstate" where
  "ref_sync_start = ref_world_of [ref_pool_cr] [ref_vnode_cr] [wit_orphan, wit_foreign] [wit_src]"

definition ref_deleted :: "(string, refworld) mstate" where
  "ref_deleted =
     ref_world_of [ref_pool_cr\<lparr>vp_Meta := (vp_Meta ref_pool_cr)\<lparr>om_DeletionTimestamp := Some 0\<rparr>\<rparr>]
       [ref_vnode_cr] [wit_orphan, wit_foreign] [wit_src]"

text \<open>
  Two tenants: a second pool, in another namespace, whose kubeconfig leads to the other tenant
  cluster, with a node and a tenant pod of the same name and namespace there.
\<close>

definition ref_pool_cr2 :: VNodePoolCR where
  "ref_pool_cr2 =
     ref_pool_cr\<lparr>vp_Meta := (vp_Meta ref_pool_cr)\<lparr>om_Namespace := ''ns2'', om_UID := ''uid-q''\<rparr>,
                  vp_Spec := (vp_Spec ref_pool_cr)\<lparr>sp_TenantRef :=
                    \<lparr>tr_VClusterName = ''vc2'', tr_VClusterNamespace = ''tenants'', tr_KubeconfigSecret = ''kc2''\<rparr>\<rparr>\<rparr>"

definition ref_two_tenants :: "(string, refworld) mstate" where
  "ref_two_tenants =
     (let s = ref_world_of [ref_pool_cr, ref_pool_cr2]
                [ref_vnode_cr, ref_vnode_cr\<lparr>vn_Meta := (vn_Meta ref_vnode_cr)\<lparr>om_Namespace := ''ns2''\<rparr>\<rparr>] [] [wit_src]
      in s\<lparr>ms_world := (ms_world s)\<lparr>rw_other := emptyCluster\<lparr>rc_pods := [wit_src]\<rparr>\<rparr>\<rparr>)"

text \<open>A pool that fails validation.\<close>

definition wit_odd_pool :: VNodePoolCR where
  "wit_odd_pool = ref_pool_cr\<lparr>vp_Spec := (vp_Spec ref_pool_cr)\<lparr>sp_Mode := ''odd''\<rparr>\<rparr>"

definition ref_odd :: "(string, refworld) mstate" where
  "ref_odd = ref_world_of [wit_odd_pool] [ref_vnode_cr] [] []"

definition ref_poolReconcile :: "(string, refworld) mstate \<Rightarrow> Result res \<times> (string, refworld) mstate" where
  "ref_poolReconcile = main_poolReconciler (mem_client pool_st) ref_patch ref_vnodes ref_tenants ref_env wit_req"

definition ref_podSync :: "(string, refworld) mstate \<Rightarrow> Result res \<times> (string, refworld) mstate" where
  "ref_podSync =
     main_podSyncReconciler (mem_client pool_st) ref_patch ref_vnodes ref_hostPods ''kata'' ref_tenants ref_env wit_req"

definition ref_podSync2 :: "(string, refworld) mstate \<Rightarrow> Result res \<times> (string, refworld) mstate" where
  "ref_podSync2 =
     main_podSyncReconciler (mem_client pool_st) ref_patch ref_vnodes ref_hostPods ''kata'' ref_tenants ref_env
       (ObjKey ''ns2'' ''pool'')"

section \<open>The reference worlds\<close>

lemma ref_pool_of: "stored_objs pool_st (ms_world (ref_world_of [cr] vs ps ts)) (vp_key cr) = Some cr"
  by (simp add: stored_objs_def pool_st_def ref_world_of_def lookupObj_def)

lemma ref_pool_key: "vp_key ref_pool_cr = wit_req" "vp_key (ref_pool_cr\<lparr>vp_Spec := sp\<rparr>) = wit_req"
  "vp_key (ref_pool_cr\<lparr>vp_Meta := (vp_Meta ref_pool_cr)\<lparr>om_DeletionTimestamp := d\<rparr>\<rparr>) = wit_req"
  by (simp_all add: ref_pool_cr_def om_key_def emptyMeta_def)

lemma ref_world_invar:
  "list_all (\<lambda>cr. fmlookup (om_Labels (vn_Meta cr)) LabelVNodePool = Some (PoolRef (vn_Spec cr))) vs \<Longrightarrow>
   controller_invar ref_objs (stored_objs pool_st) (ref_world_of ps vs hs ts)"
  by (simp add: controller_invar_def operator_invar_def ref_world_of_def ref_labels_agree cache_all_def)

lemma ref_world_cache: "cache_all P (ms_clients (ref_world_of ps vs hs ts))"
  by (simp add: ref_world_of_def cache_all_def)

section \<open>The pool controller\<close>

theorem pool_finalizer_invariant_witness:
  "pool_nodes (cluster_nodes ref_objs (snd (ref_poolReconcile ref_ctl_start))) ''ns'' ''pool'' \<noteq> {} \<and>
   holds_finalizer (stored_objs pool_st (ms_world (snd (ref_poolReconcile ref_ctl_start))) wit_req)"
proof -
  have inv: "controller_invar ref_objs (stored_objs pool_st) ref_ctl_start"
    unfolding ref_ctl_start_def by (rule ref_world_invar) simp
  have none: "pool_nodes (cluster_nodes ref_objs ref_ctl_start) (key_ns wit_req) (key_name wit_req) = {}"
    by (simp add: ref_pool_nodes ref_ctl_start_def ref_world_of_def vnodes_of_def)
  have "vnodes_of ''ns'' ''pool'' (rw_vnodes (ms_world (snd (ref_poolReconcile ref_ctl_start)))) \<noteq> []" by code_simp
  then have some: "pool_nodes (cluster_nodes ref_objs (snd (ref_poolReconcile ref_ctl_start))) ''ns'' ''pool'' \<noteq> {}"
    by (simp add: ref_pool_nodes)
  from pool_finalizer_invariant [OF ref_controller.pool_controller_axioms inv, of wit_req
      "fst (ref_poolReconcile ref_ctl_start)" "snd (ref_poolReconcile ref_ctl_start)"] none some
  show ?thesis by (simp add: ref_poolReconcile_def)
qed

theorem pool_reconcile_converges_witness:
  "pool_size (cluster_nodes ref_objs (snd (ref_poolReconcile ref_ctl_start))) (crToPoolModel ref_pool_cr) = 1 \<and>
   (\<exists>cr'. stored_objs pool_st (ms_world (snd (ref_poolReconcile ref_ctl_start))) wit_req = Some cr' \<and>
      st_ReadyNodes (vp_Status cr') =
        word_of_nat (card (ready_nodes (cluster_nodes ref_objs (snd (ref_poolReconcile ref_ctl_start))) (crToPoolModel ref_pool_cr))))"
proof -
  have inv: "controller_invar ref_objs (stored_objs pool_st) ref_ctl_start"
    unfolding ref_ctl_start_def by (rule ref_world_invar) simp
  have st: "stored_objs pool_st (ms_world ref_ctl_start) wit_req = Some ref_pool_cr"
    using ref_pool_of [of ref_pool_cr] ref_pool_key by (simp add: ref_ctl_start_def)
  have live: "om_DeletionTimestamp (vp_Meta ref_pool_cr) = None" by (simp add: ref_pool_cr_def emptyMeta_def)
  have ok: "Validate (crToPoolModel ref_pool_cr) = Inr ()" by code_simp
  have size: "pool_size (cluster_nodes ref_objs ref_ctl_start) (crToPoolModel ref_pool_cr) = 0"
    by (simp add: ref_pool_size vnode_count_def vnodes_of_def ref_ctl_start_def ref_world_of_def)
  have fresh: "fresh_names (cluster_nodes ref_objs ref_ctl_start) (crToPoolModel ref_pool_cr)"
    by (simp add: fresh_names_def ref_stored ref_ctl_start_def ref_world_of_def lookupObj_def)
  have "\<not> isl (fst (ref_poolReconcile ref_ctl_start))" by code_simp
  then obtain res where "ref_poolReconcile ref_ctl_start = (Inr res, snd (ref_poolReconcile ref_ctl_start))"
    by (metis prod.collapse sum.collapse(2))
  from pool_reconcile_converges [OF ref_controller.pool_controller_axioms inv st live ok _ fresh
      this [unfolded ref_poolReconcile_def]] size
  show ?thesis by (simp add: ref_poolReconcile_def) (auto simp: ref_pool_cr_def)
qed


section \<open>Pod synchronisation\<close>

theorem PodSync_keeps_polling_witness:
  "fst (ref_podSync ref_sync_start) = Inr \<lparr>RequeueAfter = 2 * Second\<rparr>"
proof -
  let ?get = "oc_Get (mem_client pool_st) wit_req (ms_world ref_sync_start)"
  have "\<not> isl (fst ?get)" by code_simp
  then have get: "?get = (Inr (projr (fst ?get)), snd ?get)" by (simp add: prod_eq_iff)
  have live: "om_DeletionTimestamp (vp_Meta (projr (fst ?get))) = None"
    and ok: "Validate (crToPoolModel (projr (fst ?get))) = Inr ()"
    and ph: "st_Phase (vp_Status (projr (fst ?get))) \<noteq> PoolPhaseFailed" by code_simp+
  have "\<not> isl (fst (ref_podSync ref_sync_start))" by code_simp
  with PodSync_keeps_polling [OF get live ok ph, of ref_patch ref_vnodes ref_hostPods "''kata''" ref_tenants ref_env
      "fst (ref_podSync ref_sync_start)" "snd (ref_podSync ref_sync_start)"]
  show ?thesis by (auto simp: ref_podSync_def)
qed

text \<open>
  Two tenant clusters: the first reconciliation leaves a host pod for the pool of the first
  tenant, the second one works for the pool of the other tenant and leaves that pod alone.
\<close>

theorem PodSync_namespace_isolation_witness:
  "ref_other \<noteq> ref_clientset \<and>
   (\<exists>x. stored_objs pod_st (ms_world (snd (ref_podSync ref_two_tenants))) (ObjKey ''ns'' ''vnode-pool-1-prod-web'') = Some x \<and>
      stored_objs pod_st (ms_world (snd (ref_podSync2 (snd (ref_podSync ref_two_tenants)))))
        (ObjKey ''ns'' ''vnode-pool-1-prod-web'') = Some x) \<and>
   map (\<lambda>p. (om_Namespace (kp_Meta p), om_Name (kp_Meta p)))
     (rw_pods (ms_world (snd (ref_podSync2 (snd (ref_podSync ref_two_tenants)))))) =
     [(''ns'', ''vnode-pool-1-prod-web''), (''ns2'', ''vnode-pool-1-prod-web'')]"
proof -
  let ?s1 = "snd (ref_podSync ref_two_tenants)" and ?k = "ObjKey ''ns'' ''vnode-pool-1-prod-web''"
  let ?s2 = "snd (ref_podSync2 ?s1)"
  let ?P = "\<lambda>cs. pod_host ref_hostPods cs (stored_objs pod_st) (ref_tpods cs) pod_update pod_update_status pod_gone"
  have "cache_all ?P (ms_clients ref_two_tenants)" by (simp add: ref_two_tenants_def Let_def ref_world_of_def cache_all_def)
  from PodSync_namespace_isolation [OF ref_sync.pod_sync_axioms this, of wit_req "ObjKey ''ns2'' []" "''kata''"
      "fst (ref_podSync ref_two_tenants)" ?s1]
  have c1: "cache_all ?P (ms_clients ?s1)" by (simp add: ref_podSync_def)
  from PodSync_namespace_isolation [OF ref_sync.pod_sync_axioms this, of "ObjKey ''ns2'' ''pool''" ?k "''kata''"
      "fst (ref_podSync2 ?s1)" ?s2]
  have keep: "stored_objs pod_st (ms_world ?s2) ?k = stored_objs pod_st (ms_world ?s1) ?k" by (simp add: ref_podSync2_def)
  have "lookupObj (\<lambda>p. om_key (kp_Meta p)) (rw_pods (ms_world ?s1)) ?k \<noteq> None" by code_simp
  then have "stored_objs pod_st (ms_world ?s1) ?k \<noteq> None" by (simp add: stored_objs_def pod_st_def)
  moreover have "map (\<lambda>p. (om_Namespace (kp_Meta p), om_Name (kp_Meta p))) (rw_pods (ms_world ?s2)) =
     [(''ns'', ''vnode-pool-1-prod-web''), (''ns2'', ''vnode-pool-1-prod-web'')]" by code_simp
  ultimately show ?thesis using keep ref_clientsets_differ by auto
qed

theorem PodSync_cleans_up_witness:
  "live_pool_pods (crToPoolModel ref_pool_cr) (stored_objs pod_st (ms_world ref_deleted)) \<noteq> {} \<and>
   live_pool_pods (crToPoolModel ref_pool_cr) (stored_objs pod_st (ms_world (snd (ref_podSync ref_deleted)))) = {}"
proof -
  let ?get = "oc_Get (mem_client pool_st) wit_req (ms_world ref_deleted)"
  let ?cr = "ref_pool_cr\<lparr>vp_Meta := (vp_Meta ref_pool_cr)\<lparr>om_DeletionTimestamp := Some 0\<rparr>\<rparr>"
  have "fst ?get = Inr ?cr" by code_simp
  then have get: "?get = (Inr ?cr, snd ?get)" by (simp add: prod_eq_iff)
  have ok: "Validate (crToPoolModel ?cr) = Inr ()" by code_simp
  have "\<not> isl (fst (ref_podSync ref_deleted))" by code_simp
  then obtain res where run: "ref_podSync ref_deleted = (Inr res, snd (ref_podSync ref_deleted))"
    by (metis prod.collapse sum.collapse(2))
  have same: "live_pool_pods (crToPoolModel ?cr) f = live_pool_pods (crToPoolModel ref_pool_cr) f"
    for f :: "objkey \<Rightarrow> string CorePod option"
    by (simp add: live_pool_pods_def crToPoolModel_def poolLabels_def)
  have "stored_objs pod_st (ms_world ref_deleted) (ObjKey ''ns'' ''old'') = Some wit_orphan"
    by (simp add: stored_objs_def pod_st_def ref_deleted_def ref_world_of_def lookupObj_def wit_orphan_def om_key_def
        emptyMeta_def)
  then have "ObjKey ''ns'' ''old'' \<in>
      live_pool_pods (crToPoolModel ref_pool_cr) (stored_objs pod_st (ms_world ref_deleted))"
    by (auto simp: live_pool_pods_def live_pods_def wit_orphan_def selected_def poolLabels_def crToPoolModel_def
        ref_pool_cr_def emptyMeta_def)
  moreover have "om_Namespace (vp_Meta ?cr) \<noteq> []" by (simp add: ref_pool_cr_def)
  ultimately show ?thesis
    using PodSync_cleans_up [OF ref_pods.host_pods_axioms _ get _ run [unfolded ref_podSync_def]] same ok
    by (auto simp: ref_podSync_def)
qed

section \<open>Pod execution\<close>

abbreviation ref_exec :: "(bool, string, refworld) PodExecutionService" where
  "ref_exec \<equiv> NewPodExecutionService ref_quantities (main_nodeRepo ref_vnodes ref_env)
     (NewPodClusterClient ref_hostPods) (PodService (KataAdapter ''kata'')) ref_tenants"

lemma ref_sync_client:
  "TenantClients_Get ref_tenants (p_TenantRef (crToPoolModel ref_pool_cr)) ref_sync_start =
     (Inr ref_clientset, snd (TenantClients_Get ref_tenants (p_TenantRef (crToPoolModel ref_pool_cr)) ref_sync_start))"
proof -
  let ?t = "p_TenantRef (crToPoolModel ref_pool_cr)"
  have "fmlookup (ms_clients ref_sync_start) (cacheKey ?t) = None" by (simp add: ref_sync_start_def ref_world_of_def)
  moreover have "fst (Resolve (mem_client secret_st) (VClusterNamespace ?t) (KubeconfigSecret ?t) (ms_world ref_sync_start)) =
      Inr [1]" by code_simp
  ultimately show ?thesis using ref_Get_client [of ref_sync_start ?t "[1]"] by simp
qed

theorem ReconcilePool_no_orphans_witness:
  "\<exists>x src j. lookupObj (\<lambda>p. om_key (kp_Meta p))
       (rw_pods (ms_world (snd (ReconcilePool ref_exec (crToPoolModel ref_pool_cr) ref_sync_start)))) (ObjKey ''ns'' ''vnode-pool-1-prod-web'') = Some x \<and>
     stored_objs tpod_st (ms_world ref_sync_start) j = Some src \<and> \<not> isTerminalPod src \<and>
     (podSpecsEqual (podToSpec ref_quantities x) (hostTarget ref_quantities (KataAdapter ''kata'') (crToPoolModel ref_pool_cr) src) \<or>
      (\<exists>k8s. podSpecToK8sPod ref_quantities (hostTarget ref_quantities (KataAdapter ''kata'') (crToPoolModel ref_pool_cr) src) = Inr k8s \<and>
         pod_created k8s x))"
proof -
  let ?pool = "crToPoolModel ref_pool_cr" and ?k = "ObjKey ''ns'' ''vnode-pool-1-prod-web''"
  let ?get = "TenantClients_Get ref_tenants (p_TenantRef ?pool) ref_sync_start"
  let ?list = "repo_ListByPool (main_nodeRepo ref_vnodes ref_env) (p_Namespace ?pool) (p_Name ?pool) (snd ?get)"
  let ?run = "ReconcilePool ref_exec ?pool ref_sync_start"
  let ?found = "lookupObj (\<lambda>p. om_key (kp_Meta p)) (rw_pods (ms_world (snd ?run))) ?k"
  have get: "?get = (Inr ref_clientset, snd ?get)" by (rule ref_sync_client)
  have "fst ?list = Inr [crToNode ref_vnode_cr]" by code_simp
  then have list: "?list = (Inr [crToNode ref_vnode_cr], snd ?list)" by (simp add: prod_eq_iff)
  have "snd (fst ?run) = None" by code_simp
  then have run: "?run = ((fst (fst ?run), None), snd ?run)" by (simp add: prod_eq_iff)
  have ns: "p_Namespace ?pool \<noteq> []" by code_simp
  have "rw_tpods (ms_world (snd ?list)) = rw_tpods (ms_world ref_sync_start)" by code_simp
  then have t: "stored_objs tpod_st (ms_world (snd ?list)) = stored_objs tpod_st (ms_world ref_sync_start)"
    by (simp add: stored_objs_def tpod_st_def pod_st_def)
  have "case ?found of None \<Rightarrow> False
    | Some x \<Rightarrow> Option.is_none (om_DeletionTimestamp (kp_Meta x)) \<and>
        selected (Some (p_Namespace ?pool)) (poolLabels ?pool) ?k (om_Labels (kp_Meta x))" by code_simp
  then obtain x where x: "?found = Some x" "om_DeletionTimestamp (kp_Meta x) = None"
    "selected (Some (p_Namespace ?pool)) (poolLabels ?pool) ?k (om_Labels (kp_Meta x))"
    by (auto simp: Option.is_none_def split: option.splits)
  then have live: "(?k, x) \<in> live_pods (stored_objs pod_st (ms_world (snd ?run)))"
    by (simp add: live_pods_def stored_objs_def pod_st_def)
  have q: "pc_q ref_hostPods = ref_quantities" by (simp add: ref_hostPods_def)
  from ReconcilePool_no_orphans [OF ref_sync.pod_execution_axioms
      ref_world_cache [of _ "[ref_pool_cr]" "[ref_vnode_cr]" "[wit_orphan, wit_foreign]" "[wit_src]",
        folded ref_sync_start_def] ns get list run live x(3)] t x(1)
  show ?thesis unfolding q by auto
qed

theorem statusStep_shows_host_status_witness:
  "\<exists>t. stored_objs tpod_st (snd (statusStep (NewPodClusterClient ref_hostPods) (PodService (KataAdapter ''kata''))
       ref_clientset wit_src (TargetPod wit_translation) zeroResult
       (ms_world (ref_world_of [] [] [wit_stored\<lparr>kp_Status := wit_status\<rparr>] [wit_src]))))
     (ObjKey ''prod'' ''web'') = Some t \<and>
     kps_Phase (kp_Status t) = ''Failed'' \<and> kps_Reason (kp_Status t) = ''Evicted'' \<and>
     map (\<lambda>c. map_option kte_ExitCode (kcs_Terminated c)) (kps_ContainerStatuses (kp_Status t)) = [Some 0] \<and>
     map (\<lambda>c. map_option kte_ExitCode (kcs_Terminated c)) (kps_ContainerStatuses wit_status) = [Some 137]"
proof -
  let ?w = "ms_world (ref_world_of [] [] [wit_stored\<lparr>kp_Status := wit_status\<rparr>] [wit_src])"
  let ?h = "wit_stored\<lparr>kp_Status := wit_status\<rparr>"
  let ?run = "statusStep (NewPodClusterClient ref_hostPods) (PodService (KataAdapter ''kata'')) ref_clientset wit_src
      (TargetPod wit_translation) zeroResult ?w"
  have k: "om_key (kp_Meta ?h) = ObjKey (pod_Namespace (TargetPod wit_translation)) (pod_Name (TargetPod wit_translation))"
    by code_simp
  have st: "stored_objs pod_st ?w (ObjKey (pod_Namespace (TargetPod wit_translation))
      (pod_Name (TargetPod wit_translation))) = Some ?h"
    unfolding k [symmetric] by (simp add: stored_objs_def pod_st_def ref_world_of_def lookupObj_def)
  have one: "list_all one_state (kps_ContainerStatuses (kp_Status ?h))"
    by (simp add: wit_status_def one_state_def)
  have "fst (fst ?run) = GoOn" by code_simp
  then have run: "?run = ((GoOn, snd (fst ?run)), snd ?run)" by (simp add: prod_eq_iff)
  from statusStep_shows_host_status [OF ref_host.pod_host_axioms _ st one run]
  show ?thesis by (auto simp: wit_src_def om_key_def emptyMeta_def wit_status_def shown_container_def)
qed

theorem ensureHostPod_stable_witness:
  "fst (ensureHostPod (NewPodClusterClient ref_hostPods) (TargetPod wit_translation)
     (ms_world (ref_world_of [] [] [wit_stored] [wit_src]))) = (False, False, None)"
proof -
  let ?w = "ms_world (ref_world_of [] [] [wit_stored] [wit_src])"
  let ?get = "oc_Get (mem_client pod_st) (ObjKey (pod_Namespace (TargetPod wit_translation))
      (pod_Name (TargetPod wit_translation))) ?w"
  have q: "pc_q ref_hostPods = ref_quantities" "pc_Pods ref_hostPods = mem_client pod_st"
    by (simp_all add: ref_hostPods_def)
  have "canonical_quantities ref_quantities wit_src" "\<not> pods_counted wit_src" by code_simp+
  moreover have "Translate (KataAdapter ''kata'') (podFromCore ref_quantities wit_src)
      (crToPoolModel ref_pool_cr) ''vnode-pool-1'' = Inr wit_translation"
    by (simp add: Translate_def wit_translation_def)
  moreover have "\<not> isl (podSpecToK8sPod ref_quantities (TargetPod wit_translation))" by code_simp
  then have "podSpecToK8sPod ref_quantities (TargetPod wit_translation) = Inr wit_k8s"
    by (simp add: wit_k8s_def)
  moreover have "pod_created wit_k8s wit_stored" unfolding wit_stored_def by (rule ref_pod_created(1))
  moreover have "fst ?get = Inr wit_stored" by code_simp
  then have "?get = (Inr wit_stored, snd ?get)" by (simp add: prod_eq_iff)
  moreover have "list_all (\<lambda>v. v_Type v \<noteq> VolumeTypeOther) (pod_Volumes (TargetPod wit_translation)) \<and>
      list_all requests_cover (pod_Containers (TargetPod wit_translation)) \<and>
      kp_NodeSelector wit_stored = pod_NodeSelector (TargetPod wit_translation)" by code_simp
  ultimately show ?thesis
    using ensureHostPod_stable [of ref_hostPods wit_src "KataAdapter ''kata''" "crToPoolModel ref_pool_cr"
        "''vnode-pool-1''" wit_translation wit_k8s wit_stored ?w "snd ?get"]
    unfolding q by simp
qed

section \<open>Pod conversions\<close>

theorem podSpec_roundtrip_witness:
  "\<exists>k. podSpecToK8sPod ref_quantities (TargetPod wit_translation) = Inr k \<and>
       podToSpec ref_quantities k = TargetPod wit_translation"
proof -
  have "wf_pod ref_quantities (TargetPod wit_translation)" by code_simp
  then show ?thesis by (rule podSpec_roundtrip)
qed

theorem podSpecsEqual_exact_witness:
  "podSpecsEqual (TargetPod wit_translation)
     ((TargetPod wit_translation)\<lparr>pod_NodeName := ''h1'', pod_ServiceAccountName := ''default''\<rparr>) \<and>
   \<not> podSpecsEqual (TargetPod wit_translation) ((TargetPod wit_translation)\<lparr>pod_RuntimeClassName := []\<rparr>)"
proof -
  let ?a = "TargetPod wit_translation"
  have "fmpred (\<lambda>_ v. v \<noteq> []) (pod_Labels ?a)" "fmpred (\<lambda>_ v. v \<noteq> []) (pod_NodeSelector ?a)" by code_simp+
  then have "fmlookup (pod_Labels ?a) k \<noteq> Some []" "fmlookup (pod_NodeSelector ?a) k \<noteq> Some []" for k
    by (auto simp: fmpred_iff)
  note exact = podSpecsEqual_exact [of ?a, OF this]
  have "pod_ServiceAccountName ?a = []" "pod_RuntimeClassName ?a = ''kata''" by code_simp+
  then show ?thesis by (simp add: exact normalizeServiceAccount_def) (cases ?a, simp)
qed

end
