(* ===== verification/Pool_Deletion.thy ===== *)
theory Pool_Deletion
  imports VNodePool_Reconciler
begin

text \<open>
  The deletion of a pool, from its mark to the removal of the object: a reconciliation that
  does not ask for another one has removed every node and given up the finalizer, and any
  other successful one keeps the finalizer and comes back after a second.
\<close>

context pool_controller
begin

lemma updatePoolStatus_meta:
  assumes "updatePoolStatus api k mutate w = (r, w')"
  shows "map_option vp_Meta (pobjs w' j) = map_option vp_Meta (pobjs w j)"
  using updatePoolStatus_effect [OF assms] by (cases r) (auto split: if_splits)

lemma tryRemoveFinalizer_effect:
  assumes "tryRemoveFinalizer api k w = (r, w')"
  shows "case r of
           Inl e \<Rightarrow> pobjs w' = pobjs w
         | Inr u \<Rightarrow> \<not> holds_finalizer (pobjs w' k) \<and>
             (\<forall>cr. pobjs w k = Some cr \<longrightarrow> om_DeletionTimestamp (vp_Meta cr) \<noteq> None \<longrightarrow>
               set (om_Finalizers (vp_Meta cr)) \<subseteq> {poolFinalizer} \<longrightarrow> pobjs w' k = None)"
proof -
  obtain g w1 where g: "oc_Get pools k w = (g, w1)" by fastforce
  show ?thesis
  proof (cases g)
    case (Inl e)
    with assms g pl.Get_err [of k w e w1] show ?thesis
      by (auto simp: tryRemoveFinalizer_def holds_finalizer_def split: if_splits)
  next
    case (Inr cr)
    let ?x = "cr\<lparr>vp_Meta := (vp_Meta cr)\<lparr>om_Finalizers := removeAll poolFinalizer (om_Finalizers (vp_Meta cr))\<rparr>\<rparr>"
    have w1: "pobjs w1 = pobjs w" "pobjs w k = Some cr" "om_key (vp_Meta cr) = k"
      using pl.Get_ok [of k w cr w1] g Inr pl.objs_key by auto
    have u: "oc_Update pools ?x w1 = (r, w')" using assms g Inr by (simp add: tryRemoveFinalizer_def)
    show ?thesis
    proof (cases r)
      case e: (Inl e)
      with pl.Update_err [of ?x w1 e w'] u w1 show ?thesis by simp
    next
      case z: (Inr z)
      have "pobjs w' = (pobjs w)(k := pool_upd cr ?x)"
        using pl.Update_ok [of ?x w1 z w'] u z w1 by auto
      moreover have "set xs \<subseteq> {y} \<Longrightarrow> removeAll y xs = []" for y :: string and xs
        by (induction xs) auto
      ultimately show ?thesis using z w1 by (auto simp: pool_upd_def holds_finalizer_def)
    qed
  qed
qed

lemma removeFinalizer_effect:
  assumes "env_retry env (tryRemoveFinalizer api k) w = (r, w')"
  shows "case r of
           Inl e \<Rightarrow> pobjs w' = pobjs w
         | Inr u \<Rightarrow> \<not> holds_finalizer (pobjs w' k) \<and>
             (\<forall>cr. pobjs w k = Some cr \<longrightarrow> om_DeletionTimestamp (vp_Meta cr) \<noteq> None \<longrightarrow>
               set (om_Finalizers (vp_Meta cr)) \<subseteq> {poolFinalizer} \<longrightarrow> pobjs w' k = None)"
proof -
  let ?f = "tryRemoveFinalizer api k"
  have err: "pobjs v' = pobjs v" if "?f v = (Inl e, v')" for v e v'
    using tryRemoveFinalizer_effect [OF that] by simp
  obtain v where v: "pobjs v = pobjs w" "env_retry env ?f w = ?f v"
    by (rule store.retry_view [of ?f pobjs w, OF err])
  with assms have "?f v = (r, w')" by simp
  from tryRemoveFinalizer_effect [OF this] v(1) show ?thesis by (cases r) simp_all
qed

lemma handleDeletion_finishes:
  assumes inv: "controller_invar objs pobjs s" and old: "pobjs (ms_world s) (vp_key cr) = Some cr"
    and fin: "poolFinalizer \<in> set (om_Finalizers (vp_Meta cr))"
    and del: "om_DeletionTimestamp (vp_Meta cr) \<noteq> None"
    and run: "handleDeletion api svc cr s = (Inr res, s')"
  shows "(res = \<lparr>RequeueAfter = Second\<rparr> \<and> holds_finalizer (pobjs (ms_world s') (vp_key cr))) \<or>
         (res = noRequeue \<and> \<not> holds_finalizer (pobjs (ms_world s') (vp_key cr)) \<and>
          pool_nodes (cluster_nodes objs s') (om_Namespace (vp_Meta cr)) (om_Name (vp_Meta cr)) = {} \<and>
          (set (om_Finalizers (vp_Meta cr)) \<subseteq> {poolFinalizer} \<longrightarrow> pobjs (ms_world s') (vp_key cr) = None))"
proof -
  let ?k = "vp_key cr" and ?pool = "(crToPoolModel cr)\<lparr>p_NodeCount := 0, p_DeletionPending := True\<rparr>"
  obtain r1 s1 where st: "onw (updatePoolStatus api ?k deletingStatus) s = (r1, s1)" by fastforce
  note s1 = status_keeps [OF inv st] and m1 = updatePoolStatus_meta [OF conjunct1 [OF onw_D [OF st]]]
  obtain p e s2 where rc: "pm_Reconcile svc ?pool s1 = ((p, e), s2)" by (metis prod.exhaust)
  have s2: "controller_invar objs pobjs s2" "pobjs (ms_world s2) = pobjs (ms_world s1)"
    using svc_keeps [OF _ rc] s1 by auto
  obtain l s3 where ls: "onw (oc_List vnodes (Some (om_Namespace (vp_Meta cr)))
      (fmupd LabelVNodePool (om_Name (vp_Meta cr)) fmempty)) s2 = (l, s3)" by fastforce
  have p3: "pobjs (ms_world s3) = pobjs (ms_world s2)" using ls vnode_frame.List_frame by (auto dest!: onw_D)
  have m3: "map_option vp_Meta (pobjs (ms_world s3) ?k) = Some (vp_Meta cr)" using m1 [of ?k] s2 p3 old by simp
  obtain r4 s4 where rf: "onw (env_retry env (tryRemoveFinalizer api ?k)) s3 = (r4, s4)" by fastforce
  from run fin st rc ls rf have "e = None" and l: "\<exists>xs. l = Inr xs"
    by (auto simp: handleDeletion_def Let_def split: option.splits sum.splits)
  then obtain xs where xs: "l = Inr xs" by blast
  show ?thesis
  proof (cases "xs = []")
    case False
    with run fin st rc ls \<open>e = None\<close> xs have "res = \<lparr>RequeueAfter = Second\<rparr>" "s' = s3"
      by (auto simp: handleDeletion_def Let_def)
    with m3 fin show ?thesis by (auto simp: holds_finalizer_def)
  next
    case True
    with run fin st rc ls rf \<open>e = None\<close> xs obtain u where r4: "r4 = Inr u" and res: "res = noRequeue" "s' = s4"
      by (auto simp: handleDeletion_def Let_def split: sum.splits)
    have n: "controller_invar objs pobjs s3" "pool_nodes (cluster_nodes objs s3) (om_Namespace (vp_Meta cr)) (om_Name (vp_Meta cr)) = {}"
      using no_nodes_left [OF s2(1)] ls xs True by auto
    show ?thesis
      using removeFinalizer_effect [OF conjunct1 [OF onw_D [OF rf]]] removeFinalizer_keeps [OF n(1) rf] n(2) m3 r4 res del
      by auto
  qed
qed

lemma Reconcile_deletes:
  assumes inv: "controller_invar objs pobjs s" and old: "pobjs (ms_world s) req = Some cr"
    and fin: "poolFinalizer \<in> set (om_Finalizers (vp_Meta cr))"
    and del: "om_DeletionTimestamp (vp_Meta cr) \<noteq> None"
    and run: "main_poolReconciler pools patch vnodes tenants env req s = (Inr res, s')"
  shows "(res = \<lparr>RequeueAfter = Second\<rparr> \<and> holds_finalizer (pobjs (ms_world s') req)) \<or>
         (res = noRequeue \<and> \<not> holds_finalizer (pobjs (ms_world s') req) \<and>
          pool_nodes (cluster_nodes objs s') (key_ns req) (key_name req) = {} \<and>
          (set (om_Finalizers (vp_Meta cr)) \<subseteq> {poolFinalizer} \<longrightarrow> pobjs (ms_world s') req = None))"
  using run inv
proof (cases rule: Reconcile_branches)
  case (unread s1)
  with old show ?thesis by simp
next
  case (deletion cr0 s1)
  with old have cr: "cr0 = cr" by simp
  have ns: "key_ns req = om_Namespace (vp_Meta cr)" "key_name req = om_Name (vp_Meta cr)"
    using deletion(6) cr by (auto simp: om_key_def)
  show ?thesis
    using handleDeletion_finishes [of s1 cr res s'] deletion cr old fin del ns by simp
next
  case (live cr0 s1 cr' s2)
  have "om_DeletionTimestamp (vp_Meta cr) = None"
    using live(5,6) old live(3) by (auto simp: crToPoolModel_def)
  with del show ?thesis by simp
qed

end

section \<open>Properties\<close>

text \<open>
  C8: the deletion of a pool finishes only when its work is done. For a pool that is marked for
  deletion and holds the finalizer, a reconciliation that succeeds either comes back after a
  second and still holds the finalizer, or asks for nothing more, and then no node of the pool
  is stored, the finalizer is given up, and the pool object is gone unless it holds finalizers
  of others.
\<close>

theorem pool_deletion_finishes:
  assumes "pool_controller vnodes tenants env objs pools pobjs pgone patch"
    and "controller_invar objs pobjs s" and "pobjs (ms_world s) req = Some cr"
    and "poolFinalizer \<in> set (om_Finalizers (vp_Meta cr))" and "om_DeletionTimestamp (vp_Meta cr) \<noteq> None"
    and "main_poolReconciler pools patch vnodes tenants env req s = (Inr res, s')"
  shows "(res = \<lparr>RequeueAfter = Second\<rparr> \<and> holds_finalizer (pobjs (ms_world s') req)) \<or>
         (res = noRequeue \<and> \<not> holds_finalizer (pobjs (ms_world s') req) \<and>
          pool_nodes (cluster_nodes objs s') (key_ns req) (key_name req) = {} \<and>
          (set (om_Finalizers (vp_Meta cr)) \<subseteq> {poolFinalizer} \<longrightarrow> pobjs (ms_world s') req = None))"
  by (rule pool_controller.Reconcile_deletes [OF assms])

end
