(* ===== verification/Pool_Repository.thy ===== *)
theory Pool_Repository
  imports VNodePool_Reconciler
begin

text \<open>
  The pool repository (\<open>PoolRepository\<close> in \<open>internal/adapter/outbound/kubeclient/client.go\<close>): pools
  read from the custom resources, and a save that writes back the phase and the counts through
  the status subresource, without a retry. The abstract store maps a key to the domain pool of
  the stored object; the operations are shown to refine a read, an update of two fields and an
  enumeration of that store.
\<close>

section \<open>Operations\<close>

fun poolTaints :: "CoreTaint list \<Rightarrow> Taint list" where
  "poolTaints [] = []"
| "poolTaints (t # ts) =
     \<lparr>taint_Key = ct_Key t, taint_Value = ct_Value t, taint_Effect = ct_Effect t\<rparr> # poolTaints ts"

fun poolTolerations :: "CoreToleration list \<Rightarrow> Toleration list" where
  "poolTolerations [] = []"
| "poolTolerations (t # ts) =
     \<lparr>tol_Key = ctol_Key t, tol_Operator = ctol_Operator t, tol_Value = ctol_Value t,
      tol_Effect = ctol_Effect t, TolerationSeconds = ctol_TolerationSeconds t\<rparr> # poolTolerations ts"

definition crToPool :: "VNodePoolCR \<Rightarrow> VNodePool" where
  "crToPool cr =
     \<lparr>p_ID = om_UID (vp_Meta cr),
      p_Name = om_Name (vp_Meta cr),
      p_DisplayName = sp_DisplayName (vp_Spec cr),
      p_Namespace = om_Namespace (vp_Meta cr),
      p_TenantRef =
        \<lparr>VClusterName = tr_VClusterName (sp_TenantRef (vp_Spec cr)),
         VClusterNamespace = tr_VClusterNamespace (sp_TenantRef (vp_Spec cr)),
         KubeconfigSecret = tr_KubeconfigSecret (sp_TenantRef (vp_Spec cr))\<rparr>,
      p_Mode = sp_Mode (vp_Spec cr),
      p_IsolationBackend = sp_IsolationBackend (vp_Spec cr),
      p_RuntimeClassName = sp_RuntimeClassName (vp_Spec cr),
      p_NodeCount = sp_NodeCount (vp_Spec cr),
      p_PerNodeResources =
        \<lparr>CPU = nr_CPU (sp_PerNodeResources (vp_Spec cr)),
         Memory = nr_Memory (sp_PerNodeResources (vp_Spec cr)),
         Pods = nr_Pods (sp_PerNodeResources (vp_Spec cr))\<rparr>,
      p_NodeSelector = sp_NodeSelector (vp_Spec cr),
      p_Taints = poolTaints (sp_Taints (vp_Spec cr)),
      p_Tolerations = poolTolerations (sp_Tolerations (vp_Spec cr)),
      p_Phase = st_Phase (vp_Status cr),
      p_ReadyNodes = st_ReadyNodes (vp_Status cr),
      p_Nodes = [],
      p_DeletionPending = (om_DeletionTimestamp (vp_Meta cr) \<noteq> None)\<rparr>"

definition PoolRepository_Get ::
  "(VNodePoolCR, 'w) objclient \<Rightarrow> string \<Rightarrow> string \<Rightarrow> 'w \<Rightarrow> VNodePool res \<times> 'w"
where
  "PoolRepository_Get client namespace name w =
     (case oc_Get client (ObjKey namespace name) w of
        (Inl err, w) \<Rightarrow> (Inl err, w)
      | (Inr cr, w) \<Rightarrow> (Inr (crToPool cr), w))"

definition PoolRepository_Save :: "(VNodePoolCR, 'w) objclient \<Rightarrow> VNodePool \<Rightarrow> 'w \<Rightarrow> unit res \<times> 'w" where
  "PoolRepository_Save client pool w =
     (case oc_Get client (ObjKey (p_Namespace pool) (p_Name pool)) w of
        (Inl err, w) \<Rightarrow> (Inl err, w)
      | (Inr cr, w) \<Rightarrow>
          oc_UpdateStatus client
            (cr\<lparr>vp_Status := (vp_Status cr)
               \<lparr>st_Phase := p_Phase pool, st_ReadyNodes := p_ReadyNodes pool,
                st_TotalNodes := len32 (p_Nodes pool)\<rparr>\<rparr>) w)"

definition PoolRepository_List :: "(VNodePoolCR, 'w) objclient \<Rightarrow> 'w \<Rightarrow> VNodePool list res \<times> 'w" where
  "PoolRepository_List client w =
     (case oc_List client None fmempty w of
        (Inl err, w) \<Rightarrow> (Inl err, w)
      | (Inr items, w) \<Rightarrow> (Inr (map crToPool items), w))"

definition NewPoolRepository :: "(VNodePoolCR, 'w) objclient \<Rightarrow> 'w PoolRepository" where
  "NewPoolRepository client =
     \<lparr>pr_Get = PoolRepository_Get client, pr_Save = PoolRepository_Save client,
      pr_List = PoolRepository_List client\<rparr>"

text \<open>The abstract store.\<close>

definition stored_pools :: "('w \<Rightarrow> objkey \<Rightarrow> VNodePoolCR option) \<Rightarrow> 'w \<Rightarrow> objkey \<Rightarrow> VNodePool option" where
  "stored_pools pobjs w k = map_option crToPool (pobjs w k)"

section \<open>The conversion\<close>

lemma poolTaints_map: "poolTaints ts = mapTaints ts"
  by (induction ts) (simp_all add: mapTaints_def)

lemma poolTolerations_map: "poolTolerations ts = mapTolerations ts"
  by (induction ts) (simp_all add: mapTolerations_def)

text \<open>The repository and the pool controller read a custom resource alike.\<close>

lemma crToPool_eq: "crToPool cr = crToPoolModel cr"
  by (simp add: crToPool_def crToPoolModel_def poolTaints_map poolTolerations_map resourcesToModel_def)

lemma crToPool_status:
  "crToPool (cr\<lparr>vp_Status := st\<rparr>) = (crToPool cr)\<lparr>p_Phase := st_Phase st, p_ReadyNodes := st_ReadyNodes st\<rparr>"
  by (simp add: crToPool_def)

section \<open>The contract of the port\<close>

text \<open>
  \<open>pool_repository\<close>: what \<open>ports.PoolRepository\<close> promises over an abstract store of pools.
\<close>

locale pool_repository =
  fixes repo :: "'s PoolRepository"
    and pools :: "'s \<Rightarrow> objkey \<Rightarrow> VNodePool option"
  assumes pool_key: "pools s k = Some p \<Longrightarrow> k = ObjKey (p_Namespace p) (p_Name p)"
    and PGet_ok: "pr_Get repo ns n s = (Inr p, s') \<Longrightarrow> pools s' = pools s \<and> pools s (ObjKey ns n) = Some p"
    and PGet_err: "pr_Get repo ns n s = (Inl e, s') \<Longrightarrow> pools s' = pools s"
    and PSave_ok: "pr_Save repo p s = (Inr u, s') \<Longrightarrow>
      \<exists>old. pools s (ObjKey (p_Namespace p) (p_Name p)) = Some old \<and>
        pools s' = (pools s)(ObjKey (p_Namespace p) (p_Name p) \<mapsto>
          old\<lparr>p_Phase := p_Phase p, p_ReadyNodes := p_ReadyNodes p\<rparr>)"
    and PSave_err: "pr_Save repo p s = (Inl e, s') \<Longrightarrow> pools s' = pools s"
    and PList_ok: "pr_List repo s = (Inr ps, s') \<Longrightarrow>
      pools s' = pools s \<and> set ps = ran (pools s) \<and> distinct (map (\<lambda>p. ObjKey (p_Namespace p) (p_Name p)) ps)"
    and PList_err: "pr_List repo s = (Inl e, s') \<Longrightarrow> pools s' = pools s"
begin

lemma Save_Get:
  assumes "pr_Save repo p s = (Inr u, s1)" and "pr_Get repo (p_Namespace p) (p_Name p) s1 = (Inr q, s2)"
  shows "\<exists>old. pools s (ObjKey (p_Namespace p) (p_Name p)) = Some old \<and>
           q = old\<lparr>p_Phase := p_Phase p, p_ReadyNodes := p_ReadyNodes p\<rparr>"
  using PSave_ok [OF assms(1)] PGet_ok [OF assms(2)] by auto

lemma Get_Save_same:
  assumes "pr_Get repo ns n s = (Inr p, s1)" and "pr_Save repo p s1 = (Inr u, s2)"
  shows "pools s2 = pools s"
proof -
  have p: "pools s1 = pools s" "pools s (ObjKey ns n) = Some p" using PGet_ok [OF assms(1)] by simp_all
  with pool_key [of s "ObjKey ns n" p] PSave_ok [OF assms(2)] show ?thesis by (auto simp: fun_eq_iff)
qed

end

lemma pool_repository_refines:
  assumes api: "object_api client pobjs (\<lambda>cr. om_key (vp_Meta cr)) (\<lambda>cr. om_Labels (vp_Meta cr))
    pool_created pool_upd pool_upds pgone"
  shows "pool_repository (NewPoolRepository client) (stored_pools pobjs)"
proof (unfold_locales, goal_cases)
  case (1 s k p)
  then show ?case
    using object_api.objs_key [OF api, of s k] by (auto simp: stored_pools_def crToPool_def om_key_def)
next
  case (2 ns n s p s')
  then show ?case
    using object_api.Get_ok [OF api, of "ObjKey ns n" s]
    by (auto simp: NewPoolRepository_def PoolRepository_Get_def stored_pools_def fun_eq_iff split: prod.splits sum.splits)
next
  case (3 ns n s e s')
  then show ?case
    using object_api.Get_err [OF api, of "ObjKey ns n" s]
    by (auto simp: NewPoolRepository_def PoolRepository_Get_def stored_pools_def fun_eq_iff split: prod.splits sum.splits)
next
  case (4 p s u s')
  let ?k = "ObjKey (p_Namespace p) (p_Name p)"
  obtain cr w1 where g: "oc_Get client ?k s = (Inr cr, w1)"
    and u: "oc_UpdateStatus client (cr\<lparr>vp_Status := (vp_Status cr)\<lparr>st_Phase := p_Phase p,
        st_ReadyNodes := p_ReadyNodes p, st_TotalNodes := len32 (p_Nodes p)\<rparr>\<rparr>) w1 = (Inr u, s')"
    using 4 by (auto simp: NewPoolRepository_def PoolRepository_Save_def split: prod.splits sum.splits)
  note w1 = object_api.Get_ok [OF api g]
  have "om_key (vp_Meta cr) = ?k" using object_api.objs_key [OF api] w1 by blast
  with object_api.UpdateStatus_ok [OF api u] w1
  have "pobjs s' = (pobjs s)(?k \<mapsto> cr\<lparr>vp_Status := (vp_Status cr)\<lparr>st_Phase := p_Phase p,
        st_ReadyNodes := p_ReadyNodes p, st_TotalNodes := len32 (p_Nodes p)\<rparr>\<rparr>)"
    by (auto simp: pool_upds_def)
  with w1 show ?case by (auto simp: stored_pools_def fun_eq_iff crToPool_status)
next
  case (5 p s e s')
  then show ?case
    using object_api.Get_ok [OF api, of "ObjKey (p_Namespace p) (p_Name p)" s]
      object_api.Get_err [OF api, of "ObjKey (p_Namespace p) (p_Name p)" s] object_api.UpdateStatus_err [OF api]
    by (fastforce simp: NewPoolRepository_def PoolRepository_Save_def stored_pools_def fun_eq_iff
        split: prod.splits sum.splits)
next
  case (6 s ps s')
  then obtain items where l: "oc_List client None fmempty s = (Inr items, s')" and ps: "ps = map crToPool items"
    by (auto simp: NewPoolRepository_def PoolRepository_List_def split: prod.splits sum.splits)
  note ok = object_api.List_ok [OF api l]
  have k: "(\<lambda>p. ObjKey (p_Namespace p) (p_Name p)) \<circ> crToPool = vp_key"
    by (simp add: fun_eq_iff crToPool_def om_key_def)
  have "set items = {x. pobjs s (vp_key x) = Some x}" using ok by (simp add: selected_def)
  also have "\<dots> = ran (pobjs s)"
    using object_api.objs_key [OF api, of s] by (auto simp: ran_def)
  finally have "set ps = ran (stored_pools pobjs s)" by (auto simp: ps ran_def stored_pools_def)
  moreover have "stored_pools pobjs s' = stored_pools pobjs s" using ok by (simp add: stored_pools_def fun_eq_iff)
  ultimately show ?case using ok by (simp add: ps k)
next
  case (7 s e s')
  then show ?case
    using object_api.List_err [OF api, of None fmempty s]
    by (auto simp: NewPoolRepository_def PoolRepository_List_def stored_pools_def fun_eq_iff split: prod.splits sum.splits)
qed

lemma Save_total:
  assumes api: "object_api client pobjs (\<lambda>cr. om_key (vp_Meta cr)) (\<lambda>cr. om_Labels (vp_Meta cr))
      pool_created pool_upd pool_upds pgone"
    and save: "PoolRepository_Save client p w = (Inr u, w')"
  shows "\<exists>cr. pobjs w' (ObjKey (p_Namespace p) (p_Name p)) = Some cr \<and> st_TotalNodes (vp_Status cr) = len32 (p_Nodes p)"
proof -
  let ?k = "ObjKey (p_Namespace p) (p_Name p)"
  obtain cr w1 where g: "oc_Get client ?k w = (Inr cr, w1)"
    and u: "oc_UpdateStatus client (cr\<lparr>vp_Status := (vp_Status cr)\<lparr>st_Phase := p_Phase p,
        st_ReadyNodes := p_ReadyNodes p, st_TotalNodes := len32 (p_Nodes p)\<rparr>\<rparr>) w1 = (Inr u, w')"
    using save by (auto simp: PoolRepository_Save_def split: prod.splits sum.splits)
  have "om_key (vp_Meta cr) = ?k" using object_api.objs_key [OF api] object_api.Get_ok [OF api g] by blast
  with object_api.UpdateStatus_ok [OF api u] show ?thesis by (auto simp: pool_upds_def)
qed

section \<open>Properties\<close>

text \<open>
  C23: reading a pool and saving it back changes the pool of no key, but the stored total. A pool
  that was read, saved and read again comes back as it was, and every other pool is kept; yet
  the total number of nodes in the status of the object is then 0, whatever it was before,
  because a pool that was read carries no node names.
\<close>

theorem PoolRepository_read_save:
  assumes "object_api client pobjs (\<lambda>cr. om_key (vp_Meta cr)) (\<lambda>cr. om_Labels (vp_Meta cr))
      pool_created pool_upd pool_upds pgone"
    and "PoolRepository_Get client ns name w = (Inr pool, w1)"
    and "PoolRepository_Save client pool w1 = (Inr u, w2)"
  shows "stored_pools pobjs w2 = stored_pools pobjs w \<and>
         (\<exists>cr. pobjs w2 (ObjKey ns name) = Some cr \<and> crToPool cr = pool \<and> st_TotalNodes (vp_Status cr) = 0)"
proof -
  note refines = pool_repository_refines [OF assms(1)]
  have same: "stored_pools pobjs w2 = stored_pools pobjs w" and here: "stored_pools pobjs w (ObjKey ns name) = Some pool"
    using pool_repository.Get_Save_same [OF refines, of ns name w pool w1 u w2]
      pool_repository.PGet_ok [OF refines, of ns name w pool w1] assms(2,3)
    by (simp_all add: NewPoolRepository_def)
  have "ObjKey (p_Namespace pool) (p_Name pool) = ObjKey ns name"
    using pool_repository.pool_key [OF refines here] by simp
  moreover have "p_Nodes pool = []" using here by (auto simp: stored_pools_def crToPool_def)
  ultimately have "\<exists>cr. pobjs w2 (ObjKey ns name) = Some cr \<and> st_TotalNodes (vp_Status cr) = 0"
    using Save_total [OF assms(1,3)] by (simp add: len32_def)
  with same here show ?thesis by (metis option.map_sel option.sel option.simps(9) stored_pools_def)
qed

end
