(* ===== verification/Pool_Lifecycle.thy ===== *)
theory Pool_Lifecycle
  imports Pool_Deletion Operator_Steps
begin

text \<open>
  The life of one pool as an abstract state machine, and the proof that the running operator
  implements it. A stage of a pool is who holds it and the set of its nodes: \<open>Unheld\<close> (no pool
  object, or one without the cleanup finalizer), \<open>Serving\<close> (held and not under deletion) and
  \<open>Draining\<close> (held and marked for deletion).

  The machine says what the operator and its surroundings may do to a pool in one step: nodes
  exist only while the pool is held, a pool under deletion only loses nodes and is never served
  again, and it is given up only without nodes.
\<close>

section \<open>The abstract machine\<close>

datatype pool_hold = Unheld | Serving | Draining

type_synonym pool_stage = "pool_hold \<times> objkey set"

inductive pool_lifecycle :: "pool_stage \<Rightarrow> pool_stage \<Rightarrow> bool" where
  stays: "pool_lifecycle st st"
| adopted: "pool_lifecycle (Unheld, {}) (Serving, N)"
| brought_in: "pool_lifecycle (Unheld, {}) (Draining, {})"
| resized: "pool_lifecycle (Serving, N) (Serving, N')"
| marked: "N' \<subseteq> N \<Longrightarrow> pool_lifecycle (Serving, N) (Draining, N')"
| drained: "N' \<subseteq> N \<Longrightarrow> pool_lifecycle (Draining, N) (Draining, N')"
| released: "pool_lifecycle (Draining, N) (Unheld, {})"

definition pool_hold_of :: "VNodePoolCR option \<Rightarrow> pool_hold" where
  "pool_hold_of ocr =
     (case ocr of
        None \<Rightarrow> Unheld
      | Some cr \<Rightarrow>
          if poolFinalizer \<notin> set (om_Finalizers (vp_Meta cr)) then Unheld
          else if om_DeletionTimestamp (vp_Meta cr) = None then Serving else Draining)"

definition pool_stage_of ::
  "('w \<Rightarrow> objkey \<Rightarrow> VNodeCR option) \<Rightarrow> ('w \<Rightarrow> objkey \<Rightarrow> VNodePoolCR option) \<Rightarrow> objkey \<Rightarrow>
   ('q, 'w) mstate \<Rightarrow> pool_stage"
where
  "pool_stage_of objs pobjs k s =
     (pool_hold_of (pobjs (ms_world s) k), pool_nodes (cluster_nodes objs s) (key_ns k) (key_name k))"

inductive_cases draining_cases: "pool_lifecycle (Draining, N) st"

lemma unheld_iff: "pool_hold_of ocr = Unheld \<longleftrightarrow> \<not> holds_finalizer ocr"
  by (cases ocr; simp add: pool_hold_of_def holds_finalizer_def)

lemma same_meta_hold: "map_option vp_Meta a = map_option vp_Meta b \<Longrightarrow> pool_hold_of a = pool_hold_of b"
  by (cases a; cases b) (simp_all add: pool_hold_of_def)

text \<open>What the machine excludes for a pool under deletion.\<close>

lemma draining_step:
  assumes "pool_lifecycle (Draining, N) (h, N')"
  shows "h \<noteq> Serving \<and> N' \<subseteq> N \<and> (h = Unheld \<longrightarrow> N' = {})"
  using assms by (cases rule: draining_cases) auto

section \<open>A drained pool does not grow\<close>

context pool_service
begin

lemma Deprovision_shrinks:
  assumes "invar s" and "nodes s (nkey n) \<noteq> None" and "lc_Deprovision svc n s = (r, s')"
  shows "invar s' \<and> (\<forall>ns p. pool_nodes (nodes s') ns p \<subseteq> pool_nodes (nodes s) ns p) \<and>
         (\<forall>k. k \<noteq> nkey n \<longrightarrow> nodes s' k = nodes s k)"
proof (cases r)
  case (Inr u)
  then show ?thesis using Deprovision_ok [OF assms(1)] assms(3) by (auto simp: pool_nodes_def split: if_splits)
next
  case (Inl e)
  then obtain ov where "invar s'" "nodes s' = (nodes s)(nkey n := ov)" "touched_node (nodes s (nkey n)) n ov"
    using Deprovision_err [OF assms(1)] assms(3) by blast
  with assms(2) show ?thesis
    by (auto simp: pool_nodes_def touched_node_def split: if_splits option.splits)
qed

lemma scaleDown_shrinks:
  "invar s \<Longrightarrow> distinct (map nkey w) \<Longrightarrow> \<forall>n \<in> set w. nodes s (nkey n) \<noteq> None \<Longrightarrow>
   scaleDown svc pool w k s = (r, s') \<Longrightarrow>
   invar s' \<and> (\<forall>ns p. pool_nodes (nodes s') ns p \<subseteq> pool_nodes (nodes s) ns p)"
proof (induction k arbitrary: w s)
  case (Suc k)
  show ?case
  proof (cases w rule: rev_cases)
    case Nil
    with Suc.prems show ?thesis by auto
  next
    case (snoc us u)
    obtain e s1 where dp: "lc_Deprovision svc u s = (e, s1)" by fastforce
    note d = Deprovision_shrinks [OF Suc.prems(1) _ dp]
    have u: "nodes s (nkey u) \<noteq> None" using Suc.prems(3) snoc by simp
    have "s' = s1 \<or> scaleDown svc pool us k s1 = (r, s')"
      using Suc.prems(4) dp snoc by (cases e) auto
    moreover have "distinct (map nkey us)" using Suc.prems(2) snoc by simp
    moreover have "\<forall>n \<in> set us. nodes s1 (nkey n) \<noteq> None"
    proof
      fix n assume n: "n \<in> set us"
      have "nkey n \<noteq> nkey u" using Suc.prems(2) snoc imageI [OF n, of nkey] by auto
      with n d [OF u] Suc.prems(3) snoc show "nodes s1 (nkey n) \<noteq> None" by simp
    qed
    ultimately show ?thesis using Suc.IH [of s1 us] d [OF u] by blast
  qed
qed simp

lemma Reconcile_shrinks:
  assumes "invar s" and zero: "p_NodeCount pool = 0" and "pool_size (nodes s) pool < 2 ^ 31"
    and run: "PoolService_Reconcile repo svc pool s = (r, s')"
  shows "pool_nodes (nodes s') ns p \<subseteq> pool_nodes (nodes s) ns p"
proof -
  obtain l s1 where l: "repo_ListByPool repo (p_Namespace pool) (p_Name pool) s = (l, s1)" by fastforce
  show ?thesis
  proof (cases l)
    case (Inl e)
    with run l List_err [OF assms(1)] show ?thesis by (auto simp: PoolService_Reconcile_def)
  next
    case (Inr xs)
    note ls = List_ok [OF assms(1) l [unfolded Inr]]
    have len: "sint (len32 xs) = int (length xs)"
      using List_length [OF assms(1) l [unfolded Inr]] assms(3) by (simp add: sint_len32 pool_size_def)
    obtain a d where ad: "DesiredScaleActions pool (len32 xs) = (a, d)" by fastforce
    have "sint a = 0" using scale_actions_exact [OF _ _ ad] zero len by simp
    then have up: "scaleUp svc pool xs 0 (nat (sint a)) s1 = ((pool, xs, None), s1)" by simp
    obtain p3 w3 e3 s3 where dn: "scaleDown svc pool xs (nat (sint d)) s1 = ((p3, w3, e3), s3)"
      by (metis prod.exhaust)
    have "s' = s3"
      using run l Inr ad up dn by (cases e3) (auto simp: PoolService_Reconcile_def Let_def)
    with scaleDown_shrinks [OF _ _ _ dn] ls show ?thesis by auto
  qed
qed

end

section \<open>The steps of the operator\<close>

context pool_controller
begin

lemma handleDeletion_drains:
  assumes inv: "controller_invar objs pobjs s" and run: "handleDeletion api svc cr s = (out, s')"
    and old: "pobjs (ms_world s) (vp_key cr) = Some cr"
    and small: "pool_size (cluster_nodes objs s) (crToPoolModel cr) < 2 ^ 31"
  shows "pool_nodes (cluster_nodes objs s') ns p \<subseteq> pool_nodes (cluster_nodes objs s) ns p \<and>
         (holds_finalizer (pobjs (ms_world s') (vp_key cr)) \<longrightarrow>
          map_option vp_Meta (pobjs (ms_world s') (vp_key cr)) = Some (vp_Meta cr))"
proof (cases "poolFinalizer \<in> set (om_Finalizers (vp_Meta cr))")
  case False
  with run old show ?thesis by (simp add: handleDeletion_def)
next
  case True
  let ?k = "vp_key cr" and ?pool = "(crToPoolModel cr)\<lparr>p_NodeCount := 0, p_DeletionPending := True\<rparr>"
  obtain r1 s1 where st: "onw (updatePoolStatus api ?k deletingStatus) s = (r1, s1)" by fastforce
  note s1 = status_keeps [OF inv st] and m1 = updatePoolStatus_meta [OF conjunct1 [OF onw_D [OF st]]]
  obtain q e s2 where rc: "pm_Reconcile svc ?pool s1 = ((q, e), s2)" by (metis prod.exhaust)
  have s2: "controller_invar objs pobjs s2" "pobjs (ms_world s2) = pobjs (ms_world s1)"
    using svc_keeps [OF _ rc] s1 by auto
  have sub: "pool_nodes (cluster_nodes objs s2) ns p \<subseteq> pool_nodes (cluster_nodes objs s) ns p"
  proof -
    have "operator_invar objs s1" "pool_size (cluster_nodes objs s1) ?pool < 2 ^ 31"
      using s1 small by (auto simp: controller_invar_def pool_size_def)
    from ps.Reconcile_shrinks [OF this(1) _ this(2) rc [unfolded main_poolSvc_sel]] s1 show ?thesis by simp
  qed
  obtain l s3 where ls: "onw (oc_List vnodes (Some (om_Namespace (vp_Meta cr)))
      (fmupd LabelVNodePool (om_Name (vp_Meta cr)) fmempty)) s2 = (l, s3)" by fastforce
  have w: "objs (ms_world s3) = objs (ms_world s2)" "ms_clients s3 = ms_clients s2" "pobjs (ms_world s3) = pobjs (ms_world s2)"
    using ls store.List_ok store.List_err vnode_frame.List_frame by (cases l; fastforce dest!: onw_D)+
  note s3 = same_world_views [OF w(1,2)]
  have m3: "map_option vp_Meta (pobjs (ms_world s3) ?k) = Some (vp_Meta cr)" using m1 [of ?k] s2 w(3) old by simp
  obtain r4 s4 where rf: "onw (env_retry env (tryRemoveFinalizer api ?k)) s3 = (r4, s4)" by fastforce
  note s4 = removeFinalizer_keeps [OF _ rf] removeFinalizer_effect [OF conjunct1 [OF onw_D [OF rf]]]
  have m4: "holds_finalizer (pobjs (ms_world s4) ?k) \<longrightarrow> map_option vp_Meta (pobjs (ms_world s4) ?k) = Some (vp_Meta cr)"
    using s4(2) m3 by (cases r4) auto
  have "s' = s2 \<or> s' = s3 \<or> s' = s4"
    using run True st rc ls rf
    by (cases e; cases l; cases r4) (auto simp: handleDeletion_def Let_def split: if_splits)
  with sub s2 s3 s4(1) m3 m4 w(3) show ?thesis by auto
qed

lemma marked_meta:
  assumes inv: "controller_invar objs pobjs s" and live: "om_DeletionTimestamp (vp_Meta cr) = None"
    and run: "reconcileMarked api svc cr s = (out, s')"
  shows "map_option vp_Meta (pobjs (ms_world s') k) = map_option vp_Meta (pobjs (ms_world s) k)"
  using live run
proof (cases rule: marked_branches)
  case (invalid e r)
  then show ?thesis using updatePoolStatus_meta [OF conjunct1 [OF onw_D [OF invalid(3)]]] by simp
next
  case (panicked e q)
  then show ?thesis using svc_keeps [OF inv panicked(4)] by simp
next
  case (failed m e q s1 r)
  then show ?thesis
    using svc_keeps [OF inv failed(3)] updatePoolStatus_meta [OF conjunct1 [OF onw_D [OF failed(4)]]] by simp
next
  case (finished q s1 r)
  then show ?thesis
    using svc_keeps [OF inv finished(3)] updatePoolStatus_meta [OF conjunct1 [OF onw_D [OF finished(4)]]] by simp
qed

end

context pool_controller
begin

lemma deletion_refines:
  assumes inv: "controller_invar objs pobjs s" and old: "pobjs (ms_world s) req = Some cr" and key: "vp_key cr = req"
    and marked: "om_DeletionTimestamp (vp_Meta cr) \<noteq> None" and run: "handleDeletion api svc cr s = (out, s')"
    and small: "card (pool_nodes (cluster_nodes objs s) (key_ns req) (key_name req)) < 2 ^ 31"
  shows "pool_lifecycle (pool_stage_of objs pobjs req s) (pool_stage_of objs pobjs req s')"
proof (cases "poolFinalizer \<in> set (om_Finalizers (vp_Meta cr))")
  case False
  with run show ?thesis by (simp add: handleDeletion_def stays)
next
  case True
  have ns: "key_ns req = om_Namespace (vp_Meta cr)" "key_name req = om_Name (vp_Meta cr)"
    using key by (auto simp: om_key_def)
  have size: "pool_size (cluster_nodes objs s) (crToPoolModel cr) < 2 ^ 31" using small ns by (simp add: pool_size_model)
  note d = handleDeletion_drains [OF inv run old [folded key] size, of "key_ns req" "key_name req"]
  have before: "pool_hold_of (pobjs (ms_world s) req) = Draining" "holds_finalizer (pobjs (ms_world s) req)"
    using True old marked by (simp_all add: pool_hold_of_def holds_finalizer_def)
  show ?thesis
  proof (cases "holds_finalizer (pobjs (ms_world s') req)")
    case h: True
    with d key have "map_option vp_Meta (pobjs (ms_world s') req) = map_option vp_Meta (Some cr)" by simp
    from same_meta_hold [OF this] before d old show ?thesis by (simp add: pool_stage_of_def drained)
  next
    case h: False
    then have "pool_nodes (cluster_nodes objs s') (key_ns req) (key_name req) = {}"
      using handleDeletion_safe [OF inv _ run] before key ns by simp
    moreover have "pool_hold_of (pobjs (ms_world s') req) = Unheld" using h by (simp add: unheld_iff)
    ultimately show ?thesis using before released by (simp add: pool_stage_of_def)
  qed
qed

lemma pool_step_refines:
  assumes inv: "controller_invar objs pobjs s"
    and held: "pool_nodes (cluster_nodes objs s) (key_ns req) (key_name req) \<noteq> {} \<Longrightarrow>
      holds_finalizer (pobjs (ms_world s) req)"
    and run: "main_poolReconciler pools patch vnodes tenants env req s = (out, s')"
    and small: "card (pool_nodes (cluster_nodes objs s) (key_ns req) (key_name req)) < 2 ^ 31"
  shows "pool_lifecycle (pool_stage_of objs pobjs req s) (pool_stage_of objs pobjs req s')"
  using run inv
proof (cases rule: Reconcile_branches)
  case (unread s1)
  then show ?thesis by (simp add: pool_stage_of_def stays)
next
  case (deletion cr s1)
  from deletion_refines [OF deletion(5) _ _ deletion(1,2)] deletion small show ?thesis
    by (simp add: pool_stage_of_def)
next
  case (live cr s1 cr' s2)
  have none: "om_DeletionTimestamp (vp_Meta cr) = None"
    using live(3,5) by (simp add: crToPoolModel_def)
  have same: "map_option vp_Meta (pobjs (ms_world s') req) = map_option vp_Meta (pobjs (ms_world s2) req)"
    by (rule marked_meta [OF live(8,3,2)])
  have "pool_hold_of (pobjs (ms_world s2) req) = Serving"
    using live(9,12) by (auto simp: pool_hold_of_def holds_finalizer_def split: option.splits)
  with same_meta_hold [OF same] have after: "pool_hold_of (pobjs (ms_world s') req) = Serving" by simp
  show ?thesis
  proof (cases "holds_finalizer (pobjs (ms_world s) req)")
    case True
    then have "pool_hold_of (pobjs (ms_world s) req) = Serving"
      using live(6) none by (simp add: pool_hold_of_def holds_finalizer_def)
    with after show ?thesis by (simp add: pool_stage_of_def resized)
  next
    case False
    then have "pool_hold_of (pobjs (ms_world s) req) = Unheld" by (simp add: unheld_iff)
    moreover have "pool_nodes (cluster_nodes objs s) (key_ns req) (key_name req) = {}" using False held by blast
    ultimately show ?thesis using after by (simp add: pool_stage_of_def adopted)
  qed
qed

end

lemma others_shrink:
  assumes "others_write objs pobjs (ms_world s) w'"
  shows "pool_nodes (cluster_nodes objs (s\<lparr>ms_world := w'\<rparr>)) ns p \<subseteq> pool_nodes (cluster_nodes objs s) ns p"
  using assms by (fastforce simp: pool_nodes_def cluster_nodes_def stored_nodes_def others_write_def crToNode_def)

lemma others_hold:
  assumes "others_write objs pobjs w w'"
  shows "pool_hold_of (pobjs w k) = Serving \<Longrightarrow> pool_hold_of (pobjs w' k) \<in> {Serving, Draining}"
    and "pool_hold_of (pobjs w k) = Draining \<Longrightarrow> pool_hold_of (pobjs w' k) = Draining"
proof -
  have f: "holds_finalizer (pobjs w k) \<Longrightarrow> holds_finalizer (pobjs w' k)"
    and m: "\<And>cr. pobjs w k = Some cr \<Longrightarrow> holds_finalizer (Some cr) \<Longrightarrow> om_DeletionTimestamp (vp_Meta cr) \<noteq> None \<Longrightarrow>
      \<exists>cr'. pobjs w' k = Some cr' \<and> om_DeletionTimestamp (vp_Meta cr') \<noteq> None"
    using assms unfolding others_write_def by blast+
  show "pool_hold_of (pobjs w k) = Serving \<Longrightarrow> pool_hold_of (pobjs w' k) \<in> {Serving, Draining}"
    using f by (auto simp: pool_hold_of_def holds_finalizer_def split: option.splits if_splits)
  show "pool_hold_of (pobjs w k) = Draining \<Longrightarrow> pool_hold_of (pobjs w' k) = Draining"
    using f m by (cases "pobjs w k") (auto simp: pool_hold_of_def holds_finalizer_def split: if_splits)
qed

lemma others_write_refines:
  assumes ow: "others_write objs pobjs (ms_world s) w'"
    and none: "pool_hold_of (pobjs (ms_world s) k) = Unheld \<Longrightarrow>
      pool_nodes (cluster_nodes objs s) (key_ns k) (key_name k) = {}"
  shows "pool_lifecycle (pool_stage_of objs pobjs k s) (pool_stage_of objs pobjs k (s\<lparr>ms_world := w'\<rparr>))"
proof -
  let ?N = "pool_nodes (cluster_nodes objs s) (key_ns k) (key_name k)"
    and ?N' = "pool_nodes (cluster_nodes objs (s\<lparr>ms_world := w'\<rparr>)) (key_ns k) (key_name k)"
  have sub: "?N' \<subseteq> ?N" by (rule others_shrink [OF ow])
  have "pool_lifecycle (pool_hold_of (pobjs (ms_world s) k), ?N) (pool_hold_of (pobjs w' k), ?N')"
  proof (cases "pool_hold_of (pobjs (ms_world s) k)")
    case Unheld
    then have "?N = {}" "?N' = {}" using none sub by auto
    then show ?thesis
      using Unheld stays adopted brought_in by (cases "pool_hold_of (pobjs w' k)") simp_all
  next
    case Serving
    then show ?thesis
      using others_hold(1) [OF ow Serving] resized marked [OF sub] by auto
  next
    case Draining
    then show ?thesis using others_hold(2) [OF ow Draining] drained [OF sub] by simp
  qed
  then show ?thesis by (simp add: pool_stage_of_def)
qed

context whole_operator
begin

lemma operator_step_refines:
  assumes step: "steps_to rc s s'" and inv: "controller_invar objs pobjs s" and held: "nodes_held objs pobjs s"
    and small: "card (pool_nodes (cluster_nodes objs s) (key_ns k) (key_name k)) < 2 ^ 31"
  shows "pool_lifecycle (pool_stage_of objs pobjs k s) (pool_stage_of objs pobjs k s')"
  using step
proof cases
  case (pool_reconciled req out)
  show ?thesis
  proof (cases "k = req")
    case True
    with pool_step_refines [OF inv _ pool_reconciled] held small show ?thesis
      by (cases req) (simp add: nodes_held_def)
  next
    case False
    with pool_Reconcile_others [OF inv pool_reconciled False] show ?thesis
      by (cases k; cases req) (auto simp: pool_stage_of_def other_pools_kept_def stays)
  qed
next
  case (vnode_reconciled req out)
  with vnode_Reconcile_keeps [OF inv] show ?thesis by (simp add: pool_stage_of_def stays)
next
  case (pods_synchronised req out)
  with podSync_keeps [OF inv, of rc req out s' k] same_meta_hold [of "pobjs (ms_world s') k" "pobjs (ms_world s) k"]
  show ?thesis by (simp add: pool_stage_of_def stays)
next
  case restarted
  then show ?thesis by (simp add: pool_stage_of_def cluster_nodes_def [abs_def] stays)
next
  case (others_wrote w')
  show ?thesis
    unfolding others_wrote(1)
    by (rule others_write_refines [OF others_wrote(2)]) (use held in \<open>cases k; auto simp: nodes_held_def unheld_iff\<close>)
qed

end

section \<open>Properties\<close>

text \<open>
  C2: the running operator implements the life of a pool. In every state that the operator can
  reach, every step it can take, be it a reconciliation of any object with any outcome, a
  restart or a change made by others, is one step of the abstract machine for every pool (with
  fewer than 2^31 nodes): nodes exist only while the cleanup finalizer holds the pool, a pool
  under deletion only loses nodes and never returns to service, and the finalizer goes only
  when no node is left.
\<close>

theorem operator_refines_lifecycle:
  assumes "whole_operator vnodes tenants env objs pools pobjs pgone patch c"
    and "operator_initial objs s0"
    and "(operator_step objs pobjs pools patch vnodes c rc tenants env)\<^sup>*\<^sup>* s0 s"
    and "operator_step objs pobjs pools patch vnodes c rc tenants env s s'"
    and "card (pool_nodes (cluster_nodes objs s) (key_ns k) (key_name k)) < 2 ^ 31"
  shows "pool_lifecycle (pool_stage_of objs pobjs k s) (pool_stage_of objs pobjs k s')"
  using whole_operator.operator_step_refines [OF assms(1,4) _ _ assms(5)]
    whole_operator.reachable_invariant [OF assms(1,3,2)] by blast

end
