(* ===== verification/Operator_Witnesses.thy ===== *)
theory Operator_Witnesses
  imports Controller_Witnesses Pool_Deletion Pool_Repository Pool_Lifecycle
begin

text \<open>
  Instances of the properties of the running operator on the reference world: the isolation of
  two pools, the end of a deletion, and a run with a restart and a user who deletes a pool.
\<close>

section \<open>Data\<close>

definition wit_other_pool :: VNodePoolCR where
  "wit_other_pool = ref_pool_cr\<lparr>vp_Meta := (vp_Meta ref_pool_cr)\<lparr>om_Name := ''other'', om_UID := ''uid-o''\<rparr>\<rparr>"

definition wit_other_vnode :: VNodeCR where
  "wit_other_vnode =
     ref_vnode_cr\<lparr>vn_Meta := (vn_Meta ref_vnode_cr)\<lparr>om_Name := ''vnode-other-1'',
         om_Labels := fmap_of_list [(LabelVNodePool, ''other'')]\<rparr>,
       vn_Spec := (vn_Spec ref_vnode_cr)\<lparr>PoolRef := ''other''\<rparr>\<rparr>"

definition wit_two_pools :: "(string, refworld) mstate" where
  "wit_two_pools = ref_world_of [ref_pool_cr, wit_other_pool] [wit_other_vnode] [] []"

definition wit_marked_pool :: VNodePoolCR where
  "wit_marked_pool = ref_pool_cr\<lparr>vp_Meta := (vp_Meta ref_pool_cr)\<lparr>om_DeletionTimestamp := Some 7,
     om_Finalizers := [poolFinalizer]\<rparr>\<rparr>"

definition wit_going :: "(string, refworld) mstate" where
  "wit_going = ref_world_of [wit_marked_pool] [ref_vnode_cr] [] []"

text \<open>A pool with a reported total of 3 is read and saved back.\<close>

definition wit_counted :: refworld where
  "wit_counted = ms_world (ref_world_of
     [ref_pool_cr\<lparr>vp_Status := (vp_Status ref_pool_cr)\<lparr>st_TotalNodes := 3\<rparr>\<rparr>] [] [] [])"

definition wit_saved :: refworld where
  "wit_saved =
     (case PoolRepository_Get (mem_client pool_st) ''ns'' ''pool'' wit_counted of
        (g, w) \<Rightarrow> snd (PoolRepository_Save (mem_client pool_st) (projr g) w))"

text \<open>A run: the pool is reconciled, the process restarts, and a user deletes the pool.\<close>

definition wit_user_deletes :: "refworld \<Rightarrow> refworld" where
  "wit_user_deletes w = w\<lparr>rw_pools := map (\<lambda>cr. cr\<lparr>vp_Meta := (vp_Meta cr)\<lparr>om_DeletionTimestamp := Some 7\<rparr>\<rparr>) (rw_pools w)\<rparr>"

definition wit_run1 :: "(string, refworld) mstate" where
  "wit_run1 = snd (ref_poolReconcile ref_ctl_start)"

definition wit_run2 :: "(string, refworld) mstate" where
  "wit_run2 = wit_run1\<lparr>ms_clients := fmempty\<rparr>"

definition wit_run3 :: "(string, refworld) mstate" where
  "wit_run3 = wit_run2\<lparr>ms_world := wit_user_deletes (ms_world wit_run2)\<rparr>"

section \<open>Isolation and deletion\<close>

theorem pool_reconcile_isolated_witness:
  "pool_nodes (cluster_nodes ref_objs (snd (ref_poolReconcile wit_two_pools))) ''ns'' ''other'' =
     {ObjKey ''ns'' ''vnode-other-1''} \<and>
   pool_nodes (cluster_nodes ref_objs (snd (ref_poolReconcile wit_two_pools))) ''ns'' ''pool'' \<noteq> {}"
proof -
  have inv: "controller_invar ref_objs (stored_objs pool_st) wit_two_pools"
    unfolding wit_two_pools_def by (rule ref_world_invar) (simp add: wit_other_vnode_def)
  have "map vn_key (vnodes_of ''ns'' ''other'' (rw_vnodes (ms_world wit_two_pools))) = [ObjKey ''ns'' ''vnode-other-1'']"
    by code_simp
  then have "pool_nodes (cluster_nodes ref_objs wit_two_pools) ''ns'' ''other'' = {ObjKey ''ns'' ''vnode-other-1''}"
    by (simp add: ref_pool_nodes)
  with pool_reconcile_isolated [OF ref_controller.pool_controller_axioms inv, of wit_req
      "fst (ref_poolReconcile wit_two_pools)" "snd (ref_poolReconcile wit_two_pools)" "''ns''" "''other''"]
  have "pool_nodes (cluster_nodes ref_objs (snd (ref_poolReconcile wit_two_pools))) ''ns'' ''other'' =
      {ObjKey ''ns'' ''vnode-other-1''}" by (simp add: ref_poolReconcile_def)
  moreover have "vnodes_of ''ns'' ''pool'' (rw_vnodes (ms_world (snd (ref_poolReconcile wit_two_pools)))) \<noteq> []" by code_simp
  then have "pool_nodes (cluster_nodes ref_objs (snd (ref_poolReconcile wit_two_pools))) ''ns'' ''pool'' \<noteq> {}"
    by (simp add: ref_pool_nodes)
  ultimately show ?thesis by blast
qed

theorem pool_deletion_finishes_witness:
  "pool_nodes (cluster_nodes ref_objs wit_going) ''ns'' ''pool'' \<noteq> {} \<and>
   pool_nodes (cluster_nodes ref_objs (snd (ref_poolReconcile wit_going))) ''ns'' ''pool'' = {} \<and>
   stored_objs pool_st (ms_world (snd (ref_poolReconcile wit_going))) wit_req = None"
proof -
  have inv: "controller_invar ref_objs (stored_objs pool_st) wit_going"
    unfolding wit_going_def by (rule ref_world_invar) (simp add: ref_vnode_cr_def)
  have "vp_key wit_marked_pool = wit_req" by (simp add: wit_marked_pool_def ref_pool_cr_def om_key_def emptyMeta_def)
  then have pool: "stored_objs pool_st (ms_world wit_going) wit_req = Some wit_marked_pool"
    using ref_pool_of [of wit_marked_pool "[ref_vnode_cr]" "[]" "[]"] by (simp add: wit_going_def)
  have "fst (ref_poolReconcile wit_going) = Inr noRequeue" by code_simp
  then have run: "main_poolReconciler (mem_client pool_st) ref_patch ref_vnodes ref_tenants ref_env wit_req wit_going =
      (Inr noRequeue, snd (ref_poolReconcile wit_going))"
    by (simp add: ref_poolReconcile_def prod_eq_iff)
  have "map vn_key (vnodes_of ''ns'' ''pool'' (rw_vnodes (ms_world wit_going))) = [ObjKey ''ns'' ''vnode-pool-1'']"
    by code_simp
  then have "pool_nodes (cluster_nodes ref_objs wit_going) ''ns'' ''pool'' \<noteq> {}" by (simp add: ref_pool_nodes)
  with pool_deletion_finishes [OF ref_controller.pool_controller_axioms inv pool _ _ run]
  show ?thesis by (simp add: wit_marked_pool_def noRequeue_def)
qed

section \<open>The pool repository\<close>

interpretation ref_pools: pool_repository "NewPoolRepository (mem_client pool_st)" "stored_pools (stored_objs pool_st)"
  by (rule pool_repository_refines [OF ref_pool_api])

theorem PoolRepository_read_save_witness:
  "case stored_objs pool_st wit_saved wit_req of None \<Rightarrow> False | Some cr \<Rightarrow> st_TotalNodes (vp_Status cr) = 0"
proof -
  have get: "PoolRepository_Get (mem_client pool_st) ''ns'' ''pool'' wit_counted =
      (Inr (projr (fst (PoolRepository_Get (mem_client pool_st) ''ns'' ''pool'' wit_counted))),
       snd (PoolRepository_Get (mem_client pool_st) ''ns'' ''pool'' wit_counted))"
    by code_simp
  have save: "PoolRepository_Save (mem_client pool_st)
      (projr (fst (PoolRepository_Get (mem_client pool_st) ''ns'' ''pool'' wit_counted)))
      (snd (PoolRepository_Get (mem_client pool_st) ''ns'' ''pool'' wit_counted)) = (Inr (), wit_saved)"
  proof -
    have "fst (PoolRepository_Save (mem_client pool_st)
      (projr (fst (PoolRepository_Get (mem_client pool_st) ''ns'' ''pool'' wit_counted)))
      (snd (PoolRepository_Get (mem_client pool_st) ''ns'' ''pool'' wit_counted))) = Inr ()" by code_simp
    then show ?thesis by (simp add: prod_eq_iff wit_saved_def case_prod_beta)
  qed
  from PoolRepository_read_save [OF ref_pool_api get save] show ?thesis by auto
qed

section \<open>A run of the operator\<close>

lemma lookup_map:
  assumes "\<And>x. key (f x) = key x"
  shows "lookupObj key (map f xs) k = map_option f (lookupObj key xs k)"
  by (induction xs) (simp_all add: lookupObj_def assms)

lemma user_deletes_pools:
  "stored_objs pool_st (wit_user_deletes w) k =
     map_option (\<lambda>cr. cr\<lparr>vp_Meta := (vp_Meta cr)\<lparr>om_DeletionTimestamp := Some 7\<rparr>\<rparr>) (stored_objs pool_st w k)"
  by (simp add: stored_objs_def pool_st_def wit_user_deletes_def lookup_map om_key_def)

lemma user_deletes_others: "others_write ref_objs (stored_objs pool_st) w (wit_user_deletes w)"
  by (auto simp: others_write_def user_deletes_pools holds_finalizer_def split: option.splits)
    (simp add: wit_user_deletes_def stored_objs_def vnode_st_def)+

lemma wit_run2_reachable:
  "(operator_step ref_objs (stored_objs pool_st) (mem_client pool_st) ref_patch ref_vnodes ref_hostPods ''kata''
      ref_tenants ref_env)\<^sup>*\<^sup>* ref_ctl_start wit_run2"
    (is "?step\<^sup>*\<^sup>* _ _")
proof -
  have "?step ref_ctl_start wit_run1"
    by (rule operator_step.pool_reconciled [of _ _ _ _ _ wit_req _ "fst (ref_poolReconcile ref_ctl_start)"])
      (simp add: wit_run1_def ref_poolReconcile_def)
  moreover have "?step wit_run1 wit_run2" unfolding wit_run2_def by (rule operator_step.restarted)
  ultimately show ?thesis by (meson converse_rtranclp_into_rtranclp rtranclp.rtrancl_refl)
qed

lemma wit_run3_step:
  "operator_step ref_objs (stored_objs pool_st) (mem_client pool_st) ref_patch ref_vnodes ref_hostPods ''kata''
      ref_tenants ref_env wit_run2 wit_run3"
  unfolding wit_run3_def by (rule operator_step.others_wrote [OF user_deletes_others])

lemma wit_run3_reachable:
  "(operator_step ref_objs (stored_objs pool_st) (mem_client pool_st) ref_patch ref_vnodes ref_hostPods ''kata''
      ref_tenants ref_env)\<^sup>*\<^sup>* ref_ctl_start wit_run3"
  using wit_run2_reachable wit_run3_step by (meson rtranclp.rtrancl_into_rtrancl)

lemma wit_initial: "operator_initial ref_objs ref_ctl_start"
  by (simp add: operator_initial_def ref_ctl_start_def ref_world_of_def stored_objs_def vnode_st_def emptyWorld_def lookupObj_def)

theorem no_stranded_nodes_witness:
  "\<exists>cr. stored_objs pool_st (ms_world wit_run3) wit_req = Some cr \<and> poolFinalizer \<in> set (om_Finalizers (vp_Meta cr))"
proof -
  have "map_option n_PoolName (cluster_nodes ref_objs wit_run3 (ObjKey ''ns'' ''vnode-pool-1'')) = Some ''pool''"
    unfolding ref_stored by code_simp
  then obtain n where n: "cluster_nodes ref_objs wit_run3 (ObjKey ''ns'' ''vnode-pool-1'') = Some n" "n_PoolName n = ''pool''"
    by auto
  from no_stranded_nodes [OF ref_whole.whole_operator_axioms wit_initial wit_run3_reachable n(1)] n(2) show ?thesis by simp
qed

text \<open>The node is in service before the user deletes the pool, and has to be drained afterwards.\<close>

theorem operator_refines_lifecycle_witness:
  "pool_stage_of ref_objs (stored_objs pool_st) wit_req wit_run2 = (Serving, {ObjKey ''ns'' ''vnode-pool-1''}) \<and>
   pool_stage_of ref_objs (stored_objs pool_st) wit_req wit_run3 = (Draining, {ObjKey ''ns'' ''vnode-pool-1''}) \<and>
   pool_lifecycle (Serving, {ObjKey ''ns'' ''vnode-pool-1''}) (Draining, {ObjKey ''ns'' ''vnode-pool-1''})"
proof -
  have same: "rw_vnodes (ms_world wit_run3) = rw_vnodes (ms_world wit_run2)"
    by (simp add: wit_run3_def wit_user_deletes_def)
  have "map vn_key (vnodes_of ''ns'' ''pool'' (rw_vnodes (ms_world wit_run2))) = [ObjKey ''ns'' ''vnode-pool-1'']" by code_simp
  then have n: "pool_nodes (cluster_nodes ref_objs s) ''ns'' ''pool'' = {ObjKey ''ns'' ''vnode-pool-1''}"
    if "rw_vnodes (ms_world s) = rw_vnodes (ms_world wit_run2)" for s
    using that by (simp add: ref_pool_nodes)
  have h: "pool_hold_of (stored_objs pool_st (ms_world wit_run2) wit_req) = Serving"
    and h': "pool_hold_of (stored_objs pool_st (ms_world wit_run3) wit_req) = Draining" by code_simp+
  from operator_refines_lifecycle [OF ref_whole.whole_operator_axioms wit_initial wit_run2_reachable wit_run3_step, of wit_req]
    n [OF refl] n [OF same] h h'
  show ?thesis by (simp add: pool_stage_of_def)
qed

end
