(* ===== verification/Deep_Copy.thy ===== *)
theory Deep_Copy
  imports API_Types
begin

text \<open>
  The copy functions of \<open>api/v1alpha1/zz_generated.deepcopy.go\<close>, which are written by hand,
  over an explicit heap: the maps and slices of an object are references (\<open>None\<close> is nil), and
  \<open>make\<close> takes the next free address. A struct is the value of its fields; assigning it copies
  the references. The copy of the object metadata belongs to the Kubernetes library and is the
  parameter \<open>copyMeta\<close>; the type metadata and the list metadata are plain strings and left out.
  Conditions, taints and tolerations are values without references of their own (the pointer of
  a toleration is never written through).

  The controllers rely on the copies: they take \<open>base := current.DeepCopy()\<close>, change the
  conditions of \<open>current\<close> in place, compare and send the difference. The lemmas show which parts
  of a copy are independent of later writes to the original.
\<close>

section \<open>The heap\<close>

type_synonym ref = "nat option"

record GoPoolSpec =
  gs_TenantRef :: CRTenantRef
  gs_NodeCount :: int32
  gs_PerNodeResources :: NodeResources
  gs_Mode :: string
  gs_IsolationBackend :: string
  gs_RuntimeClassName :: string
  gs_NodeSelector :: ref
  gs_Taints :: ref
  gs_Tolerations :: ref
  gs_DisplayName :: string

record GoPoolStatus =
  gst_Phase :: string
  gst_ReadyNodes :: int32
  gst_TotalNodes :: int32
  gst_Conditions :: ref

record 'm GoPool =
  gp_Meta :: 'm
  gp_Spec :: GoPoolSpec
  gp_Status :: GoPoolStatus

record GoVNodeStatus =
  gvs_Phase :: string
  gvs_Conditions :: ref

record 'm GoVNode =
  gv_Meta :: 'm
  gv_Spec :: VNodeSpec
  gv_Status :: GoVNodeStatus

record GoList =
  gl_Items :: ref

record 'm goheap =
  hp_next :: nat
  hp_maps :: "nat \<Rightarrow> smap"
  hp_strings :: "nat \<Rightarrow> string list"
  hp_taints :: "nat \<Rightarrow> CoreTaint list"
  hp_tols :: "nat \<Rightarrow> CoreToleration list"
  hp_conds :: "nat \<Rightarrow> Condition list"
  hp_pools :: "nat \<Rightarrow> 'm GoPool list"
  hp_vnodes :: "nat \<Rightarrow> 'm GoVNode list"

text \<open>Allocation of a copy, for each kind of cell.\<close>

definition copyMap :: "ref \<Rightarrow> 'm goheap \<Rightarrow> ref \<times> 'm goheap" where
  "copyMap r h =
     (case r of
        None \<Rightarrow> (None, h)
      | Some a \<Rightarrow> (Some (hp_next h),
          h\<lparr>hp_next := hp_next h + 1, hp_maps := (hp_maps h)(hp_next h := hp_maps h a)\<rparr>))"

definition copyTaints :: "ref \<Rightarrow> 'm goheap \<Rightarrow> ref \<times> 'm goheap" where
  "copyTaints r h =
     (case r of
        None \<Rightarrow> (None, h)
      | Some a \<Rightarrow> (Some (hp_next h),
          h\<lparr>hp_next := hp_next h + 1, hp_taints := (hp_taints h)(hp_next h := hp_taints h a)\<rparr>))"

definition copyTolerations :: "ref \<Rightarrow> 'm goheap \<Rightarrow> ref \<times> 'm goheap" where
  "copyTolerations r h =
     (case r of
        None \<Rightarrow> (None, h)
      | Some a \<Rightarrow> (Some (hp_next h),
          h\<lparr>hp_next := hp_next h + 1, hp_tols := (hp_tols h)(hp_next h := hp_tols h a)\<rparr>))"

definition copyConditions :: "ref \<Rightarrow> 'm goheap \<Rightarrow> ref \<times> 'm goheap" where
  "copyConditions r h =
     (case r of
        None \<Rightarrow> (None, h)
      | Some a \<Rightarrow> (Some (hp_next h),
          h\<lparr>hp_next := hp_next h + 1, hp_conds := (hp_conds h)(hp_next h := hp_conds h a)\<rparr>))"

section \<open>The copy functions\<close>

type_synonym 'm metacopy = "'m \<Rightarrow> 'm goheap \<Rightarrow> 'm \<times> 'm goheap"

definition TenantRef_DeepCopyInto :: "CRTenantRef \<Rightarrow> CRTenantRef" where
  "TenantRef_DeepCopyInto inp = inp"

definition NodeResources_DeepCopyInto :: "NodeResources \<Rightarrow> NodeResources" where
  "NodeResources_DeepCopyInto inp = inp"

definition VNodePoolSpec_DeepCopyInto :: "GoPoolSpec \<Rightarrow> 'm goheap \<Rightarrow> GoPoolSpec \<times> 'm goheap" where
  "VNodePoolSpec_DeepCopyInto inp h =
     (let (ns, h) = copyMap (gs_NodeSelector inp) h;
          (ts, h) = copyTaints (gs_Taints inp) h;
          (ls, h) = copyTolerations (gs_Tolerations inp) h
      in (inp\<lparr>gs_NodeSelector := ns, gs_Taints := ts, gs_Tolerations := ls\<rparr>, h))"

definition VNodePoolStatus_DeepCopyInto :: "GoPoolStatus \<Rightarrow> 'm goheap \<Rightarrow> GoPoolStatus \<times> 'm goheap" where
  "VNodePoolStatus_DeepCopyInto inp h =
     (let (cs, h) = copyConditions (gst_Conditions inp) h in (inp\<lparr>gst_Conditions := cs\<rparr>, h))"

definition VNodePool_DeepCopyInto :: "'m metacopy \<Rightarrow> 'm GoPool \<Rightarrow> 'm goheap \<Rightarrow> 'm GoPool \<times> 'm goheap" where
  "VNodePool_DeepCopyInto copyMeta inp h =
     (let out = inp;
          (m, h) = copyMeta (gp_Meta inp) h;
          out = out\<lparr>gp_Meta := m\<rparr>;
          out = out\<lparr>gp_Spec := gp_Spec inp\<rparr>;
          (st, h) = VNodePoolStatus_DeepCopyInto (gp_Status inp) h
      in (out\<lparr>gp_Status := st\<rparr>, h))"

fun copyPools :: "'m metacopy \<Rightarrow> 'm GoPool list \<Rightarrow> 'm goheap \<Rightarrow> 'm GoPool list \<times> 'm goheap" where
  "copyPools copyMeta [] h = ([], h)"
| "copyPools copyMeta (x # xs) h =
     (let (y, h) = VNodePool_DeepCopyInto copyMeta x h; (ys, h) = copyPools copyMeta xs h in (y # ys, h))"

definition VNodePoolList_DeepCopyInto :: "'m metacopy \<Rightarrow> GoList \<Rightarrow> 'm goheap \<Rightarrow> GoList \<times> 'm goheap" where
  "VNodePoolList_DeepCopyInto copyMeta inp h =
     (case gl_Items inp of
        None \<Rightarrow> (inp, h)
      | Some a \<Rightarrow>
          (let b = hp_next h;
               (ys, h) = copyPools copyMeta (hp_pools h a) (h\<lparr>hp_next := b + 1\<rparr>)
           in (inp\<lparr>gl_Items := Some b\<rparr>, h\<lparr>hp_pools := (hp_pools h)(b := ys)\<rparr>)))"

definition VNodeSpec_DeepCopyInto :: "VNodeSpec \<Rightarrow> VNodeSpec" where
  "VNodeSpec_DeepCopyInto inp = inp\<lparr>Capacity := Capacity inp\<rparr>"

definition VNodeStatus_DeepCopyInto :: "GoVNodeStatus \<Rightarrow> 'm goheap \<Rightarrow> GoVNodeStatus \<times> 'm goheap" where
  "VNodeStatus_DeepCopyInto inp h =
     (let (cs, h) = copyConditions (gvs_Conditions inp) h in (inp\<lparr>gvs_Conditions := cs\<rparr>, h))"

definition VNode_DeepCopyInto :: "'m metacopy \<Rightarrow> 'm GoVNode \<Rightarrow> 'm goheap \<Rightarrow> 'm GoVNode \<times> 'm goheap" where
  "VNode_DeepCopyInto copyMeta inp h =
     (let out = inp;
          (m, h) = copyMeta (gv_Meta inp) h;
          out = out\<lparr>gv_Meta := m\<rparr>;
          out = out\<lparr>gv_Spec := gv_Spec inp\<rparr>;
          (st, h) = VNodeStatus_DeepCopyInto (gv_Status inp) h
      in (out\<lparr>gv_Status := st\<rparr>, h))"

fun copyVNodes :: "'m metacopy \<Rightarrow> 'm GoVNode list \<Rightarrow> 'm goheap \<Rightarrow> 'm GoVNode list \<times> 'm goheap" where
  "copyVNodes copyMeta [] h = ([], h)"
| "copyVNodes copyMeta (x # xs) h =
     (let (y, h) = VNode_DeepCopyInto copyMeta x h; (ys, h) = copyVNodes copyMeta xs h in (y # ys, h))"

definition VNodeList_DeepCopyInto :: "'m metacopy \<Rightarrow> GoList \<Rightarrow> 'm goheap \<Rightarrow> GoList \<times> 'm goheap" where
  "VNodeList_DeepCopyInto copyMeta inp h =
     (case gl_Items inp of
        None \<Rightarrow> (inp, h)
      | Some a \<Rightarrow>
          (let b = hp_next h;
               (ys, h) = copyVNodes copyMeta (hp_vnodes h a) (h\<lparr>hp_next := b + 1\<rparr>)
           in (inp\<lparr>gl_Items := Some b\<rparr>, h\<lparr>hp_vnodes := (hp_vnodes h)(b := ys)\<rparr>)))"

text \<open>The functions on pointers: a nil pointer is copied to a nil pointer.\<close>

definition VNodePool_DeepCopy ::
  "'m metacopy \<Rightarrow> 'm GoPool option \<Rightarrow> 'm goheap \<Rightarrow> 'm GoPool option \<times> 'm goheap"
where
  "VNodePool_DeepCopy copyMeta inp h =
     (case inp of None \<Rightarrow> (None, h)
      | Some x \<Rightarrow> (let (out, h) = VNodePool_DeepCopyInto copyMeta x h in (Some out, h)))"

definition VNodePoolList_DeepCopy ::
  "'m metacopy \<Rightarrow> GoList option \<Rightarrow> 'm goheap \<Rightarrow> GoList option \<times> 'm goheap"
where
  "VNodePoolList_DeepCopy copyMeta inp h =
     (case inp of None \<Rightarrow> (None, h)
      | Some x \<Rightarrow> (let (out, h) = VNodePoolList_DeepCopyInto copyMeta x h in (Some out, h)))"

definition VNodePoolSpec_DeepCopy :: "GoPoolSpec option \<Rightarrow> 'm goheap \<Rightarrow> GoPoolSpec option \<times> 'm goheap" where
  "VNodePoolSpec_DeepCopy inp h =
     (case inp of None \<Rightarrow> (None, h)
      | Some x \<Rightarrow> (let (out, h) = VNodePoolSpec_DeepCopyInto x h in (Some out, h)))"

definition VNodePoolStatus_DeepCopy :: "GoPoolStatus option \<Rightarrow> 'm goheap \<Rightarrow> GoPoolStatus option \<times> 'm goheap" where
  "VNodePoolStatus_DeepCopy inp h =
     (case inp of None \<Rightarrow> (None, h)
      | Some x \<Rightarrow> (let (out, h) = VNodePoolStatus_DeepCopyInto x h in (Some out, h)))"

definition VNode_DeepCopy ::
  "'m metacopy \<Rightarrow> 'm GoVNode option \<Rightarrow> 'm goheap \<Rightarrow> 'm GoVNode option \<times> 'm goheap"
where
  "VNode_DeepCopy copyMeta inp h =
     (case inp of None \<Rightarrow> (None, h)
      | Some x \<Rightarrow> (let (out, h) = VNode_DeepCopyInto copyMeta x h in (Some out, h)))"

definition VNodeList_DeepCopy ::
  "'m metacopy \<Rightarrow> GoList option \<Rightarrow> 'm goheap \<Rightarrow> GoList option \<times> 'm goheap"
where
  "VNodeList_DeepCopy copyMeta inp h =
     (case inp of None \<Rightarrow> (None, h)
      | Some x \<Rightarrow> (let (out, h) = VNodeList_DeepCopyInto copyMeta x h in (Some out, h)))"

definition VNodeSpec_DeepCopy :: "VNodeSpec option \<Rightarrow> VNodeSpec option" where
  "VNodeSpec_DeepCopy inp = (case inp of None \<Rightarrow> None | Some x \<Rightarrow> Some (VNodeSpec_DeepCopyInto x))"

definition VNodeStatus_DeepCopy :: "GoVNodeStatus option \<Rightarrow> 'm goheap \<Rightarrow> GoVNodeStatus option \<times> 'm goheap" where
  "VNodeStatus_DeepCopy inp h =
     (case inp of None \<Rightarrow> (None, h)
      | Some x \<Rightarrow> (let (out, h) = VNodeStatus_DeepCopyInto x h in (Some out, h)))"

definition TenantRef_DeepCopy :: "CRTenantRef option \<Rightarrow> CRTenantRef option" where
  "TenantRef_DeepCopy inp = (case inp of None \<Rightarrow> None | Some x \<Rightarrow> Some (TenantRef_DeepCopyInto x))"

definition NodeResources_DeepCopy :: "NodeResources option \<Rightarrow> NodeResources option" where
  "NodeResources_DeepCopy inp = (case inp of None \<Rightarrow> None | Some x \<Rightarrow> Some (NodeResources_DeepCopyInto x))"

text \<open>\<open>DeepCopyObject\<close> returns the copy as an interface value, an untyped nil for a nil copy.\<close>

datatype 'm object = PoolObject "'m GoPool" | PoolListObject GoList | VNodeObject "'m GoVNode" | VNodeListObject GoList

definition VNodePool_DeepCopyObject ::
  "'m metacopy \<Rightarrow> 'm GoPool option \<Rightarrow> 'm goheap \<Rightarrow> 'm object option \<times> 'm goheap"
where
  "VNodePool_DeepCopyObject copyMeta inp h =
     (case VNodePool_DeepCopy copyMeta inp h of (Some c, h) \<Rightarrow> (Some (PoolObject c), h) | (None, h) \<Rightarrow> (None, h))"

definition VNodePoolList_DeepCopyObject ::
  "'m metacopy \<Rightarrow> GoList option \<Rightarrow> 'm goheap \<Rightarrow> 'm object option \<times> 'm goheap"
where
  "VNodePoolList_DeepCopyObject copyMeta inp h =
     (case VNodePoolList_DeepCopy copyMeta inp h of (Some c, h) \<Rightarrow> (Some (PoolListObject c), h) | (None, h) \<Rightarrow> (None, h))"

definition VNode_DeepCopyObject ::
  "'m metacopy \<Rightarrow> 'm GoVNode option \<Rightarrow> 'm goheap \<Rightarrow> 'm object option \<times> 'm goheap"
where
  "VNode_DeepCopyObject copyMeta inp h =
     (case VNode_DeepCopy copyMeta inp h of (Some c, h) \<Rightarrow> (Some (VNodeObject c), h) | (None, h) \<Rightarrow> (None, h))"

definition VNodeList_DeepCopyObject ::
  "'m metacopy \<Rightarrow> GoList option \<Rightarrow> 'm goheap \<Rightarrow> 'm object option \<times> 'm goheap"
where
  "VNodeList_DeepCopyObject copyMeta inp h =
     (case VNodeList_DeepCopy copyMeta inp h of (Some c, h) \<Rightarrow> (Some (VNodeListObject c), h) | (None, h) \<Rightarrow> (None, h))"

section \<open>The values that structs denote\<close>

definition deref :: "(nat \<Rightarrow> 'a) \<Rightarrow> 'a \<Rightarrow> ref \<Rightarrow> 'a" where
  "deref cells nil r = (case r of None \<Rightarrow> nil | Some a \<Rightarrow> cells a)"

definition spec_value :: "'m goheap \<Rightarrow> GoPoolSpec \<Rightarrow> VNodePoolSpec" where
  "spec_value h s =
     \<lparr>sp_TenantRef = gs_TenantRef s, sp_NodeCount = gs_NodeCount s,
      sp_PerNodeResources = gs_PerNodeResources s, sp_Mode = gs_Mode s,
      sp_IsolationBackend = gs_IsolationBackend s, sp_RuntimeClassName = gs_RuntimeClassName s,
      sp_NodeSelector = deref (hp_maps h) fmempty (gs_NodeSelector s),
      sp_Taints = deref (hp_taints h) [] (gs_Taints s),
      sp_Tolerations = deref (hp_tols h) [] (gs_Tolerations s),
      sp_DisplayName = gs_DisplayName s\<rparr>"

definition status_value :: "'m goheap \<Rightarrow> GoPoolStatus \<Rightarrow> VNodePoolStatus" where
  "status_value h s =
     \<lparr>st_Phase = gst_Phase s, st_ReadyNodes = gst_ReadyNodes s, st_TotalNodes = gst_TotalNodes s,
      st_Conditions = deref (hp_conds h) [] (gst_Conditions s)\<rparr>"

definition vnode_status_value :: "'m goheap \<Rightarrow> GoVNodeStatus \<Rightarrow> VNodeStatus" where
  "vnode_status_value h s = \<lparr>vs_Phase = gvs_Phase s, vs_Conditions = deref (hp_conds h) [] (gvs_Conditions s)\<rparr>"

definition vnode_value :: "('m goheap \<Rightarrow> 'm \<Rightarrow> ObjectMeta) \<Rightarrow> 'm goheap \<Rightarrow> 'm GoVNode \<Rightarrow> VNodeCR" where
  "vnode_value mv h v =
     \<lparr>vn_Meta = mv h (gv_Meta v), vn_Spec = gv_Spec v, vn_Status = vnode_status_value h (gv_Status v)\<rparr>"

definition vnode_list_value :: "('m goheap \<Rightarrow> 'm \<Rightarrow> ObjectMeta) \<Rightarrow> 'm goheap \<Rightarrow> GoList \<Rightarrow> VNodeCR list" where
  "vnode_list_value mv h l = map (vnode_value mv h) (deref (hp_vnodes h) [] (gl_Items l))"

text \<open>
  Two heaps agree on a range of addresses; a heap extends another by allocation; a reference
  is allocated.
\<close>

definition agree_on :: "nat \<Rightarrow> nat \<Rightarrow> 'm goheap \<Rightarrow> 'm goheap \<Rightarrow> bool" where
  "agree_on lo hi h h' \<longleftrightarrow>
     (\<forall>a. lo \<le> a \<longrightarrow> a < hi \<longrightarrow>
        hp_maps h' a = hp_maps h a \<and> hp_strings h' a = hp_strings h a \<and> hp_taints h' a = hp_taints h a \<and> hp_tols h' a = hp_tols h a \<and>
        hp_conds h' a = hp_conds h a \<and> hp_pools h' a = hp_pools h a \<and> hp_vnodes h' a = hp_vnodes h a)"

definition extends :: "'m goheap \<Rightarrow> 'm goheap \<Rightarrow> bool" where
  "extends h h' \<longleftrightarrow> hp_next h \<le> hp_next h' \<and> agree_on 0 (hp_next h) h h'"

definition live :: "'m goheap \<Rightarrow> ref \<Rightarrow> bool" where
  "live h r \<longleftrightarrow> (case r of None \<Rightarrow> True | Some a \<Rightarrow> a < hp_next h)"

definition vnode_live :: "('m goheap \<Rightarrow> 'm \<Rightarrow> bool) \<Rightarrow> 'm goheap \<Rightarrow> 'm GoVNode \<Rightarrow> bool" where
  "vnode_live ml h v \<longleftrightarrow> ml h (gv_Meta v) \<and> live h (gvs_Conditions (gv_Status v))"

section \<open>Copies of single references\<close>

lemma agree_on_refl [simp]: "agree_on lo hi h h"
  by (simp add: agree_on_def)

lemma agree_on_sub: "agree_on lo hi h h' \<Longrightarrow> lo \<le> lo' \<Longrightarrow> hi' \<le> hi \<Longrightarrow> agree_on lo' hi' h h'"
  by (simp add: agree_on_def)

lemma agree_on_trans: "agree_on lo hi h h' \<Longrightarrow> agree_on lo hi h' h'' \<Longrightarrow> agree_on lo hi h h''"
  by (simp add: agree_on_def)

lemma extends_refl [simp]: "extends h h"
  by (simp add: extends_def)

lemma extends_trans: "extends h h' \<Longrightarrow> extends h' h'' \<Longrightarrow> extends h h''"
  by (auto simp: extends_def agree_on_def)

lemma live_extends: "live h r \<Longrightarrow> extends h h' \<Longrightarrow> live h' r"
  by (auto simp: live_def extends_def split: option.splits)

lemmas copy_defs = copyMap_def copyTaints_def copyTolerations_def copyConditions_def

lemma copies_extend:
  "copyMap r h = (r', h') \<Longrightarrow> extends h h'"
  "copyTaints r h = (r', h') \<Longrightarrow> extends h h'"
  "copyTolerations r h = (r', h') \<Longrightarrow> extends h h'"
  "copyConditions r h = (r', h') \<Longrightarrow> extends h h'"
  by (auto simp: copy_defs extends_def agree_on_def split: option.splits)

text \<open>A copied reference reads the old value from a cell allocated for it.\<close>

lemma copy_reads:
  "copyMap r h = (r', h') \<Longrightarrow> agree_on (hp_next h) (hp_next h') h' k \<Longrightarrow>
     deref (hp_maps k) m r' = deref (hp_maps h) m r"
  "copyTaints r h = (r', h') \<Longrightarrow> agree_on (hp_next h) (hp_next h') h' k \<Longrightarrow>
     deref (hp_taints k) t r' = deref (hp_taints h) t r"
  "copyTolerations r h = (r', h') \<Longrightarrow> agree_on (hp_next h) (hp_next h') h' k \<Longrightarrow>
     deref (hp_tols k) l r' = deref (hp_tols h) l r"
  "copyConditions r h = (r', h') \<Longrightarrow> agree_on (hp_next h) (hp_next h') h' k \<Longrightarrow>
     deref (hp_conds k) c r' = deref (hp_conds h) c r"
  by (auto simp: copy_defs deref_def agree_on_def split: option.splits)

lemma live_reads:
  assumes "live h r" and "extends h h'"
  shows "deref (hp_maps h') m r = deref (hp_maps h) m r" "deref (hp_taints h') t r = deref (hp_taints h) t r"
    "deref (hp_tols h') l r = deref (hp_tols h) l r" "deref (hp_conds h') c r = deref (hp_conds h) c r"
  using assms by (auto simp: live_def extends_def agree_on_def deref_def split: option.splits)

lemma part_agrees:
  assumes "extends h h1" and "extends h1 h2" and "extends h2 h3" and "agree_on (hp_next h) (hp_next h3) h3 k"
  shows "agree_on (hp_next h1) (hp_next h2) h2 k"
  using assms by (auto simp: extends_def agree_on_def)

section \<open>Copies of objects\<close>

lemma status_copy:
  assumes "VNodePoolStatus_DeepCopyInto st h = (st', h')"
  shows "extends h h'" and "agree_on (hp_next h) (hp_next h') h' k \<Longrightarrow> status_value k st' = status_value h st"
  using assms copies_extend(4) copy_reads(4)
  by (fastforce simp: VNodePoolStatus_DeepCopyInto_def status_value_def split: prod.splits)+

lemma vnode_status_copy:
  assumes "VNodeStatus_DeepCopyInto st h = (st', h')"
  shows "extends h h'"
    and "agree_on (hp_next h) (hp_next h') h' k \<Longrightarrow> vnode_status_value k st' = vnode_status_value h st"
  using assms copies_extend(4) copy_reads(4)
  by (fastforce simp: VNodeStatus_DeepCopyInto_def vnode_status_value_def split: prod.splits)+

lemma spec_copy:
  assumes run: "VNodePoolSpec_DeepCopyInto sp h = (sp', h')"
    and live: "live h (gs_Taints sp)" "live h (gs_Tolerations sp)"
    and agree: "agree_on (hp_next h) (hp_next h') h' k"
  shows "spec_value k sp' = spec_value h sp"
proof -
  obtain ns h1 ts h2 ls where c: "copyMap (gs_NodeSelector sp) h = (ns, h1)" "copyTaints (gs_Taints sp) h1 = (ts, h2)"
    "copyTolerations (gs_Tolerations sp) h2 = (ls, h')"
    and sp': "sp' = sp\<lparr>gs_NodeSelector := ns, gs_Taints := ts, gs_Tolerations := ls\<rparr>"
    using run by (auto simp: VNodePoolSpec_DeepCopyInto_def split: prod.splits)
  note e = copies_extend(1) [OF c(1)] copies_extend(2) [OF c(2)] copies_extend(3) [OF c(3)]
  note r = copy_reads(1) [OF c(1) part_agrees [OF extends_refl e(1) extends_trans [OF e(2,3)] agree]]
    copy_reads(2) [OF c(2) part_agrees [OF e agree]]
    copy_reads(3) [OF c(3) part_agrees [OF extends_trans [OF e(1,2)] e(3) extends_refl agree]]
  show ?thesis
    using r live_reads(2) [OF live(1) e(1)] live_reads(3) [OF live(2) extends_trans [OF e(1,2)]]
    by (simp add: spec_value_def sp')
qed

text \<open>
  What is documented of the metadata copy: it only allocates, and the copy has the value of the
  original, which it reads from the new cells.
\<close>

locale meta_deepcopy =
  fixes copyMeta :: "'m metacopy"
    and mv :: "'m goheap \<Rightarrow> 'm \<Rightarrow> ObjectMeta"
    and ml :: "'m goheap \<Rightarrow> 'm \<Rightarrow> bool"
  assumes copy_extends: "copyMeta m h = (m', h') \<Longrightarrow> extends h h'"
    and copy_value: "copyMeta m h = (m', h') \<Longrightarrow> ml h m \<Longrightarrow> agree_on (hp_next h) (hp_next h') h' k \<Longrightarrow>
      mv k m' = mv h m"
    and meta_value: "ml h m \<Longrightarrow> extends h h' \<Longrightarrow> mv h' m = mv h m \<and> ml h' m"
begin

lemma pool_copy:
  assumes run: "VNodePool_DeepCopyInto copyMeta x h = (y, h')"
    and live: "ml h (gp_Meta x)" "live h (gst_Conditions (gp_Status x))"
    and agree: "agree_on (hp_next h) (hp_next h') h' k"
  shows "extends h h' \<and> mv k (gp_Meta y) = mv h (gp_Meta x) \<and>
         status_value k (gp_Status y) = status_value h (gp_Status x) \<and> gp_Spec y = gp_Spec x"
proof -
  obtain m h1 st where c: "copyMeta (gp_Meta x) h = (m, h1)" "VNodePoolStatus_DeepCopyInto (gp_Status x) h1 = (st, h')"
    and y: "y = x\<lparr>gp_Meta := m, gp_Status := st\<rparr>"
    using run by (auto simp: VNodePool_DeepCopyInto_def Let_def split: prod.splits)
  note e = copy_extends [OF c(1)] status_copy(1) [OF c(2)]
  note r = copy_value [OF c(1) live(1) part_agrees [OF extends_refl e(1) e(2) agree]]
    status_copy(2) [OF c(2) part_agrees [OF e(1) e(2) extends_refl agree]]
  have "status_value h1 (gp_Status x) = status_value h (gp_Status x)"
    using live_reads(4) [OF live(2) e(1)] by (simp add: status_value_def)
  with r extends_trans [OF e] show ?thesis by (simp add: y)
qed

lemma vnode_copy:
  assumes run: "VNode_DeepCopyInto copyMeta x h = (y, h')"
    and live: "vnode_live ml h x"
    and agree: "agree_on (hp_next h) (hp_next h') h' k"
  shows "extends h h' \<and> vnode_value mv k y = vnode_value mv h x"
proof -
  obtain m h1 st where c: "copyMeta (gv_Meta x) h = (m, h1)" "VNodeStatus_DeepCopyInto (gv_Status x) h1 = (st, h')"
    and y: "y = x\<lparr>gv_Meta := m, gv_Status := st\<rparr>"
    using run by (auto simp: VNode_DeepCopyInto_def Let_def split: prod.splits)
  have l: "ml h (gv_Meta x)" "live h (gvs_Conditions (gv_Status x))" using live by (simp_all add: vnode_live_def)
  note e = copy_extends [OF c(1)] vnode_status_copy(1) [OF c(2)]
  note r = copy_value [OF c(1) l(1) part_agrees [OF extends_refl e(1) e(2) agree]]
    vnode_status_copy(2) [OF c(2) part_agrees [OF e(1) e(2) extends_refl agree]]
  have "vnode_status_value h1 (gv_Status x) = vnode_status_value h (gv_Status x)"
    using live_reads(4) [OF l(2) e(1)] by (simp add: vnode_status_value_def)
  with r extends_trans [OF e] show ?thesis by (simp add: y vnode_value_def)
qed

lemma vnode_value_extends:
  assumes "vnode_live ml h x" and "extends h h'"
  shows "vnode_live ml h' x \<and> vnode_value mv h' x = vnode_value mv h x"
  using assms meta_value [of h "gv_Meta x" h'] live_extends [of h _ h'] live_reads(4) [of h _ h']
  by (auto simp: vnode_live_def vnode_value_def vnode_status_value_def)

lemma copyVNodes_copies:
  assumes "copyVNodes copyMeta xs h = (ys, h')" and "list_all (vnode_live ml h) xs"
    and "agree_on (hp_next h) (hp_next h') h' k"
  shows "extends h h' \<and> map (vnode_value mv k) ys = map (vnode_value mv h) xs"
  using assms
proof (induction xs arbitrary: h ys)
  case (Cons x xs)
  obtain y h1 zs where c: "VNode_DeepCopyInto copyMeta x h = (y, h1)" "copyVNodes copyMeta xs h1 = (zs, h')"
    and ys: "ys = y # zs"
    using Cons.prems(1) by (auto split: prod.splits)
  have e1: "extends h h1" using vnode_copy [OF c(1) _ agree_on_refl] Cons.prems(2) by simp
  have l1: "list_all (vnode_live ml h1) xs" "map (vnode_value mv h1) xs = map (vnode_value mv h) xs"
    using Cons.prems(2) vnode_value_extends [OF _ e1] by (auto simp: list_all_iff)
  have "hp_next h \<le> hp_next h1" using e1 by (simp add: extends_def)
  note a2 = agree_on_sub [OF Cons.prems(3) this le_refl]
  have e2: "extends h1 h'" using Cons.IH [OF c(2) l1(1) a2] by simp
  note a1 = part_agrees [OF extends_refl e1 e2 Cons.prems(3)]
  show ?case
    using vnode_copy [OF c(1) _ a1] Cons.IH [OF c(2) l1(1) a2] l1(2) Cons.prems(2) extends_trans [OF e1 e2]
    by (simp add: ys)
qed simp

lemma vnode_list_copy:
  assumes run: "VNodeList_DeepCopyInto copyMeta l h = (l', h')"
    and live: "list_all (vnode_live ml h) (deref (hp_vnodes h) [] (gl_Items l))"
    and agree: "agree_on (hp_next h) (hp_next h') h' k"
  shows "vnode_list_value mv k l' = vnode_list_value mv h l"
proof (cases "gl_Items l")
  case None
  with run show ?thesis by (simp add: VNodeList_DeepCopyInto_def vnode_list_value_def deref_def)
next
  case (Some a)
  let ?b = "hp_next h" and ?h0 = "h\<lparr>hp_next := hp_next h + 1\<rparr>"
  obtain ys h1 where c: "copyVNodes copyMeta (hp_vnodes h a) ?h0 = (ys, h1)"
    and l': "l' = l\<lparr>gl_Items := Some ?b\<rparr>" and h': "h' = h1\<lparr>hp_vnodes := (hp_vnodes h1)(?b := ys)\<rparr>"
    using run Some by (auto simp: VNodeList_DeepCopyInto_def Let_def split: prod.splits)
  have e0: "extends h ?h0" by (simp add: extends_def agree_on_def)
  have v0: "list_all (vnode_live ml ?h0) (hp_vnodes h a)"
    "map (vnode_value mv ?h0) (hp_vnodes h a) = map (vnode_value mv h) (hp_vnodes h a)"
    using live Some vnode_value_extends [OF _ e0] by (auto simp: list_all_iff deref_def)
  have e1: "extends ?h0 h1" using copyVNodes_copies [OF c v0(1) agree_on_refl] by simp
  have "agree_on (hp_next ?h0) (hp_next h1) h1 k" "hp_vnodes k ?b = ys"
    using agree e1 by (auto simp: agree_on_def extends_def h')
  then show ?thesis
    using copyVNodes_copies [OF c v0(1)] v0(2) Some by (simp add: vnode_list_value_def deref_def l')
qed

end

section \<open>Properties\<close>

text \<open>
  C22: a copy of a pool is a snapshot of its metadata and its status, and shares its
  specification. Whatever is written afterwards to cells that existed before the copy, such as
  an in-place change of the conditions of the original, the metadata and the status of the copy
  read as those of the original did; but the node selector, the taints and the tolerations of
  the copy are the cells of the original, although the specification type has a copy function
  whose result would be independent.
\<close>

theorem VNodePool_DeepCopy_snapshot:
  assumes "meta_deepcopy copyMeta mv ml"
    and "VNodePool_DeepCopy copyMeta (Some x) h = (c, h')"
    and "ml h (gp_Meta x)" and "live h (gst_Conditions (gp_Status x))"
    and "live h (gs_Taints (gp_Spec x))" and "live h (gs_Tolerations (gp_Spec x))"
    and "agree_on (hp_next h) (hp_next h') h' k"
  shows "(\<exists>y. c = Some y \<and> mv k (gp_Meta y) = mv h (gp_Meta x) \<and>
            status_value k (gp_Status y) = status_value h (gp_Status x) \<and>
            spec_value k (gp_Spec y) = spec_value k (gp_Spec x)) \<and>
         (\<forall>sp h1 k1. VNodePoolSpec_DeepCopyInto (gp_Spec x) h = (sp, h1) \<longrightarrow>
            agree_on (hp_next h) (hp_next h1) h1 k1 \<longrightarrow> spec_value k1 sp = spec_value h (gp_Spec x))"
proof
  obtain y where y: "VNodePool_DeepCopyInto copyMeta x h = (y, h')" "c = Some y"
    using assms(2) by (auto simp: VNodePool_DeepCopy_def split: prod.splits)
  with meta_deepcopy.pool_copy [OF assms(1) y(1) assms(3,4,7)]
  show "\<exists>y. c = Some y \<and> mv k (gp_Meta y) = mv h (gp_Meta x) \<and>
      status_value k (gp_Status y) = status_value h (gp_Status x) \<and> spec_value k (gp_Spec y) = spec_value k (gp_Spec x)"
    by simp
qed (use spec_copy assms(5,6) in blast)

text \<open>
  A copy of a VNode list is a complete snapshot: the items read in any later heap that keeps
  the cells allocated by the copy are the items of the original at the time of the copy.
\<close>

lemma VNodeList_DeepCopy_snapshot:
  assumes "meta_deepcopy copyMeta mv ml"
    and "VNodeList_DeepCopy copyMeta (Some l) h = (c, h')"
    and "list_all (vnode_live ml h) (deref (hp_vnodes h) [] (gl_Items l))"
    and "agree_on (hp_next h) (hp_next h') h' k"
  shows "\<exists>l'. c = Some l' \<and> vnode_list_value mv k l' = vnode_list_value mv h l"
proof -
  obtain l' where l': "VNodeList_DeepCopyInto copyMeta l h = (l', h')" "c = Some l'"
    using assms(2) by (auto simp: VNodeList_DeepCopy_def split: prod.splits)
  then show ?thesis using meta_deepcopy.vnode_list_copy [OF assms(1) l'(1) assms(3,4)] by simp
qed

end
