(* ===== verification/Copy_Witnesses.thy ===== *)
theory Copy_Witnesses
  imports Deep_Copy
begin

text \<open>
  An instance of the copy of the object metadata, with the reference fields that the operator
  uses (labels, annotations and finalizers), and of the snapshot property: a pool is copied,
  the conditions of the original are changed in place, and a taint is written through the copy.
\<close>

record GoMeta =
  gm_Fields :: ObjectMeta
  gm_Labels :: ref
  gm_Annotations :: ref
  gm_Finalizers :: ref

definition copyStrings :: "ref \<Rightarrow> 'm goheap \<Rightarrow> ref \<times> 'm goheap" where
  "copyStrings r h =
     (case r of
        None \<Rightarrow> (None, h)
      | Some a \<Rightarrow> (Some (hp_next h),
          h\<lparr>hp_next := hp_next h + 1, hp_strings := (hp_strings h)(hp_next h := hp_strings h a)\<rparr>))"

definition ref_copyMeta :: "GoMeta metacopy" where
  "ref_copyMeta m h =
     (let (ls, h) = copyMap (gm_Labels m) h;
          (as, h) = copyMap (gm_Annotations m) h;
          (fs, h) = copyStrings (gm_Finalizers m) h
      in (m\<lparr>gm_Labels := ls, gm_Annotations := as, gm_Finalizers := fs\<rparr>, h))"

definition ref_meta_value :: "GoMeta goheap \<Rightarrow> GoMeta \<Rightarrow> ObjectMeta" where
  "ref_meta_value h m =
     (gm_Fields m)\<lparr>om_Labels := deref (hp_maps h) fmempty (gm_Labels m),
                    om_Annotations := deref (hp_maps h) fmempty (gm_Annotations m),
                    om_Finalizers := deref (hp_strings h) [] (gm_Finalizers m)\<rparr>"

definition ref_meta_live :: "GoMeta goheap \<Rightarrow> GoMeta \<Rightarrow> bool" where
  "ref_meta_live h m \<longleftrightarrow> live h (gm_Labels m) \<and> live h (gm_Annotations m) \<and> live h (gm_Finalizers m)"

definition wit_heap :: "GoMeta goheap" where
  "wit_heap =
     \<lparr>hp_next = 3, hp_maps = (\<lambda>_. fmempty), hp_strings = (\<lambda>_. [''f'']),
      hp_taints = (\<lambda>_. [\<lparr>ct_Key = ''k'', ct_Value = ''v'', ct_Effect = ''NoSchedule''\<rparr>]),
      hp_tols = (\<lambda>_. []),
      hp_conds = (\<lambda>_. [\<lparr>mc_Type = ''Ready'', mc_Status = ''False'', mc_Reason = ''r'', mc_Message = ''m'',
        mc_LastTransitionTime = 1\<rparr>]),
      hp_pools = (\<lambda>_. []), hp_vnodes = (\<lambda>_. [])\<rparr>"

definition wit_gopool :: "GoMeta GoPool" where
  "wit_gopool =
     \<lparr>gp_Meta = \<lparr>gm_Fields = emptyMeta, gm_Labels = None, gm_Annotations = None, gm_Finalizers = Some 0\<rparr>,
      gp_Spec =
        \<lparr>gs_TenantRef = \<lparr>tr_VClusterName = [], tr_VClusterNamespace = [], tr_KubeconfigSecret = ''kc''\<rparr>,
         gs_NodeCount = 1, gs_PerNodeResources = \<lparr>nr_CPU = ''1'', nr_Memory = ''1Gi'', nr_Pods = 110\<rparr>,
         gs_Mode = [], gs_IsolationBackend = [], gs_RuntimeClassName = [], gs_NodeSelector = None,
         gs_Taints = Some 1, gs_Tolerations = None, gs_DisplayName = []\<rparr>,
      gp_Status = \<lparr>gst_Phase = ''Ready'', gst_ReadyNodes = 1, gst_TotalNodes = 1, gst_Conditions = Some 2\<rparr>\<rparr>"

text \<open>The copy, and the heap after the old cells were overwritten.\<close>

definition wit_copy :: "GoMeta GoPool" where
  "wit_copy = the (fst (VNodePool_DeepCopy ref_copyMeta (Some wit_gopool) wit_heap))"

definition wit_copied :: "GoMeta goheap" where
  "wit_copied = snd (VNodePool_DeepCopy ref_copyMeta (Some wit_gopool) wit_heap)"

definition wit_overwritten :: "GoMeta goheap" where
  "wit_overwritten =
     wit_copied\<lparr>hp_conds := (hp_conds wit_copied)(2 := []), hp_strings := (hp_strings wit_copied)(0 := []),
                hp_taints := (hp_taints wit_copied)(1 := [])\<rparr>"

lemma copyStrings_copies:
  assumes "copyStrings r h = (r', h')"
  shows "extends h h'" and "agree_on (hp_next h) (hp_next h') h' k \<Longrightarrow> deref (hp_strings k) s r' = deref (hp_strings h) s r"
  using assms by (auto simp: copyStrings_def extends_def agree_on_def deref_def split: option.splits)

lemma live_strings:
  "live h r \<Longrightarrow> extends h h' \<Longrightarrow> deref (hp_strings h') s r = deref (hp_strings h) s r"
  by (auto simp: live_def extends_def agree_on_def deref_def split: option.splits)

interpretation ref_meta: meta_deepcopy ref_copyMeta ref_meta_value ref_meta_live
proof (unfold_locales, goal_cases)
  case (1 m h m' h')
  then obtain ls h1 as h2 fs where c: "copyMap (gm_Labels m) h = (ls, h1)" "copyMap (gm_Annotations m) h1 = (as, h2)"
    "copyStrings (gm_Finalizers m) h2 = (fs, h')"
    by (auto simp: ref_copyMeta_def split: prod.splits)
  show ?case
    by (rule extends_trans [OF extends_trans [OF copies_extend(1) [OF c(1)] copies_extend(1) [OF c(2)]]
        copyStrings_copies(1) [OF c(3)]])
next
  case (2 m h m' h' k)
  then obtain ls h1 as h2 fs where c: "copyMap (gm_Labels m) h = (ls, h1)" "copyMap (gm_Annotations m) h1 = (as, h2)"
    "copyStrings (gm_Finalizers m) h2 = (fs, h')"
    and m': "m' = m\<lparr>gm_Labels := ls, gm_Annotations := as, gm_Finalizers := fs\<rparr>"
    by (auto simp: ref_copyMeta_def split: prod.splits)
  note e = copies_extend(1) [OF c(1)] copies_extend(1) [OF c(2)] copyStrings_copies(1) [OF c(3)]
  note r = copy_reads(1) [OF c(1) part_agrees [OF extends_refl e(1) extends_trans [OF e(2,3)] 2(3)]]
    copy_reads(1) [OF c(2) part_agrees [OF e 2(3)]]
    copyStrings_copies(2) [OF c(3) part_agrees [OF extends_trans [OF e(1,2)] e(3) extends_refl 2(3)]]
  from 2(2) show ?case
    using r live_reads(1) [OF _ e(1), of "gm_Annotations m"] live_strings [OF _ extends_trans [OF e(1,2)], of "gm_Finalizers m"]
    by (simp add: ref_meta_value_def ref_meta_live_def m')
next
  case (3 h m h')
  then show ?case
    using live_reads(1) [of h _ h'] live_strings [of h _ h'] live_extends [of h _ h']
    by (auto simp: ref_meta_value_def ref_meta_live_def)
qed

theorem VNodePool_DeepCopy_snapshot_witness:
  "st_Conditions (status_value wit_overwritten (gp_Status wit_gopool)) = [] \<and>
   status_value wit_overwritten (gp_Status wit_copy) = status_value wit_heap (gp_Status wit_gopool) \<and>
   sp_Taints (spec_value wit_overwritten (gp_Spec wit_copy)) = []"
proof -
  have run: "VNodePool_DeepCopy ref_copyMeta (Some wit_gopool) wit_heap = (Some wit_copy, wit_copied)"
    by (simp add: wit_copy_def wit_copied_def VNodePool_DeepCopy_def split: prod.splits)
  have live: "ref_meta_live wit_heap (gp_Meta wit_gopool)" "live wit_heap (gst_Conditions (gp_Status wit_gopool))"
    "live wit_heap (gs_Taints (gp_Spec wit_gopool))" "live wit_heap (gs_Tolerations (gp_Spec wit_gopool))"
    by (simp_all add: ref_meta_live_def live_def wit_heap_def wit_gopool_def)
  have agree: "agree_on (hp_next wit_heap) (hp_next wit_copied) wit_copied wit_overwritten"
    by (simp add: agree_on_def wit_overwritten_def wit_heap_def)
  have "st_Conditions (status_value wit_overwritten (gp_Status wit_gopool)) = []"
    "sp_Taints (spec_value wit_overwritten (gp_Spec wit_gopool)) = []"
    by (simp_all add: status_value_def spec_value_def deref_def wit_gopool_def wit_overwritten_def)
  with VNodePool_DeepCopy_snapshot [OF ref_meta.meta_deepcopy_axioms run live agree] show ?thesis by auto
qed

end
