(* ===== verification/Reliable_Store.thy ===== *)
theory Reliable_Store
  imports Node_Repository
begin

text \<open>
  Worlds without failures of the API server. \<open>calm w\<close> says that the server answers: a client
  that is \<open>calm_client\<close> then finds every stored object, reports a missing one as not found, and
  carries out every request that makes sense. \<open>steady_client\<close> is much weaker: its requests may
  fail in any way, but they keep a calm world calm and fail with an error, not with a panic.

  The lemmas turn the partial results on the node repository into total ones: in a calm world
  listing, saving and deleting succeed.
\<close>

definition no_panic :: "'a res \<Rightarrow> bool" where
  "no_panic r \<longleftrightarrow> (case r of Inl e \<Rightarrow> \<not> isPanic e | Inr _ \<Rightarrow> True)"

locale steady_client =
  fixes cl :: "('o, 'w) objclient"
    and calm :: "'w \<Rightarrow> bool"
  assumes steady_Get: "calm w \<Longrightarrow> oc_Get cl k w = (x, w') \<Longrightarrow> calm w' \<and> no_panic x"
    and steady_List: "calm w \<Longrightarrow> oc_List cl ns sel w = (xs, w') \<Longrightarrow> calm w' \<and> no_panic xs"
    and steady_Create: "calm w \<Longrightarrow> oc_Create cl y w = (x, w') \<Longrightarrow> calm w' \<and> no_panic x"
    and steady_Update: "calm w \<Longrightarrow> oc_Update cl y w = (u, w') \<Longrightarrow> calm w' \<and> no_panic u"
    and steady_UpdateStatus: "calm w \<Longrightarrow> oc_UpdateStatus cl y w = (u, w') \<Longrightarrow> calm w' \<and> no_panic u"
    and steady_Delete: "calm w \<Longrightarrow> oc_Delete cl k w = (u, w') \<Longrightarrow> calm w' \<and> no_panic u"

locale calm_client = steady_client cl calm
  for cl :: "('o, 'w) objclient" and calm :: "'w \<Rightarrow> bool" +
  fixes objs :: "'w \<Rightarrow> objkey \<Rightarrow> 'o option"
    and key :: "'o \<Rightarrow> objkey"
  assumes reads_only: "oc_Get cl k w = (r, w') \<Longrightarrow> objs w' = objs w"
    and answers_Get: "calm w \<Longrightarrow> objs w k = Some x \<Longrightarrow> fst (oc_Get cl k w) = Inr x"
    and answers_missing: "calm w \<Longrightarrow> objs w k = None \<Longrightarrow> \<exists>e. fst (oc_Get cl k w) = Inl e \<and> IsNotFound e"
    and answers_List: "calm w \<Longrightarrow> \<exists>xs. fst (oc_List cl ns sel w) = Inr xs"
    and answers_Create: "calm w \<Longrightarrow> objs w (key x) = None \<Longrightarrow> \<exists>y. fst (oc_Create cl x w) = Inr y"
    and answers_Update: "calm w \<Longrightarrow> objs w (key x) \<noteq> None \<Longrightarrow> fst (oc_Update cl x w) = Inr ()"
    and answers_UpdateStatus: "calm w \<Longrightarrow> objs w (key x) \<noteq> None \<Longrightarrow> fst (oc_UpdateStatus cl x w) = Inr ()"
    and answers_Delete: "calm w \<Longrightarrow> objs w k \<noteq> None \<Longrightarrow> fst (oc_Delete cl k w) = Inr ()"
begin

lemma Get_some:
  assumes "calm w" and "objs w k = Some x"
  obtains w' where "oc_Get cl k w = (Inr x, w')" "calm w'"
  using answers_Get [OF assms] steady_Get [OF assms(1)] by (metis prod.collapse)

lemma Get_none:
  assumes "calm w" and "objs w k = None"
  obtains e w' where "oc_Get cl k w = (Inl e, w')" "IsNotFound e" "calm w'"
  using answers_missing [OF assms] steady_Get [OF assms(1)] by (metis prod.collapse)

lemma List_answers:
  assumes "calm w"
  obtains xs w' where "oc_List cl ns sel w = (Inr xs, w')" "calm w'"
  using answers_List [OF assms] steady_List [OF assms] by (metis prod.collapse)

lemma Create_answers:
  assumes "calm w" and "objs w (key x) = None"
  obtains y w' where "oc_Create cl x w = (Inr y, w')" "calm w'"
  using answers_Create [OF assms] steady_Create [OF assms(1)] by (metis prod.collapse)

lemma Update_answers:
  assumes "calm w" and "objs w (key x) \<noteq> None"
  obtains w' where "oc_Update cl x w = (Inr (), w')" "calm w'"
  using answers_Update [OF assms] steady_Update [OF assms(1)] by (metis prod.collapse)

lemma UpdateStatus_answers:
  assumes "calm w" and "objs w (key x) \<noteq> None"
  obtains w' where "oc_UpdateStatus cl x w = (Inr (), w')" "calm w'"
  using answers_UpdateStatus [OF assms] steady_UpdateStatus [OF assms(1)] by (metis prod.collapse)

lemma Delete_answers:
  assumes "calm w" and "objs w k \<noteq> None"
  obtains w' where "oc_Delete cl k w = (Inr (), w')" "calm w'"
  using answers_Delete [OF assms] steady_Delete [OF assms(1)] by (metis prod.collapse)

end

context retry_on_conflict
begin

lemma retry_ok: "f w = (Inr u, w') \<Longrightarrow> retry f w = (Inr u, w')"
  using retry_once [of f w "Inr u" w'] by simp

end

section \<open>The node repository in a calm world\<close>

locale calm_vnode_store =
  vnode_store cl objs retry now + calm_client cl calm objs "\<lambda>cr. om_key (vn_Meta cr)"
  for cl :: "(VNodeCR, 'w) objclient"
    and objs :: "'w \<Rightarrow> objkey \<Rightarrow> VNodeCR option"
    and retry :: "'w retrier"
    and now :: "'w \<Rightarrow> int"
    and calm :: "'w \<Rightarrow> bool"
begin

lemma tryUpdateStatus_succeeds:
  assumes "calm w" and "objs w (nkey n) \<noteq> None"
  obtains w' where "tryUpdateStatus cl now n w = (Inr (), w')" "calm w'"
proof -
  obtain cr where cr: "objs w (nkey n) = Some cr" using assms(2) by blast
  obtain w1 where g: "oc_Get cl (nkey n) w = (Inr cr, w1)" "calm w1" by (rule Get_some [OF assms(1) cr])
  have "objs w1 (om_key (vn_Meta (applyNodeStatus (now w1) cr n))) \<noteq> None"
    using Get_ok [OF g(1)] objs_key [of w "nkey n" cr] by simp
  then obtain w2 where "oc_UpdateStatus cl (applyNodeStatus (now w1) cr n) w1 = (Inr (), w2)" "calm w2"
    by (rule UpdateStatus_answers [OF g(2)])
  with g that show ?thesis by (simp add: tryUpdateStatus_def)
qed

lemma tryAnnotate_succeeds:
  assumes "calm w" and "objs w (nkey n) \<noteq> None"
  obtains w' where "tryAnnotate cl n w = (Inr (), w')" "calm w'"
proof -
  obtain cr where cr: "objs w (nkey n) = Some cr" using assms(2) by blast
  obtain w1 where g: "oc_Get cl (nkey n) w = (Inr cr, w1)" "calm w1" by (rule Get_some [OF assms(1) cr])
  have "objs w1 (om_key (vn_Meta (withAnnotations n cr))) \<noteq> None"
    using Get_ok [OF g(1)] objs_key [of w "nkey n" cr] by simp
  then obtain w2 where "oc_Update cl (withAnnotations n cr) w1 = (Inr (), w2)" "calm w2"
    by (rule Update_answers [OF g(2)])
  with g that show ?thesis by (simp add: tryAnnotate_def withAnnotations_def)
qed

lemma Save_succeeds:
  assumes "calm w"
  obtains w' where "NodeRepository_Save cl retry now n w = (Inr (), w')" "calm w'"
proof (cases "objs w (nkey n)")
  case None
  obtain e w1 where g: "oc_Get cl (nkey n) w = (Inl e, w1)" "IsNotFound e" "calm w1"
    by (rule Get_none [OF assms None])
  have "objs w1 (om_key (vn_Meta (newVNodeCR n))) = None" using Get_err [OF g(1)] None by simp
  then obtain cr w2 where c: "oc_Create cl (newVNodeCR n) w1 = (Inr cr, w2)" "calm w2"
    by (rule Create_answers [OF g(3)])
  have "objs w2 (om_key (vn_Meta (applyNodeStatus (now w2) cr n))) \<noteq> None"
    using Create_ok [OF c(1)] created_form [of n cr] by simp
  then obtain w3 where "oc_UpdateStatus cl (applyNodeStatus (now w2) cr n) w2 = (Inr (), w3)" "calm w3"
    by (rule UpdateStatus_answers [OF c(2)])
  with g c that show ?thesis by (simp add: NodeRepository_Save_def)
next
  case (Some cr)
  obtain w1 where g: "oc_Get cl (nkey n) w = (Inr cr, w1)" "calm w1" by (rule Get_some [OF assms Some])
  have "objs w1 (nkey n) \<noteq> None" using Get_ok [OF g(1)] by simp
  then obtain w2 where a: "tryAnnotate cl n w1 = (Inr (), w2)" "calm w2" by (rule tryAnnotate_succeeds [OF g(2)])
  have "objs w2 (nkey n) \<noteq> None" using tryAnnotate_effect [OF a(1)] by auto
  then obtain w3 where "tryUpdateStatus cl now n w2 = (Inr (), w3)" "calm w3"
    by (rule tryUpdateStatus_succeeds [OF a(2)])
  with g retry_ok [of "tryAnnotate cl n" w1 "()" w2] a retry_ok [of "tryUpdateStatus cl now n" w2] that show ?thesis
    by (simp add: NodeRepository_Save_def NodeRepository_updateStatus_def)
qed

lemma ListByPool_succeeds:
  assumes "calm w"
  obtains ns' w' where "NodeRepository_ListByPool cl ns p w = (Inr ns', w')" "calm w'"
proof -
  obtain xs w' where "oc_List cl (Some ns) (fmupd LabelVNodePool p fmempty) w = (Inr xs, w')" "calm w'"
    by (rule List_answers [OF assms])
  with that show ?thesis by (simp add: NodeRepository_ListByPool_def)
qed

end

end
