(* ===== verification/Reliable_Services.thy ===== *)
theory Reliable_Services
  imports Pool_Service Node_Service Reliable_Store
begin

text \<open>
  The services in a calm world. The first locale asks nothing of the tenant cluster but that
  deregistration does not panic: removing nodes succeeds whatever else happens there. The
  second one adds that registrations succeed, and then adding nodes does.
\<close>

locale calm_host =
  node_service repo reg nodes invar
  for repo :: "'s NodeRepository"
    and reg :: "'s NodeRegistrar"
    and nodes :: "'s \<Rightarrow> objkey \<Rightarrow> VNode option"
    and invar :: "'s \<Rightarrow> bool" +
  fixes calm :: "'s \<Rightarrow> bool"
  assumes List_calm: "calm s \<Longrightarrow> \<exists>xs s'. repo_ListByPool repo ns p s = (Inr xs, s') \<and> calm s'"
    and Save_calm: "calm s \<Longrightarrow> \<exists>s'. repo_Save repo n s = (Inr (), s') \<and> calm s'"
    and Delete_calm: "calm s \<Longrightarrow> nodes s (ObjKey ns nm) \<noteq> None \<Longrightarrow>
      \<exists>s'. repo_Delete repo ns nm s = (Inr (), s') \<and> calm s'"
    and Deregister_calm: "calm s \<Longrightarrow> reg_Deregister reg n t s = (r, s') \<Longrightarrow> calm s' \<and> no_panic r"
begin

lemma Deprovision_succeeds:
  assumes "invar s" and "calm s"
  obtains s' where "Deprovision repo reg n s = (Inr (), s')" "invar s'" "calm s'"
proof -
  let ?m = "terminatingNode n"
  obtain s1 where sv: "repo_Save repo ?m s = (Inr (), s1)" "calm s1" using Save_calm [OF assms(2)] by blast
  have s1: "invar s1" "nodes s1 (nkey n) \<noteq> None" using Save_ok [OF assms(1) sv(1)] by auto
  obtain r s2 where dr: "reg_Deregister reg ?m (n_TenantRef ?m) s1 = (r, s2)" by fastforce
  note s2 = Deregister_frame [OF s1(1) dr] Deregister_calm [OF sv(2) dr]
  obtain s3 where dl: "repo_Delete repo (n_Namespace n) (n_Name n) s2 = (Inr (), s3)" "calm s3"
    using Delete_calm [of s2 "n_Namespace n" "n_Name n"] s2 s1(2) by (auto simp: nkey_def)
  have "Deprovision repo reg n s = (Inr (), s3)"
    using sv(1) dr dl(1) s2 by (simp add: Deprovision_def Let_def no_panic_def split: sum.splits)
  with that dl(2) Delete_ok [OF conjunct1 [OF s2(1)] dl(1)] show ?thesis by blast
qed

lemma scaleDown_succeeds:
  assumes "invar s" and "calm s"
  shows "\<exists>w' s'. scaleDown (NodeService repo reg) pool w k s = ((pool, w', None), s') \<and> invar s' \<and> calm s'"
  using assms
proof (induction k arbitrary: w s)
  case (Suc k)
  obtain s1 where d: "Deprovision repo reg (last w) s = (Inr (), s1)" "invar s1" "calm s1"
    by (rule Deprovision_succeeds [OF Suc.prems])
  from Suc.IH [OF d(2,3), of "butlast w"] d(1) Suc.prems show ?case by auto
qed simp

lemma Reconcile_down_succeeds:
  assumes inv: "invar s" and calm: "calm s" and nn: "0 \<le> sint (p_NodeCount pool)"
    and small: "pool_size (nodes s) pool < 2 ^ 31"
    and down: "nat (sint (p_NodeCount pool)) \<le> pool_size (nodes s) pool"
  shows "\<exists>q s'. PoolService_Reconcile repo (NodeService repo reg) pool s = ((q, None), s') \<and> invar s' \<and> calm s'"
proof -
  obtain xs s1 where l: "repo_ListByPool repo (p_Namespace pool) (p_Name pool) s = (Inr xs, s1)" "calm s1"
    using List_calm [OF calm] by blast
  have inv1: "invar s1" using List_ok [OF inv l(1)] by simp
  have len: "sint (len32 xs) = int (length xs)" "length xs = pool_size (nodes s) pool"
    using List_length [OF inv l(1)] small by (simp_all add: sint_len32 pool_size_def)
  obtain a r where ar: "DesiredScaleActions pool (len32 xs) = (a, r)" by fastforce
  have "sint a = 0" using scale_actions_exact [OF nn _ ar] len down by simp
  then have up: "scaleUp (NodeService repo reg) pool xs 0 (nat (sint a)) s1 = ((pool, xs, None), s1)" by simp
  obtain w' s' where dn: "scaleDown (NodeService repo reg) pool xs (nat (sint r)) s1 = ((pool, w', None), s')"
    "invar s'" "calm s'"
    using scaleDown_succeeds [OF inv1 l(2)] by blast
  with l ar up show ?thesis by (simp add: PoolService_Reconcile_def Let_def)
qed

end

section \<open>With a tenant cluster that accepts registrations\<close>

locale calm_registrar =
  calm_host repo reg nodes invar calm
  for repo :: "'s NodeRepository"
    and reg :: "'s NodeRegistrar"
    and nodes :: "'s \<Rightarrow> objkey \<Rightarrow> VNode option"
    and invar :: "'s \<Rightarrow> bool"
    and calm :: "'s \<Rightarrow> bool" +
  fixes good :: "VNode \<Rightarrow> TenantRef \<Rightarrow> bool"
  assumes Register_calm: "calm s \<Longrightarrow> good n t \<Longrightarrow> \<exists>s'. reg_Register reg n t s = (Inr (), s') \<and> calm s'"
begin

lemma Provision_succeeds:
  assumes "invar s" and "calm s" and good: "\<And>i. good (newNode pool i) (p_TenantRef pool)"
  obtains n s' where "Provision repo reg pool s = ((n, None), s')" "invar s'" "calm s'"
proof -
  obtain xs s1 where l: "repo_ListByPool repo (p_Namespace pool) (p_Name pool) s = (Inr xs, s1)" "calm s1"
    using List_calm [OF assms(2)] by blast
  let ?n = "newNode pool (length xs)"
  obtain s2 where sv: "repo_Save repo ?n s1 = (Inr (), s2)" "calm s2" using Save_calm [OF l(2)] by blast
  obtain s3 where rg: "reg_Register reg ?n (p_TenantRef pool) s2 = (Inr (), s3)" "calm s3"
    using Register_calm [OF sv(2) good] by blast
  obtain s4 where rd: "repo_Save repo (readyNode ?n) s3 = (Inr (), s4)" "calm s4" using Save_calm [OF rg(2)] by blast
  have p: "Provision repo reg pool s = ((readyNode ?n, None), s4)"
    using l(1) sv(1) rg(1) rd(1) by (simp add: Provision_def Let_def)
  with that Provision_stored [OF assms(1) p] rd(2) show ?thesis by blast
qed

lemma scaleUp_succeeds:
  assumes "invar s" and "calm s" and "\<And>i. good (newNode pool i) (p_TenantRef pool)"
  shows "\<exists>pool' w' s'. scaleUp (NodeService repo reg) pool w i k s = ((pool', w', None), s') \<and>
           invar s' \<and> calm s' \<and> p_NodeCount pool' = p_NodeCount pool"
  using assms
proof (induction k arbitrary: pool w i s)
  case (Suc k)
  obtain n s1 where p: "Provision repo reg pool s = ((n, None), s1)" "invar s1" "calm s1"
    by (rule Provision_succeeds [OF Suc.prems])
  have "newNode (pool\<lparr>p_Nodes := ns\<rparr>) j = newNode pool j" for ns j by (simp add: newNode_def nodeName_def)
  with Suc.IH [of s1 "pool\<lparr>p_Nodes := p_Nodes pool @ [n_Name n]\<rparr>" "w @ [n]" "i + 1"] p Suc.prems(3)
  show ?case by simp
qed simp

lemma Reconcile_succeeds:
  assumes inv: "invar s" and calm: "calm s" and good: "\<And>i. good (newNode pool i) (p_TenantRef pool)"
  shows "\<exists>q s'. PoolService_Reconcile repo (NodeService repo reg) pool s = ((q, None), s') \<and> invar s' \<and> calm s'"
proof -
  obtain xs s1 where l: "repo_ListByPool repo (p_Namespace pool) (p_Name pool) s = (Inr xs, s1)" "calm s1"
    using List_calm [OF calm] by blast
  have inv1: "invar s1" using List_ok [OF inv l(1)] by simp
  obtain a r where ar: "DesiredScaleActions pool (len32 xs) = (a, r)" by fastforce
  obtain p2 w2 s2 where up: "scaleUp (NodeService repo reg) pool xs 0 (nat (sint a)) s1 = ((p2, w2, None), s2)"
    "invar s2" "calm s2"
    using scaleUp_succeeds [OF inv1 l(2) good] by blast
  obtain w3 s' where "scaleDown (NodeService repo reg) p2 w2 (nat (sint r)) s2 = ((p2, w3, None), s')"
    "invar s'" "calm s'"
    using scaleDown_succeeds [OF up(2,3)] by blast
  with l ar up show ?thesis by (simp add: PoolService_Reconcile_def Let_def)
qed

end

end
