(* ===== verification/Reliable_Registrar.thy ===== *)
theory Reliable_Registrar
  imports Registrar Reliable_Store
begin

text \<open>
  The registrar in a calm world. With steady tenant clients, which may fail, deregistration
  keeps the world calm and does not panic. When the tenant cluster can be reached, is calm
  itself, and the quantities of the node parse, registration succeeds.
\<close>

definition clientset_steady :: "('w \<Rightarrow> bool) \<Rightarrow> ('q, 'w) clientset \<Rightarrow> bool" where
  "clientset_steady calm cs \<longleftrightarrow> steady_client (ks_Nodes cs) calm \<and> steady_client (ks_Leases cs) calm"

definition tenant_calm ::
  "('q, 'w) sysenv \<Rightarrow> ('w \<Rightarrow> bool) \<Rightarrow> ('w \<Rightarrow> objkey \<Rightarrow> 'q CoreNode option) \<Rightarrow>
   ('w \<Rightarrow> objkey \<Rightarrow> Lease option) \<Rightarrow> ('w \<Rightarrow> objkey \<Rightarrow> Namespace option) \<Rightarrow> ('q, 'w) clientset \<Rightarrow> bool"
where
  "tenant_calm env calm tnodes tleases tnss cs \<longleftrightarrow>
     tenant_cluster cs env tnodes tleases \<and>
     calm_client (ks_Nodes cs) calm tnodes (\<lambda>n. om_key (kn_Meta n)) \<and>
     calm_client (ks_Leases cs) calm tleases (\<lambda>l. om_key (kl_Meta l)) \<and>
     calm_client (ks_Namespaces cs) calm tnss (\<lambda>n. om_key (kns_Meta n))"

text \<open>Every tenant cluster has stores of its own, given by the clientset that talks to it.\<close>

definition tenants_calm ::
  "('q, 'w) sysenv \<Rightarrow> ('w \<Rightarrow> bool) \<Rightarrow> (('q, 'w) clientset \<Rightarrow> 'w \<Rightarrow> objkey \<Rightarrow> 'q CoreNode option) \<Rightarrow>
   (('q, 'w) clientset \<Rightarrow> 'w \<Rightarrow> objkey \<Rightarrow> Lease option) \<Rightarrow>
   (('q, 'w) clientset \<Rightarrow> 'w \<Rightarrow> objkey \<Rightarrow> Namespace option) \<Rightarrow> ('q, 'w) clientset \<Rightarrow> bool"
where
  "tenants_calm env calm tnodes tleases tnss cs \<longleftrightarrow> tenant_calm env calm (tnodes cs) (tleases cs) (tnss cs) cs"

definition calm_state ::
  "('w \<Rightarrow> bool) \<Rightarrow> (('q, 'w) clientset \<Rightarrow> bool) \<Rightarrow> ('q, 'w) mstate \<Rightarrow> bool"
where
  "calm_state calm P s \<longleftrightarrow> calm (ms_world s) \<and> cache_all P (ms_clients s)"

definition parseable :: "'q quantities \<Rightarrow> VNode \<Rightarrow> bool" where
  "parseable q n \<longleftrightarrow>
     isl (buildResources q (n_Capacity n)) = False \<and> isl (buildResources q (n_Allocatable n)) = False"

lemma no_panic_simps [simp]:
  "no_panic (Inr x)" "no_panic (Inl e) \<longleftrightarrow> \<not> isPanic e"
  by (simp_all add: no_panic_def)

section \<open>Deregistration\<close>

locale steady_tenants =
  fixes tenants :: "('c, 'q, 'w) TenantClientManager"
    and calm :: "'w \<Rightarrow> bool"
    and P :: "('q, 'w) clientset \<Rightarrow> bool"
  assumes factory_P: "tm_factory tenants cfg = Inr cs \<Longrightarrow> P cs"
    and P_steady: "P cs \<Longrightarrow> clientset_steady calm cs"
    and factory_no_panic: "no_panic (tm_factory tenants cfg)" "no_panic (tm_RESTConfig tenants d)"
    and resolver_steady: "calm w \<Longrightarrow> kr_Resolve (tm_resolver tenants) ns name w = (r, w') \<Longrightarrow>
      calm w' \<and> no_panic r"
begin

lemma Get_steady:
  assumes "calm_state calm P s" and "TenantClients_Get tenants t s = (r, s')"
  shows "calm_state calm P s' \<and> no_panic r \<and> (\<forall>cs. r = Inr cs \<longrightarrow> P cs)"
proof (cases "fmlookup (ms_clients s) (cacheKey t)")
  case (Some cs)
  with assms show ?thesis
    by (auto simp: TenantClients_Get_def calm_state_def cache_all_def fmpred_iff)
next
  case None
  obtain d w1 where d: "kr_Resolve (tm_resolver tenants) (VClusterNamespace t) (KubeconfigSecret t) (ms_world s) = (d, w1)"
    by fastforce
  note w1 = resolver_steady [OF _ d]
  have o: "onw (kr_Resolve (tm_resolver tenants) (VClusterNamespace t) (KubeconfigSecret t)) s = (d, s\<lparr>ms_world := w1\<rparr>)"
    using d by (simp add: onw_def)
  have inv: "calm_state calm P (Invalidate t (s\<lparr>ms_world := w1\<rparr>))"
    using assms(1) w1 by (auto simp: calm_state_def Invalidate_def cache_all_def fmpred_iff)
  show ?thesis
  proof (cases d)
    case (Inl e)
    with assms None o inv w1 show ?thesis by (auto simp: TenantClients_Get_def calm_state_def)
  next
    case (Inr kc)
    have "calm w1" using assms(1) w1 by (simp add: calm_state_def)
    show ?thesis
    proof (cases "tm_RESTConfig tenants kc")
      case e: (Inl e)
      with assms(2) None o Inr have "r = Inl (Wrap ''building tenant rest config'' e)" "s' = Invalidate t (s\<lparr>ms_world := w1\<rparr>)"
        by (simp_all add: TenantClients_Get_def)
      with inv e factory_no_panic(2) [of kc] show ?thesis by simp
    next
      case c: (Inr cfg)
      show ?thesis
      proof (cases "tm_factory tenants cfg")
        case e: (Inl e)
        with assms(2) None o Inr c have "r = Inl (Wrap ''building tenant clientset'' e)" "s' = Invalidate t (s\<lparr>ms_world := w1\<rparr>)"
          by (simp_all add: TenantClients_Get_def)
        with inv e factory_no_panic(1) [of cfg] show ?thesis by simp
      next
        case cs: (Inr cs)
        with assms(2) None o Inr c have "r = Inr cs"
          "s' = s\<lparr>ms_world := w1, ms_clients := fmupd (cacheKey t) cs (ms_clients s)\<rparr>"
          by (auto simp: TenantClients_Get_def)
        with \<open>calm w1\<close> assms(1) factory_P [OF cs] show ?thesis
          by (simp add: calm_state_def cache_all_def fmpred_iff)
      qed
    qed
  qed
qed

lemma deleteExisting_steady:
  assumes "steady_client cl calm" and "calm w" and "deleteExisting cl k m w = (r, w')"
  shows "calm w' \<and> no_panic r"
  using assms steady_client.steady_Delete [OF assms(1,2), of k]
  by (auto simp: deleteExisting_def no_panic_def split: prod.splits sum.splits if_splits)

lemma Deregister_steady:
  assumes st: "calm_state calm P s" and run: "Deregister tenants n t s = (r, s')"
  shows "calm_state calm P s' \<and> no_panic r"
proof (cases "KubeconfigSecret t = []")
  case True
  with assms show ?thesis by (auto simp: Deregister_def)
next
  case False
  obtain g s1 where g: "TenantClients_Get tenants t s = (g, s1)" by fastforce
  note s1 = Get_steady [OF st g]
  show ?thesis
  proof (cases g)
    case (Inl e)
    with run False g s1 show ?thesis by (auto simp: Deregister_def)
  next
    case (Inr cs)
    have st: "steady_client (ks_Leases cs) calm" "steady_client (ks_Nodes cs) calm"
      using s1 Inr P_steady by (auto simp: clientset_steady_def)
    have "onw (deregisterOn cs n) s1 = (r, s')" using run False g Inr by (simp add: Deregister_def)
    note d = conjunct1 [OF onw_D [OF this]] conjunct2 [OF onw_D [OF this]]
    have "calm (ms_world s1)" using s1 by (simp add: calm_state_def)
    have "calm (ms_world s') \<and> no_panic r"
    proof -
      obtain a w1 where a: "deleteExisting (ks_Leases cs) (ObjKey leaseNamespace (n_Name n))
          (''deleting lease '' @ n_Name n) (ms_world s1) = (a, w1)" by fastforce
      note w1 = deleteExisting_steady [OF st(1) \<open>calm (ms_world s1)\<close> a]
      show ?thesis
      proof (cases a)
        case (Inl e)
        with d(1) a w1 show ?thesis by (auto simp: deregisterOn_def)
      next
        case (Inr u)
        with d(1) a have "deleteExisting (ks_Nodes cs) (ObjKey [] (n_Name n))
            (''deleting tenant node '' @ n_Name n) w1 = (r, ms_world s')" by (simp add: deregisterOn_def)
        with deleteExisting_steady [OF st(2) conjunct1 [OF w1]] show ?thesis by blast
      qed
    qed
    with s1 d(2) show ?thesis by (simp add: calm_state_def)
  qed
qed

end

section \<open>Registration\<close>

lemma upsertNode_succeeds:
  assumes "tenant_calm env calm tnodes tleases tnss cs" and "calm w"
  obtains w' where "upsertNode cs n w = (Inr (), w')" "calm w'"
proof -
  let ?k = "ObjKey [] (n_Name n)"
  have c: "calm_client (ks_Nodes cs) calm tnodes (\<lambda>n. om_key (kn_Meta n))"
    and t: "tenant_cluster cs env tnodes tleases" using assms(1) by (auto simp: tenant_calm_def)
  show ?thesis
  proof (cases "tnodes w ?k")
    case None
    obtain e w1 where g: "oc_Get (ks_Nodes cs) ?k w = (Inl e, w1)" "IsNotFound e" "calm w1"
      by (rule calm_client.Get_none [OF c assms(2) None])
    have "tnodes w1 (om_key (kn_Meta (newCoreNode n))) = None"
      using calm_client.reads_only [OF c g(1)] None by (simp add: newCoreNode_def om_key_def emptyMeta_def)
    then obtain y w2 where "oc_Create (ks_Nodes cs) (newCoreNode n) w1 = (Inr y, w2)" "calm w2"
      by (rule calm_client.Create_answers [OF c g(3)])
    with g that show ?thesis by (simp add: upsertNode_def)
  next
    case (Some x)
    obtain w1 where g: "oc_Get (ks_Nodes cs) ?k w = (Inr x, w1)" "calm w1"
      by (rule calm_client.Get_some [OF c assms(2) Some])
    have "om_key (kn_Meta x) = ?k"
      using object_api.objs_key [OF tenant_cluster.axioms(1) [OF t] Some] .
    then have "tnodes w1 (om_key (kn_Meta (relabelled n x))) \<noteq> None"
      using calm_client.reads_only [OF c g(1)] Some by (simp add: relabelled_def)
    then obtain w2 where "oc_Update (ks_Nodes cs) (relabelled n x) w1 = (Inr (), w2)" "calm w2"
      by (rule calm_client.Update_answers [OF c g(2)])
    with g that show ?thesis by (simp add: upsertNode_def)
  qed
qed

lemma ensureLeaseNamespace_succeeds:
  assumes "tenant_calm env calm tnodes tleases tnss cs" and "calm w"
  obtains w' where "ensureLeaseNamespace cs w = (Inr (), w')" "calm w'"
proof -
  define k where k: "k = ObjKey [] leaseNamespace"
  have c: "calm_client (ks_Namespaces cs) calm tnss (\<lambda>n. om_key (kns_Meta n))"
    using assms(1) by (simp add: tenant_calm_def)
  show ?thesis
  proof (cases "tnss w k")
    case None
    obtain e w1 where g: "oc_Get (ks_Namespaces cs) k w = (Inl e, w1)" "IsNotFound e" "calm w1"
      by (rule calm_client.Get_none [OF c assms(2) None])
    have "tnss w1 (om_key (kns_Meta \<lparr>kns_Meta = emptyMeta\<lparr>om_Name := leaseNamespace\<rparr>\<rparr>)) = None"
      using calm_client.reads_only [OF c g(1)] None by (simp add: k om_key_def emptyMeta_def)
    then obtain y w2 where
      "oc_Create (ks_Namespaces cs) \<lparr>kns_Meta = emptyMeta\<lparr>om_Name := leaseNamespace\<rparr>\<rparr> w1 = (Inr y, w2)" "calm w2"
      by (rule calm_client.Create_answers [OF c g(3)])
    note u = this
    have "ensureLeaseNamespace cs w = (Inr (), w2)" using g u by (simp add: k [symmetric] ensureLeaseNamespace_def)
    then show ?thesis by (rule that) (rule u(2))
  next
    case (Some x)
    obtain w1 where g: "oc_Get (ks_Namespaces cs) k w = (Inr x, w1)" "calm w1"
      by (rule calm_client.Get_some [OF c assms(2) Some])
    have "ensureLeaseNamespace cs w = (Inr (), w1)" using g by (simp add: k [symmetric] ensureLeaseNamespace_def)
    then show ?thesis by (rule that) (rule g(2))
  qed
qed

lemma upsertLease_succeeds:
  assumes "tenant_calm env calm tnodes tleases tnss cs" and "calm w"
  obtains w' where "upsertLease env cs name w = (Inr (), w')" "calm w'"
proof -
  define k where k: "k = ObjKey leaseNamespace name"
  have c: "calm_client (ks_Leases cs) calm tleases (\<lambda>l. om_key (kl_Meta l))"
    and t: "tenant_cluster cs env tnodes tleases" using assms(1) by (auto simp: tenant_calm_def)
  show ?thesis
  proof (cases "tleases w k")
    case None
    obtain e w1 where g: "oc_Get (ks_Leases cs) k w = (Inl e, w1)" "IsNotFound e" "calm w1"
      by (rule calm_client.Get_none [OF c assms(2) None])
    have "tleases w1 (om_key (kl_Meta (newLease name (env_now env w)))) = None"
      using calm_client.reads_only [OF c g(1)] None by (simp add: k newLease_def om_key_def emptyMeta_def)
    then obtain y w2 where "oc_Create (ks_Leases cs) (newLease name (env_now env w)) w1 = (Inr y, w2)" "calm w2"
      by (rule calm_client.Create_answers [OF c g(3)])
    note u = this
    have "upsertLease env cs name w = (Inr (), w2)" using g u by (simp add: k [symmetric] upsertLease_def Let_def)
    then show ?thesis by (rule that) (rule u(2))
  next
    case (Some x)
    obtain w1 where g: "oc_Get (ks_Leases cs) k w = (Inr x, w1)" "calm w1"
      by (rule calm_client.Get_some [OF c assms(2) Some])
    have "om_key (kl_Meta x) = k"
      using object_api.objs_key [OF tenant_cluster.axioms(2) [OF t] Some] .
    then have "tleases w1 (om_key (kl_Meta (heldLease name (env_now env w) x))) \<noteq> None"
      using calm_client.reads_only [OF c g(1)] Some by (simp add: heldLease_def)
    then obtain w2 where "oc_Update (ks_Leases cs) (heldLease name (env_now env w) x) w1 = (Inr (), w2)" "calm w2"
      by (rule calm_client.Update_answers [OF c g(2)])
    note u = this
    have "upsertLease env cs name w = (Inr (), w2)" using g u by (simp add: k [symmetric] upsertLease_def Let_def)
    then show ?thesis by (rule that) (rule u(2))
  qed
qed

lemma updateNodeStatusOn_succeeds:
  assumes cs: "tenant_calm env calm tnodes tleases tnss cs" and w: "calm w" and p: "parseable (env_q env) n"
    and ex: "tnodes w (ObjKey [] (n_Name n)) = Some x"
  obtains w' where "updateNodeStatusOn env cs n w = (Inr (), w')" "calm w'"
proof -
  have c: "calm_client (ks_Nodes cs) calm tnodes (\<lambda>n. om_key (kn_Meta n))"
    and t: "tenant_cluster cs env tnodes tleases" using cs by (auto simp: tenant_calm_def)
  obtain ca al where q: "buildResources (env_q env) (n_Capacity n) = Inr ca"
    "buildResources (env_q env) (n_Allocatable n) = Inr al"
    using p by (auto simp: parseable_def isl_def) (metis sum.collapse)
  obtain w1 where g: "oc_Get (ks_Nodes cs) (ObjKey [] (n_Name n)) w = (Inr x, w1)" "calm w1"
    by (rule calm_client.Get_some [OF c w ex])
  let ?x = "x\<lparr>kn_Status := \<lparr>kn_Capacity = ca, kn_Allocatable = al,
      kn_Conditions = buildNodeConditions (env_now env w1) n, kn_NodeInfo = nodeSystemInfo (env_version env)\<rparr>\<rparr>"
  have "tnodes w1 (om_key (kn_Meta ?x)) \<noteq> None"
    using calm_client.reads_only [OF c g(1)] object_api.objs_key [OF tenant_cluster.axioms(1) [OF t] ex] ex by simp
  then obtain w2 where u: "oc_UpdateStatus (ks_Nodes cs) ?x w1 = (Inr (), w2)" "calm w2"
    by (rule calm_client.UpdateStatus_answers [OF c g(2)])
  have "tryNodeStatus env cs n w = (Inr (), w2)" using g q u by (simp add: tryNodeStatus_def)
  then have r: "env_retry env (tryNodeStatus env cs n) w = (Inr (), w2)"
    using retry_on_conflict.retry_ok [OF tenant_cluster.axioms(6) [OF t], of "tryNodeStatus env cs n"] by simp
  obtain w3 where "upsertLease env cs (n_Name n) w2 = (Inr (), w3)" "calm w3"
    by (rule upsertLease_succeeds [OF cs u(2)])
  with r that show ?thesis by (simp add: updateNodeStatusOn_def)
qed

locale calm_tenants =
  steady_tenants tenants calm "tenants_calm env calm tnodes tleases tnss"
  for tenants :: "('c, 'q, 'w) TenantClientManager"
    and calm :: "'w \<Rightarrow> bool"
    and env :: "('q, 'w) sysenv"
    and tnodes :: "('q, 'w) clientset \<Rightarrow> 'w \<Rightarrow> objkey \<Rightarrow> 'q CoreNode option"
    and tleases :: "('q, 'w) clientset \<Rightarrow> 'w \<Rightarrow> objkey \<Rightarrow> Lease option"
    and tnss :: "('q, 'w) clientset \<Rightarrow> 'w \<Rightarrow> objkey \<Rightarrow> Namespace option" +
  fixes reaches :: "TenantRef \<Rightarrow> bool"
  assumes reached: "calm w \<Longrightarrow> reaches t \<Longrightarrow>
      \<exists>d c cs. fst (kr_Resolve (tm_resolver tenants) (VClusterNamespace t) (KubeconfigSecret t) w) = Inr d \<and>
        tm_RESTConfig tenants d = Inr c \<and> tm_factory tenants c = Inr cs"
begin

abbreviation calm_tenant_state :: "('q, 'w) mstate \<Rightarrow> bool" where
  "calm_tenant_state \<equiv> calm_state calm (tenants_calm env calm tnodes tleases tnss)"

lemma Get_reaches:
  assumes st: "calm_tenant_state s" and t: "reaches t"
  obtains cs s' where "TenantClients_Get tenants t s = (Inr cs, s')" "calm_tenant_state s'"
    "tenant_calm env calm (tnodes cs) (tleases cs) (tnss cs) cs" "fmlookup (ms_clients s') (cacheKey t) = Some cs"
proof -
  obtain r s' where g: "TenantClients_Get tenants t s = (r, s')" by fastforce
  have "calm (ms_world s)" using st by (simp add: calm_state_def)
  then have "\<exists>cs. r = Inr cs \<and> fmlookup (ms_clients s') (cacheKey t) = Some cs"
    using reached [OF _ t, of "ms_world s"] g
    by (auto simp: TenantClients_Get_def onw_def split: option.splits prod.splits)
  with g Get_steady [OF st g] that show ?thesis by (auto simp: tenants_calm_def)
qed

lemma Register_succeeds:
  assumes st: "calm_tenant_state s" and t: "reaches t" and p: "parseable (env_q env) n"
  obtains s' where "Register tenants env n t s = (Inr (), s')" "calm_tenant_state s'"
proof -
  obtain cs s1 where g: "TenantClients_Get tenants t s = (Inr cs, s1)" "calm_tenant_state s1"
    "tenant_calm env calm (tnodes cs) (tleases cs) (tnss cs) cs" "fmlookup (ms_clients s1) (cacheKey t) = Some cs"
    by (rule Get_reaches [OF st t])
  have c1: "calm (ms_world s1)" using g(2) by (simp add: calm_state_def)
  obtain w2 where l: "ensureLeaseNamespace cs (ms_world s1) = (Inr (), w2)" "calm w2"
    by (rule ensureLeaseNamespace_succeeds [OF g(3) c1])
  obtain w3 where u: "upsertNode cs n w2 = (Inr (), w3)" "calm w3" by (rule upsertNode_succeeds [OF g(3) l(2)])
  obtain x where x: "tnodes cs w3 (ObjKey [] (n_Name n)) = Some x"
    using tenant_cluster.upsertNode_ok [OF _ u(1), of env "tnodes cs" "tleases cs"] g(3) by (auto simp: tenant_calm_def)
  obtain w4 where n: "updateNodeStatusOn env cs n w3 = (Inr (), w4)" "calm w4"
    by (rule updateNodeStatusOn_succeeds [OF g(3) u(2) p x])
  let ?s3 = "s1\<lparr>ms_world := w3\<rparr>"
  have "TenantClients_Get tenants t ?s3 = (Inr cs, ?s3)" using g(4) by (simp add: TenantClients_Get_def)
  then have "UpdateNodeStatus tenants env n t ?s3 = (Inr (), if KubeconfigSecret t = [] then ?s3 else ?s3\<lparr>ms_world := w4\<rparr>)"
    using n(1) by (simp add: UpdateNodeStatus_def onw_def)
  then obtain s' where "UpdateNodeStatus tenants env n t ?s3 = (Inr (), s')"
    "s' = ?s3 \<or> s' = ?s3\<lparr>ms_world := w4\<rparr>" by (metis (full_types))
  moreover from this(2) have "calm_tenant_state s'" using g(2) u(2) n(2) by (auto simp: calm_state_def)
  ultimately show ?thesis using that g(1) l(1) u(1) by (simp add: Register_def onw_def)
qed

end

end
