(* ===== verification/Reliable_Operator.thy ===== *)
theory Reliable_Operator
  imports Pool_Deletion Reliable_Services Reliable_Registrar
begin

text \<open>
  The pool controller in a calm world: total correctness. \<open>calm_operator\<close> asks that the host
  API server answers, and of the tenant clusters only that they do not panic; the deletion of a
  pool then ends in one reconciliation. \<open>calm_cluster\<close> adds tenant clusters that answer, each
  with stores of its own, some of which can be reached; the reconciliation of a valid pool of
  such a tenant then succeeds.
\<close>

section \<open>A calm host cluster\<close>

locale calm_operator =
  pool_controller vnodes tenants env objs pools pobjs pgone patch +
  cv: calm_vnode_store vnodes objs "env_retry env" "env_now env" calm +
  cp: calm_client pools calm pobjs "\<lambda>cr. om_key (vp_Meta cr)" +
  ct: steady_tenants tenants calm P
  for vnodes :: "(VNodeCR, 'w) objclient"
    and tenants :: "('c, 'q, 'w) TenantClientManager"
    and env :: "('q, 'w) sysenv"
    and objs :: "'w \<Rightarrow> objkey \<Rightarrow> VNodeCR option"
    and pools :: "(VNodePoolCR, 'w) objclient"
    and pobjs :: "'w \<Rightarrow> objkey \<Rightarrow> VNodePoolCR option"
    and pgone :: "VNodePoolCR \<Rightarrow> VNodePoolCR option"
    and patch :: "VNodePoolCR \<Rightarrow> VNodePoolCR \<Rightarrow> 'w \<Rightarrow> unit res \<times> 'w"
    and calm :: "'w \<Rightarrow> bool"
    and P :: "('q, 'w) clientset \<Rightarrow> bool" +
  assumes patch_answers: "calm w \<Longrightarrow> pobjs w (om_key (vp_Meta x)) = Some base \<Longrightarrow>
      \<exists>w'. patch base x w = (Inr (), w') \<and> calm w'"

lemma calm_onw:
  assumes "calm_state calm P s" and "f (ms_world s) = (r, w')" and "calm w'"
  shows "onw f s = (r, s\<lparr>ms_world := w'\<rparr>) \<and> calm_state calm P (s\<lparr>ms_world := w'\<rparr>)"
  using assms by (simp add: onw_def calm_state_def)

sublocale calm_operator \<subseteq> ch: calm_host "main_nodeRepo vnodes env" "NewRegistrar tenants env"
  "cluster_nodes objs" "operator_invar objs" "calm_state calm P"
proof (unfold_locales, goal_cases)
  case (1 s ns p)
  then have "calm (ms_world s)" by (simp add: calm_state_def)
  then obtain xs w' where "NodeRepository_ListByPool vnodes ns p (ms_world s) = (Inr xs, w')" "calm w'"
    by (rule cv.ListByPool_succeeds)
  from calm_onw [of calm P s "NodeRepository_ListByPool vnodes ns p", OF 1 this] show ?case by (auto simp: main_nodeRepo_def)
next
  case (2 s n)
  then have "calm (ms_world s)" by (simp add: calm_state_def)
  then obtain w' where "NodeRepository_Save vnodes (env_retry env) (env_now env) n (ms_world s) = (Inr (), w')" "calm w'"
    by (rule cv.Save_succeeds)
  from calm_onw [of calm P s "NodeRepository_Save vnodes (env_retry env) (env_now env) n", OF 2 this] show ?case by (auto simp: main_nodeRepo_def)
next
  case (3 s ns nm)
  then have "calm (ms_world s)" "objs (ms_world s) (ObjKey ns nm) \<noteq> None"
    by (auto simp: calm_state_def cluster_nodes_def stored_nodes_def)
  then obtain w' where "NodeRepository_Delete vnodes ns nm (ms_world s) = (Inr (), w')" "calm w'"
    unfolding NodeRepository_Delete_def by (rule cv.Delete_answers)
  from calm_onw [of calm P s "NodeRepository_Delete vnodes ns nm", OF 3(1) this] show ?case by (auto simp: main_nodeRepo_def)
next
  case (4 s n t r s')
  then show ?case using ct.Deregister_steady [of s n t r s'] by (simp add: NewRegistrar_def)
qed

context calm_operator
begin

lemma updatePoolStatus_succeeds:
  assumes "calm w" and "pobjs w k \<noteq> None"
  obtains w' where "updatePoolStatus api k mutate w = (Inr (), w')" "calm w'"
proof -
  obtain cr where cr: "pobjs w k = Some cr" using assms(2) by blast
  obtain w1 where g: "oc_Get pools k w = (Inr cr, w1)" "calm w1" by (rule cp.Get_some [OF assms(1) cr])
  let ?x = "cr\<lparr>vp_Status := mutate (env_now env w1) (vp_Status cr)\<rparr>"
  have "pobjs w1 (om_key (vp_Meta ?x)) = Some cr" using pl.Get_ok [OF g(1)] pl.objs_key [OF cr] by simp
  then obtain w2 where p: "patch cr ?x w1 = (Inr (), w2)" "calm w2" using patch_answers [OF g(2)] by blast
  have "\<exists>w'. tryPoolStatus api k mutate w = (Inr (), w') \<and> calm w'"
    using g p by (simp add: tryPoolStatus_def Let_def)
  with store.retry_ok that show ?thesis by (auto simp: updatePoolStatus_def)
qed

lemma removeFinalizer_succeeds:
  assumes "calm w" and "pobjs w k \<noteq> None"
  obtains w' where "env_retry env (tryRemoveFinalizer api k) w = (Inr (), w')" "calm w'"
proof -
  obtain cr where cr: "pobjs w k = Some cr" using assms(2) by blast
  obtain w1 where g: "oc_Get pools k w = (Inr cr, w1)" "calm w1" by (rule cp.Get_some [OF assms(1) cr])
  let ?x = "cr\<lparr>vp_Meta := (vp_Meta cr)\<lparr>om_Finalizers := removeAll poolFinalizer (om_Finalizers (vp_Meta cr))\<rparr>\<rparr>"
  have "pobjs w1 (om_key (vp_Meta ?x)) \<noteq> None" using pl.Get_ok [OF g(1)] pl.objs_key [OF cr] by simp
  then obtain w2 where "oc_Update pools ?x w1 = (Inr (), w2)" "calm w2" by (rule cp.Update_answers [OF g(2)])
  with g store.retry_ok [of "tryRemoveFinalizer api k" w "()" w2] that show ?thesis
    by (simp add: tryRemoveFinalizer_def)
qed

lemma status_succeeds:
  assumes "calm_state calm P s" and "pobjs (ms_world s) k \<noteq> None"
  obtains s' where "onw (updatePoolStatus api k mutate) s = (Inr (), s')" "calm_state calm P s'"
proof -
  have "calm (ms_world s)" using assms(1) by (simp add: calm_state_def)
  then obtain w' where "updatePoolStatus api k mutate (ms_world s) = (Inr (), w')" "calm w'"
    by (rule updatePoolStatus_succeeds [OF _ assms(2)])
  from calm_onw [of calm P s "updatePoolStatus api k mutate", OF assms(1) this] that show ?thesis by blast
qed

lemma list_of_none:
  assumes inv: "controller_invar objs pobjs s" and st: "calm_state calm P s"
    and none: "card (pool_nodes (cluster_nodes objs s) ns p) = 0"
  obtains s' where "onw (oc_List vnodes (Some ns) (fmupd LabelVNodePool p fmempty)) s = (Inr [], s')"
    "calm_state calm P s'"
proof -
  have "calm (ms_world s)" using st by (simp add: calm_state_def)
  then obtain xs w' where l: "oc_List vnodes (Some ns) (fmupd LabelVNodePool p fmempty) (ms_world s) = (Inr xs, w')"
    "calm w'" by (rule cv.List_answers)
  have "NodeRepository_ListByPool vnodes ns p (ms_world s) = (Inr (map crToNode xs), w')"
    using l(1) by (simp add: NodeRepository_ListByPool_def)
  moreover have "labels_agree objs (ms_world s)" using inv by (simp add: controller_invar_def operator_invar_def)
  ultimately have "xs = []"
    using store.repository.List_keys [of "ms_world s" ns p "map crToNode xs" w', symmetric] none
    by (simp add: cluster_nodes_def [abs_def])
  with l calm_onw [of calm P s "oc_List vnodes (Some ns) (fmupd LabelVNodePool p fmempty)", OF st l] that show ?thesis by blast
qed

lemma handleDeletion_ends:
  assumes inv: "controller_invar objs pobjs s" and st: "calm_state calm P s"
    and old: "pobjs (ms_world s) (vp_key cr) = Some cr"
    and fin: "poolFinalizer \<in> set (om_Finalizers (vp_Meta cr))"
    and small: "pool_size (cluster_nodes objs s) (crToPoolModel cr) < 2 ^ 31"
  obtains s' where "handleDeletion api svc cr s = (Inr noRequeue, s')" "calm_state calm P s'"
proof -
  let ?k = "vp_key cr" and ?pool = "(crToPoolModel cr)\<lparr>p_NodeCount := 0, p_DeletionPending := True\<rparr>"
  obtain s1 where u: "onw (updatePoolStatus api ?k deletingStatus) s = (Inr (), s1)" "calm_state calm P s1"
    by (rule status_succeeds [OF st, of ?k]) (use old in simp)
  note s1 = status_keeps [OF inv u(1)] and m1 = updatePoolStatus_meta [OF conjunct1 [OF onw_D [OF u(1)]]]
  have inv1: "operator_invar objs s1" using s1 by (simp add: controller_invar_def)
  have size: "pool_size (cluster_nodes objs s1) ?pool < 2 ^ 31" using small s1 by (simp add: pool_size_def)
  obtain q s2 where r: "pm_Reconcile svc ?pool s1 = ((q, None), s2)" "calm_state calm P s2"
    using ch.Reconcile_down_succeeds [OF inv1 u(2) _ size] by (auto simp: main_poolSvc_sel main_nodeSvc_def)
  have s2: "controller_invar objs pobjs s2" "pobjs (ms_world s2) = pobjs (ms_world s1)"
    using svc_keeps [OF _ r(1)] s1 by auto
  have "card (pool_nodes (cluster_nodes objs s2) (om_Namespace (vp_Meta cr)) (om_Name (vp_Meta cr))) = 0"
    using scales_down [OF inv1 _ size _ r(1)] by (simp add: pool_size_def) (simp add: crToPoolModel_def)
  then obtain s3 where l: "onw (oc_List vnodes (Some (om_Namespace (vp_Meta cr)))
      (fmupd LabelVNodePool (om_Name (vp_Meta cr)) fmempty)) s2 = (Inr [], s3)" "calm_state calm P s3"
    by (rule list_of_none [OF s2(1) r(2)])
  have "pobjs (ms_world s3) ?k \<noteq> None"
    using no_nodes_left [OF s2(1) l(1)] s2 m1 [of ?k] old by (cases "pobjs (ms_world s1) ?k") auto
  moreover have "calm (ms_world s3)" using l(2) by (simp add: calm_state_def)
  ultimately obtain w4 where f: "env_retry env (tryRemoveFinalizer api ?k) (ms_world s3) = (Inr (), w4)" "calm w4"
    using removeFinalizer_succeeds by blast
  note o4 = calm_onw [of calm P s3 "env_retry env (tryRemoveFinalizer api ?k)", OF l(2) f]
  have "handleDeletion api svc cr s = (Inr noRequeue, s3\<lparr>ms_world := w4\<rparr>)"
    using fin u(1) r(1) l(1) o4 by (simp add: handleDeletion_def Let_def)
  with that o4 show ?thesis by blast
qed

lemma Get_pool_calm:
  assumes "controller_invar objs pobjs s" and "calm_state calm P s" and "pobjs (ms_world s) req = Some cr"
  obtains s1 where "onw (oc_Get pools req) s = (Inr cr, s1)" "calm_state calm P s1"
    "controller_invar objs pobjs s1" "cluster_nodes objs s1 = cluster_nodes objs s"
    "pobjs (ms_world s1) = pobjs (ms_world s)" "vp_key cr = req"
proof -
  have "calm (ms_world s)" using assms(2) by (simp add: calm_state_def)
  then obtain w1 where "oc_Get pools req (ms_world s) = (Inr cr, w1)" "calm w1" by (rule cp.Get_some [OF _ assms(3)])
  note g = calm_onw [of calm P s "oc_Get pools req", OF assms(2) this]
  from Get_pool [OF assms(1) conjunct1 [OF g]] g that show ?thesis by auto
qed

lemma Reconcile_deletion_ends:
  assumes inv: "controller_invar objs pobjs s" and st: "calm_state calm P s"
    and old: "pobjs (ms_world s) req = Some cr"
    and fin: "poolFinalizer \<in> set (om_Finalizers (vp_Meta cr))"
    and del: "om_DeletionTimestamp (vp_Meta cr) \<noteq> None"
    and small: "pool_size (cluster_nodes objs s) (crToPoolModel cr) < 2 ^ 31"
  shows "\<exists>s'. main_poolReconciler pools patch vnodes tenants env req s = (Inr noRequeue, s') \<and> calm_state calm P s'"
proof -
  obtain s1 where g: "onw (oc_Get pools req) s = (Inr cr, s1)" "calm_state calm P s1"
    "controller_invar objs pobjs s1" "cluster_nodes objs s1 = cluster_nodes objs s"
    "pobjs (ms_world s1) = pobjs (ms_world s)" "vp_key cr = req"
    by (rule Get_pool_calm [OF inv st old])
  obtain s' where "handleDeletion api svc cr s1 = (Inr noRequeue, s')" "calm_state calm P s'"
    by (rule handleDeletion_ends [OF g(3,2) _ fin]) (use g old small in simp_all)
  with g(1) del show ?thesis by (simp add: main_poolReconciler_def VNodePoolReconciler_Reconcile_def)
qed

end

section \<open>Tenant clusters that answer\<close>

locale calm_cluster =
  calm_operator vnodes tenants env objs pools pobjs pgone patch calm "tenants_calm env calm tnodes tleases tnss" +
  tr: calm_tenants tenants calm env tnodes tleases tnss reaches
  for vnodes :: "(VNodeCR, 'w) objclient"
    and tenants :: "('c, 'q, 'w) TenantClientManager"
    and env :: "('q, 'w) sysenv"
    and objs :: "'w \<Rightarrow> objkey \<Rightarrow> VNodeCR option"
    and pools :: "(VNodePoolCR, 'w) objclient"
    and pobjs :: "'w \<Rightarrow> objkey \<Rightarrow> VNodePoolCR option"
    and pgone :: "VNodePoolCR \<Rightarrow> VNodePoolCR option"
    and patch :: "VNodePoolCR \<Rightarrow> VNodePoolCR \<Rightarrow> 'w \<Rightarrow> unit res \<times> 'w"
    and calm :: "'w \<Rightarrow> bool"
    and tnodes :: "('q, 'w) clientset \<Rightarrow> 'w \<Rightarrow> objkey \<Rightarrow> 'q CoreNode option"
    and tleases :: "('q, 'w) clientset \<Rightarrow> 'w \<Rightarrow> objkey \<Rightarrow> Lease option"
    and tnss :: "('q, 'w) clientset \<Rightarrow> 'w \<Rightarrow> objkey \<Rightarrow> Namespace option"
    and reaches :: "TenantRef \<Rightarrow> bool"

sublocale calm_cluster \<subseteq> cr: calm_registrar "main_nodeRepo vnodes env" "NewRegistrar tenants env"
  "cluster_nodes objs" "operator_invar objs" "calm_state calm (tenants_calm env calm tnodes tleases tnss)"
  "\<lambda>n t. reaches t \<and> parseable (env_q env) n"
proof (unfold_locales, goal_cases)
  case (1 s n t)
  then have "calm_state calm (tenants_calm env calm tnodes tleases tnss) s" "reaches t" "parseable (env_q env) n"
    by simp_all
  then obtain s' where "Register tenants env n t s = (Inr (), s')"
    "calm_state calm (tenants_calm env calm tnodes tleases tnss) s'" by (rule tr.Register_succeeds)
  then show ?case by (auto simp: NewRegistrar_def)
qed

lemma newNode_parseable:
  assumes "buildResources q (p_PerNodeResources pool) = Inr r"
  shows "parseable q (newNode pool i)"
  using assms by (simp add: parseable_def newNode_def)

context calm_cluster
begin

abbreviation cc_state :: "('q, 'w) mstate \<Rightarrow> bool" where
  "cc_state \<equiv> calm_state calm (tenants_calm env calm tnodes tleases tnss)"

lemma ensureFinalizer_succeeds:
  assumes st: "cc_state s" and old: "pobjs (ms_world s) (vp_key cr) = Some cr"
  obtains cr' s' where "onw (ensureFinalizer api cr) s = (Inr cr', s')" "cc_state s'"
proof (cases "poolFinalizer \<in> set (om_Finalizers (vp_Meta cr))")
  case True
  then have "onw (ensureFinalizer api cr) s = (Inr cr, s)" by (simp add: ensureFinalizer_def onw_def)
  with that st show ?thesis by blast
next
  case False
  let ?x = "cr\<lparr>vp_Meta := (vp_Meta cr)\<lparr>om_Finalizers := om_Finalizers (vp_Meta cr) @ [poolFinalizer]\<rparr>\<rparr>"
  have "calm (ms_world s)" using st by (simp add: calm_state_def)
  moreover have "pobjs (ms_world s) (om_key (vp_Meta ?x)) \<noteq> None" using old by simp
  ultimately obtain w' where "oc_Update pools ?x (ms_world s) = (Inr (), w')" "calm w'" by (rule cp.Update_answers)
  then have "ensureFinalizer api cr (ms_world s) = (Inr ?x, w')" "calm w'"
    using False by (simp_all add: ensureFinalizer_def Let_def)
  from calm_onw [of calm _ s "ensureFinalizer api cr", OF st this] that show ?thesis by blast
qed

lemma Reconcile_ends:
  assumes inv: "controller_invar objs pobjs s" and st: "cc_state s"
    and old: "pobjs (ms_world s) req = Some cr" and live: "om_DeletionTimestamp (vp_Meta cr) = None"
    and ok: "Validate (crToPoolModel cr) = Inr ()" and t: "reaches (p_TenantRef (crToPoolModel cr))"
    and q: "buildResources (env_q env) (p_PerNodeResources (crToPoolModel cr)) = Inr res"
  shows "\<exists>s'. main_poolReconciler pools patch vnodes tenants env req s = (Inr noRequeue, s') \<and> cc_state s'"
proof -
  obtain s1 where g: "onw (oc_Get pools req) s = (Inr cr, s1)" "cc_state s1"
    "controller_invar objs pobjs s1" "cluster_nodes objs s1 = cluster_nodes objs s"
    "pobjs (ms_world s1) = pobjs (ms_world s)" "vp_key cr = req"
    by (rule Get_pool_calm [OF inv st old])
  have old1: "pobjs (ms_world s1) (vp_key cr) = Some cr" using g old by simp
  obtain cr' s2 where f: "onw (ensureFinalizer api cr) s1 = (Inr cr', s2)" "cc_state s2"
    by (rule ensureFinalizer_succeeds [OF g(2) old1])
  note s2 = ensureFinalizer_effect [OF g(3) live old1 f(1)]
  have m: "crToPoolModel cr' = crToPoolModel cr" "vp_key cr' = vp_key cr" "om_DeletionTimestamp (vp_Meta cr') = None"
    using s2 by simp_all
  have inv2: "operator_invar objs s2" using s2 by (simp add: controller_invar_def)
  obtain p s3 where r: "pm_Reconcile svc (crToPoolModel cr) s2 = ((p, None), s3)" "cc_state s3"
    using cr.Reconcile_succeeds [OF inv2 f(2), of "crToPoolModel cr"] t newNode_parseable [OF q]
    by (auto simp: main_poolSvc_sel main_nodeSvc_def)
  have "pobjs (ms_world s3) (vp_key cr') \<noteq> None"
    using svc_keeps [OF _ r(1)] s2 m by (cases "pobjs (ms_world s2) (vp_key cr)") auto
  then obtain s4 where u: "onw (updatePoolStatus api (vp_key cr') (resultStatus p)) s3 = (Inr (), s4)" "cc_state s4"
    by (rule status_succeeds [OF r(2)])
  have "reconcileMarked api svc cr' s2 = (Inr noRequeue, s4)"
    using m ok r(1) u(1) by (simp add: reconcileMarked_def Let_def)
  with g(1) f(1) u(2) live show ?thesis
    by (simp add: main_poolReconciler_def VNodePoolReconciler_Reconcile_def)
qed

end

section \<open>Properties\<close>


text \<open>
  C7: the deletion of a pool ends, whatever the tenant cluster does. When the host API server
  answers, one reconciliation of a pool that is marked for deletion and holds the finalizer
  returns without an error and without a requeue; no node of the pool is left, the finalizer
  is given up, and the pool object is gone unless it holds finalizers of others. Of the tenant
  cluster only the absence of panics is assumed: a missing kubeconfig or failing requests do
  not keep the pool.
\<close>

theorem pool_deletion_terminates:
  assumes "calm_operator vnodes tenants env objs pools pobjs pgone patch calm P"
    and "controller_invar objs pobjs s" and "calm_state calm P s"
    and "pobjs (ms_world s) req = Some cr" and "poolFinalizer \<in> set (om_Finalizers (vp_Meta cr))"
    and "om_DeletionTimestamp (vp_Meta cr) \<noteq> None"
    and "pool_size (cluster_nodes objs s) (crToPoolModel cr) < 2 ^ 31"
  shows "\<exists>s'. main_poolReconciler pools patch vnodes tenants env req s = (Inr noRequeue, s') \<and>
           pool_nodes (cluster_nodes objs s') (key_ns req) (key_name req) = {} \<and>
           \<not> holds_finalizer (pobjs (ms_world s') req) \<and>
           (set (om_Finalizers (vp_Meta cr)) \<subseteq> {poolFinalizer} \<longrightarrow> pobjs (ms_world s') req = None)"
proof -
  have pc: "pool_controller vnodes tenants env objs pools pobjs pgone patch"
    using assms(1) by (simp add: calm_operator_def)
  obtain s' where run: "main_poolReconciler pools patch vnodes tenants env req s = (Inr noRequeue, s')"
    using calm_operator.Reconcile_deletion_ends [OF assms] by blast
  with pool_controller.Reconcile_deletes [OF pc assms(2,4,5,6) run] show ?thesis
    by (auto simp: noRequeue_def)
qed

end
