(* ===== verification/Reliable_Witnesses.thy ===== *)
theory Reliable_Witnesses
  imports Operator_Witnesses Reliable_Operator
begin

text \<open>
  The reference world without injected faults is calm, so the total results hold on it; and the
  deletion of a pool ends there although the kubeconfig of its tenant is missing.
\<close>

section \<open>Data\<close>

definition quiet_store :: "('o, 'w) store \<Rightarrow> ('w \<Rightarrow> bool) \<Rightarrow> bool" where
  "quiet_store st calm \<longleftrightarrow>
     well_formed_store st \<and>
     (\<forall>w. calm w \<longrightarrow> fst (st_tick st w) = Pass \<and> calm (snd (st_tick st w))) \<and>
     (\<forall>xs w. calm w \<longrightarrow> calm (st_put st xs w))"

definition faultless :: "refworld \<Rightarrow> bool" where
  "faultless w \<longleftrightarrow> rw_faults w = []"

definition ref_calm :: "refworld \<Rightarrow> bool" where
  "ref_calm w \<longleftrightarrow> rw_faults w = [] \<and> rw_secrets w = [ref_secret, ref_other_secret]"

definition ref_reaches :: "TenantRef \<Rightarrow> bool" where
  "ref_reaches t \<longleftrightarrow> VClusterNamespace t = ''tenants'' \<and> KubeconfigSecret t \<in> {''kc'', ''kc2''}"

text \<open>A pool under deletion, with a node, whose tenant has no kubeconfig Secret.\<close>

definition wit_abandoned :: "(string, refworld) mstate" where
  "wit_abandoned = wit_going\<lparr>ms_world := (ms_world wit_going)\<lparr>rw_secrets := []\<rparr>\<rparr>"

section \<open>The reference client without faults\<close>

lemma quiet_guarded:
  assumes "quiet_store st calm" and "calm w"
  shows "guarded st f w = f (snd (st_tick st w))"
  using assms by (simp add: guarded_def quiet_store_def split: prod.splits) (metis fst_conv injected_error.simps(1) option.simps(4) snd_conv)

lemma quiet_tick:
  assumes "quiet_store st calm" and "calm w"
  shows "calm (snd (st_tick st w))" "st_get st (snd (st_tick st w)) = st_get st w"
  using assms by (auto simp: quiet_store_def well_formed_store_def)

lemma quiet_put: "quiet_store st calm \<Longrightarrow> calm w \<Longrightarrow> calm (st_put st xs w)"
  by (simp add: quiet_store_def)

lemma quiet_replace:
  assumes "quiet_store st calm" and "calm w" and "replaceObj st f k w = (r, w')"
  shows "calm w' \<and> no_panic r"
  using assms quiet_put [OF assms(1,2)]
  by (auto simp: replaceObj_def notFound_def split: option.splits)

lemma mem_client_calm:
  assumes q: "quiet_store st calm"
  shows "calm_client (mem_client st) calm (stored_objs st) (st_key st)"
proof -
  note g = quiet_guarded [OF q] and t = quiet_tick [OF q] and p = quiet_put [OF q]
  have wf: "well_formed_store st" using q by (simp add: quiet_store_def)
  show ?thesis
  proof (unfold_locales, goal_cases)
    case (1 w k x w')
    then show ?case by (auto simp: g t mem_client_def notFound_def split: option.splits)
  next
    case (2 w ns sel xs w')
    then show ?case by (auto simp: g t mem_client_def)
  next
    case (3 w y x w')
    then show ?case by (auto simp: g t p mem_client_def Let_def split: option.splits)
  next
    case (4 w y u w')
    then show ?case using quiet_replace [OF q t(1)] by (simp add: g mem_client_def)
  next
    case (5 w y u w')
    then show ?case using quiet_replace [OF q t(1)] by (simp add: g mem_client_def)
  next
    case (6 w k u w')
    then show ?case using quiet_replace [OF q t(1)] by (simp add: g mem_client_def)
  next
    case (7 k w r w')
    then show ?case using object_api.Get_ok [OF mem_client_api [OF wf, of "\<lambda>_ _. True"]]
        object_api.Get_err [OF mem_client_api [OF wf, of "\<lambda>_ _. True"]] by (cases r) auto
  next
    case (8 w k x)
    then show ?case by (simp add: g t mem_client_def stored_objs_def)
  next
    case (9 w k)
    then show ?case by (simp add: g t mem_client_def stored_objs_def notFound_def)
  next
    case (10 w ns sel)
    then show ?case by (simp add: g t mem_client_def)
  next
    case (11 w x)
    then show ?case by (simp add: g t mem_client_def stored_objs_def Let_def)
  next
    case (12 w x)
    then show ?case by (auto simp: g t mem_client_def stored_objs_def replaceObj_def)
  next
    case (13 w x)
    then show ?case by (auto simp: g t mem_client_def stored_objs_def replaceObj_def)
  next
    case (14 w k)
    then show ?case by (auto simp: g t mem_client_def stored_objs_def replaceObj_def)
  qed
qed

section \<open>The reference world without faults\<close>

lemma tick_calm [simp]:
  "rw_faults w = [] \<Longrightarrow> fst (rw_tick w) = Pass" "rw_faults w = [] \<Longrightarrow> rw_faults (snd (rw_tick w)) = []"
  by (simp_all add: rw_tick_def)

lemma tnamespace_wf: "well_formed_store tnamespace_st" "well_formed_store onamespace_st"
  by (auto simp: well_formed_store_def ref_store_defs om_key_def born_def)

lemma ref_quiet:
  "quiet_store vnode_st faultless" "quiet_store pool_st faultless" "quiet_store secret_st faultless"
  "quiet_store tnode_st faultless" "quiet_store tlease_st faultless"
  "quiet_store vnode_st ref_calm" "quiet_store pool_st ref_calm" "quiet_store tnode_st ref_calm"
  "quiet_store tlease_st ref_calm" "quiet_store tnamespace_st ref_calm"
  "quiet_store onode_st faultless" "quiet_store olease_st faultless"
  "quiet_store onode_st ref_calm" "quiet_store olease_st ref_calm" "quiet_store onamespace_st ref_calm"
  unfolding quiet_store_def by (simp_all add: ref_wf tnamespace_wf) (simp_all add: ref_store_defs faultless_def ref_calm_def)

lemma ref_patch_calm:
  assumes "quiet_store pool_st calm" and "calm w" and "stored_objs pool_st w (om_key (vp_Meta x)) = Some base"
  shows "\<exists>w'. ref_patch base x w = (Inr (), w') \<and> calm w'"
proof -
  have "stored_objs pool_st w (st_key pool_st x) \<noteq> None" using assms(3) by (simp add: pool_st_def)
  then show ?thesis
    using calm_client.UpdateStatus_answers [OF mem_client_calm [OF assms(1)] assms(2)] unfolding ref_patch_def by blast
qed

lemma ref_resolve_faultless:
  assumes "faultless w" and "Resolve (mem_client secret_st) ns name w = (r, w')"
  shows "faultless w' \<and> no_panic r"
  using assms steady_client.steady_Get [OF calm_client.axioms(1) [OF mem_client_calm [OF ref_quiet(3)]] assms(1)]
  by (auto simp: Resolve_def split: prod.splits sum.splits option.splits) fastforce

lemma ref_resolve_calm:
  assumes "ref_calm w"
  shows "Resolve (mem_client secret_st) ns name w = (r, w') \<Longrightarrow> ref_calm w' \<and> no_panic r"
    and "ref_reaches t \<Longrightarrow> fst (Resolve (mem_client secret_st) (VClusterNamespace t) (KubeconfigSecret t) w) =
      Inr (if KubeconfigSecret t = ''kc'' then [1] else [2])"
  using assms
  by (auto simp: ref_calm_def ref_reaches_def Resolve_def mem_client_def guarded_def secret_st_def rw_tick_def lookupObj_def
      notFound_def ref_secret_def ref_other_secret_def om_key_def emptyMeta_def split: prod.splits sum.splits option.splits if_splits)

lemma ref_vnode_calm:
  assumes "quiet_store vnode_st calm"
  shows "calm_vnode_store ref_vnodes ref_objs (env_retry ref_env) calm"
  using mem_client_calm [OF assms] ref_operator.store.vnode_store_axioms
  by (simp add: calm_vnode_store_def vnode_st_def)

lemma ref_pool_calm:
  assumes "quiet_store pool_st calm"
  shows "calm_client (mem_client pool_st) calm (stored_objs pool_st) (\<lambda>cr. om_key (vp_Meta cr))"
  using mem_client_calm [OF assms] by (simp add: pool_st_def)

lemma ref_steady: "clientset_steady faultless ref_clientset" "clientset_steady faultless ref_other"
  using calm_client.axioms(1) [OF mem_client_calm [OF ref_quiet(4)]] calm_client.axioms(1) [OF mem_client_calm [OF ref_quiet(5)]]
    calm_client.axioms(1) [OF mem_client_calm [OF ref_quiet(11)]] calm_client.axioms(1) [OF mem_client_calm [OF ref_quiet(12)]]
  by (simp_all add: clientset_steady_def ref_clientset_def ref_other_def)

interpretation ref_calm_host: calm_operator ref_vnodes ref_tenants ref_env ref_objs "mem_client pool_st"
  "stored_objs pool_st" pool_gone ref_patch faultless "clientset_steady faultless"
proof -
  have "steady_tenants ref_tenants faultless (clientset_steady faultless)"
    using ref_steady ref_resolve_faultless
    by unfold_locales (auto simp: ref_tenants_sel ref_factory_iff ref_factory_def)
  then show "calm_operator ref_vnodes ref_tenants ref_env ref_objs (mem_client pool_st) (stored_objs pool_st)
      pool_gone ref_patch faultless (clientset_steady faultless)"
    using ref_vnode_calm [OF ref_quiet(1)] ref_pool_calm [OF ref_quiet(2)] ref_patch_calm [OF ref_quiet(2)]
    by (simp add: calm_operator_def calm_operator_axioms_def ref_controller.pool_controller_axioms)
qed

abbreviation ref_tenant_calm :: "(string, refworld) clientset \<Rightarrow> bool" where
  "ref_tenant_calm \<equiv> tenants_calm ref_env ref_calm ref_tnodes ref_tleases ref_tnamespaces"

lemma ref_clientset_calm: "ref_tenant_calm ref_clientset" "ref_tenant_calm ref_other"
  using mem_client_calm [OF ref_quiet(8)] mem_client_calm [OF ref_quiet(9)] mem_client_calm [OF ref_quiet(10)]
    mem_client_calm [OF ref_quiet(13)] mem_client_calm [OF ref_quiet(14)] mem_client_calm [OF ref_quiet(15)]
    ref_tenant.tenant_cluster_axioms ref_tenant2.tenant_cluster_axioms
  unfolding tenants_calm_def tenant_calm_def ref_views
  by (simp_all add: ref_clientset_def ref_other_def)
    (simp_all add: ref_store_defs)

interpretation ref_calm_cluster: calm_cluster ref_vnodes ref_tenants ref_env ref_objs "mem_client pool_st"
  "stored_objs pool_st" pool_gone ref_patch ref_calm ref_tnodes ref_tleases ref_tnamespaces ref_reaches
proof -
  have s: "steady_tenants ref_tenants ref_calm ref_tenant_calm"
    using ref_resolve_calm(1) ref_clientset_calm
    by unfold_locales (auto simp: ref_tenants_sel ref_factory_iff ref_factory_def
        clientset_steady_def tenants_calm_def tenant_calm_def calm_client_def)
  moreover have "calm_tenants ref_tenants ref_calm ref_env ref_tnodes ref_tleases ref_tnamespaces ref_reaches"
    unfolding calm_tenants_def calm_tenants_axioms_def using s ref_resolve_calm(2)
    by (auto simp: ref_tenants_sel ref_factory_def)
  ultimately show "calm_cluster ref_vnodes ref_tenants ref_env ref_objs (mem_client pool_st) (stored_objs pool_st)
      pool_gone ref_patch ref_calm ref_tnodes ref_tleases ref_tnamespaces ref_reaches"
    using ref_vnode_calm [OF ref_quiet(6)] ref_pool_calm [OF ref_quiet(7)] ref_patch_calm [OF ref_quiet(7)]
    by (simp add: calm_cluster_def calm_operator_def calm_operator_axioms_def ref_controller.pool_controller_axioms)
qed

section \<open>Witnesses\<close>


theorem pool_deletion_terminates_witness:
  "fst (TenantClients_Get ref_tenants (p_TenantRef (crToPoolModel wit_marked_pool)) wit_abandoned) \<noteq> Inr ref_clientset \<and>
   pool_nodes (cluster_nodes ref_objs wit_abandoned) ''ns'' ''pool'' \<noteq> {} \<and>
   (\<exists>s'. ref_poolReconcile wit_abandoned = (Inr noRequeue, s') \<and>
      pool_nodes (cluster_nodes ref_objs s') ''ns'' ''pool'' = {} \<and> stored_objs pool_st (ms_world s') wit_req = None)"
proof -
  have same: "rw_vnodes (ms_world wit_abandoned) = rw_vnodes (ms_world wit_going)"
    "rw_pools (ms_world wit_abandoned) = rw_pools (ms_world wit_going)" "ms_clients wit_abandoned = ms_clients wit_going"
    by (simp_all add: wit_abandoned_def)
  have "controller_invar ref_objs (stored_objs pool_st) wit_going"
    unfolding wit_going_def by (rule ref_world_invar) (simp add: ref_vnode_cr_def)
  then have inv: "controller_invar ref_objs (stored_objs pool_st) wit_abandoned"
    using same by (simp add: controller_invar_def operator_invar_def labels_agree_def stored_objs_def vnode_st_def)
  have calm: "calm_state faultless (clientset_steady faultless) wit_abandoned"
    by (simp add: calm_state_def faultless_def wit_abandoned_def wit_going_def ref_world_of_def emptyWorld_def cache_all_def)
  have k: "vp_key wit_marked_pool = wit_req" by (simp add: wit_marked_pool_def ref_pool_cr_def om_key_def emptyMeta_def)
  have pool: "stored_objs pool_st (ms_world wit_abandoned) wit_req = Some wit_marked_pool"
    using ref_pool_of [of wit_marked_pool "[ref_vnode_cr]" "[]" "[]"] k same
    by (simp add: wit_going_def stored_objs_def pool_st_def)
  have one: "map vn_key (vnodes_of ''ns'' ''pool'' (rw_vnodes (ms_world wit_abandoned))) = [ObjKey ''ns'' ''vnode-pool-1'']"
    by code_simp
  then have some: "pool_nodes (cluster_nodes ref_objs wit_abandoned) ''ns'' ''pool'' = {ObjKey ''ns'' ''vnode-pool-1''}"
    by (simp add: ref_pool_nodes)
  have "isl (fst (TenantClients_Get ref_tenants (p_TenantRef (crToPoolModel wit_marked_pool)) wit_abandoned))" by code_simp
  then have lost: "fst (TenantClients_Get ref_tenants (p_TenantRef (crToPoolModel wit_marked_pool)) wit_abandoned) \<noteq> Inr ref_clientset"
    by auto
  have size: "pool_size (cluster_nodes ref_objs wit_abandoned) (crToPoolModel wit_marked_pool) < 2 ^ 31"
    using some k by (simp add: pool_size_model om_key_def)
  from pool_deletion_terminates [OF ref_calm_host.calm_operator_axioms inv calm pool _ _ size] some lost
  show ?thesis by (simp add: ref_poolReconcile_def) (auto simp: wit_marked_pool_def)
qed

end
