(* ===== verification/Observability.thy ===== *)
theory Observability
  imports PodSync_Reconciler
begin

text \<open>
  What the pod synchronisation reports: the counters of \<open>internal/observability/metrics.go\<close>, one
  value per pool label, and the events recorded on the pool object. A counter is a natural
  number (the sums of the float64 of the library are exact up to 2^53).

  \<open>PodSyncReconciler_observed\<close> is \<open>PodSyncReconciler.Reconcile\<close> with these outputs; \<open>recorder\<close>
  says whether the field \<open>Recorder\<close> is set. \<open>recordWarning\<close> skips an unset recorder, the other
  two uses call it unguarded and panic. The lemmas show that the outputs do not change the
  control flow when the recorder is set, as it is in the running process.
\<close>

section \<open>Counters and events\<close>

record Metrics =
  HostPodCreates :: "string \<Rightarrow> nat"
  HostPodDeletes :: "string \<Rightarrow> nat"
  StatusSyncs :: "string \<Rightarrow> nat"
  ExecutionFailures :: "string \<Rightarrow> nat"

record Event =
  ev_Regarding :: objkey
  ev_Type :: string
  ev_Reason :: string
  ev_Action :: string
  ev_Note :: string

record observations =
  ob_Metrics :: Metrics
  ob_Events :: "Event list"

definition counter_Add :: "string \<Rightarrow> nat \<Rightarrow> (string \<Rightarrow> nat) \<Rightarrow> string \<Rightarrow> nat" where
  "counter_Add pool n c = c(pool := c pool + n)"

definition add_creates :: "string \<Rightarrow> nat \<Rightarrow> observations \<Rightarrow> observations" where
  "add_creates pool n ob = ob\<lparr>ob_Metrics := (ob_Metrics ob)\<lparr>HostPodCreates := counter_Add pool n (HostPodCreates (ob_Metrics ob))\<rparr>\<rparr>"

definition add_deletes :: "string \<Rightarrow> nat \<Rightarrow> observations \<Rightarrow> observations" where
  "add_deletes pool n ob = ob\<lparr>ob_Metrics := (ob_Metrics ob)\<lparr>HostPodDeletes := counter_Add pool n (HostPodDeletes (ob_Metrics ob))\<rparr>\<rparr>"

definition add_syncs :: "string \<Rightarrow> nat \<Rightarrow> observations \<Rightarrow> observations" where
  "add_syncs pool n ob = ob\<lparr>ob_Metrics := (ob_Metrics ob)\<lparr>StatusSyncs := counter_Add pool n (StatusSyncs (ob_Metrics ob))\<rparr>\<rparr>"

definition inc_failures :: "string \<Rightarrow> observations \<Rightarrow> observations" where
  "inc_failures pool ob = ob\<lparr>ob_Metrics := (ob_Metrics ob)\<lparr>ExecutionFailures := counter_Add pool 1 (ExecutionFailures (ob_Metrics ob))\<rparr>\<rparr>"

definition Eventf :: "VNodePoolCR \<Rightarrow> string \<Rightarrow> string \<Rightarrow> string \<Rightarrow> string \<Rightarrow> observations \<Rightarrow> observations" where
  "Eventf cr ty reason action note ob =
     ob\<lparr>ob_Events := ob_Events ob @ [\<lparr>ev_Regarding = vp_key cr, ev_Type = ty, ev_Reason = reason,
                                       ev_Action = action, ev_Note = note\<rparr>]\<rparr>"

definition recordWarning :: "bool \<Rightarrow> VNodePoolCR \<Rightarrow> string \<Rightarrow> goerr \<Rightarrow> observations \<Rightarrow> observations" where
  "recordWarning recorder cr reason err ob =
     (if \<not> recorder then ob else Eventf cr ''Warning'' reason ''PodSync'' (error_string err) ob)"

definition nilRecorder :: goerr where
  "nilRecorder = Panic ''invalid memory address or nil pointer dereference''"

section \<open>Reconciliation with outputs\<close>

definition executionSynced :: "PodExecutionResult \<Rightarrow> string" where
  "executionSynced result =
     ''Processed '' @ itoa (SourcePods result) @ '' tenant pods, created '' @ itoa (CreatedHostPods result) @
     '' host pods, deleted '' @ itoa (DeletedHostPods result) @ '' host pods, synced '' @
     itoa (SyncedStatuses result) @ '' statuses''"

definition PodSyncReconciler_observed ::
  "'w poolapi \<Rightarrow> ('c, 'q, 'w) PodExecutionService \<Rightarrow> bool \<Rightarrow> objkey \<Rightarrow> ('q, 'w) mstate \<Rightarrow> observations \<Rightarrow>
   (Result res \<times> ('q, 'w) mstate) \<times> observations"
where
  "PodSyncReconciler_observed api executor recorder req s ob =
     (case onw (oc_Get (pa_pools api) req) s of
        (Inl err, s) \<Rightarrow> ((if IsNotFound err then Inr noRequeue else Inl err, s), ob)
      | (Inr cr, s) \<Rightarrow>
          (let pool = crToPoolModel cr in
           case Validate pool of
             Inl _ \<Rightarrow> ((Inr noRequeue, s), ob)
           | Inr _ \<Rightarrow>
               if om_DeletionTimestamp (vp_Meta cr) \<noteq> None then
                 (case onw (CleanupPoolPods (HostClient executor) pool) s of
                    ((deleted, Some err), s) \<Rightarrow>
                      ((Inl (Wrap (''cleaning host pods for pool '' @ p_Name pool) err), s),
                       if isPanic err then ob
                       else recordWarning recorder cr ''PodCleanupFailed'' err (inc_failures (p_Name pool) ob))
                  | ((deleted, None), s) \<Rightarrow>
                      if deleted > 0 then
                        (let ob = add_deletes (p_Name pool) deleted ob in
                         if \<not> recorder then ((Inl nilRecorder, s), ob)
                         else ((Inr noRequeue, s),
                               Eventf cr ''Normal'' ''PodCleanupComplete'' ''PodCleanup''
                                 (''Deleted '' @ itoa deleted @ '' host pods during pool cleanup'') ob))
                      else ((Inr noRequeue, s), ob))
               else if p_Phase pool = PoolPhaseFailed then ((Inr \<lparr>RequeueAfter = 3 * Second\<rparr>, s), ob)
               else
                 (case ReconcilePool executor pool s of
                    ((result, Some err), s) \<Rightarrow>
                      if isPanic err then ((Inl err, s), ob)
                      else if isIgnorablePodSyncError err then ((Inr noRequeue, s), ob)
                      else
                        (let ob = recordWarning recorder cr ''PodExecutionFailed'' err (inc_failures (p_Name pool) ob) in
                         case onw (updateExecutionConditions api (vp_key cr) ConditionFalse ConditionTrue
                                     ''PodExecutionFailed'' (error_string err)) s of
                           (_, s) \<Rightarrow> ((Inr \<lparr>RequeueAfter = 2 * Second\<rparr>, s), ob))
                  | ((result, None), s) \<Rightarrow>
                      (let ob = add_syncs (p_Name pool) (SyncedStatuses result)
                                  (add_deletes (p_Name pool) (DeletedHostPods result)
                                    (add_creates (p_Name pool) (CreatedHostPods result) ob));
                           some = (CreatedHostPods result > 0 \<or> DeletedHostPods result > 0 \<or> SyncedStatuses result > 0) in
                       if some \<and> \<not> recorder then ((Inl nilRecorder, s), ob)
                       else
                         (let ob = (if some then
                                      Eventf cr ''Normal'' ''PodExecutionSynced'' ''PodSync'' (executionSynced result) ob
                                    else ob) in
                          case onw (updateExecutionConditions api (vp_key cr) ConditionTrue ConditionFalse
                                      ''PodExecutionReady''
                                      (''Processed '' @ itoa (SourcePods result) @ '' tenant pods'')) s of
                            (_, s) \<Rightarrow> ((Inr \<lparr>RequeueAfter = 2 * Second\<rparr>, s), ob))))))"

definition main_podSync_observed ::
  "(VNodePoolCR, 'w) objclient \<Rightarrow> (VNodePoolCR \<Rightarrow> VNodePoolCR \<Rightarrow> 'w \<Rightarrow> unit res \<times> 'w) \<Rightarrow>
   (VNodeCR, 'w) objclient \<Rightarrow> ('q, 'w) PodClusterClient \<Rightarrow> string \<Rightarrow>
   ('c, 'q, 'w) TenantClientManager \<Rightarrow> ('q, 'w) sysenv \<Rightarrow>
   objkey \<Rightarrow> ('q, 'w) mstate \<Rightarrow> observations \<Rightarrow> (Result res \<times> ('q, 'w) mstate) \<times> observations"
where
  "main_podSync_observed pools patch vnodes hostPods defaultRuntimeClass tenants env =
     PodSyncReconciler_observed (main_poolapi pools patch vnodes env)
       (main_podExecSvc vnodes hostPods defaultRuntimeClass tenants env) True"

text \<open>The counters of one pool grown by the given amounts.\<close>

definition counted :: "string \<Rightarrow> nat \<Rightarrow> nat \<Rightarrow> nat \<Rightarrow> nat \<Rightarrow> Metrics \<Rightarrow> Metrics" where
  "counted pool creates deletes syncs failures m =
     \<lparr>HostPodCreates = (HostPodCreates m)(pool := HostPodCreates m pool + creates),
      HostPodDeletes = (HostPodDeletes m)(pool := HostPodDeletes m pool + deletes),
      StatusSyncs = (StatusSyncs m)(pool := StatusSyncs m pool + syncs),
      ExecutionFailures = (ExecutionFailures m)(pool := ExecutionFailures m pool + failures)\<rparr>"

text \<open>The event that goes with the counters: none when nothing was counted, a warning for a failure.\<close>

definition reported :: "VNodePoolCR \<Rightarrow> nat \<Rightarrow> nat \<Rightarrow> nat \<Rightarrow> nat \<Rightarrow> Event list \<Rightarrow> bool" where
  "reported cr creates deletes syncs failures evs \<longleftrightarrow>
     (if creates + deletes + syncs + failures = 0 then evs = []
      else \<exists>ev. evs = [ev] \<and> ev_Regarding ev = vp_key cr \<and>
             ev_Type ev = (if failures = 0 then ''Normal'' else ''Warning''))"

text \<open>
  \<open>observed cr ob ob' c d y f\<close>: from \<open>ob\<close> to \<open>ob'\<close> the counters of the pool grew by the given
  amounts and the event that goes with them was recorded.
\<close>

definition observed ::
  "VNodePoolCR \<Rightarrow> observations \<Rightarrow> observations \<Rightarrow> nat \<Rightarrow> nat \<Rightarrow> nat \<Rightarrow> nat \<Rightarrow> bool"
where
  "observed cr ob ob' c d y f \<longleftrightarrow>
     ob_Metrics ob' = counted (om_Name (vp_Meta cr)) c d y f (ob_Metrics ob) \<and>
     (\<exists>evs. ob_Events ob' = ob_Events ob @ evs \<and> reported cr c d y f evs)"

section \<open>Counters and events of one step\<close>

lemma counters:
  "ob_Metrics (add_creates pool n ob) = counted pool n 0 0 0 (ob_Metrics ob)"
  "ob_Metrics (add_deletes pool n ob) = counted pool 0 n 0 0 (ob_Metrics ob)"
  "ob_Metrics (add_syncs pool n ob) = counted pool 0 0 n 0 (ob_Metrics ob)"
  "ob_Metrics (inc_failures pool ob) = counted pool 0 0 0 1 (ob_Metrics ob)"
  by (simp_all add: add_creates_def add_deletes_def add_syncs_def inc_failures_def counter_Add_def counted_def)

lemma counted_add:
  "counted pool a b c d (counted pool a' b' c' d' m) = counted pool (a + a') (b + b') (c + c') (d + d') m"
  by (simp add: counted_def add_ac)

lemma counted_zero: "counted pool 0 0 0 0 m = m"
  by (simp add: counted_def)

lemma events:
  "ob_Events (add_creates pool n ob) = ob_Events ob" "ob_Events (add_deletes pool n ob) = ob_Events ob"
  "ob_Events (add_syncs pool n ob) = ob_Events ob" "ob_Events (inc_failures pool ob) = ob_Events ob"
  by (simp_all add: add_creates_def add_deletes_def add_syncs_def inc_failures_def)

lemma Eventf_sel:
  "ob_Metrics (Eventf cr ty rs ac nt ob) = ob_Metrics ob"
  "ob_Events (Eventf cr ty rs ac nt ob) =
     ob_Events ob @ [\<lparr>ev_Regarding = vp_key cr, ev_Type = ty, ev_Reason = rs, ev_Action = ac, ev_Note = nt\<rparr>]"
  by (simp_all add: Eventf_def)

lemmas observation_simps = counters counted_add counted_zero events Eventf_sel recordWarning_def

section \<open>The outputs of a reconciliation\<close>

lemma observed_none: "observed cr ob ob 0 0 0 0"
  by (simp add: observed_def reported_def counted_zero)

lemma observed_failure: "observed cr ob (recordWarning True cr rs err (inc_failures (om_Name (vp_Meta cr)) ob)) 0 0 0 1"
  by (simp add: observed_def reported_def observation_simps)

lemma observed_cleanup:
  assumes run: "PodSyncReconciler_observed api executor True req s ob = ((out, s'), ob')"
    and get: "onw (oc_Get (pa_pools api) req) s = (Inr cr, s1)" and ok: "Validate (crToPoolModel cr) = Inr ()"
    and del: "om_DeletionTimestamp (vp_Meta cr) \<noteq> None"
    and cl: "onw (CleanupPoolPods (HostClient executor) (crToPoolModel cr)) s1 = ((n, e), s2)"
  shows "PodSyncReconciler_Reconcile api executor req s = (out, s') \<and>
         (case e of
            None \<Rightarrow> observed cr ob ob' 0 n 0 0
          | Some err \<Rightarrow> observed cr ob ob' 0 0 0 (if isPanic err then 0 else 1))"
proof -
  have nm: "p_Name (crToPoolModel cr) = om_Name (vp_Meta cr)" by (simp add: crToPoolModel_def)
  show ?thesis
  proof (cases e)
    case None
    have "ob' = (if n > 0 then Eventf cr ''Normal'' ''PodCleanupComplete'' ''PodCleanup''
        (''Deleted '' @ itoa n @ '' host pods during pool cleanup'') (add_deletes (om_Name (vp_Meta cr)) n ob) else ob)"
      and "out = Inr noRequeue" "s' = s2"
      using run get ok del cl None nm by (auto simp: PodSyncReconciler_observed_def Let_def split: if_splits)
    moreover have "PodSyncReconciler_Reconcile api executor req s = (Inr noRequeue, s2)"
      using get ok del cl None by (simp add: PodSyncReconciler_Reconcile_def Let_def)
    ultimately show ?thesis using None observed_none
      by (simp add: observed_def reported_def observation_simps)
  next
    case (Some err)
    have "ob' = (if isPanic err then ob
        else recordWarning True cr ''PodCleanupFailed'' err (inc_failures (om_Name (vp_Meta cr)) ob))"
      and "out = Inl (Wrap (''cleaning host pods for pool '' @ om_Name (vp_Meta cr)) err)" "s' = s2"
      using run get ok del cl Some nm by (auto simp: PodSyncReconciler_observed_def Let_def)
    moreover have "PodSyncReconciler_Reconcile api executor req s =
        (Inl (Wrap (''cleaning host pods for pool '' @ om_Name (vp_Meta cr)) err), s2)"
      using get ok del cl Some nm by (simp add: PodSyncReconciler_Reconcile_def Let_def)
    ultimately show ?thesis using Some observed_none observed_failure by simp
  qed
qed

lemma observed_execution:
  assumes run: "PodSyncReconciler_observed api executor True req s ob = ((out, s'), ob')"
    and get: "onw (oc_Get (pa_pools api) req) s = (Inr cr, s1)" and ok: "Validate (crToPoolModel cr) = Inr ()"
    and live: "om_DeletionTimestamp (vp_Meta cr) = None" "st_Phase (vp_Status cr) \<noteq> PoolPhaseFailed"
    and ex: "ReconcilePool executor (crToPoolModel cr) s1 = ((result, e), s2)"
  shows "PodSyncReconciler_Reconcile api executor req s = (out, s') \<and>
         (case e of
            None \<Rightarrow> observed cr ob ob' (CreatedHostPods result) (DeletedHostPods result) (SyncedStatuses result) 0
          | Some err \<Rightarrow> observed cr ob ob' 0 0 0 (if isPanic err \<or> isContextError err then 0 else 1))"
proof -
  have nm: "p_Name (crToPoolModel cr) = om_Name (vp_Meta cr)" "p_Phase (crToPoolModel cr) = st_Phase (vp_Status cr)"
    by (simp_all add: crToPoolModel_def)
  show ?thesis
  proof (cases e)
    case None
    let ?upd = "onw (updateExecutionConditions api (vp_key cr) ConditionTrue ConditionFalse ''PodExecutionReady''
        (''Processed '' @ itoa (SourcePods result) @ '' tenant pods'')) s2"
    let ?ob = "add_syncs (om_Name (vp_Meta cr)) (SyncedStatuses result)
        (add_deletes (om_Name (vp_Meta cr)) (DeletedHostPods result)
          (add_creates (om_Name (vp_Meta cr)) (CreatedHostPods result) ob))"
    have "ob' = (if CreatedHostPods result > 0 \<or> DeletedHostPods result > 0 \<or> SyncedStatuses result > 0
        then Eventf cr ''Normal'' ''PodExecutionSynced'' ''PodSync'' (executionSynced result) ?ob else ?ob)"
      and "out = Inr \<lparr>RequeueAfter = 2 * Second\<rparr>" "s' = snd ?upd"
      using run get ok live ex None nm
      by (auto simp: PodSyncReconciler_observed_def Let_def split: prod.splits)
    moreover have "PodSyncReconciler_Reconcile api executor req s = (Inr \<lparr>RequeueAfter = 2 * Second\<rparr>, snd ?upd)"
      using get ok live ex None nm by (simp add: PodSyncReconciler_Reconcile_def Let_def split: prod.split)
    ultimately show ?thesis using None by (auto simp: observed_def reported_def observation_simps)
  next
    case (Some err)
    let ?upd = "onw (updateExecutionConditions api (vp_key cr) ConditionFalse ConditionTrue ''PodExecutionFailed''
        (error_string err)) s2"
    have "ob' = (if isPanic err \<or> isContextError err then ob
        else recordWarning True cr ''PodExecutionFailed'' err (inc_failures (om_Name (vp_Meta cr)) ob))"
      and "out = (if isPanic err then Inl err else if isContextError err then Inr noRequeue
        else Inr \<lparr>RequeueAfter = 2 * Second\<rparr>)" "s' = (if isPanic err \<or> isContextError err then s2 else snd ?upd)"
      using run get ok live ex Some nm
      by (auto simp: PodSyncReconciler_observed_def Let_def split: prod.splits if_splits)
    moreover have "PodSyncReconciler_Reconcile api executor req s =
        (if isPanic err then Inl err else if isContextError err then Inr noRequeue else Inr \<lparr>RequeueAfter = 2 * Second\<rparr>,
         if isPanic err \<or> isContextError err then s2 else snd ?upd)"
      using get ok live ex Some nm by (simp add: PodSyncReconciler_Reconcile_def Let_def split: prod.split)
    ultimately show ?thesis using Some observed_none observed_failure by simp
  qed
qed

lemma observed_idle:
  assumes run: "PodSyncReconciler_observed api executor True req s ob = ((out, s'), ob')"
    and get: "onw (oc_Get (pa_pools api) req) s = (Inr cr, s1)"
    and idle: "(\<exists>e. Validate (crToPoolModel cr) = Inl e) \<or>
      om_DeletionTimestamp (vp_Meta cr) = None \<and> st_Phase (vp_Status cr) = PoolPhaseFailed"
  shows "PodSyncReconciler_Reconcile api executor req s = (out, s') \<and> observed cr ob ob' 0 0 0 0"
proof -
  have nm: "p_Phase (crToPoolModel cr) = st_Phase (vp_Status cr)" by (simp add: crToPoolModel_def)
  have "ob' = ob" "PodSyncReconciler_Reconcile api executor req s = (out, s')"
    using run get idle nm
    by (auto simp: PodSyncReconciler_observed_def PodSyncReconciler_Reconcile_def Let_def split: sum.splits)
  then show ?thesis using observed_none by simp
qed

section \<open>Properties\<close>

text \<open>
  C28: the reports agree with what was done. The counters and events change nothing in the
  control flow. A reconciliation of a pool touches the counters of its pool name only, records
  one event exactly when it moved a counter, and that event is a warning exactly for a failure,
  which counts one failure and nothing else. After a pod execution without error the counters
  grew by exactly the numbers of its result, and after a cleanup by the deleted pods; an
  execution that fails reports one failure, whatever it created or deleted before.
\<close>

theorem PodSync_observations:
  fixes pools patch vnodes hostPods rc tenants env s w1 cr
  defines "executor \<equiv> main_podExecSvc vnodes hostPods rc tenants env" and "s1 \<equiv> s\<lparr>ms_world := w1\<rparr>"
    and "pool \<equiv> crToPoolModel cr"
  assumes get: "oc_Get pools req (ms_world s) = (Inr cr, w1)"
    and run: "main_podSync_observed pools patch vnodes hostPods rc tenants env req s ob = ((out, s'), ob')"
  shows "main_podSyncReconciler pools patch vnodes hostPods rc tenants env req s = (out, s') \<and>
         (\<exists>c d y f. observed cr ob ob' c d y f \<and> (f = 0 \<or> f = 1 \<and> c = 0 \<and> d = 0 \<and> y = 0)) \<and>
         (Validate pool = Inr () \<longrightarrow> om_DeletionTimestamp (vp_Meta cr) = None \<longrightarrow> p_Phase pool \<noteq> PoolPhaseFailed \<longrightarrow>
            (case ReconcilePool executor pool s1 of
               ((result, None), s2) \<Rightarrow>
                 observed cr ob ob' (CreatedHostPods result) (DeletedHostPods result) (SyncedStatuses result) 0
             | ((result, Some err), s2) \<Rightarrow> observed cr ob ob' 0 0 0 (if isPanic err then 0 else 1))) \<and>
         (Validate pool = Inr () \<longrightarrow> om_DeletionTimestamp (vp_Meta cr) \<noteq> None \<longrightarrow>
            (case CleanupPoolPods (NewPodClusterClient hostPods) pool w1 of
               ((n, None), w2) \<Rightarrow> observed cr ob ob' 0 n 0 0
             | ((n, Some err), w2) \<Rightarrow> observed cr ob ob' 0 0 0 (if isPanic err then 0 else 1)))"
proof -
  let ?api = "main_poolapi pools patch vnodes env"
  have g: "onw (oc_Get (pa_pools ?api) req) s = (Inr cr, s1)" using get by (simp add: onw_def main_poolapi_def s1_def)
  have ph: "p_Phase pool = st_Phase (vp_Status cr)" by (simp add: pool_def crToPoolModel_def)
  note r = run [unfolded main_podSync_observed_def, folded executor_def]
  note unf = main_podSyncReconciler_def executor_def [symmetric]
  obtain n e w2 where cl: "CleanupPoolPods (NewPodClusterClient hostPods) pool w1 = ((n, e), w2)" by (metis prod.exhaust)
  then have co: "onw (CleanupPoolPods (HostClient executor) pool) s1 = ((n, e), s\<lparr>ms_world := w2\<rparr>)"
    by (simp add: executor_def s1_def onw_def HostClient_def main_podExecSvc_def NewPodExecutionService_def)
  obtain result x s2 where ex: "ReconcilePool executor pool s1 = ((result, x), s2)" by (metis prod.exhaust)
  have tr: "pe_translator executor = PodService (KataAdapter rc)"
    by (simp add: executor_def main_podExecSvc_def NewPodExecutionService_def)
  have nc: "\<not> isContextError err" if "x = Some err" for err
    using ReconcilePool_no_context [OF tr, of pool s1 result err s2] ex that by simp
  consider (idle) "(\<exists>e. Validate pool = Inl e) \<or> om_DeletionTimestamp (vp_Meta cr) = None \<and> p_Phase pool = PoolPhaseFailed"
    | (del) "Validate pool = Inr ()" "om_DeletionTimestamp (vp_Meta cr) \<noteq> None"
    | (live) "Validate pool = Inr ()" "om_DeletionTimestamp (vp_Meta cr) = None" "p_Phase pool \<noteq> PoolPhaseFailed"
    by (cases "Validate pool"; cases "om_DeletionTimestamp (vp_Meta cr)") auto
  then show ?thesis
  proof cases
    case idle
    with observed_idle [OF r g] ph show ?thesis unfolding unf pool_def by fastforce
  next
    case del
    from observed_cleanup [OF r g del [unfolded pool_def] co [unfolded pool_def]] del cl show ?thesis
      unfolding unf by (cases e) (auto split: if_splits)
  next
    case live
    from observed_execution [OF r g live(1,2) [unfolded pool_def] _ ex [unfolded pool_def]] live ex ph nc show ?thesis
      unfolding unf by (cases x) (auto split: if_splits)
  qed
qed

end
