(* ===== verification/Config.thy ===== *)
theory Config
  imports Prelude
begin

text \<open>
  The operator configuration (\<open>internal/config/config.go\<close>). The environment of the process is
  a parameter, \<open>getenv\<close>, which yields the empty string for a variable that is not set.
\<close>

record Config =
  MetricsAddr :: string
  HealthProbeAddr :: string
  LeaderElection :: bool
  LeaderElectionID :: string
  DefaultRuntimeClass :: string
  HostNamespace :: string

definition envOrDefault :: "(string \<Rightarrow> string) \<Rightarrow> string \<Rightarrow> string \<Rightarrow> string" where
  "envOrDefault getenv key fallback = (let v = getenv key in if v \<noteq> [] then v else fallback)"

definition Config_Default :: "(string \<Rightarrow> string) \<Rightarrow> Config" where
  "Config_Default getenv =
     \<lparr>MetricsAddr = envOrDefault getenv ''METRICS_ADDR'' '':8080'',
      HealthProbeAddr = envOrDefault getenv ''HEALTH_PROBE_ADDR'' '':8081'',
      LeaderElection = (getenv ''LEADER_ELECTION'' = ''true''),
      LeaderElectionID = ''vnode-operator.kroderdev.io'',
      DefaultRuntimeClass = envOrDefault getenv ''DEFAULT_RUNTIME_CLASS'' [],
      HostNamespace = envOrDefault getenv ''HOST_NAMESPACE'' ''vnode-system''\<rparr>"

definition Config_Validate :: "Config \<Rightarrow> unit res" where
  "Config_Validate c = (if HostNamespace c = [] then Inl (Errorf ''HOST_NAMESPACE is required'') else Inr ())"

text \<open>
  The configuration read from the environment always validates: the check of the host
  namespace cannot fail, because an empty variable falls back to the default. The addresses
  are never empty either.
\<close>

lemma Config_Default_valid:
  "Config_Validate (Config_Default getenv) = Inr () \<and>
   MetricsAddr (Config_Default getenv) \<noteq> [] \<and> HealthProbeAddr (Config_Default getenv) \<noteq> []"
  by (simp add: Config_Validate_def Config_Default_def envOrDefault_def Let_def)

end
