(* ===== verification/Process_Start.thy ===== *)
theory Process_Start
  imports PodSync_Reconciler VNode_Reconciler Config
begin

text \<open>
  The start of the process (\<open>cmd/vnode/main.go\<close>) and the declarations of the three controllers
  (their \<open>SetupWithManager\<close>). The controller manager is library code: the record \<open>manager\<close> holds
  its operations over a process state, and \<open>hostclients\<close> what the process gets from the manager
  and from client-go. \<open>process_main\<close> yields the exit status.

  The locale \<open>controller_manager\<close> states what is documented of the manager: what is registered
  and whether it runs. In it, the process starts the manager only when the three controllers and
  both probes are registered.
\<close>

section \<open>The scheme\<close>

text \<open>
  The kinds of the API group and their registration (\<open>api/v1alpha1/groupversion_info.go\<close> and the
  \<open>init\<close> functions of the type files). A scheme is the list of the kinds it knows.
\<close>

record GroupVersionKind =
  gvk_Group :: string
  gvk_Version :: string
  gvk_Kind :: string

type_synonym scheme = "GroupVersionKind list"

definition GroupVersion :: "string \<Rightarrow> GroupVersionKind" where
  "GroupVersion kind = \<lparr>gvk_Group = ''vnode.kroderdev.io'', gvk_Version = ''v1alpha1'', gvk_Kind = kind\<rparr>"

definition register_VNode :: "string list \<Rightarrow> string list" where
  "register_VNode builder = builder @ [''VNode'', ''VNodeList'']"

definition register_VNodePool :: "string list \<Rightarrow> string list" where
  "register_VNodePool builder = builder @ [''VNodePool'', ''VNodePoolList'']"

definition AddToScheme :: "scheme \<Rightarrow> scheme" where
  "AddToScheme sch = sch @ map GroupVersion (register_VNodePool (register_VNode []))"

section \<open>Controllers\<close>

text \<open>
  A controller as the builder gets it: an explicit name, the kind it is for with the predicate
  on its events, further watches with their mapping and predicate, and the reconciler.
\<close>

record ('q, 'w) controller =
  ctl_Named :: "string option"
  ctl_ForPool :: "(VNodePoolCR objevent \<Rightarrow> bool) option"
  ctl_ForVNode :: "(VNodeCR objevent \<Rightarrow> bool) option"
  ctl_WatchesVNode :: "((VNodeCR \<Rightarrow> objkey list) \<times> (VNodeCR objevent \<Rightarrow> bool)) list"
  ctl_Reconcile :: "objkey \<Rightarrow> ('q, 'w) mstate \<Rightarrow> Result res \<times> ('q, 'w) mstate"

record ManagerOptions =
  mo_Scheme :: scheme
  mo_MetricsBindAddress :: string
  mo_HealthProbeBindAddress :: string
  mo_LeaderElection :: bool
  mo_LeaderElectionID :: string

record ('r, 'q, 'w, 'm) manager =
  mg_GetConfigOrDie :: "'m \<Rightarrow> 'r res \<times> 'm"
  mg_NewManager :: "'r \<Rightarrow> ManagerOptions \<Rightarrow> 'm \<Rightarrow> unit res \<times> 'm"
  mg_NewForConfig :: "'r \<Rightarrow> 'm \<Rightarrow> unit res \<times> 'm"
  mg_Complete :: "('q, 'w) controller \<Rightarrow> 'm \<Rightarrow> unit res \<times> 'm"
  mg_AddHealthzCheck :: "string \<Rightarrow> 'm \<Rightarrow> unit res \<times> 'm"
  mg_AddReadyzCheck :: "string \<Rightarrow> 'm \<Rightarrow> unit res \<times> 'm"
  mg_Start :: "'m \<Rightarrow> unit res \<times> 'm"

text \<open>
  \<open>hc_generationChanged\<close> is the predicate \<open>GenerationChangedPredicate\<close> of the library, and
  \<open>hc_clientgoscheme\<close> the kinds of client-go.
\<close>

record ('c, 'q, 'w) hostclients =
  hc_pools :: "(VNodePoolCR, 'w) objclient"
  hc_patch :: "VNodePoolCR \<Rightarrow> VNodePoolCR \<Rightarrow> 'w \<Rightarrow> unit res \<times> 'w"
  hc_vnodes :: "(VNodeCR, 'w) objclient"
  hc_secrets :: "(Secret, 'w) objclient"
  hc_hostPods :: "('q, 'w) PodClusterClient"
  hc_restConfig :: "bytes \<Rightarrow> 'c res"
  hc_factory :: "'c \<Rightarrow> ('q, 'w) clientset res"
  hc_env :: "('q, 'w) sysenv"
  hc_generationChanged :: "VNodePoolCR objevent \<Rightarrow> bool"
  hc_clientgoscheme :: scheme

definition vnodePoolPredicates :: "('c, 'q, 'w) hostclients \<Rightarrow> VNodePoolCR objevent \<Rightarrow> bool" where
  "vnodePoolPredicates hc = hc_generationChanged hc"

definition VNodePool_controller ::
  "('c, 'q, 'w) hostclients \<Rightarrow> (objkey \<Rightarrow> ('q, 'w) mstate \<Rightarrow> Result res \<times> ('q, 'w) mstate) \<Rightarrow> ('q, 'w) controller"
where
  "VNodePool_controller hc r =
     \<lparr>ctl_Named = None, ctl_ForPool = Some (vnodePoolPredicates hc), ctl_ForVNode = None,
      ctl_WatchesVNode = [(vnodeToPool, vnodePhaseChangedPredicate)], ctl_Reconcile = r\<rparr>"

definition VNode_controller ::
  "(objkey \<Rightarrow> ('q, 'w) mstate \<Rightarrow> Result res \<times> ('q, 'w) mstate) \<Rightarrow> ('q, 'w) controller"
where
  "VNode_controller r =
     \<lparr>ctl_Named = None, ctl_ForPool = None, ctl_ForVNode = Some (\<lambda>_. True), ctl_WatchesVNode = [],
      ctl_Reconcile = r\<rparr>"

definition PodSync_controller ::
  "(objkey \<Rightarrow> ('q, 'w) mstate \<Rightarrow> Result res \<times> ('q, 'w) mstate) \<Rightarrow> ('q, 'w) controller"
where
  "PodSync_controller r =
     \<lparr>ctl_Named = Some ''vnodepool-podsync'', ctl_ForPool = Some (\<lambda>_. True), ctl_ForVNode = None,
      ctl_WatchesVNode = [], ctl_Reconcile = r\<rparr>"

section \<open>The process\<close>

text \<open>The scheme of the process: the kinds of client-go and those of the operator.\<close>

definition main_scheme :: "('c, 'q, 'w) hostclients \<Rightarrow> scheme" where
  "main_scheme hc = AddToScheme (hc_clientgoscheme hc)"

definition managerOptions :: "scheme \<Rightarrow> Config \<Rightarrow> ManagerOptions" where
  "managerOptions sch cfg =
     \<lparr>mo_Scheme = sch, mo_MetricsBindAddress = MetricsAddr cfg, mo_HealthProbeBindAddress = HealthProbeAddr cfg,
      mo_LeaderElection = LeaderElection cfg, mo_LeaderElectionID = LeaderElectionID cfg\<rparr>"

text \<open>The controllers that the process wires, in the order it registers them.\<close>

definition main_controllers :: "('c, 'q, 'w) hostclients \<Rightarrow> Config \<Rightarrow> ('q, 'w) controller list" where
  "main_controllers hc cfg =
     (let tenantClients = main_tenantClients (hc_secrets hc) (hc_restConfig hc) (hc_factory hc) in
      [VNodePool_controller hc
         (main_poolReconciler (hc_pools hc) (hc_patch hc) (hc_vnodes hc) tenantClients (hc_env hc)),
       VNode_controller (main_vnodeReconciler (hc_vnodes hc) tenantClients (hc_env hc)),
       PodSync_controller
         (main_podSyncReconciler (hc_pools hc) (hc_patch hc) (hc_vnodes hc) (hc_hostPods hc)
            (DefaultRuntimeClass cfg) tenantClients (hc_env hc))])"

text \<open>
  The pattern of \<open>main\<close>: a call that fails is logged and ends the process with status 1.
\<close>

definition orExit :: "'a res \<times> 'm \<Rightarrow> ('a \<Rightarrow> 'm \<Rightarrow> nat \<times> 'm) \<Rightarrow> nat \<times> 'm" where
  "orExit call k = (case call of (Inl err, m) \<Rightarrow> (1, m) | (Inr x, m) \<Rightarrow> k x m)"

fun setupControllers ::
  "('r, 'q, 'w, 'm) manager \<Rightarrow> ('q, 'w) controller list \<Rightarrow> ('m \<Rightarrow> nat \<times> 'm) \<Rightarrow> 'm \<Rightarrow> nat \<times> 'm"
where
  "setupControllers mgr [] k m = k m"
| "setupControllers mgr (c # cs) k m = orExit (mg_Complete mgr c m) (\<lambda>_. setupControllers mgr cs k)"

definition process_main ::
  "(string \<Rightarrow> string) \<Rightarrow> ('c, 'q, 'w) hostclients \<Rightarrow> ('r, 'q, 'w, 'm) manager \<Rightarrow> 'm \<Rightarrow> nat \<times> 'm"
where
  "process_main getenv hc mgr m =
     (let cfg = Config_Default getenv in
      orExit (Config_Validate cfg, m) (\<lambda>_ m.
      orExit (mg_GetConfigOrDie mgr m) (\<lambda>config m.
      orExit (mg_NewManager mgr config (managerOptions (main_scheme hc) cfg) m) (\<lambda>_ m.
      orExit (mg_NewForConfig mgr config m) (\<lambda>_ m.
      setupControllers mgr (main_controllers hc cfg) (\<lambda>m.
      orExit (mg_AddHealthzCheck mgr ''healthz'' m) (\<lambda>_ m.
      orExit (mg_AddReadyzCheck mgr ''readyz'' m) (\<lambda>_ m.
      orExit (mg_Start mgr m) (\<lambda>_ m. (0, m))))) m)))))"

section \<open>What the manager runs\<close>

record ('q, 'w) managed =
  ma_Options :: ManagerOptions
  ma_Controllers :: "('q, 'w) controller list"
  ma_Healthz :: "string list"
  ma_Readyz :: "string list"
  ma_Started :: bool

text \<open>
  The manager that the process means to run, written out: the options taken from the
  environment, the pool controller that watches pools by generation and VNodes by phase, the
  VNode controller, the pod synchronisation controller, and one probe of each kind.
\<close>

definition vnode_operator :: "(string \<Rightarrow> string) \<Rightarrow> ('c, 'q, 'w) hostclients \<Rightarrow> ('q, 'w) managed" where
  "vnode_operator getenv hc =
     (let cfg = Config_Default getenv;
          tenants = \<lparr>tm_resolver = SecretKubeconfigResolver (hc_secrets hc),
                     tm_RESTConfig = hc_restConfig hc, tm_factory = hc_factory hc\<rparr>
      in
     \<lparr>ma_Options =
        \<lparr>mo_Scheme = AddToScheme (hc_clientgoscheme hc),
         mo_MetricsBindAddress = MetricsAddr cfg, mo_HealthProbeBindAddress = HealthProbeAddr cfg,
         mo_LeaderElection = LeaderElection cfg, mo_LeaderElectionID = LeaderElectionID cfg\<rparr>,
      ma_Controllers =
        [\<lparr>ctl_Named = None, ctl_ForPool = Some (hc_generationChanged hc), ctl_ForVNode = None,
          ctl_WatchesVNode = [(vnodeToPool, vnodePhaseChangedPredicate)],
          ctl_Reconcile =
            main_poolReconciler (hc_pools hc) (hc_patch hc) (hc_vnodes hc) tenants (hc_env hc)\<rparr>,
         \<lparr>ctl_Named = None, ctl_ForPool = None, ctl_ForVNode = Some (\<lambda>_. True), ctl_WatchesVNode = [],
          ctl_Reconcile = main_vnodeReconciler (hc_vnodes hc) tenants (hc_env hc)\<rparr>,
         \<lparr>ctl_Named = Some ''vnodepool-podsync'', ctl_ForPool = Some (\<lambda>_. True), ctl_ForVNode = None,
          ctl_WatchesVNode = [],
          ctl_Reconcile =
            main_podSyncReconciler (hc_pools hc) (hc_patch hc) (hc_vnodes hc) (hc_hostPods hc)
              (DefaultRuntimeClass cfg) tenants (hc_env hc)\<rparr>],
      ma_Healthz = [''healthz''], ma_Readyz = [''readyz''], ma_Started = True\<rparr>)"

lemma vnode_operator_wired:
  "vnode_operator getenv hc =
     \<lparr>ma_Options = managerOptions (main_scheme hc) (Config_Default getenv),
      ma_Controllers = main_controllers hc (Config_Default getenv),
      ma_Healthz = [''healthz''], ma_Readyz = [''readyz''], ma_Started = True\<rparr>"
  by (simp add: vnode_operator_def managerOptions_def main_scheme_def main_controllers_def Let_def
      main_tenantClients_def VNodePool_controller_def VNode_controller_def PodSync_controller_def
      vnodePoolPredicates_def)

lemma orExit_cases:
  assumes "orExit call k = (status, m')"
  obtains (exits) e where "call = (Inl e, m')" "status = 1"
  | (goes) x m1 where "call = (Inr x, m1)" "k x m1 = (status, m')"
  using assms by (auto simp: orExit_def split: prod.splits sum.splits)

locale controller_manager =
  fixes mgr :: "('r, 'q, 'w, 'm) manager"
    and view :: "'m \<Rightarrow> ('q, 'w) managed"
  assumes GetConfig_view: "mg_GetConfigOrDie mgr m = (cf, m') \<Longrightarrow> view m' = view m"
    and NewManager_view: "mg_NewManager mgr rc opts m = (r, m') \<Longrightarrow>
      view m' = (case r of
        Inl _ \<Rightarrow> view m
      | Inr _ \<Rightarrow> \<lparr>ma_Options = opts, ma_Controllers = [], ma_Healthz = [], ma_Readyz = [], ma_Started = False\<rparr>)"
    and NewForConfig_view: "mg_NewForConfig mgr rc m = (r, m') \<Longrightarrow> view m' = view m"
    and Complete_view: "mg_Complete mgr c m = (r, m') \<Longrightarrow>
      view m' = (case r of Inl _ \<Rightarrow> view m | Inr _ \<Rightarrow> (view m)\<lparr>ma_Controllers := ma_Controllers (view m) @ [c]\<rparr>)"
    and Healthz_view: "mg_AddHealthzCheck mgr n m = (r, m') \<Longrightarrow>
      view m' = (case r of Inl _ \<Rightarrow> view m | Inr _ \<Rightarrow> (view m)\<lparr>ma_Healthz := ma_Healthz (view m) @ [n]\<rparr>)"
    and Readyz_view: "mg_AddReadyzCheck mgr n m = (r, m') \<Longrightarrow>
      view m' = (case r of Inl _ \<Rightarrow> view m | Inr _ \<Rightarrow> (view m)\<lparr>ma_Readyz := ma_Readyz (view m) @ [n]\<rparr>)"
    and Start_view: "mg_Start mgr m = (r, m') \<Longrightarrow> view m' = (view m)\<lparr>ma_Started := True\<rparr>"
begin

lemma setup_cases:
  assumes "setupControllers mgr cs k m = (status, m')"
  obtains (exits) ds where "status = 1" "view m' = (view m)\<lparr>ma_Controllers := ma_Controllers (view m) @ ds\<rparr>"
  | (goes) m1 where "k m1 = (status, m')" "view m1 = (view m)\<lparr>ma_Controllers := ma_Controllers (view m) @ cs\<rparr>"
  using assms
proof (induction cs arbitrary: m thesis)
  case Nil
  then show ?case by simp
next
  case (Cons c cs)
  from Cons.prems(3) [unfolded setupControllers.simps] show ?case
  proof (cases rule: orExit_cases)
    case (exits e)
    with Cons.prems(1) [of "[]"] Complete_view [OF exits(1)] show ?thesis by simp
  next
    case (goes u m1)
    note v = Complete_view [OF goes(1)]
    from goes(2) show ?thesis
    proof (rule Cons.IH [rotated 2])
      fix ds assume "status = 1" "view m' = (view m1)\<lparr>ma_Controllers := ma_Controllers (view m1) @ ds\<rparr>"
      with v Cons.prems(1) [of "c # ds"] show ?thesis by simp
    next
      fix m2 assume "k m2 = (status, m')" "view m2 = (view m1)\<lparr>ma_Controllers := ma_Controllers (view m1) @ cs\<rparr>"
      with v Cons.prems(2) [of m2] show ?thesis by simp
    qed
  qed
qed

lemma serve_outcome:
  assumes "orExit (mg_AddHealthzCheck mgr h m) (\<lambda>_ m. orExit (mg_AddReadyzCheck mgr r m) (\<lambda>_ m.
    orExit (mg_Start mgr m) (\<lambda>_ m. (0, m)))) = (status, m')"
  shows "status = 1 \<and> ma_Started (view m') = ma_Started (view m) \<or>
    status \<le> 1 \<and> view m' = (view m)\<lparr>ma_Healthz := ma_Healthz (view m) @ [h],
                            ma_Readyz := ma_Readyz (view m) @ [r], ma_Started := True\<rparr>"
  using assms
proof (cases rule: orExit_cases)
  case (exits e)
  with Healthz_view [OF exits(1)] show ?thesis by simp
next
  case (goes u m1)
  note v1 = Healthz_view [OF goes(1)]
  from goes(2) show ?thesis
  proof (cases rule: orExit_cases)
    case (exits e)
    with v1 Readyz_view [OF exits(1)] show ?thesis by simp
  next
    case 2: (goes u m2)
    have "mg_Start mgr m2 = (fst (mg_Start mgr m2), m')" "status \<le> 1"
      using 2(2) by (auto simp: orExit_def split: prod.splits sum.splits)
    with Start_view [of m2 "fst (mg_Start mgr m2)" m'] v1 Readyz_view [OF 2(1)] show ?thesis by simp
  qed
qed

lemma main_outcome:
  assumes off: "\<not> ma_Started (view m)" and run: "process_main getenv hc mgr m = (status, m')"
  shows "(ma_Started (view m') \<longrightarrow> view m' = vnode_operator getenv hc) \<and>
         (status = 0 \<longrightarrow> ma_Started (view m')) \<and> status \<le> 1"
  using run [unfolded process_main_def Let_def]
proof (cases rule: orExit_cases)
  case (exits e)
  with off show ?thesis by simp
next
  case (goes u m0)
  from goes(2) show ?thesis
  proof (cases rule: orExit_cases)
    case (exits e)
    with goes off GetConfig_view [OF exits(1)] show ?thesis by simp
  next
    case 1: (goes config m1)
    from 1(2) show ?thesis
    proof (cases rule: orExit_cases)
      case (exits e)
      with goes off GetConfig_view [OF 1(1)] NewManager_view [OF exits(1)] show ?thesis by simp
    next
      case 2: (goes u2 m2)
      note v2 = NewManager_view [OF 2(1)]
      from 2(2) show ?thesis
      proof (cases rule: orExit_cases)
        case (exits e)
        with v2 NewForConfig_view [OF exits(1)] show ?thesis by simp
      next
        case 3: (goes u3 m3)
        note v3 = NewForConfig_view [OF 3(1)]
        from 3(2) show ?thesis
        proof (cases rule: setup_cases)
          case (exits ds)
          with v2 v3 show ?thesis by simp
        next
          case 4: (goes m4)
          from serve_outcome [OF 4(1)] 4(2) v2 v3 show ?thesis by (auto simp: vnode_operator_wired)
        qed
      qed
    qed
  qed
qed

end

section \<open>Properties\<close>

text \<open>
  C29: the process never runs half configured. Whatever fails during the start, the controller
  manager is started only with exactly three controllers, in this order: the one for pools, with
  its watch on VNodes, the one for VNodes, and the pod synchronisation, all with the same tenant
  clients; with the addresses and the leader election of the configuration and the scheme of the
  custom resources; and with both probes registered; the process exits with status 0 only after the manager ran, and with
  status 1 otherwise.
\<close>

theorem main_starts_complete:
  assumes "controller_manager mgr view" and "\<not> ma_Started (view m)"
    and "process_main getenv hc mgr m = (status, m')"
  shows "(ma_Started (view m') \<longrightarrow> view m' = vnode_operator getenv hc) \<and>
         (status = 0 \<longrightarrow> ma_Started (view m')) \<and> status \<le> 1"
  by (rule controller_manager.main_outcome [OF assms])

end
