(* ===== verification/Process_Witnesses.thy ===== *)
theory Process_Witnesses
  imports Controller_Witnesses Observability Process_Start
begin

text \<open>
  Instances of the results on the reports of the pod synchronisation and on the start of the
  process. The reference manager keeps what was registered and fails according to a schedule.
\<close>

section \<open>Data\<close>

definition no_observations :: observations where
  "no_observations = \<lparr>ob_Metrics = \<lparr>HostPodCreates = (\<lambda>_. 0), HostPodDeletes = (\<lambda>_. 0), StatusSyncs = (\<lambda>_. 0),
     ExecutionFailures = (\<lambda>_. 0)\<rparr>, ob_Events = []\<rparr>"

definition ref_observed :: "(Result res \<times> (string, refworld) mstate) \<times> observations" where
  "ref_observed = main_podSync_observed (mem_client pool_st) ref_patch ref_vnodes ref_hostPods ''kata'' ref_tenants ref_env
     wit_req ref_sync_start no_observations"

record refmanager =
  rm_managed :: "(string, refworld) managed"
  rm_faults :: "bool list"

definition rm_step ::
  "((string, refworld) managed \<Rightarrow> (string, refworld) managed) \<Rightarrow> refmanager \<Rightarrow> unit res \<times> refmanager"
where
  "rm_step f m =
     (case rm_faults m of
        [] \<Rightarrow> (Inr (), m\<lparr>rm_managed := f (rm_managed m)\<rparr>)
      | b # bs \<Rightarrow>
          if b then (Inl (Errorf ''fault''), m\<lparr>rm_faults := bs\<rparr>)
          else (Inr (), m\<lparr>rm_managed := f (rm_managed m), rm_faults := bs\<rparr>))"

definition ref_manager :: "(unit, string, refworld, refmanager) manager" where
  "ref_manager =
     \<lparr>mg_GetConfigOrDie = rm_step id,
      mg_NewManager = (\<lambda>_ opts. rm_step (\<lambda>_. \<lparr>ma_Options = opts, ma_Controllers = [], ma_Healthz = [], ma_Readyz = [],
                                                 ma_Started = False\<rparr>)),
      mg_NewForConfig = (\<lambda>_. rm_step id),
      mg_Complete = (\<lambda>c. rm_step (\<lambda>v. v\<lparr>ma_Controllers := ma_Controllers v @ [c]\<rparr>)),
      mg_AddHealthzCheck = (\<lambda>n. rm_step (\<lambda>v. v\<lparr>ma_Healthz := ma_Healthz v @ [n]\<rparr>)),
      mg_AddReadyzCheck = (\<lambda>n. rm_step (\<lambda>v. v\<lparr>ma_Readyz := ma_Readyz v @ [n]\<rparr>)),
      mg_Start = (\<lambda>m. (Inr (), m\<lparr>rm_managed := (rm_managed m)\<lparr>ma_Started := True\<rparr>\<rparr>))\<rparr>"

definition ref_off :: "bool list \<Rightarrow> refmanager" where
  "ref_off fs =
     \<lparr>rm_managed = \<lparr>ma_Options = managerOptions [] (Config_Default (\<lambda>_. [])), ma_Controllers = [], ma_Healthz = [],
        ma_Readyz = [], ma_Started = False\<rparr>, rm_faults = fs\<rparr>"

definition ref_clients :: "(bool, string, refworld) hostclients" where
  "ref_clients =
     \<lparr>hc_pools = mem_client pool_st, hc_patch = ref_patch, hc_vnodes = ref_vnodes, hc_secrets = mem_client secret_st,
      hc_hostPods = ref_hostPods, hc_restConfig = (\<lambda>b. Inr (b = [2])), hc_factory = ref_factory, hc_env = ref_env,
      hc_generationChanged =
        (\<lambda>e. case e of UpdateEvent old new \<Rightarrow> om_Generation (vp_Meta old) \<noteq> om_Generation (vp_Meta new) | _ \<Rightarrow> True),
      hc_clientgoscheme = []\<rparr>"

section \<open>Reports\<close>

theorem PodSync_observations_witness:
  "HostPodCreates (ob_Metrics (snd ref_observed)) ''pool'' = 1 \<and> HostPodDeletes (ob_Metrics (snd ref_observed)) ''pool'' = 1 \<and>
   length (ob_Events (snd ref_observed)) = 1"
proof -
  let ?get = "oc_Get (mem_client pool_st) wit_req (ms_world ref_sync_start)"
  have "fst ?get = Inr ref_pool_cr" by code_simp
  then have get: "?get = (Inr ref_pool_cr, snd ?get)" by (simp add: prod_eq_iff)
  have run: "main_podSync_observed (mem_client pool_st) ref_patch ref_vnodes ref_hostPods ''kata'' ref_tenants ref_env
     wit_req ref_sync_start no_observations = ((fst (fst ref_observed), snd (fst ref_observed)), snd ref_observed)"
    by (simp add: ref_observed_def)
  have ok: "Validate (crToPoolModel ref_pool_cr) = Inr ()" "om_DeletionTimestamp (vp_Meta ref_pool_cr) = None"
    "p_Phase (crToPoolModel ref_pool_cr) \<noteq> PoolPhaseFailed" by code_simp+
  let ?ex = "ReconcilePool (main_podExecSvc ref_vnodes ref_hostPods ''kata'' ref_tenants ref_env) (crToPoolModel ref_pool_cr)
      (ref_sync_start\<lparr>ms_world := snd ?get\<rparr>)"
  have "(\<lambda>r. (CreatedHostPods (fst r), DeletedHostPods (fst r), SyncedStatuses (fst r), snd r)) (fst ?ex) = (1, 1, 1, None)"
    by code_simp
  then obtain result s2 where ex: "?ex = ((result, None), s2)"
    and n: "CreatedHostPods result = 1" "DeletedHostPods result = 1" "SyncedStatuses result = 1"
    by (cases ?ex) (auto simp: prod_eq_iff)
  from PodSync_observations [OF get run] ok ex
  have "observed ref_pool_cr no_observations (snd ref_observed) 1 1 1 0" by (simp add: n)
  then show ?thesis
    by (auto simp: observed_def counted_def reported_def no_observations_def ref_pool_cr_def)
qed

section \<open>The start of the process\<close>

lemma rm_step_view: "rm_step f m = (r, m') \<Longrightarrow> rm_managed m' = (case r of Inl _ \<Rightarrow> rm_managed m | Inr _ \<Rightarrow> f (rm_managed m))"
  by (auto simp: rm_step_def split: list.splits if_splits)

interpretation ref_mgr: controller_manager ref_manager rm_managed
  by unfold_locales (auto simp: ref_manager_def dest!: rm_step_view split: sum.splits)

text \<open>Without faults all three controllers run; when the last registration fails, nothing is started.\<close>

theorem main_starts_complete_witness:
  "map ctl_Named (ma_Controllers (rm_managed (snd (process_main (\<lambda>_. []) ref_clients ref_manager (ref_off []))))) =
     [None, None, Some ''vnodepool-podsync''] \<and>
   map gvk_Kind (mo_Scheme (ma_Options (rm_managed (snd (process_main (\<lambda>_. []) ref_clients ref_manager (ref_off [])))))) =
     [''VNode'', ''VNodeList'', ''VNodePool'', ''VNodePoolList''] \<and>
   ma_Started (rm_managed (snd (process_main (\<lambda>_. []) ref_clients ref_manager (ref_off [])))) \<and>
   fst (process_main (\<lambda>_. []) ref_clients ref_manager (ref_off [False, False, False, False, False, True])) = 1"
proof -
  have off: "\<not> ma_Started (rm_managed (ref_off fs))" for fs by (simp add: ref_off_def)
  have run: "process_main (\<lambda>_. []) ref_clients ref_manager (ref_off fs) =
      (fst (process_main (\<lambda>_. []) ref_clients ref_manager (ref_off fs)),
       snd (process_main (\<lambda>_. []) ref_clients ref_manager (ref_off fs)))" for fs by simp
  note t = main_starts_complete [OF ref_mgr.controller_manager_axioms off run]
  have zero: "fst (process_main (\<lambda>_. []) ref_clients ref_manager (ref_off [])) = 0"
    using Config_Default_valid [of "\<lambda>_. []"]
    by (simp add: process_main_def Let_def orExit_def ref_manager_def rm_step_def ref_off_def main_controllers_def)
  have "\<not> ma_Started (rm_managed (snd (process_main (\<lambda>_. []) ref_clients ref_manager (ref_off [False, False, False, False, False, True]))))"
    using Config_Default_valid [of "\<lambda>_. []"]
    by (simp add: process_main_def Let_def orExit_def ref_manager_def rm_step_def ref_off_def main_controllers_def)
  with t [of "[False, False, False, False, False, True]"]
  have one: "fst (process_main (\<lambda>_. []) ref_clients ref_manager (ref_off [False, False, False, False, False, True])) = 1"
    by linarith
  from t [of "[]"] zero have "ma_Started (rm_managed (snd (process_main (\<lambda>_. []) ref_clients ref_manager (ref_off []))))"
    "rm_managed (snd (process_main (\<lambda>_. []) ref_clients ref_manager (ref_off []))) = vnode_operator (\<lambda>_. []) ref_clients" by simp_all
  with one show ?thesis
    by (simp add: vnode_operator_def main_controllers_def Let_def VNodePool_controller_def VNode_controller_def PodSync_controller_def
        managerOptions_def main_scheme_def AddToScheme_def GroupVersion_def register_VNode_def register_VNodePool_def ref_clients_def)
qed

end
