(* ===== verification/Spec2Isabelle.thy ===== *)
theory Spec2Isabelle
  imports Node_Witnesses Controller_Witnesses Operator_Witnesses Copy_Witnesses Reliable_Witnesses Process_Witnesses
begin

text \<open>
  vnode is a Kubernetes operator that gives tenants virtual nodes. A \<open>VNodePool\<close> object in the
  host cluster asks for a number of nodes for one tenant cluster; the operator keeps one \<open>VNode\<close>
  object per node, registers each as a Node with a Lease in the tenant cluster, and runs the pods
  that the tenant schedules on these nodes as pods of the host cluster. This development models
  the Go code under \<open>src/\<close> as functions on explicit states and proves what makes it correct.

  \<^bold>\<open>The parts and how they interact.\<close> Three controllers are started by \<open>cmd/vnode/main.go\<close>. The pool
  controller validates a pool, holds a finalizer on it, lets the pool service bring the nodes to
  the requested number and reports the outcome in the status; the pool service provisions and
  deprovisions nodes through the node service, which stores them with the node repository and
  registers them with the tenant registrar. The VNode controller retries failed registrations.
  The pod synchronisation controller lets the pod execution service mirror tenant pods to host
  pods and their status back, and cleans up after a deleted pool.

  \<^bold>\<open>Theories and sources.\<close> The names of the definitions are those of the code; where two packages use
  the same name the type comes first (\<open>NodeRepository_Save\<close>, \<open>PoolService_Reconcile\<close>).
  \<^item> \<open>Prelude\<close>: Go errors with wrapping, maps, \<open>int32\<close>, decimal printing, and the shared lemmas.
  \<^item> \<open>Domain_Model\<close>, \<open>Pod_Model\<close>: \<open>internal/domain/model\<close> (pools, nodes, resources; the pod
    translation with \<open>TranslatePod\<close>, \<open>filterVolumes\<close>, \<open>ResourceRefs\<close>).
  \<^item> \<open>Ports\<close>: \<open>internal/domain/ports\<close>, the interfaces as records of operations and the contracts of
    the node repository and the registrar as locales.
  \<^item> \<open>Node_Service\<close>, \<open>Pool_Service\<close>, \<open>Pod_Service\<close>, \<open>Execution_Service\<close>: \<open>internal/domain/service\<close>
    and \<open>internal/adapter/outbound/runtime/kata.go\<close>. \<open>Execution_Hosts\<close> holds what pod execution
    does to the pods of a host cluster; \<open>Service_Frame\<close> and \<open>Execution_Frame\<close> show what the
    services leave alone.
  \<^item> \<open>API_Types\<close>, \<open>Core_Types\<close>, \<open>Kube_API\<close>: \<open>api/v1alpha1\<close>, the parts of the Kubernetes types the
    operator touches, and the clients of the API server with their documented behaviour.
  \<^item> \<open>Deep_Copy\<close>: \<open>api/v1alpha1/zz_generated.deepcopy.go\<close> over an explicit heap.
  \<^item> \<open>Node_Repository\<close>, \<open>Pool_Repository\<close>, \<open>Pod_Client\<close>, \<open>Tenant_Clients\<close>:
    \<open>internal/adapter/outbound/kubeclient\<close>; \<open>Registrar\<close> and the client cache of \<open>Tenant_Clients\<close>:
    \<open>internal/adapter/outbound/virtualkubelet\<close>.
  \<^item> \<open>VNode_Reconciler\<close>, \<open>VNodePool_Reconciler\<close>, \<open>PodSync_Reconciler\<close>:
    \<open>internal/adapter/inbound/reconciler\<close>. \<open>Pool_Deletion\<close> and \<open>Pool_Isolation\<close> continue the pool
    controller.
  \<^item> \<open>Wiring\<close> and the \<open>main_\<close> definitions: the composition in \<open>cmd/vnode/main.go\<close>; \<open>Config\<close>:
    \<open>internal/config\<close>.
  \<^item> \<open>Observability\<close>: \<open>internal/observability\<close>, the counters, and the events of the pod controller.
  \<^item> \<open>Process_Start\<close>: \<open>main\<close> itself with its exit status, the declarations of the controllers
    (\<open>SetupWithManager\<close>) and the scheme.
  \<^item> \<open>Operator_Steps\<close>: the running operator as a step relation; \<open>Pool_Lifecycle\<close>: the abstract life
    of a pool that it implements.
  \<^item> \<open>Reliable_Store\<close>, \<open>Reliable_Services\<close>, \<open>Reliable_Registrar\<close>, \<open>Reliable_Operator\<close>: worlds whose
    API servers answer, and the total correctness of the layers of the pool controller in them.
  \<^item> \<open>Reference_Cluster\<close>, \<open>Reference_World\<close>: an executable host cluster and two tenant clusters that
    behave as documented, on which the locales are interpreted; \<open>Node_Witnesses\<close>, \<open>Controller_Witnesses\<close>,
    \<open>Operator_Witnesses\<close>, \<open>Reliable_Witnesses\<close>, \<open>Process_Witnesses\<close>, \<open>Copy_Witnesses\<close>: instances of
    the properties.

  \<^bold>\<open>State.\<close> An operation takes the state of the world and returns a result and a new state; an error
  is the left side of a sum, and a panic of the code is an error that no branch swallows. The
  API servers are a type variable \<open>'w\<close>: the code sees them only through clients (\<open>objclient\<close>),
  and what it may rely on is stated by the locales \<open>object_api\<close>, \<open>client_frame\<close> and
  \<open>retry_on_conflict\<close>. There, every call may fail with any error but that of a cancelled context.
  Each tenant cluster has stores of its own: where a result speaks of tenant objects, the stores
  are a function of the clientset. The server may change what it stores: \<open>pod_created\<close> allows the
  defaults of volumes, requests and service account and the node selector of a runtime class,
  \<open>node_created\<close> allows admission to add taints. The state of the process itself, the cached tenant
  clients, is the record \<open>mstate\<close> around the world. \<open>int32\<close> is a 32-bit word, a time is an integer
  in nanoseconds, a quantity is a parameter with its parser and printer.

  \<^bold>\<open>What is shown.\<close>
  \<^item> Convergence: for a valid pool with free node names, a reconciliation without error leaves
    exactly the requested number of nodes, up and down, and reports it together with the number of
    ready ones; when a node name is taken it does not. Where the API servers answer, the
    reconciliation does succeed, and the deletion of a pool ends even when its tenant is gone. An
    invalid pool is reported as failed.
  \<^item> Safety of deletion: in every state that the operator reaches by whole reconciliations, failed
    ones included, restarts and changes by others that leave pool membership and finalizers alone,
    a pool with nodes holds the finalizer; the deletion finishes only when the nodes are gone. When
    the calls of two reconciliations interleave this can fail: a late write of the VNode controller
    creates a deleted node again (\<open>late_write_strands_node\<close>).
  \<^item> Isolation: a pool keeps its nodes whatever other pools do, and another pool changes one of them
    only when the two use the same node name; pod synchronisation stays in the namespace of the
    pool; projected volumes, the service account and mounts at exactly the token path are stripped
    from a host pod, mounts at a longer path are not.
  \<^item> Pods: after a reconciliation every live host pod of a pool has a source and matches its
    translation; it is exactly known which host pods are left alone and which are deleted and
    created again for ever; the specification survives the conversions, and it is stated which
    fields of the status reach the tenant and which are lost; the comparison is exact up to stated
    fields.
  \<^item> Refinement: every step of the operator is a step of the abstract life of each pool; the
    repositories implement the contracts of the ports over an abstract store; a
    successful registration leaves a Node and a Lease that represent the virtual node.
  \<^item> Reports and start: counters and events agree with what was done; the manager is started only
    when everything is registered.
  \<^item> Bounds and loops: the scale computation does not wrap on a valid pool, the backoff loop ends
    and lies between 2 and 60 seconds, every loop is a total function without fuel. Only
    \<open>retry_times\<close> of the reference world has a bound, 4 retries as in the library's default of 5
    attempts.

  \<^bold>\<open>Not modelled.\<close> Logging, and cancelled contexts between the calls of one reconciliation. The
  controller manager (queues, caches, leader election) and the Prometheus registry are libraries;
  what the operator gives them is modelled. A reconciliation reads the current state of the
  server: the delay of informer caches and the interleaving of API calls of two controllers within
  one reconciliation are not modelled, beyond conflicts, which every update may report.
  Kubernetes, the REST configuration and the quantity library are parameters.
\<close>

section \<open>Data for an instance\<close>

text \<open>A node of the pool \<open>other\<close>, for another tenant, has the name that a pool with the display name web uses.\<close>

definition ref_theirs :: VNodeCR where
  "ref_theirs =
     ref_vnode_cr\<lparr>vn_Meta := (vn_Meta ref_vnode_cr)\<lparr>om_Name := ''vnode-web-1'',
         om_Labels := fmap_of_list [(LabelVNodePool, ''other'')],
         om_Annotations := fmap_of_list [(annotationVClusterName, ''theirs''), (annotationVClusterNamespace, ''tenants''),
           (annotationKubeconfigSecret, ''theirs'')]\<rparr>,
       vn_Spec := (vn_Spec ref_vnode_cr)\<lparr>PoolRef := ''other''\<rparr>\<rparr>"

definition ref_clash :: "(string, refworld) mstate" where
  "ref_clash = ref_world_of [] [ref_theirs] [] []"

definition ref_web_pool :: VNodePool where
  "ref_web_pool = ref_pool\<lparr>p_DisplayName := ''web'', p_NodeCount := 1\<rparr>"

section \<open>The number of nodes of a pool\<close>

text \<open>
  C1: scaling up. When a valid pool has fewer nodes than requested and the names of the nodes
  to add are free, a reconciliation by the wired operator that reports no error leaves exactly
  the requested number of stored nodes, and no node that existed before is changed or removed.
\<close>

theorem reconcile_scales_up:
  assumes "operator vnodes tenants env objs" and "operator_invar objs s"
    and "Validate pool = Inr ()" and "pool_size (cluster_nodes objs s) pool < 2 ^ 31"
    and "pool_size (cluster_nodes objs s) pool < nat (sint (p_NodeCount pool))"
    and "fresh_names (cluster_nodes objs s) pool"
    and "pm_Reconcile (main_poolSvc vnodes tenants env) pool s = ((pool', None), s')"
  shows "operator_invar objs s' \<and>
         pool_size (cluster_nodes objs s') pool = nat (sint (p_NodeCount pool)) \<and>
         (\<forall>k. cluster_nodes objs s k \<noteq> None \<longrightarrow> cluster_nodes objs s' k = cluster_nodes objs s k)"
  using operator.scales_up [OF assms(1,2) _ assms(4-7)] assms(3) by (simp add: Validate_ok_iff)

theorem reconcile_scales_up_witness:
  "pool_size (cluster_nodes ref_objs ref_two) ref_pool = 2"
proof -
  have "ref_reconcile ref_pool ref_start =
        ((fst (fst (ref_reconcile ref_pool ref_start)), None), ref_two)"
    using ref_two_run by (simp add: ref_two_def prod_eq_iff)
  from reconcile_scales_up [OF ref_operator.operator_axioms ref_start_invar, of ref_pool,
      OF _ _ _ ref_start_fresh this [unfolded ref_reconcile_def]]
  show ?thesis by (simp add: ref_start_size Validate_ok_iff) (simp add: ref_pool_def)
qed

text \<open>
  C12: scaling down. When a valid pool has at least as many nodes as requested, a
  reconciliation by the wired operator that reports no error leaves exactly the requested
  number of stored nodes and touches no node outside the pool. For a pool under deletion,
  which is reconciled with a count of 0, no node is left.
\<close>

theorem reconcile_scales_down:
  assumes "operator vnodes tenants env objs" and "operator_invar objs s"
    and "Validate pool = Inr ()" and "pool_size (cluster_nodes objs s) pool < 2 ^ 31"
    and "nat (sint (p_NodeCount pool)) \<le> pool_size (cluster_nodes objs s) pool"
    and "pm_Reconcile (main_poolSvc vnodes tenants env) pool s = ((pool', None), s')"
  shows "operator_invar objs s' \<and>
         pool_size (cluster_nodes objs s') pool = nat (sint (p_NodeCount pool)) \<and>
         (\<forall>k. k \<notin> pool_nodes (cluster_nodes objs s) (p_Namespace pool) (p_Name pool) \<longrightarrow>
            cluster_nodes objs s' k = cluster_nodes objs s k)"
  using operator.scales_down [OF assms(1,2) _ assms(4-6)] assms(3) by (simp add: Validate_ok_iff)

theorem reconcile_scales_down_witness:
  "pool_size (cluster_nodes ref_objs (snd (ref_reconcile (ref_pool\<lparr>p_NodeCount := 1\<rparr>) ref_two)))
     (ref_pool\<lparr>p_NodeCount := 1\<rparr>) = 1"
proof -
  let ?pool = "ref_pool\<lparr>p_NodeCount := 1\<rparr>"
  have "snd (fst (ref_reconcile ?pool ref_two)) = None" by code_simp
  then have run: "ref_reconcile ?pool ref_two =
      ((fst (fst (ref_reconcile ?pool ref_two)), None), snd (ref_reconcile ?pool ref_two))"
    by (simp add: prod_eq_iff)
  have "pool_size (cluster_nodes ref_objs ref_two) ?pool = 2"
    using ref_two_size by (simp add: pool_size_def)
  with reconcile_scales_down [OF ref_operator.operator_axioms ref_two_invar, of ?pool,
      OF _ _ _ run [unfolded ref_reconcile_def]]
  show ?thesis by (simp add: Validate_ok_iff ref_reconcile_def) (simp add: ref_pool_def)
qed

text \<open>
  C37: when the name of the node to add is taken, the pool does not grow but is reported as
  complete. The next node is named after the number of nodes, so after the removal of any but
  the last node its name belongs to an existing node, which is overwritten: the reconciliation
  reports no error and the requested number of ready nodes, while the stored nodes are the same
  and one is missing. The node that owns the name stays in its pool but gets the tenant of the
  reconciled pool: with two pools of the same display name in a namespace, a node of the one
  pool is redirected to the tenant of the other.
\<close>

theorem reconcile_taken_name:
  assumes "operator vnodes tenants env objs" and "operator_invar objs s"
    and "Validate pool = Inr ()" and "pool_size (cluster_nodes objs s) pool < 2 ^ 31"
    and "nat (sint (p_NodeCount pool)) = pool_size (cluster_nodes objs s) pool + 1"
    and "cluster_nodes objs s (ObjKey (p_Namespace pool)
           (nodeName pool (pool_size (cluster_nodes objs s) pool + 1))) = Some v"
    and "\<And>k. k \<in> pool_nodes (cluster_nodes objs s) (p_Namespace pool) (p_Name pool) \<Longrightarrow>
           countsAsReady (the (cluster_nodes objs s k))"
    and "pm_Reconcile (main_poolSvc vnodes tenants env) pool s = ((pool', None), s')"
  shows "dom (cluster_nodes objs s') = dom (cluster_nodes objs s) \<and>
         pool_size (cluster_nodes objs s') pool = pool_size (cluster_nodes objs s) pool \<and>
         p_ReadyNodes pool' = p_NodeCount pool \<and>
         (\<exists>u. cluster_nodes objs s' (ObjKey (p_Namespace pool)
                (nodeName pool (pool_size (cluster_nodes objs s) pool + 1))) = Some u \<and>
            n_PoolName u = n_PoolName v \<and> n_TenantRef u = p_TenantRef pool)"
  using operator.name_taken [OF assms(1,2) _ assms(4-8)] assms(3) by (simp add: Validate_ok_iff)

theorem reconcile_taken_name_witness:
  "VClusterName (n_TenantRef (crToNode ref_theirs)) = ''theirs'' \<and>
   (\<exists>u. cluster_nodes ref_objs (snd (ref_reconcile ref_web_pool ref_clash)) (ObjKey ''ns'' ''vnode-web-1'') = Some u \<and>
      n_PoolName u = ''other'' \<and> VClusterName (n_TenantRef u) = ''vc'') \<and>
   pool_size (cluster_nodes ref_objs (snd (ref_reconcile ref_web_pool ref_clash))) ref_web_pool = 0 \<and>
   p_ReadyNodes (fst (fst (ref_reconcile ref_web_pool ref_clash))) = 1"
proof -
  have inv: "operator_invar ref_objs ref_clash"
    using ref_world_invar [of "[ref_theirs]" "[]" "[]" "[]"]
    by (simp add: controller_invar_def ref_clash_def ref_theirs_def)
  have "snd (fst (ref_reconcile ref_web_pool ref_clash)) = None" by code_simp
  then have run: "ref_reconcile ref_web_pool ref_clash =
      ((fst (fst (ref_reconcile ref_web_pool ref_clash)), None), snd (ref_reconcile ref_web_pool ref_clash))"
    by (simp add: prod_eq_iff)
  have "vnodes_of (p_Namespace ref_web_pool) (p_Name ref_web_pool) (rw_vnodes (ms_world ref_clash)) = []" by code_simp
  then have none: "pool_nodes (cluster_nodes ref_objs ref_clash) (p_Namespace ref_web_pool) (p_Name ref_web_pool) = {}"
    "pool_size (cluster_nodes ref_objs ref_clash) ref_web_pool = 0"
    by (simp_all add: ref_pool_nodes pool_size_def)
  have key: "ObjKey (p_Namespace ref_web_pool) (nodeName ref_web_pool (0 + 1)) = ObjKey ''ns'' ''vnode-web-1''" by code_simp
  have v: "cluster_nodes ref_objs ref_clash (ObjKey (p_Namespace ref_web_pool)
      (nodeName ref_web_pool (pool_size (cluster_nodes ref_objs ref_clash) ref_web_pool + 1))) = Some (crToNode ref_theirs)"
    unfolding none key ref_stored
    by (simp add: ref_clash_def ref_world_of_def lookupObj_def ref_theirs_def ref_vnode_cr_def om_key_def emptyMeta_def)
  have t: "VClusterName (n_TenantRef (crToNode ref_theirs)) = ''theirs''" "n_PoolName (crToNode ref_theirs) = ''other''"
    "VClusterName (p_TenantRef ref_web_pool) = ''vc''" "p_NodeCount ref_web_pool = 1" "Validate ref_web_pool = Inr ()"
    by code_simp+
  from reconcile_taken_name [OF ref_operator.operator_axioms inv t(5) _ _ v _ run [unfolded ref_reconcile_def]] none t key
  show ?thesis by (auto simp: ref_reconcile_def)
qed

end
